(* ===== verification/Prelude.thy ===== *)
theory Prelude
  imports Main "HOL-Library.AList"
begin

text \<open>
  Shared ground of the development: programs that read and write a state and may raise
  (the shape of every coroutine of the service), the rules that carry an invariant through
  them, and the facts on lists, dictionaries and strings that several components use.

  A Python coroutine becomes a \<open>prog\<close>: a function from the state to either the exception
  it raised or its result, together with the state it left behind. An exception does not
  undo what happened before it, exactly as in Python; undoing is the explicit work of
  \<open>session.rollback()\<close>.
\<close>

named_theorems prog_simps \<open>what a program does, as simplification rules\<close>
named_theorems keeps_intro \<open>introduction rules for invariants of programs\<close>

section \<open>Programs with a state and exceptions\<close>

type_synonym ('s, 'e, 'a) prog = "'s \<Rightarrow> ('e + 'a) \<times> 's"

definition ret :: "'a \<Rightarrow> ('s, 'e, 'a) prog" where
  "ret a = (\<lambda>s. (Inr a, s))"

definition raise :: "'e \<Rightarrow> ('s, 'e, 'a) prog" where
  "raise e = (\<lambda>s. (Inl e, s))"

definition and_then :: "('s, 'e, 'a) prog \<Rightarrow> ('a \<Rightarrow> ('s, 'e, 'b) prog) \<Rightarrow> ('s, 'e, 'b) prog" where
  "and_then m f = (\<lambda>s. case m s of (r, s') \<Rightarrow> (case r of Inl e \<Rightarrow> (Inl e, s') | Inr a \<Rightarrow> f a s'))"

definition gets :: "('s \<Rightarrow> 'a) \<Rightarrow> ('s, 'e, 'a) prog" where
  "gets f = (\<lambda>s. (Inr (f s), s))"

definition modify :: "('s \<Rightarrow> 's) \<Rightarrow> ('s, 'e, unit) prog" where
  "modify f = (\<lambda>s. (Inr (), f s))"

definition only_if :: "bool \<Rightarrow> ('s, 'e, unit) prog \<Rightarrow> ('s, 'e, unit) prog" where
  "only_if b m = (if b then m else ret ())"

definition try_except :: "('s, 'e, 'a) prog \<Rightarrow> ('e \<Rightarrow> ('s, 'e, 'a) prog) \<Rightarrow> ('s, 'e, 'a) prog" where
  "try_except m h = (\<lambda>s. case m s of (r, s') \<Rightarrow> (case r of Inl e \<Rightarrow> h e s' | Inr a \<Rightarrow> (Inr a, s')))"

definition lift_result :: "'e + 'a \<Rightarrow> ('s, 'e, 'a) prog" where
  "lift_result r = (\<lambda>s. (r, s))"

fun for_each :: "('x \<Rightarrow> ('s, 'e, unit) prog) \<Rightarrow> 'x list \<Rightarrow> ('s, 'e, unit) prog" where
  "for_each f [] = ret ()"
| "for_each f (x # xs) = and_then (f x) (\<lambda>_. for_each f xs)"

fun map_prog :: "('x \<Rightarrow> ('s, 'e, 'y) prog) \<Rightarrow> 'x list \<Rightarrow> ('s, 'e, 'y list) prog" where
  "map_prog f [] = ret []"
| "map_prog f (x # xs) =
     and_then (f x) (\<lambda>y. and_then (map_prog f xs) (\<lambda>ys. ret (y # ys)))"

lemma ret_apply [simp, prog_simps]: "ret a s = (Inr a, s)"
  by (simp add: ret_def)

lemma raise_apply [simp, prog_simps]: "raise e s = (Inl e, s)"
  by (simp add: raise_def)

lemma gets_apply [simp, prog_simps]: "gets f s = (Inr (f s), s)"
  by (simp add: gets_def)

lemma modify_apply [simp, prog_simps]: "modify f s = (Inr (), f s)"
  by (simp add: modify_def)

lemma lift_result_apply [simp, prog_simps]: "lift_result r s = (r, s)"
  by (simp add: lift_result_def)

lemma only_if_apply [simp, prog_simps]: "only_if b m s = (if b then m s else (Inr (), s))"
  by (simp add: only_if_def)

text \<open>
  A sequence runs its continuation only where the first part returned. The two rules below
  let the simplifier run a program as soon as it knows what the first step did.
\<close>

lemma and_then_Inr [prog_simps]: "m s = (Inr a, s') \<Longrightarrow> and_then m f s = f a s'"
  by (simp add: and_then_def)

lemma and_then_Inl [prog_simps]: "m s = (Inl e, s') \<Longrightarrow> and_then m f s = (Inl e, s')"
  by (simp add: and_then_def)

lemma and_then_ret [simp]: "and_then (ret a) f = f a"
  by (simp add: and_then_def fun_eq_iff)

lemma and_then_gets [simp]: "and_then (gets g) f s = f (g s) s"
  by (simp add: and_then_def)

lemma and_then_modify [simp]: "and_then (modify g) f s = f () (g s)"
  by (simp add: and_then_def)

lemma and_then_raise [simp]: "and_then (raise e) f = raise e"
  by (simp add: and_then_def fun_eq_iff)

lemma and_then_only_if_False [simp]: "and_then (only_if False m) f = f ()"
  by (simp add: only_if_def)

lemma and_then_only_if_True [simp]: "and_then (only_if True m) f = and_then m f"
  by (simp add: only_if_def)

lemma and_then_assoc: "and_then (and_then m f) g = and_then m (\<lambda>a. and_then (f a) g)"
  by (simp add: and_then_def fun_eq_iff split: prod.split sum.split)

lemma try_except_Inr [prog_simps]: "m s = (Inr a, s') \<Longrightarrow> try_except m h s = (Inr a, s')"
  by (simp add: try_except_def)

lemma try_except_Inl [prog_simps]: "m s = (Inl e, s') \<Longrightarrow> try_except m h s = h e s'"
  by (simp add: try_except_def)

lemma and_then_returns:
  "and_then m f s = (Inr b, t) \<longleftrightarrow> (\<exists>a u. m s = (Inr a, u) \<and> f a u = (Inr b, t))"
  by (auto simp: and_then_def split: prod.splits sum.splits)

lemma and_then_raises:
  "and_then m f s = (Inl e, t) \<longleftrightarrow>
     m s = (Inl e, t) \<or> (\<exists>a u. m s = (Inr a, u) \<and> f a u = (Inl e, t))"
  by (auto simp: and_then_def split: prod.splits sum.splits)

lemma try_except_returns:
  "try_except m h s = (Inr b, t) \<longleftrightarrow>
     m s = (Inr b, t) \<or> (\<exists>e u. m s = (Inl e, u) \<and> h e u = (Inr b, t))"
  by (auto simp: try_except_def split: prod.splits sum.splits)

section \<open>Invariants of programs\<close>

text \<open>
  \<open>keeps P m\<close>: a run of \<open>m\<close> from a state with \<open>P\<close> ends in a state with \<open>P\<close>, whether it
  returned or raised. The rules are structural, so an invariant of a long handler follows
  from the invariants of its operations by \<open>intro keeps_intro\<close>.
\<close>

definition keeps :: "('s \<Rightarrow> bool) \<Rightarrow> ('s, 'e, 'a) prog \<Rightarrow> bool" where
  "keeps P m \<longleftrightarrow> (\<forall>s. P s \<longrightarrow> P (snd (m s)))"

lemma keepsI: "(\<And>s. P s \<Longrightarrow> P (snd (m s))) \<Longrightarrow> keeps P m"
  by (simp add: keeps_def)

lemma keepsD: "keeps P m \<Longrightarrow> P s \<Longrightarrow> m s = (r, t) \<Longrightarrow> P t"
  by (metis keeps_def snd_conv)

lemma keeps_ret [keeps_intro]: "keeps P (ret a)"
  by (simp add: keeps_def)

lemma keeps_raise [keeps_intro]: "keeps P (raise e)"
  by (simp add: keeps_def)

lemma keeps_gets [keeps_intro]: "keeps P (gets f)"
  by (simp add: keeps_def)

lemma keeps_lift_result [keeps_intro]: "keeps P (lift_result r)"
  by (simp add: keeps_def)

lemma keeps_modify: "(\<And>s. P s \<Longrightarrow> P (f s)) \<Longrightarrow> keeps P (modify f)"
  by (simp add: keeps_def)

lemma keeps_and_then [keeps_intro]:
  "keeps P m \<Longrightarrow> (\<And>a. keeps P (f a)) \<Longrightarrow> keeps P (and_then m f)"
  by (fastforce simp: keeps_def and_then_def split: prod.splits sum.splits)

lemma keeps_try_except [keeps_intro]:
  "keeps P m \<Longrightarrow> (\<And>e. keeps P (h e)) \<Longrightarrow> keeps P (try_except m h)"
  by (fastforce simp: keeps_def try_except_def split: prod.splits sum.splits)

lemma keeps_only_if [keeps_intro]: "(b \<Longrightarrow> keeps P m) \<Longrightarrow> keeps P (only_if b m)"
  by (simp add: only_if_def keeps_ret)

lemma keeps_if [keeps_intro]:
  "(b \<Longrightarrow> keeps P m) \<Longrightarrow> (\<not> b \<Longrightarrow> keeps P n) \<Longrightarrow> keeps P (if b then m else n)"
  by simp

lemma keeps_case_option [keeps_intro]:
  "(x = None \<Longrightarrow> keeps P m) \<Longrightarrow> (\<And>a. x = Some a \<Longrightarrow> keeps P (f a)) \<Longrightarrow>
   keeps P (case x of None \<Rightarrow> m | Some a \<Rightarrow> f a)"
  by (cases x) auto

lemma keeps_case_prod [keeps_intro]:
  "(\<And>a b. x = (a, b) \<Longrightarrow> keeps P (f a b)) \<Longrightarrow> keeps P (case x of (a, b) \<Rightarrow> f a b)"
  by (cases x) auto

lemma keeps_for_each [keeps_intro]:
  "(\<And>x. x \<in> set xs \<Longrightarrow> keeps P (f x)) \<Longrightarrow> keeps P (for_each f xs)"
  by (induction xs) (auto intro!: keeps_ret keeps_and_then)

lemma keeps_map_prog [keeps_intro]:
  "(\<And>x. x \<in> set xs \<Longrightarrow> keeps P (f x)) \<Longrightarrow> keeps P (map_prog f xs)"
  by (induction xs) (auto intro!: keeps_ret keeps_and_then)

text \<open>
  \<open>yields P m Q\<close>: from a state with \<open>P\<close>, a value that \<open>m\<close> returns has \<open>Q\<close>. It carries what is
  known of a loaded row to the code that goes on with it.
\<close>

definition yields :: "('s \<Rightarrow> bool) \<Rightarrow> ('s, 'e, 'a) prog \<Rightarrow> ('a \<Rightarrow> bool) \<Rightarrow> bool" where
  "yields P m Q \<longleftrightarrow> (\<forall>s a t. P s \<longrightarrow> m s = (Inr a, t) \<longrightarrow> Q a)"

lemma keeps_and_then_yields:
  "keeps P m \<Longrightarrow> yields P m Q \<Longrightarrow> (\<And>a. Q a \<Longrightarrow> keeps P (f a)) \<Longrightarrow> keeps P (and_then m f)"
  by (fastforce simp: keeps_def yields_def and_then_def split: prod.splits sum.splits)

lemma yields_and_then:
  assumes "keeps P m" "yields P m Q" "\<And>a. Q a \<Longrightarrow> yields P (f a) R"
  shows "yields P (and_then m f) R"
  unfolding yields_def
proof (intro allI impI)
  fix s b t
  assume "P s" "and_then m f s = (Inr b, t)"
  then obtain a u where "m s = (Inr a, u)" "f a u = (Inr b, t)"
    by (auto simp: and_then_returns)
  with assms \<open>P s\<close> show "R b" unfolding yields_def by (metis keepsD)
qed

lemma yields_ret [simp]: "yields P (ret a) Q \<longleftrightarrow> (\<exists>s. P s) \<longrightarrow> Q a"
  by (auto simp: yields_def)

lemma yields_raise [simp]: "yields P (raise e) Q"
  by (simp add: yields_def)

lemma yields_True: "yields P m (\<lambda>_. True)"
  by (simp add: yields_def)

section \<open>Fallible computations without a state\<close>

definition bind_result :: "'e + 'a \<Rightarrow> ('a \<Rightarrow> 'e + 'b) \<Rightarrow> 'e + 'b" where
  "bind_result r f = (case r of Inl e \<Rightarrow> Inl e | Inr a \<Rightarrow> f a)"

lemma bind_result_simps [simp]:
  "bind_result (Inl e) f = Inl e"
  "bind_result (Inr a) f = f a"
  by (simp_all add: bind_result_def)

lemma bind_result_Inr: "bind_result r f = Inr b \<longleftrightarrow> (\<exists>a. r = Inr a \<and> f a = Inr b)"
  by (cases r) auto

fun map_result :: "('x \<Rightarrow> 'e + 'y) \<Rightarrow> 'x list \<Rightarrow> 'e + 'y list" where
  "map_result f [] = Inr []"
| "map_result f (x # xs) =
     bind_result (f x) (\<lambda>y. bind_result (map_result f xs) (\<lambda>ys. Inr (y # ys)))"

lemma map_result_total: "(\<And>x. x \<in> set xs \<Longrightarrow> f x = Inr (g x)) \<Longrightarrow> map_result f xs = Inr (map g xs)"
  by (induction xs) auto

section \<open>Python dictionaries, option values, strings\<close>

text \<open>
  A \<open>dict\<close> is an association list in insertion order; \<open>AList.update\<close> is \<open>d[k] = v\<close>: it
  keeps the position of a key that is there and appends one that is not.
\<close>

type_synonym ('k, 'v) dict = "('k \<times> 'v) list"

abbreviation dict_get :: "('k, 'v) dict \<Rightarrow> 'k \<Rightarrow> 'v option" where
  "dict_get \<equiv> map_of"

abbreviation dict_set :: "'k \<Rightarrow> 'v \<Rightarrow> ('k, 'v) dict \<Rightarrow> ('k, 'v) dict" where
  "dict_set \<equiv> AList.update"

lemma map_of_update [simp]: "map_of (AList.update k v d) = (map_of d)(k \<mapsto> v)"
  by (simp add: AList.update_conv')

text \<open>\<open>x or y\<close> and truth values on optional strings: \<open>None\<close> and \<open>""\<close> are false.\<close>

definition truthy :: "string option \<Rightarrow> bool" where
  "truthy x = (case x of None \<Rightarrow> False | Some s \<Rightarrow> s \<noteq> [])"

lemma truthy_simps [simp]:
  "\<not> truthy None"
  "truthy (Some s) \<longleftrightarrow> s \<noteq> []"
  by (simp_all add: truthy_def)

lemma truthy_iff: "truthy x \<longleftrightarrow> (\<exists>c cs. x = Some (c # cs))"
  by (cases x) (auto simp: neq_Nil_conv)

definition or_else :: "string option \<Rightarrow> string \<Rightarrow> string" where
  "or_else x d = (case x of None \<Rightarrow> d | Some s \<Rightarrow> if s = [] then d else s)"

definition lower_char :: "char \<Rightarrow> char" where
  "lower_char c = (let n = of_char c :: nat in if 65 \<le> n \<and> n \<le> 90 then char_of (n + 32) else c)"

definition upper_char :: "char \<Rightarrow> char" where
  "upper_char c = (let n = of_char c :: nat in if 97 \<le> n \<and> n \<le> 122 then char_of (n - 32) else c)"

definition py_lower :: "string \<Rightarrow> string" where
  "py_lower s = map lower_char s"

definition py_upper :: "string \<Rightarrow> string" where
  "py_upper s = map upper_char s"

definition starts_with :: "string \<Rightarrow> string \<Rightarrow> bool" where
  "starts_with p s \<longleftrightarrow> take (length p) s = p"

text \<open>\<open>p in s\<close>.\<close>

definition contains :: "string \<Rightarrow> string \<Rightarrow> bool" where
  "contains p s \<longleftrightarrow> list_ex (\<lambda>i. starts_with p (drop i s)) [0..<Suc (length s)]"

lemma starts_with_append [simp]: "starts_with p (p @ s)"
  by (simp add: starts_with_def)

text \<open>\<open>str\<close> of an integer, as the f-strings of the cache keys use it.\<close>

definition digit_char :: "nat \<Rightarrow> char" where
  "digit_char d = char_of (48 + d)"

fun str_nat :: "nat \<Rightarrow> string" where
  "str_nat n = (if n < 10 then [digit_char n] else str_nat (n div 10) @ [digit_char (n mod 10)])"

declare str_nat.simps [simp del]

definition str_int :: "int \<Rightarrow> string" where
  "str_int i = (if i < 0 then ''-'' @ str_nat (nat (- i)) else str_nat (nat i))"

lemma of_char_digit [simp]: "d < 10 \<Longrightarrow> of_char (digit_char d) = (48 + d :: nat)"
  by (simp add: digit_char_def)

lemma digit_char_eq [simp]: "a < 10 \<Longrightarrow> b < 10 \<Longrightarrow> digit_char a = digit_char b \<longleftrightarrow> a = b"
  by (metis add_left_cancel of_char_digit)

lemma str_nat_nonempty [simp]: "str_nat n \<noteq> []" "[] \<noteq> str_nat n"
  by (subst str_nat.simps, simp)+

lemma str_nat_inj [simp]: "str_nat a = str_nat b \<longleftrightarrow> a = b"
proof
  show "str_nat a = str_nat b \<Longrightarrow> a = b"
  proof (induction a arbitrary: b rule: str_nat.induct)
    case (1 a)
    have eq: "str_nat a = str_nat b" by (rule "1.prems")
    show ?case
    proof (cases "a < 10 \<or> b < 10")
      case True
      then show ?thesis using eq
        by (auto simp: str_nat.simps [of a] str_nat.simps [of b] split: if_splits)
    next
      case False
      then have "str_nat (a div 10) = str_nat (b div 10)" "a mod 10 = b mod 10"
        using eq by (auto simp: str_nat.simps [of a] str_nat.simps [of b])
      then show ?thesis using False "1.IH" [of "b div 10"]
        by (metis div_mult_mod_eq not_less)
    qed
  qed
qed simp

lemma digit_char_not [simp]:
  "d < 10 \<Longrightarrow> digit_char d \<noteq> CHR '':''" "d < 10 \<Longrightarrow> digit_char d \<noteq> CHR ''-''"
  by (auto dest: arg_cong [where f = "of_char :: char \<Rightarrow> nat"])

lemma str_nat_chars: "c \<in> set (str_nat n) \<Longrightarrow> c \<noteq> CHR '':'' \<and> c \<noteq> CHR ''-''"
proof (induction n rule: str_nat.induct)
  case (1 n)
  then show ?case by (cases "n < 10") (auto simp: str_nat.simps [of n])
qed

lemma str_int_chars: "CHR '':'' \<notin> set (str_int i)"
  using str_nat_chars [of "CHR '':''"] by (auto simp: str_int_def)

lemma str_int_inj [simp]: "str_int a = str_int b \<longleftrightarrow> a = b"
proof
  have neg: "str_nat m \<noteq> ''-'' @ xs" for m xs
    using str_nat_chars [of "CHR ''-''" m] by (metis Cons_eq_appendI list.set_intros(1))
  show "str_int a = str_int b \<Longrightarrow> a = b"
    using neg neg [symmetric] by (auto simp: str_int_def split: if_splits)
qed simp

text \<open>A key \<open>{prefix}:{suffix}\<close> whose suffix has no colon can be taken apart again.\<close>

lemma colon_split:
  assumes "xs @ '':'' @ ys = xs' @ '':'' @ ys'" "CHR '':'' \<notin> set ys" "CHR '':'' \<notin> set ys'"
  shows "xs = xs' \<and> ys = ys'"
proof -
  have split_rev: "takeWhile (\<lambda>c. c \<noteq> CHR '':'') (rev (zs @ '':'' @ ws)) = rev ws"
    if "CHR '':'' \<notin> set ws" for zs ws :: string
    using that by (simp add: takeWhile_append)
  have "rev ys = rev ys'"
    using split_rev [OF assms(2), of xs] split_rev [OF assms(3), of xs'] assms(1) by metis
  then have "ys = ys'" by simp
  with assms(1) show ?thesis by simp
qed

section \<open>Lists\<close>

text \<open>\<open>max(xs, key=f)\<close>: Python keeps the first of the largest elements.\<close>

fun max_key :: "('a \<Rightarrow> 'b::linorder) \<Rightarrow> 'a \<Rightarrow> 'a list \<Rightarrow> 'a" where
  "max_key f best [] = best"
| "max_key f best (x # xs) = max_key f (if f best < f x then x else best) xs"

lemma max_key_in: "max_key f b xs \<in> insert b (set xs)"
  by (induction xs arbitrary: b) (auto split: if_splits)

lemma max_key_ge: "x \<in> insert b (set xs) \<Longrightarrow> f x \<le> f (max_key f b xs)"
proof (induction xs arbitrary: b x)
  case Nil
  then show ?case by simp
next
  case (Cons y ys)
  let ?b = "if f b < f y then y else b"
  have base: "f ?b \<le> f (max_key f ?b ys)" using Cons.IH [of ?b ?b] by blast
  have "f x \<le> f ?b \<or> x \<in> set ys"
    using Cons.prems by auto
  then show ?case using base Cons.IH [of x ?b] by (auto intro: order.trans)
qed

lemma filter_Cons_D: "filter P xs = x # ys \<Longrightarrow> x \<in> set xs \<and> P x"
  by (drule arg_cong [where f = set]) auto

lemma find_Some_D: "List.find P xs = Some x \<Longrightarrow> x \<in> set xs \<and> P x"
  by (auto simp: find_Some_iff)

lemma find_None_D: "List.find P xs = None \<Longrightarrow> x \<in> set xs \<Longrightarrow> \<not> P x"
  by (auto simp: find_None_iff)

end
