(* ===== verification/Timeutil.thy ===== *)
theory Timeutil
  imports Prelude
begin

text \<open>
  Dates and times: \<open>app/timeutil.py\<close>, and the parts of Python's \<open>datetime\<close> the service
  uses. An aware datetime is its UTC instant in microseconds since 1970-01-01T00:00Z, a
  naive one its wall-clock reading in the same unit; \<open>timedelta\<close> is a number of
  microseconds. The range check of \<open>datetime\<close> (years 1 to 9999) is not modelled.
  The calendar half of the theory gives the proleptic Gregorian calendar of \<open>datetime\<close>
  and its round trip, which the quota windows rest on.
\<close>

section \<open>Instants and stamps\<close>

datatype stamp = Naive int | Aware int

fun ticks :: "stamp \<Rightarrow> int" where
  "ticks (Naive t) = t"
| "ticks (Aware t) = t"

definition as_utc :: "stamp option \<Rightarrow> stamp option" where
  "as_utc value = (case value of
     None \<Rightarrow> None
   | Some (Aware t) \<Rightarrow> Some (Aware t)
   | Some (Naive t) \<Rightarrow> Some (Aware t))"

fun add_delta :: "stamp \<Rightarrow> int \<Rightarrow> stamp" where
  "add_delta (Naive t) d = Naive (t + d)"
| "add_delta (Aware t) d = Aware (t + d)"

definition second_us :: int where "second_us = 1000000"
definition day_us :: int where "day_us = 86400000000"

lemma as_utc_simps [simp]:
  "as_utc None = None"
  "as_utc (Some s) = Some (Aware (ticks s))"
  by (simp_all add: as_utc_def split: stamp.split)

lemma ticks_add_delta [simp]: "ticks (add_delta s d) = ticks s + d"
  by (cases s) auto

lemma as_utc_idem: "as_utc (as_utc v) = as_utc v"
  by (cases v) auto

text \<open>\<open>int((a - b).total_seconds())\<close>: truncation towards zero of a number of microseconds.\<close>

definition trunc_seconds :: "int \<Rightarrow> int" where
  "trunc_seconds us = sgn us * (\<bar>us\<bar> div second_us)"

lemma trunc_seconds_nonneg: "0 \<le> us \<Longrightarrow> trunc_seconds us = us div second_us"
  by (cases "us = 0") (auto simp: trunc_seconds_def)

lemma trunc_seconds_le: "0 \<le> us \<Longrightarrow> trunc_seconds us * second_us \<le> us"
  using div_mult_mod_eq [of us second_us] pos_mod_sign [of second_us us]
  by (simp add: trunc_seconds_nonneg second_us_def)

section \<open>The calendar\<close>

definition is_leap :: "int \<Rightarrow> bool" where
  "is_leap y \<longleftrightarrow> y mod 4 = 0 \<and> (y mod 100 \<noteq> 0 \<or> y mod 400 = 0)"

definition month_lengths :: "int \<Rightarrow> int list" where
  "month_lengths y =
     [31, if is_leap y then 29 else 28, 31, 30, 31, 30, 31, 31, 30, 31, 30, 31]"

definition days_before_year :: "int \<Rightarrow> int" where
  "days_before_year y = (y - 1) * 365 + (y - 1) div 4 - (y - 1) div 100 + (y - 1) div 400"

definition days_before_month :: "int \<Rightarrow> nat \<Rightarrow> int" where
  "days_before_month y m = sum_list (take m (month_lengths y))"

text \<open>Months are numbered from 0 here; \<open>ymd2ord y m d\<close> is \<open>date(y, m + 1, d).toordinal()\<close>.\<close>

definition ymd2ord :: "int \<Rightarrow> nat \<Rightarrow> int \<Rightarrow> int" where
  "ymd2ord y m d = days_before_year y + days_before_month y m + d"

definition valid_ymd :: "int \<Rightarrow> nat \<Rightarrow> int \<Rightarrow> bool" where
  "valid_ymd y m d \<longleftrightarrow> m < 12 \<and> 1 \<le> d \<and> d \<le> month_lengths y ! m"

definition year_of_ord :: "int \<Rightarrow> int" where
  "year_of_ord n = (let y = 400 * (n - 1) div 146097 + 1 in
     if n \<le> days_before_year y then y - 1
     else if days_before_year (y + 1) < n then y + 1 else y)"

fun scan_months :: "nat \<Rightarrow> int \<Rightarrow> int list \<Rightarrow> nat \<times> int" where
  "scan_months m d [] = (m, d)"
| "scan_months m d (l # ls) = (if d \<le> l then (m, d) else scan_months (Suc m) (d - l) ls)"

definition ord2ymd :: "int \<Rightarrow> int \<times> nat \<times> int" where
  "ord2ymd n = (let y = year_of_ord n in (y, scan_months 0 (n - days_before_year y) (month_lengths y)))"

lemma int_div_step:
  assumes "0 < (k::int)"
  shows "y div k = (y - 1) div k + (if y mod k = 0 then 1 else 0)"
proof (cases "y mod k = 0")
  case True
  have "(y - 1) div k = y div k - 1"
    by (rule int_div_pos_eq [where r = "k - 1"])
      (use True assms mult_div_mod_eq [of k y] in \<open>auto simp: algebra_simps\<close>)
  with True show ?thesis by simp
next
  case False
  have "0 \<le> y mod k" "y mod k < k" using assms by auto
  then have "(y - 1) div k = y div k"
    by (intro int_div_pos_eq [where r = "y mod k - 1"])
      (use False mult_div_mod_eq [of k y] in \<open>auto simp: algebra_simps\<close>)
  with False show ?thesis by simp
qed

lemma year_length: "days_before_year (y + 1) - days_before_year y = (if is_leap y then 366 else 365)"
proof -
  have d: "y div 4 - (y - 1) div 4 = (if y mod 4 = 0 then 1 else 0)"
    "y div 100 - (y - 1) div 100 = (if y mod 100 = 0 then 1 else 0)"
    "y div 400 - (y - 1) div 400 = (if y mod 400 = 0 then 1 else 0)"
    by (subst int_div_step; simp)+
  have m: "y mod 400 = 0 \<Longrightarrow> y mod 100 = 0" "y mod 100 = 0 \<Longrightarrow> y mod 4 = 0"
    by (auto elim!: dvd_trans [rotated] simp: dvd_eq_mod_eq_0 [symmetric])
  have "days_before_year (y + 1) - days_before_year y =
      365 + (y div 4 - (y - 1) div 4) - (y div 100 - (y - 1) div 100) + (y div 400 - (y - 1) div 400)"
    unfolding days_before_year_def by simp
  also have "\<dots> = (if is_leap y then 366 else 365)"
    unfolding d is_leap_def using m by (cases "y mod 400 = 0"; cases "y mod 100 = 0"; simp)
  finally show ?thesis .
qed

lemma sum_month_lengths: "sum_list (month_lengths y) = (if is_leap y then 366 else 365)"
  by (simp add: month_lengths_def)

lemma days_before_year_bounds:
  "146097 * y - 146796 \<le> 400 * days_before_year y"
  "400 * days_before_year y \<le> 146097 * y - 145701"
proof -
  have q: "k * ((y - 1) div k) \<le> y - 1" "y - 1 < k * ((y - 1) div k) + k" if "0 < k" for k :: int
    using that mult_div_mod_eq [of k "y - 1"] pos_mod_sign [of k "y - 1"] pos_mod_bound [of k "y - 1"]
    by linarith+
  show "146097 * y - 146796 \<le> 400 * days_before_year y"
    and "400 * days_before_year y \<le> 146097 * y - 145701"
    using q [of 4] q [of 100] q [of 400] by (simp_all add: days_before_year_def)
qed

lemma year_of_ord_spec:
  "days_before_year (year_of_ord n) < n"
  "n \<le> days_before_year (year_of_ord n + 1)"
proof -
  define q where "q = 400 * (n - 1) div 146097"
  have q: "146097 * q \<le> 400 * (n - 1)" "400 * (n - 1) < 146097 * q + 146097"
    using mult_div_mod_eq [of 146097 "400 * (n - 1)"] pos_mod_sign [of 146097 "400 * (n - 1)"]
      pos_mod_bound [of 146097 "400 * (n - 1)"] unfolding q_def by linarith+
  have lo: "days_before_year q < n"
    using q(1) days_before_year_bounds(2) [of q] by (simp add: algebra_simps)
  have hi: "n \<le> days_before_year (q + 1 + 1 + 1)"
    using q(2) days_before_year_bounds(1) [of "q + 1 + 1 + 1"] by (simp add: algebra_simps)
  have y: "year_of_ord n = (if n \<le> days_before_year (q + 1) then q
      else if days_before_year (q + 1 + 1) < n then q + 1 + 1 else q + 1)"
    by (simp add: year_of_ord_def Let_def q_def)
  show "days_before_year (year_of_ord n) < n" "n \<le> days_before_year (year_of_ord n + 1)"
    using lo hi unfolding y by (simp_all split: if_split)
qed

lemma days_before_year_mono: "y \<le> z \<Longrightarrow> days_before_year y \<le> days_before_year z"
proof (induction z rule: int_ge_induct)
  case base
  show ?case by simp
next
  case (step z)
  with year_length [of z] show ?case by (simp split: if_splits)
qed

lemma year_of_ord_unique:
  assumes "days_before_year y < n" "n \<le> days_before_year (y + 1)"
  shows "year_of_ord n = y"
proof (rule ccontr)
  assume "year_of_ord n \<noteq> y"
  then consider "year_of_ord n + 1 \<le> y" | "y + 1 \<le> year_of_ord n" by linarith
  then show False
    using days_before_year_mono [of "year_of_ord n + 1" y]
      days_before_year_mono [of "y + 1" "year_of_ord n"] year_of_ord_spec [of n] assms
    by cases linarith+
qed

lemma month_lengths_simps [simp]: "length (month_lengths y) = 12"
  by (simp add: month_lengths_def)

lemma month_length_bounds: "m < 12 \<Longrightarrow> 28 \<le> month_lengths y ! m \<and> month_lengths y ! m \<le> 31"
  by (auto simp: month_lengths_def less_Suc_eq numeral_eq_Suc)

lemma month_lengths_pos: "l \<in> set (month_lengths y) \<Longrightarrow> 0 \<le> l"
  by (auto simp: month_lengths_def split: if_splits)

lemma december_length: "month_lengths y ! 11 = 31"
  by (simp add: month_lengths_def)

lemma scan_months_spec:
  "1 \<le> n \<Longrightarrow> n \<le> sum_list ls \<Longrightarrow>
   \<exists>k d. scan_months m n ls = (m + k, d) \<and> k < length ls \<and> 1 \<le> d \<and> d \<le> ls ! k \<and>
     n = sum_list (take k ls) + d"
proof (induction ls arbitrary: m n)
  case Nil
  then show ?case by simp
next
  case (Cons l ls)
  show ?case
  proof (cases "n \<le> l")
    case True
    with Cons.prems show ?thesis by (intro exI [of _ 0] exI [of _ n]) simp
  next
    case False
    with Cons.prems Cons.IH [of "n - l" "Suc m"]
    obtain k d where "scan_months (Suc m) (n - l) ls = (Suc m + k, d)" "k < length ls"
      "1 \<le> d" "d \<le> ls ! k" "n - l = sum_list (take k ls) + d" by auto
    with False show ?thesis by (intro exI [of _ "Suc k"] exI [of _ d]) simp
  qed
qed

lemma scan_months_exact:
  "k < length ls \<Longrightarrow> (\<And>l. l \<in> set ls \<Longrightarrow> 0 \<le> l) \<Longrightarrow> 1 \<le> d \<Longrightarrow> d \<le> ls ! k \<Longrightarrow>
   scan_months m (sum_list (take k ls) + d) ls = (m + k, d)"
proof (induction ls arbitrary: m k)
  case Nil
  then show ?case by simp
next
  case (Cons l ls)
  show ?case
  proof (cases k)
    case 0
    with Cons.prems show ?thesis by simp
  next
    case (Suc j)
    have "0 \<le> sum_list (take j ls)"
      using Cons.prems(2) by (intro sum_list_nonneg) (auto dest: in_set_takeD)
    with Suc Cons.prems Cons.IH [of j "Suc m"] show ?thesis by simp
  qed
qed

lemma take_sum_le:
  assumes "m < 12"
  shows "0 \<le> days_before_month y m"
    and "days_before_month y m + month_lengths y ! m \<le> (if is_leap y then 366 else 365)"
proof -
  have nonneg: "0 \<le> sum_list (take k (month_lengths y))" "0 \<le> sum_list (drop k (month_lengths y))" for k
    using month_lengths_pos [of _ y] by (auto intro!: sum_list_nonneg dest: in_set_takeD in_set_dropD)
  show "0 \<le> days_before_month y m"
    using nonneg by (simp add: days_before_month_def)
  have "sum_list (month_lengths y) =
      sum_list (take m (month_lengths y)) + sum_list (month_lengths y ! m # drop (Suc m) (month_lengths y))"
    using assms by (metis Cons_nth_drop_Suc append_take_drop_id month_lengths_simps sum_list_append)
  then show "days_before_month y m + month_lengths y ! m \<le> (if is_leap y then 366 else 365)"
    using nonneg(2) [of "Suc m"] by (simp add: days_before_month_def sum_month_lengths)
qed

lemma ord2ymd_ymd2ord:
  assumes "valid_ymd y m d"
  shows "ord2ymd (ymd2ord y m d) = (y, m, d)"
proof -
  have m: "m < 12" and d: "1 \<le> d" "d \<le> month_lengths y ! m"
    using assms by (auto simp: valid_ymd_def)
  have "year_of_ord (ymd2ord y m d) = y"
    using take_sum_le [OF m, of y] d year_length [of y]
    by (intro year_of_ord_unique) (auto simp: ymd2ord_def)
  moreover have "scan_months 0 (days_before_month y m + d) (month_lengths y) = (m, d)"
    using scan_months_exact [of m "month_lengths y" d 0] m d month_lengths_pos [of _ y]
    by (simp add: days_before_month_def)
  ultimately show ?thesis by (simp add: ord2ymd_def ymd2ord_def Let_def)
qed

lemma ymd2ord_ord2ymd:
  assumes "ord2ymd n = (y, m, d)"
  shows "valid_ymd y m d" "ymd2ord y m d = n"
proof -
  have y: "y = year_of_ord n" and s: "scan_months 0 (n - days_before_year y) (month_lengths y) = (m, d)"
    using assms by (auto simp: ord2ymd_def Let_def)
  have "1 \<le> n - days_before_year y" "n - days_before_year y \<le> sum_list (month_lengths y)"
    using year_of_ord_spec [of n] year_length [of y] y by (auto simp: sum_month_lengths split: if_splits)
  then obtain k e where k: "scan_months 0 (n - days_before_year y) (month_lengths y) = (0 + k, e)"
    "k < length (month_lengths y)" "1 \<le> e" "e \<le> month_lengths y ! k"
    "n - days_before_year y = sum_list (take k (month_lengths y)) + e"
    using scan_months_spec by blast
  with s show "valid_ymd y m d" "ymd2ord y m d = n"
    by (auto simp: valid_ymd_def ymd2ord_def days_before_month_def)
qed

section \<open>\<open>datetime.replace\<close> on a UTC instant\<close>

text \<open>\<open>date(1970, 1, 1).toordinal()\<close>.\<close>

definition epoch_ord :: int where "epoch_ord = 719163"

definition ord_of :: "int \<Rightarrow> int" where
  "ord_of t = t div day_us + epoch_ord"

text \<open>\<open>t.replace(hour=0, minute=0, second=0, microsecond=0)\<close>.\<close>

definition day_start :: "int \<Rightarrow> int" where
  "day_start t = t - t mod day_us"

text \<open>\<open>t.replace(day=1, hour=0, minute=0, second=0, microsecond=0)\<close>.\<close>

definition month_start :: "int \<Rightarrow> int" where
  "month_start t = (case ord2ymd (ord_of t) of (y, m, d) \<Rightarrow> day_start t - (d - 1) * day_us)"

lemma epoch_is_1970: "ymd2ord 1970 0 1 = epoch_ord"
  by (simp add: ymd2ord_def days_before_year_def days_before_month_def epoch_ord_def)

lemma day_start_bounds: "day_start t \<le> t" "t < day_start t + day_us"
  by (simp_all add: day_start_def day_us_def)

lemma ord_of_shift: "ord_of (day_start t + k * day_us) = ord_of t + k"
proof -
  have "day_start t = (t div day_us) * day_us"
    by (simp add: day_start_def minus_mod_eq_div_mult)
  then have "day_start t + k * day_us = (t div day_us + k) * day_us"
    by (simp add: algebra_simps)
  then show ?thesis by (simp add: ord_of_def day_us_def)
qed

lemma day_start_shift: "day_start (day_start t + k * day_us) = day_start t + k * day_us"
  by (simp add: day_start_def mod_add_eq [symmetric] minus_mod_eq_div_mult)

lemma month_start_shape:
  assumes "ord2ymd (ord_of t) = (y, m, d)"
  shows "month_start t = day_start t - (d - 1) * day_us"
    "ord_of (month_start t) = ymd2ord y m 1"
    "day_start (month_start t) = month_start t"
proof -
  show eq: "month_start t = day_start t - (d - 1) * day_us"
    using assms by (simp add: month_start_def)
  then have sh: "month_start t = day_start t + (1 - d) * day_us"
    by (simp add: algebra_simps)
  show "ord_of (month_start t) = ymd2ord y m 1"
    using ymd2ord_ord2ymd [OF assms] unfolding sh ord_of_shift by (simp add: ymd2ord_def)
  show "day_start (month_start t) = month_start t"
    unfolding sh by (rule day_start_shift)
qed

text \<open>
  The idiom of \<open>quota._calendar_month\<close>: the first of the month, plus 32 days, back to the
  first. It lands on the first of the next month, one month length later.
\<close>

lemma next_month_start:
  assumes "ord2ymd (ord_of t) = (y, m, d)"
  shows "month_start (month_start t + 32 * day_us) = month_start t + month_lengths y ! m * day_us"
proof -
  let ?s = "month_start t" and ?L = "month_lengths y ! m"
  note sh = month_start_shape [OF assms]
  have m: "m < 12" using ymd2ord_ord2ymd [OF assms] by (simp add: valid_ymd_def)
  note L = month_length_bounds [OF m, of y]
  have ord: "ord_of (?s + 32 * day_us) = ymd2ord y m 33"
    using ord_of_shift [of ?s 32] sh by (simp add: ymd2ord_def)
  obtain y' m' where ymd: "ord2ymd (ymd2ord y m 33) = (y', m', 33 - ?L)"
  proof (cases "m = 11")
    case True
    have "ymd2ord y m 33 = ymd2ord (y + 1) 0 2"
      using True year_length [of y]
      by (auto simp: ymd2ord_def days_before_month_def month_lengths_def split: if_splits)
    moreover have "valid_ymd (y + 1) 0 2" by (simp add: valid_ymd_def month_lengths_def)
    ultimately show ?thesis using that [of "y + 1" 0] True
      by (simp add: ord2ymd_ymd2ord december_length)
  next
    case False
    have "days_before_month y (Suc m) = days_before_month y m + ?L"
      using m by (simp add: days_before_month_def take_Suc_conv_app_nth)
    then have "ymd2ord y m 33 = ymd2ord y (Suc m) (33 - ?L)" by (simp add: ymd2ord_def)
    moreover have "valid_ymd y (Suc m) (33 - ?L)"
      using m False L month_length_bounds [of "Suc m" y] by (auto simp: valid_ymd_def)
    ultimately show ?thesis using that [of y "Suc m"] by (simp add: ord2ymd_ymd2ord)
  qed
  have "day_start (?s + 32 * day_us) = ?s + 32 * day_us"
    using day_start_shift [of ?s 32] sh(3) by simp
  then have "month_start (?s + 32 * day_us) = ?s + 32 * day_us - (33 - ?L - 1) * day_us"
    using month_start_shape(1) [of "?s + 32 * day_us"] ymd by (simp add: ord)
  then show ?thesis by (simp add: algebra_simps)
qed

lemma calendar_month_contains:
  "month_start t \<le> t"
  "t < month_start (month_start t + 32 * day_us)"
proof -
  obtain y m d where ymd: "ord2ymd (ord_of t) = (y, m, d)" by (metis prod_cases3)
  note v = ymd2ord_ord2ymd [OF ymd] and sh = month_start_shape [OF ymd]
  have d: "1 \<le> d" "d \<le> month_lengths y ! m" using v by (auto simp: valid_ymd_def)
  have "0 \<le> (d - 1) * day_us" "(d - 1) * day_us \<le> (month_lengths y ! m - 1) * day_us"
    using d by (auto simp: day_us_def)
  then show "month_start t \<le> t"
    using day_start_bounds [of t] sh(1) by linarith
  have "(month_lengths y ! m - 1) * day_us = month_lengths y ! m * day_us - day_us"
    by (simp add: algebra_simps)
  with \<open>(d - 1) * day_us \<le> (month_lengths y ! m - 1) * day_us\<close>
  show "t < month_start (month_start t + 32 * day_us)"
    using day_start_bounds [of t] sh(1) next_month_start [OF ymd] by linarith
qed

section \<open>Dates and times as text\<close>

definition pad2 :: "nat \<Rightarrow> string" where
  "pad2 n = (if n < 10 then ''0'' else '''') @ str_nat n"

text \<open>\<open>f"{t:%Y-%m-%d}"\<close>, for the four-digit years.\<close>

definition utc_date :: "int \<Rightarrow> string" where
  "utc_date t = (case ord2ymd (ord_of t) of (y, m, d) \<Rightarrow>
     str_int y @ ''-'' @ pad2 (m + 1) @ ''-'' @ pad2 (nat d))"

text \<open>\<open>t.isoformat(timespec="seconds")\<close> of an aware UTC time.\<close>

definition iso_seconds :: "int \<Rightarrow> string" where
  "iso_seconds t = (let s = nat ((t mod day_us) div second_us) in
     utc_date t @ ''T'' @ pad2 (s div 3600) @ '':'' @ pad2 (s div 60 mod 60) @ '':'' @ pad2 (s mod 60) @ ''+00:00'')"

end
