(* ===== verification/Errors.thy ===== *)
theory Errors
  imports Timeutil
begin

text \<open>
  The exceptions of the service (\<open>app/errors.py\<close>, \<open>HTTPException\<close>, the database, cache and
  Stripe errors the code catches), and how \<open>app/main.py\<close> turns the ones that escape a
  handler into responses. Log lines and header names are not modelled; a payload is the
  dictionary \<open>to_payload\<close> builds.
\<close>

section \<open>Exceptions\<close>

datatype stripe_error_class =
    AuthenticationError
  | APIConnectionError
  | RateLimitError
  | InvalidRequestError
  | OtherStripeError

record quota_exceeded =
  qe_key :: string
  qe_limit :: int
  qe_used :: int
  qe_reset_at :: stamp
  qe_current_tier :: string
  qe_upgrade_tier :: "string option"

record feature_not_entitled =
  fe_feature :: string
  fe_current_tier :: string
  fe_required_tier :: "string option"

record rate_limited =
  rl_scope :: string
  rl_limit :: int
  rl_window_seconds :: int
  rl_retry_after :: int

datatype exc =
    IntegrityError
  | MultipleResultsFound
  | DatabaseError string
  | CacheError
  | StripeError stripe_error_class string
  | SignatureVerificationError
  | KeyError string
  | ValueError string
  | RuntimeError string
  | TypeError
  | AttributeError
  | ValidationError
  | SendError
  | HTTPException nat string
  | QuotaExceeded quota_exceeded
  | FeatureNotEntitled feature_not_entitled
  | RateLimited rate_limited

text \<open>\<open>BillingError(detail, code=400)\<close> is an \<open>HTTPException\<close>.\<close>

definition BillingError :: "nat \<Rightarrow> string \<Rightarrow> exc" where
  "BillingError code detail = HTTPException code detail"

section \<open>Payloads\<close>

datatype pyval =
    PNone
  | PInt int
  | PBool bool
  | PStr string
  | PStamp stamp

fun opt_str :: "string option \<Rightarrow> pyval" where
  "opt_str None = PNone"
| "opt_str (Some s) = PStr s"

type_synonym payload = "(string, pyval) dict"

definition quota_exceeded_payload :: "quota_exceeded \<Rightarrow> payload" where
  "quota_exceeded_payload e =
     [(''error'', PStr ''quota_exceeded''),
      (''quota'', PStr (qe_key e)),
      (''limit'', PInt (qe_limit e)),
      (''used'', PInt (qe_used e)),
      (''remaining'', PInt 0),
      (''reset_at'', PStamp (qe_reset_at e)),
      (''current_tier'', PStr (qe_current_tier e)),
      (''upgrade_tier'', opt_str (qe_upgrade_tier e))]"

definition feature_payload :: "feature_not_entitled \<Rightarrow> payload" where
  "feature_payload e =
     [(''error'', PStr ''feature_not_entitled''),
      (''feature'', PStr (fe_feature e)),
      (''current_tier'', PStr (fe_current_tier e)),
      (''required_tier'', opt_str (fe_required_tier e))]"

definition rate_limited_payload :: "rate_limited \<Rightarrow> payload" where
  "rate_limited_payload e =
     [(''error'', PStr ''rate_limited''),
      (''detail'', PStr (''Too many requests from this network. Please try again in ''
         @ str_int (rl_retry_after e) @ '' seconds.'')),
      (''retry_after'', PInt (rl_retry_after e))]"

section \<open>Responses\<close>

record response =
  status_code :: nat
  content :: payload
  retry_after_header :: "string option"

definition stripe_error_status :: "stripe_error_class \<Rightarrow> nat" where
  "stripe_error_status c = (case c of
       AuthenticationError \<Rightarrow> 500
     | APIConnectionError \<Rightarrow> 503
     | RateLimitError \<Rightarrow> 503
     | _ \<Rightarrow> 400)"

fun stripe_class_name :: "stripe_error_class \<Rightarrow> string" where
  "stripe_class_name AuthenticationError = ''AuthenticationError''"
| "stripe_class_name APIConnectionError = ''APIConnectionError''"
| "stripe_class_name RateLimitError = ''RateLimitError''"
| "stripe_class_name InvalidRequestError = ''InvalidRequestError''"
| "stripe_class_name OtherStripeError = ''StripeError''"

text \<open>
  The exception handlers registered in \<open>app/main.py\<close>. \<open>HTTPException\<close> is FastAPI's own
  handler; anything else is the bare 500 of an unhandled exception. A signature error is a
  \<open>StripeError\<close> of the SDK, though the webhook endpoint catches it before it gets here.
\<close>

fun handle_exception :: "exc \<Rightarrow> response" where
  "handle_exception (QuotaExceeded e) =
     \<lparr>status_code = 429, content = quota_exceeded_payload e, retry_after_header = None\<rparr>"
| "handle_exception (RateLimited e) =
     \<lparr>status_code = 429, content = rate_limited_payload e,
      retry_after_header = Some (str_int (rl_retry_after e))\<rparr>"
| "handle_exception (FeatureNotEntitled e) =
     \<lparr>status_code = 403, content = feature_payload e, retry_after_header = None\<rparr>"
| "handle_exception (StripeError c msg) =
     \<lparr>status_code = stripe_error_status c,
      content = [(''error'', PStr ''stripe_error''), (''type'', PStr (stripe_class_name c)),
                 (''message'', PStr msg), (''request_id'', PNone)],
      retry_after_header = None\<rparr>"
| "handle_exception SignatureVerificationError =
     \<lparr>status_code = 400,
      content = [(''error'', PStr ''stripe_error''), (''type'', PStr ''SignatureVerificationError''),
                 (''message'', PStr ''''), (''request_id'', PNone)],
      retry_after_header = None\<rparr>"
| "handle_exception (HTTPException code detail) =
     \<lparr>status_code = code, content = [(''detail'', PStr detail)], retry_after_header = None\<rparr>"
| "handle_exception _ =
     \<lparr>status_code = 500, content = [(''detail'', PStr ''Internal Server Error'')],
      retry_after_header = None\<rparr>"

end
