(* ===== verification/Config.thy ===== *)
theory Config
  imports Errors
begin

text \<open>
  \<open>app/config.py\<close>: the settings the modelled code reads, with the defaults of the source,
  and the collection of the Stripe price ids from \<open>.env\<close> and the environment. The fields
  that only reach a driver (timeouts, URLs of the database and of Redis, SMTP credentials)
  are left out.
\<close>

record settings =
  environment :: string
  supabase_url :: string
  supabase_jwt_audience :: string
  growthbook_client_key :: string
  admin_api_key :: string
  stripe_secret_key :: string
  stripe_webhook_secret :: string
  trial_period_days :: int
  automatic_tax :: bool
  stripe_portal_configuration_id :: string
  stripe_price_ids :: "(string, string) dict"
  checkout_success_url :: string
  checkout_cancel_url :: string
  portal_return_url :: string
  contact_sales_per_hour :: int
  contact_sales_per_day :: int
  trust_proxy_headers :: bool
  alert_email_to :: string
  alert_email_from :: string
  smtp_host :: string
  dunning_grace_days :: int
  entitlement_cache_ttl :: int

definition default_settings :: settings where
  "default_settings =
     \<lparr>environment = ''development'',
      supabase_url = '''',
      supabase_jwt_audience = ''authenticated'',
      growthbook_client_key = '''',
      admin_api_key = ''change-me-in-prod'',
      stripe_secret_key = '''',
      stripe_webhook_secret = '''',
      trial_period_days = 0,
      automatic_tax = True,
      stripe_portal_configuration_id = '''',
      stripe_price_ids = [],
      checkout_success_url = ''http://localhost:3000/billing/success'',
      checkout_cancel_url = ''http://localhost:3000/billing'',
      portal_return_url = ''http://localhost:3000/billing'',
      contact_sales_per_hour = 5,
      contact_sales_per_day = 20,
      trust_proxy_headers = False,
      alert_email_to = '''',
      alert_email_from = '''',
      smtp_host = '''',
      dunning_grace_days = 7,
      entitlement_cache_ttl = 60\<rparr>"

definition dunning_grace :: "settings \<Rightarrow> int" where
  "dunning_grace S = dunning_grace_days S * day_us"

definition is_production :: "settings \<Rightarrow> bool" where
  "is_production S \<longleftrightarrow> environment S = ''production''"

section \<open>Price ids by convention\<close>

definition PRICE_PREFIX :: string where
  "PRICE_PREFIX = ''stripe_price_''"

definition collect_one :: "string \<times> string \<Rightarrow> (string, string) dict \<Rightarrow> (string, string) dict" where
  "collect_one kv found = (let name = py_lower (fst kv) in
     if starts_with PRICE_PREFIX name \<and> name \<noteq> ''stripe_price_ids'' \<and> snd kv \<noteq> []
     then dict_set (drop (length PRICE_PREFIX) name) (snd kv) found
     else found)"

text \<open>The validator \<open>_collect_price_ids\<close>: \<open>model_extra\<close> first, then \<open>os.environ\<close>.\<close>

definition collect_price_ids ::
  "(string, string) dict \<Rightarrow> (string, string) dict \<Rightarrow> settings \<Rightarrow> settings" where
  "collect_price_ids model_extra environ S =
     S\<lparr>stripe_price_ids := fold collect_one (model_extra @ environ) []\<rparr>"

text \<open>The last non-empty variable that names a price wins.\<close>

definition names_price :: "string \<Rightarrow> string \<times> string \<Rightarrow> bool" where
  "names_price k kv \<longleftrightarrow> py_lower (fst kv) = PRICE_PREFIX @ k \<and> k \<noteq> ''ids'' \<and> snd kv \<noteq> []"

lemma collect_one_lookup:
  "map_of (collect_one kv found) k = (if names_price k kv then Some (snd kv) else map_of found k)"
proof (cases "starts_with PRICE_PREFIX (py_lower (fst kv))")
  case True
  then obtain n where n: "py_lower (fst kv) = PRICE_PREFIX @ n"
    by (metis append_take_drop_id starts_with_def)
  have "PRICE_PREFIX @ n = ''stripe_price_ids'' \<longleftrightarrow> n = ''ids''" by (simp add: PRICE_PREFIX_def)
  with n show ?thesis
    by (simp add: collect_one_def names_price_def Let_def)
next
  case False
  then show ?thesis by (auto simp: collect_one_def names_price_def Let_def)
qed

lemma collect_fold_lookup:
  "map_of (fold collect_one kvs found) k =
     (case List.find (names_price k) (rev kvs) of Some kv \<Rightarrow> Some (snd kv) | None \<Rightarrow> map_of found k)"
  by (induction kvs arbitrary: found rule: rev_induct) (auto simp: collect_one_lookup)

lemma collect_price_ids_lookup:
  "map_of (stripe_price_ids (collect_price_ids extra environ S)) k =
     map_option snd (List.find (names_price k) (rev (extra @ environ)))"
proof -
  define kvs where "kvs = extra @ environ"
  show ?thesis
    unfolding collect_price_ids_def kvs_def [symmetric]
    by (simp add: collect_fold_lookup split: option.split)
qed

end
