(* ===== verification/Plans.thy ===== *)
theory Plans
  imports Config
begin

text \<open>
  \<open>app/plans.py\<close>: tiers, their rank, the catalog of limits and features, and the price
  lookups built from the settings; with \<open>Features\<close> and \<open>QuotaLimit\<close> of \<open>app/schemas.py\<close>,
  the typed views of a catalog row. The rank makes \<open>tier\<close> a linear order, so that "the
  higher of two tiers" is \<open>max\<close>.
\<close>

section \<open>Tiers\<close>

datatype tier = FREE | PLUS | PRO | ENTERPRISE

datatype billing_interval = MONTHLY | ANNUAL

datatype quota_window = DAILY | BILLING_PERIOD

fun tier_value :: "tier \<Rightarrow> string" where
  "tier_value FREE = ''free''"
| "tier_value PLUS = ''plus''"
| "tier_value PRO = ''pro''"
| "tier_value ENTERPRISE = ''enterprise''"

fun interval_value :: "billing_interval \<Rightarrow> string" where
  "interval_value MONTHLY = ''monthly''"
| "interval_value ANNUAL = ''annual''"

definition all_intervals :: "billing_interval list" where
  "all_intervals = [MONTHLY, ANNUAL]"

text \<open>\<open>Tier(value)\<close>: a \<open>ValueError\<close> for a string that is no tier.\<close>

definition Tier_of :: "string \<Rightarrow> exc + tier" where
  "Tier_of v = (case List.find (\<lambda>t. tier_value t = v) [FREE, PLUS, PRO, ENTERPRISE] of
     Some t \<Rightarrow> Inr t
   | None \<Rightarrow> Inl (ValueError v))"

definition TIER_RANK :: "(tier, int) dict" where
  "TIER_RANK = [(FREE, 0), (PLUS, 1), (PRO, 2), (ENTERPRISE, 3)]"

fun tier_rank :: "tier \<Rightarrow> int" where
  "tier_rank FREE = 0"
| "tier_rank PLUS = 1"
| "tier_rank PRO = 2"
| "tier_rank ENTERPRISE = 3"

lemma tier_rank_lookup: "map_of TIER_RANK t = Some (tier_rank t)"
  by (cases t) (simp_all add: TIER_RANK_def)

lemma tier_rank_inj [simp]: "tier_rank a = tier_rank b \<longleftrightarrow> a = b"
  by (cases a; cases b) simp_all

lemma tier_value_inj [simp]: "tier_value a = tier_value b \<longleftrightarrow> a = b"
  by (cases a; cases b) simp_all

lemma tier_value_nonempty [simp]: "tier_value t \<noteq> []" "[] \<noteq> tier_value t"
  by (cases t; simp)+

lemma Tier_of_value [simp]: "Tier_of (tier_value t) = Inr t"
  by (cases t) (simp_all add: Tier_of_def)

lemma Tier_of_Inr [simp]: "Tier_of v = Inr t \<longleftrightarrow> v = tier_value t"
proof
  assume "Tier_of v = Inr t"
  then have "List.find (\<lambda>t. tier_value t = v) [FREE, PLUS, PRO, ENTERPRISE] = Some t"
    by (simp only: Tier_of_def split: option.splits) simp_all
  then show "v = tier_value t" by (blast dest: find_Some_D)
next
  assume "v = tier_value t"
  then show "Tier_of v = Inr t" by (simp only: Tier_of_value)
qed

instantiation tier :: linorder
begin

definition less_eq_tier :: "tier \<Rightarrow> tier \<Rightarrow> bool" where
  "less_eq_tier a b \<longleftrightarrow> tier_rank a \<le> tier_rank b"

definition less_tier :: "tier \<Rightarrow> tier \<Rightarrow> bool" where
  "less_tier a b \<longleftrightarrow> tier_rank a < tier_rank b"

instance
  by standard (auto simp: less_eq_tier_def less_tier_def)

end

lemma FREE_least [simp]: "FREE \<le> t" "t \<le> FREE \<longleftrightarrow> t = FREE"
  by (cases t; simp add: less_eq_tier_def)+

lemma FREE_less [simp]: "FREE < t \<longleftrightarrow> t \<noteq> FREE"
  by (cases t) (simp_all add: less_tier_def)

text \<open>\<open>sorted(TIER_RANK, key=...)\<close>: a stable sort of the dictionary's keys.\<close>

definition tiers_by_rank :: "tier list" where
  "tiers_by_rank = sort_key tier_rank (map fst TIER_RANK)"

lemma tiers_by_rank_eq: "tiers_by_rank = [FREE, PLUS, PRO, ENTERPRISE]"
  by (simp add: tiers_by_rank_def TIER_RANK_def)

section \<open>The catalog\<close>

record quota =
  q_key :: string
  q_limit :: "int option"
  q_window :: quota_window

datatype feature_value =
    FList "string list"
  | FInt int
  | FBool bool
  | FStr string
  | FNone

record tier_definition =
  td_tier :: tier
  td_display_name :: string
  td_quotas :: "(string, quota) dict"
  td_features :: "(string, feature_value) dict"
  td_purchasable :: bool
  td_sales_led :: bool

definition q_default :: "string \<Rightarrow> int option \<Rightarrow> quota" where
  "q_default key limit = \<lparr>q_key = key, q_limit = limit, q_window = DAILY\<rparr>"

definition CATALOG :: "(tier, tier_definition) dict" where
  "CATALOG =
    [(FREE, \<lparr>td_tier = FREE, td_display_name = ''Free'',
        td_quotas =
          [(''messages_per_day'', q_default ''messages_per_day'' (Some 20)),
           (''file_uploads_per_day'', q_default ''file_uploads_per_day'' (Some 3))],
        td_features =
          [(''models'', FList [''small'']),
           (''context_tokens'', FInt 32000),
           (''history_retention_days'', FInt 30),
           (''api_access'', FBool False),
           (''support_sla'', FStr ''community'')],
        td_purchasable = False, td_sales_led = False\<rparr>),
     (PLUS, \<lparr>td_tier = PLUS, td_display_name = ''Plus'',
        td_quotas =
          [(''messages_per_day'', q_default ''messages_per_day'' (Some 300)),
           (''file_uploads_per_day'', q_default ''file_uploads_per_day'' (Some 50))],
        td_features =
          [(''models'', FList [''small'', ''large'']),
           (''context_tokens'', FInt 200000),
           (''history_retention_days'', FInt 365),
           (''api_access'', FBool False),
           (''support_sla'', FStr ''48h'')],
        td_purchasable = True, td_sales_led = False\<rparr>),
     (PRO, \<lparr>td_tier = PRO, td_display_name = ''Pro'',
        td_quotas =
          [(''messages_per_day'', q_default ''messages_per_day'' (Some 1500)),
           (''file_uploads_per_day'', q_default ''file_uploads_per_day'' None)],
        td_features =
          [(''models'', FList [''small'', ''large'', ''reasoning'']),
           (''context_tokens'', FInt 1000000),
           (''history_retention_days'', FNone),
           (''api_access'', FBool True),
           (''support_sla'', FStr ''8h'')],
        td_purchasable = True, td_sales_led = False\<rparr>),
     (ENTERPRISE, \<lparr>td_tier = ENTERPRISE, td_display_name = ''Enterprise'',
        td_quotas =
          [(''messages_per_day'', q_default ''messages_per_day'' None),
           (''file_uploads_per_day'', q_default ''file_uploads_per_day'' None)],
        td_features =
          [(''models'', FList [''small'', ''large'', ''reasoning'']),
           (''context_tokens'', FNone),
           (''history_retention_days'', FNone),
           (''api_access'', FBool True),
           (''support_sla'', FStr ''custom'')],
        td_purchasable = False, td_sales_led = True\<rparr>)]"

definition PURCHASABLE_TIERS :: "tier list" where
  "PURCHASABLE_TIERS = map fst (filter (\<lambda>(t, d). td_purchasable d) CATALOG)"

lemma PURCHASABLE_TIERS_eq: "PURCHASABLE_TIERS = [PLUS, PRO]"
  by (simp add: PURCHASABLE_TIERS_def CATALOG_def)

text \<open>\<open>CATALOG[tier]\<close>; \<open>catalog_total\<close> shows that every tier has a row.\<close>

definition limits_for :: "tier \<Rightarrow> tier_definition" where
  "limits_for t = the (map_of CATALOG t)"

lemma catalog_total: "map_of CATALOG t = Some (limits_for t)"
  by (cases t) (simp_all add: limits_for_def CATALOG_def)

lemma limits_for_rows:
  "td_tier (limits_for t) = t"
  "td_purchasable (limits_for t) \<longleftrightarrow> t \<in> {PLUS, PRO}"
  "td_sales_led (limits_for t) \<longleftrightarrow> t = ENTERPRISE"
  by (cases t; simp add: limits_for_def CATALOG_def)+

text \<open>Every row files a quota under the quota's own key, at most once.\<close>

lemma catalog_keys:
  "(k, q) \<in> set (td_quotas (limits_for t)) \<Longrightarrow> q_key q = k"
  "distinct (map fst (td_quotas (limits_for t)))"
  "(k, q) \<in> set (td_quotas (limits_for t)) \<Longrightarrow> q_window q = DAILY"
  by (cases t; auto simp: limits_for_def CATALOG_def q_default_def)+

section \<open>Rank queries\<close>

definition higher_tier :: "tier \<Rightarrow> tier \<Rightarrow> tier" where
  "higher_tier a b = (if tier_rank b \<le> tier_rank a then a else b)"

lemma higher_tier_max: "higher_tier a b = max a b"
  by (auto simp: higher_tier_def max_def less_eq_tier_def)

definition index_of :: "'a \<Rightarrow> 'a list \<Rightarrow> nat" where
  "index_of x xs = length (takeWhile (\<lambda>y. y \<noteq> x) xs)"

definition next_tier_up :: "tier \<Rightarrow> tier option" where
  "next_tier_up t = (let ranked = tiers_by_rank; idx = index_of t ranked in
     if idx + 1 < length ranked then Some (ranked ! (idx + 1)) else None)"

section \<open>Prices\<close>

definition price_key :: "tier \<Rightarrow> billing_interval \<Rightarrow> string" where
  "price_key t i = tier_value t @ ''_'' @ interval_value i"

definition sellable :: "(tier \<times> billing_interval) list" where
  "sellable = concat (map (\<lambda>t. map (\<lambda>i. (t, i)) all_intervals) PURCHASABLE_TIERS)"

definition add_price :: "settings \<Rightarrow> tier \<times> billing_interval \<Rightarrow>
    (string, tier \<times> billing_interval) dict \<Rightarrow> (string, tier \<times> billing_interval) dict" where
  "add_price S ti catalog = (let price_id = map_of (stripe_price_ids S) (price_key (fst ti) (snd ti)) in
     if truthy price_id then dict_set (the price_id) ti catalog else catalog)"

definition price_catalog :: "settings \<Rightarrow> (string, tier \<times> billing_interval) dict" where
  "price_catalog S = fold (add_price S) sellable []"

definition price_env_name :: "tier \<Rightarrow> billing_interval \<Rightarrow> string" where
  "price_env_name t i = py_upper (''STRIPE_PRICE_'' @ tier_value t @ ''_'' @ interval_value i)"

definition price_id_for :: "settings \<Rightarrow> tier \<Rightarrow> billing_interval \<Rightarrow> string option" where
  "price_id_for S t i = map_option fst (List.find (\<lambda>(p, t', i'). t' = t \<and> i' = i) (price_catalog S))"

lemma sellable_eq:
  "sellable = [(PLUS, MONTHLY), (PLUS, ANNUAL), (PRO, MONTHLY), (PRO, ANNUAL)]"
  by (simp add: sellable_def PURCHASABLE_TIERS_eq all_intervals_def)

section \<open>The typed views of a catalog row\<close>

record features =
  models :: "string list"
  context_tokens :: "int option"
  history_retention_days :: "int option"
  api_access :: bool
  support_sla :: string

fun opt_int_feature :: "feature_value \<Rightarrow> exc + int option" where
  "opt_int_feature (FInt n) = Inr (Some n)"
| "opt_int_feature FNone = Inr None"
| "opt_int_feature _ = Inl ValidationError"

fun list_feature :: "feature_value \<Rightarrow> exc + string list" where
  "list_feature (FList xs) = Inr xs"
| "list_feature _ = Inl ValidationError"

fun bool_feature :: "feature_value \<Rightarrow> exc + bool" where
  "bool_feature (FBool b) = Inr b"
| "bool_feature _ = Inl ValidationError"

fun str_feature :: "feature_value \<Rightarrow> exc + string" where
  "str_feature (FStr s) = Inr s"
| "str_feature _ = Inl ValidationError"

definition required :: "(string, feature_value) dict \<Rightarrow> string \<Rightarrow> exc + feature_value" where
  "required d k = (case map_of d k of Some v \<Rightarrow> Inr v | None \<Rightarrow> Inl ValidationError)"

definition FEATURE_FIELDS :: "string list" where
  "FEATURE_FIELDS =
     [''models'', ''context_tokens'', ''history_retention_days'', ''api_access'', ''support_sla'']"

text \<open>\<open>Features(**definition.features)\<close>, with \<open>extra="forbid"\<close>.\<close>

definition features_of :: "(string, feature_value) dict \<Rightarrow> exc + features" where
  "features_of d =
     (if \<not> list_all (\<lambda>k. k \<in> set FEATURE_FIELDS) (map fst d) then Inl ValidationError else
      bind_result (bind_result (required d ''models'') list_feature) (\<lambda>ms.
      bind_result (bind_result (required d ''context_tokens'') opt_int_feature) (\<lambda>ct.
      bind_result (bind_result (required d ''history_retention_days'') opt_int_feature) (\<lambda>hr.
      bind_result (bind_result (required d ''api_access'') bool_feature) (\<lambda>aa.
      bind_result (bind_result (required d ''support_sla'') str_feature) (\<lambda>sla.
      Inr \<lparr>models = ms, context_tokens = ct, history_retention_days = hr,
           api_access = aa, support_sla = sla\<rparr>))))))"

record quota_limit =
  ql_key :: string
  ql_limit :: "int option"
  ql_window :: quota_window

definition QuotaLimit_of :: "quota \<Rightarrow> quota_limit" where
  "QuotaLimit_of q = \<lparr>ql_key = q_key q, ql_limit = q_limit q, ql_window = q_window q\<rparr>"

text \<open>Every row of the catalog is a valid \<open>Features\<close>; the models only grow with the rank.\<close>

definition catalog_features :: "tier \<Rightarrow> features" where
  "catalog_features t = (case features_of (td_features (limits_for t)) of
     Inr f \<Rightarrow> f | Inl _ \<Rightarrow> \<lparr>models = [], context_tokens = None, history_retention_days = None,
       api_access = False, support_sla = ''''\<rparr>)"

lemma catalog_features_ok: "features_of (td_features (limits_for t)) = Inr (catalog_features t)"
  by (cases t) (simp_all add: catalog_features_def features_of_def limits_for_def CATALOG_def
      required_def FEATURE_FIELDS_def)

lemma catalog_models:
  "models (catalog_features FREE) = [''small'']"
  "models (catalog_features PLUS) = [''small'', ''large'']"
  "models (catalog_features PRO) = [''small'', ''large'', ''reasoning'']"
  "models (catalog_features ENTERPRISE) = [''small'', ''large'', ''reasoning'']"
  by (simp_all add: catalog_features_def features_of_def limits_for_def CATALOG_def
      required_def FEATURE_FIELDS_def)

definition catalog_limits :: "tier \<Rightarrow> quota_limit list" where
  "catalog_limits t = map (\<lambda>(k, q). QuotaLimit_of q) (td_quotas (limits_for t))"

section \<open>Lemmas on prices\<close>

lemma price_catalog_unfold:
  "price_catalog S =
     add_price S (PRO, ANNUAL) (add_price S (PRO, MONTHLY)
       (add_price S (PLUS, ANNUAL) (add_price S (PLUS, MONTHLY) [])))"
  by (simp add: price_catalog_def sellable_eq)

lemma map_of_add_price:
  "map_of (add_price S ti c) p =
     (if map_of (stripe_price_ids S) (price_key (fst ti) (snd ti)) = Some p \<and> p \<noteq> []
      then Some ti else map_of c p)"
  by (cases "map_of (stripe_price_ids S) (price_key (fst ti) (snd ti))")
    (auto simp: add_price_def Let_def)

lemma price_catalog_sound:
  "map_of (price_catalog S) p = Some (t, i) \<Longrightarrow>
     map_of (stripe_price_ids S) (price_key t i) = Some p \<and> p \<noteq> [] \<and> t \<in> set PURCHASABLE_TIERS"
  by (auto simp: price_catalog_unfold map_of_add_price PURCHASABLE_TIERS_eq split: if_splits)

lemma distinct_keys_price_catalog: "distinct (map fst (price_catalog S))"
  unfolding price_catalog_unfold by (auto simp: add_price_def Let_def intro!: distinct_update)

lemma find_price_in_catalog:
  "price_id_for S t i = Some p \<Longrightarrow> map_of (price_catalog S) p = Some (t, i)"
  by (auto simp: price_id_for_def map_of_eq_Some_iff [OF distinct_keys_price_catalog]
      dest!: find_Some_D)

lemma price_id_for_None_iff:
  "price_id_for S t i = None \<longleftrightarrow> (\<forall>p. map_of (price_catalog S) p \<noteq> Some (t, i))"
  by (auto simp: price_id_for_def find_None_iff map_of_eq_Some_iff [OF distinct_keys_price_catalog])

end
