(* ===== verification/Json.thy ===== *)
theory Json
  imports Errors
begin

text \<open>
  JSON documents as Python sees them after \<open>json.loads\<close>: what the Stripe adapter reads
  (\<open>app/stripe_client.py\<close>) and what a discount column holds. \<open>JDec\<close> is a number with a
  fraction, kept as its literal: the code only passes such numbers on (\<open>percent_off\<close>).
  \<open>jget\<close> is \<open>value.get(key)\<close>, with the \<open>AttributeError\<close> of a value that is no object.
\<close>

datatype json =
    JNull
  | JBool bool
  | JInt int
  | JDec string
  | JStr string
  | JList "json list"
  | JObj "(string \<times> json) list"

definition jlookup :: "string \<Rightarrow> (string \<times> json) list \<Rightarrow> json" where
  "jlookup k kvs = (case map_of kvs k of Some v \<Rightarrow> v | None \<Rightarrow> JNull)"

fun jget :: "string \<Rightarrow> json \<Rightarrow> exc + json" where
  "jget k (JObj kvs) = Inr (jlookup k kvs)"
| "jget k _ = Inl AttributeError"

text \<open>\<open>value[key]\<close>.\<close>

fun jitem :: "string \<Rightarrow> json \<Rightarrow> exc + json" where
  "jitem k (JObj kvs) = (case map_of kvs k of Some v \<Rightarrow> Inr v | None \<Rightarrow> Inl (KeyError k))"
| "jitem k _ = Inl TypeError"

fun jtruthy :: "json \<Rightarrow> bool" where
  "jtruthy JNull = False"
| "jtruthy (JBool b) = b"
| "jtruthy (JInt n) = (n \<noteq> 0)"
| "jtruthy (JDec _) = True"
| "jtruthy (JStr s) = (s \<noteq> [])"
| "jtruthy (JList xs) = (xs \<noteq> [])"
| "jtruthy (JObj kvs) = (kvs \<noteq> [])"

text \<open>\<open>value or default\<close>.\<close>

definition jor :: "json \<Rightarrow> json \<Rightarrow> json" where
  "jor v d = (if jtruthy v then v else d)"

fun is_dict :: "json \<Rightarrow> bool" where
  "is_dict (JObj _) = True"
| "is_dict _ = False"

fun is_str :: "json \<Rightarrow> bool" where
  "is_str (JStr _) = True"
| "is_str _ = False"

text \<open>
  Reading a JSON value at the type the adapter's annotations give it. A value of another
  type would travel on in Python; here it is a \<open>TypeError\<close> at once.
\<close>

fun as_string :: "json \<Rightarrow> exc + string" where
  "as_string (JStr s) = Inr s"
| "as_string _ = Inl TypeError"

fun as_opt_string :: "json \<Rightarrow> exc + string option" where
  "as_opt_string JNull = Inr None"
| "as_opt_string (JStr s) = Inr (Some s)"
| "as_opt_string _ = Inl TypeError"

fun as_opt_int :: "json \<Rightarrow> exc + int option" where
  "as_opt_int JNull = Inr None"
| "as_opt_int (JInt n) = Inr (Some n)"
| "as_opt_int _ = Inl TypeError"

fun as_list :: "json \<Rightarrow> exc + json list" where
  "as_list (JList xs) = Inr xs"
| "as_list _ = Inl TypeError"

text \<open>\<open>(obj.get(k1) or {}).get(k2)\<close>, the adapter's idiom for an optional nested field.\<close>

definition jget2 :: "string \<Rightarrow> string \<Rightarrow> json \<Rightarrow> exc + json" where
  "jget2 k1 k2 obj = bind_result (jget k1 obj) (\<lambda>v. jget k2 (jor v (JObj [])))"

lemma jlookup_simps [simp]:
  "jlookup k [] = JNull"
  "jlookup k ((k', v) # kvs) = (if k = k' then v else jlookup k kvs)"
  by (simp_all add: jlookup_def)

end
