(* ===== verification/Models.thy ===== *)
theory Models
  imports Plans Json
begin

text \<open>
  The tables of \<open>app/models.py\<close> as records, the database as their lists of rows with the
  unique constraints spelt out, and the grace-window policy of \<open>app/policy.py\<close>. Columns
  keep the types of the source: \<open>tier\<close> and \<open>status\<close> are strings, and reading one back as
  an enum can fail. The surrogate \<open>id\<close> columns are kept only where code addresses a row by
  them (grants, inquiries); \<open>created_at\<close> only where code reads it; \<open>updated_at\<close> never is.
\<close>

section \<open>Statuses\<close>

datatype subscription_status =
    S_FREE
  | TRIALING
  | ACTIVE
  | PAST_DUE
  | INCOMPLETE
  | PAUSED

fun status_value :: "subscription_status \<Rightarrow> string" where
  "status_value S_FREE = ''free''"
| "status_value TRIALING = ''trialing''"
| "status_value ACTIVE = ''active''"
| "status_value PAST_DUE = ''past_due''"
| "status_value INCOMPLETE = ''incomplete''"
| "status_value PAUSED = ''paused''"

definition all_statuses :: "subscription_status list" where
  "all_statuses = [S_FREE, TRIALING, ACTIVE, PAST_DUE, INCOMPLETE, PAUSED]"

definition SubscriptionStatus_of :: "string \<Rightarrow> exc + subscription_status" where
  "SubscriptionStatus_of v = (case List.find (\<lambda>s. status_value s = v) all_statuses of
     Some s \<Rightarrow> Inr s
   | None \<Rightarrow> Inl (ValueError v))"

definition PAID_STATUSES :: "subscription_status list" where
  "PAID_STATUSES = [TRIALING, ACTIVE, PAST_DUE]"

definition status_grants_access :: "subscription_status \<Rightarrow> bool" where
  "status_grants_access s \<longleftrightarrow> s \<in> set PAID_STATUSES"

lemma status_value_inj [simp]: "status_value a = status_value b \<longleftrightarrow> a = b"
  by (cases a; cases b) simp_all

lemma status_value_nonempty [simp]: "status_value s \<noteq> []"
  by (cases s) simp_all

lemma SubscriptionStatus_of_value [simp]: "SubscriptionStatus_of (status_value s) = Inr s"
  by (cases s) (simp_all add: SubscriptionStatus_of_def all_statuses_def)

lemma SubscriptionStatus_of_Inr [simp]: "SubscriptionStatus_of v = Inr s \<longleftrightarrow> v = status_value s"
proof
  assume "SubscriptionStatus_of v = Inr s"
  then have "List.find (\<lambda>s. status_value s = v) all_statuses = Some s"
    by (simp only: SubscriptionStatus_of_def split: option.splits) simp_all
  then show "v = status_value s" by (blast dest: find_Some_D)
next
  assume "v = status_value s"
  then show "SubscriptionStatus_of v = Inr s" by (simp only: SubscriptionStatus_of_value)
qed

section \<open>Rows\<close>

record subscription =
  user_id :: string
  tier_col :: string
  status_col :: string
  stripe_customer_id :: "string option"
  stripe_subscription_id :: "string option"
  stripe_price_id :: "string option"
  billing_interval_col :: "string option"
  current_period_start :: "stamp option"
  current_period_end :: "stamp option"
  cancel_at_period_end :: bool
  trial_end :: "stamp option"
  past_due_since :: "stamp option"
  disputed_at :: "stamp option"
  discount :: "(string \<times> json) list option"

text \<open>A row as \<open>Subscription(user_id=..., tier="free", status="free")\<close> leaves it.\<close>

definition new_subscription :: "string \<Rightarrow> subscription" where
  "new_subscription uid =
     \<lparr>user_id = uid, tier_col = tier_value FREE, status_col = status_value S_FREE,
      stripe_customer_id = None, stripe_subscription_id = None, stripe_price_id = None,
      billing_interval_col = None, current_period_start = None, current_period_end = None,
      cancel_at_period_end = False, trial_end = None, past_due_since = None,
      disputed_at = None, discount = None\<rparr>"

definition PAID_VALUES :: "string list" where
  "PAID_VALUES = map status_value PAID_STATUSES"

definition grants_access :: "subscription \<Rightarrow> bool" where
  "grants_access sub \<longleftrightarrow> status_col sub \<in> set PAID_VALUES"

record processed_event =
  event_id :: string
  event_type :: string
  event_status :: string
  event_error :: "string option"
  received_at :: stamp
  completed_at :: "stamp option"

record usage_counter =
  counter_user :: string
  counter_name :: string
  window_start :: stamp
  window_end :: stamp
  counter_count :: int

record entitlement_grant =
  grant_id :: string
  grant_user :: string
  grant_tier :: string
  expires_at :: "stamp option"
  grant_reason :: string
  created_by :: string
  grant_created_at :: stamp
  revoked_at :: "stamp option"

record sales_inquiry =
  inquiry_id :: string
  inquiry_user :: "string option"
  inquiry_email :: string
  inquiry_company :: "string option"
  inquiry_seats :: "int option"
  inquiry_message :: "string option"
  inquiry_source :: string
  inquiry_current_tier :: "string option"
  handled_at :: "stamp option"
  inquiry_created_at :: stamp

record audit_row =
  audit_user :: string
  from_tier :: "string option"
  to_tier :: "string option"
  from_status :: "string option"
  to_status :: "string option"
  audit_reason :: string
  audit_event :: "string option"
  audit_detail :: "payload option"
  audit_created_at :: stamp

record database =
  subscriptions :: "subscription list"
  processed_events :: "processed_event list"
  usage_counters :: "usage_counter list"
  entitlement_grants :: "entitlement_grant list"
  subscription_audit :: "audit_row list"
  sales_inquiries :: "sales_inquiry list"

definition empty_db :: database where
  "empty_db = \<lparr>subscriptions = [], processed_events = [], usage_counters = [],
     entitlement_grants = [], subscription_audit = [], sales_inquiries = []\<rparr>"

section \<open>Unique constraints\<close>

definition unique_subscriptions :: "subscription list \<Rightarrow> bool" where
  "unique_subscriptions rows \<longleftrightarrow>
     distinct (map user_id rows) \<and>
     distinct (List.map_filter stripe_customer_id rows) \<and>
     distinct (List.map_filter stripe_subscription_id rows)"

definition unique_rows :: "database \<Rightarrow> bool" where
  "unique_rows db \<longleftrightarrow>
     unique_subscriptions (subscriptions db) \<and>
     distinct (map event_id (processed_events db)) \<and>
     distinct (map (\<lambda>c. (counter_user c, counter_name c, window_start c)) (usage_counters db)) \<and>
     distinct (map grant_id (entitlement_grants db)) \<and>
     distinct (map inquiry_id (sales_inquiries db))"

lemma unique_rows_audit [simp]: "unique_rows (db\<lparr>subscription_audit := x\<rparr>) = unique_rows db"
  by (simp add: unique_rows_def)

text \<open>\<open>UPDATE ... WHERE user_id\<close>: replace the row of the same user.\<close>

definition put_subscription :: "subscription \<Rightarrow> subscription list \<Rightarrow> subscription list" where
  "put_subscription sub rows = map (\<lambda>r. if user_id r = user_id sub then sub else r) rows"

lemma put_subscription_users [simp]: "map user_id (put_subscription sub rows) = map user_id rows"
  by (induction rows) (auto simp: put_subscription_def)

lemma put_subscription_users_set [simp]:
  "user_id ` set (put_subscription sub rows) = user_id ` set rows"
  by (metis put_subscription_users set_map)

lemma set_put_subscription:
  "set (put_subscription sub rows) =
     {r \<in> set rows. user_id r \<noteq> user_id sub} \<union> (if user_id sub \<in> user_id ` set rows then {sub} else {})"
  by (auto simp: put_subscription_def image_iff)

lemma put_put [simp]:
  "user_id a = user_id b \<Longrightarrow> put_subscription a (put_subscription b rows) = put_subscription a rows"
  by (simp add: put_subscription_def)

lemma put_same:
  assumes "sub \<in> set rows" "distinct (map user_id rows)"
  shows "put_subscription sub rows = rows"
  unfolding put_subscription_def
  by (rule map_idI) (use assms in \<open>auto simp: distinct_map inj_on_def\<close>)

section \<open>Grace policy\<close>

definition grace_ends_at :: "settings \<Rightarrow> subscription \<Rightarrow> stamp option" where
  "grace_ends_at S sub =
     (if status_col sub \<noteq> status_value PAST_DUE then None
      else case as_utc (past_due_since sub) of
        None \<Rightarrow> None
      | Some started \<Rightarrow> Some (add_delta started (dunning_grace S)))"

definition grace_expired :: "settings \<Rightarrow> int \<Rightarrow> subscription \<Rightarrow> bool" where
  "grace_expired S t sub = (case grace_ends_at S sub of None \<Rightarrow> False | Some ends \<Rightarrow> ticks ends \<le> t)"

text \<open>The three cases of the policy, and that a lapsed window stays lapsed.\<close>

lemma grace_expired_iff:
  "grace_expired S t sub \<longleftrightarrow>
     status_col sub = status_value PAST_DUE \<and>
     (\<exists>since. past_due_since sub = Some since \<and> ticks since + dunning_grace S \<le> t)"
  by (cases "past_due_since sub") (auto simp: grace_expired_def grace_ends_at_def)

lemma grace_expired_mono: "grace_expired S t sub \<Longrightarrow> t \<le> t' \<Longrightarrow> grace_expired S t' sub"
  by (auto simp: grace_expired_iff)

lemma grace_ends_at_aware: "grace_ends_at S sub = Some s \<Longrightarrow> s = Aware (ticks s)"
  by (cases "past_due_since sub") (auto simp: grace_ends_at_def split: if_splits)

lemma grants_access_iff:
  "grants_access sub \<longleftrightarrow>
     status_col sub \<in> {status_value TRIALING, status_value ACTIVE, status_value PAST_DUE}"
  by (simp add: grants_access_def PAID_VALUES_def PAID_STATUSES_def)

lemma grants_access_status [simp]:
  "status_col sub = status_value s \<Longrightarrow> grants_access sub \<longleftrightarrow> status_grants_access s"
  by (cases s) (simp_all add: grants_access_iff status_grants_access_def PAID_STATUSES_def)

end
