(* ===== verification/Provider.thy ===== *)
theory Provider
  imports Models
begin

text \<open>
  \<open>app/billing_provider.py\<close>: what the service needs from a billing provider, as typed
  values and as a record of operations over the provider's own state \<open>'r\<close>. The operations
  are fields of a record rather than fixed functions because the provider is outside the
  service: \<open>Stripe_Client\<close> builds one from the Stripe SDK, and any other would do.
  Every operation may raise and may change the provider's state.

  The locale \<open>billing_values\<close> is the part of the contract the services rely on when they
  decide access.
\<close>

section \<open>Value objects\<close>

record remote_price =
  rp_id :: string
  rp_interval :: "billing_interval option"
  rp_tier :: "string option"

record remote_subscription =
  rs_id :: string
  rs_customer_id :: "string option"
  rs_status :: subscription_status
  rs_provider_status :: string
  rs_ended :: bool
  rs_price :: "remote_price option"
  rs_item_ids :: "string list"
  rs_period_start :: "stamp option"
  rs_period_end :: "stamp option"
  rs_cancel_at_period_end :: bool
  rs_trial_end :: "stamp option"
  rs_discount :: "(string \<times> json) list option"
  rs_metadata :: "(string, string) dict"

definition rs_grants_access :: "remote_subscription \<Rightarrow> bool" where
  "rs_grants_access r = status_grants_access (rs_status r)"

record remote_customer =
  rc_id :: string
  rc_user_id :: "string option"

record subscription_page =
  page_items :: "remote_subscription list"
  page_has_more :: bool

record checkout_params =
  cp_customer_id :: string
  cp_price_id :: string
  cp_user_id :: string
  cp_success_url :: string
  cp_cancel_url :: string
  cp_idempotency_key :: string
  cp_trial_period_days :: int
  cp_promo_code :: "string option"

text \<open>\<open>subscription_update_confirm\<close>: subscription, item and price (quantity 1).\<close>

record portal_flow =
  pf_subscription :: string
  pf_item :: string
  pf_price :: string

section \<open>The operations\<close>

type_synonym ('r, 'a) call = "'r \<Rightarrow> (exc + 'a) \<times> 'r"

record 'r provider =
  p_ensure_customer :: "string \<Rightarrow> string option \<Rightarrow> string option \<Rightarrow> ('r, string) call"
  p_retrieve_customer :: "string \<Rightarrow> ('r, remote_customer) call"
  p_fetch_current_subscription :: "string \<Rightarrow> ('r, remote_subscription option) call"
  p_list_subscriptions_page :: "string option \<Rightarrow> ('r, subscription_page) call"
  p_set_cancel_at_period_end :: "string \<Rightarrow> bool \<Rightarrow> ('r, unit) call"
  p_set_subscription_metadata :: "string \<Rightarrow> (string, string) dict \<Rightarrow> ('r, unit) call"
  p_create_checkout_session :: "checkout_params \<Rightarrow> ('r, json) call"
  p_create_portal_session :: "string \<Rightarrow> string \<Rightarrow> portal_flow option \<Rightarrow> ('r, json) call"
  p_retrieve_price :: "string \<Rightarrow> ('r, json) call"
  p_retrieve_charge :: "string \<Rightarrow> ('r, json) call"
  p_construct_event :: "string \<Rightarrow> string \<Rightarrow> ('r, json) call"

section \<open>The contract on the values\<close>

text \<open>
  What deciding access rests on: a subscription the provider calls ended has the internal
  status of no subscription, so it can never pay for a tier.
\<close>

locale billing_values =
  fixes fetch :: "string \<Rightarrow> ('r, remote_subscription option) call"
    and page :: "string option \<Rightarrow> ('r, subscription_page) call"
  assumes fetch_ended:
      "fetch c r = (Inr (Some s), r') \<Longrightarrow> rs_ended s \<Longrightarrow> rs_status s = S_FREE"
    and page_ended:
      "page a r = (Inr p, r') \<Longrightarrow> s \<in> set (page_items p) \<Longrightarrow> rs_ended s \<Longrightarrow> rs_status s = S_FREE"
begin

lemma fetch_access_not_ended:
  "fetch c r = (Inr (Some s), r') \<Longrightarrow> rs_grants_access s \<Longrightarrow> \<not> rs_ended s"
  by (auto simp: rs_grants_access_def status_grants_access_def PAID_STATUSES_def dest: fetch_ended)

lemma page_access_not_ended:
  "page a r = (Inr p, r') \<Longrightarrow> s \<in> set (page_items p) \<Longrightarrow> rs_grants_access s \<Longrightarrow> \<not> rs_ended s"
  by (auto simp: rs_grants_access_def status_grants_access_def PAID_STATUSES_def dest: page_ended)

end

end
