(* ===== verification/Cache.thy ===== *)
theory Cache
  imports Models
begin

text \<open>
  \<open>app/cache.py\<close>: the backend contract, the in-process backend and the Redis backend.
  A cached string is the JSON text of a value (\<open>Json v\<close>, kept as the value it decodes to), the
  decimal text of an integer (\<open>Num n\<close>) or any other text (\<open>Garbage\<close>). Clocks count
  microseconds; \<open>time.monotonic\<close> and the wall clock differ by a constant only, so one number
  serves for both. Redis itself is a parameter: a record of the commands the backend issues.

  Two interfaces are stated as locales and interpreted on the in-process backend: a key-value
  store with expiry (\<open>kv_store\<close>, what the entitlement cache relies on) and a counter that
  lives as long as its window (\<open>window_counter\<close>, what quotas and rate limits rely on).
\<close>

section \<open>The contract\<close>

datatype 'v cached_text = Json 'v | Num int | Garbage string

record ('c, 'v) cache_backend =
  cb_get :: "string \<Rightarrow> int \<Rightarrow> 'c \<Rightarrow> (exc + 'v cached_text option) \<times> 'c"
  cb_set :: "string \<Rightarrow> 'v cached_text \<Rightarrow> int \<Rightarrow> int \<Rightarrow> 'c \<Rightarrow> (exc + unit) \<times> 'c"
  cb_delete :: "string \<Rightarrow> int \<Rightarrow> 'c \<Rightarrow> (exc + unit) \<times> 'c"
  cb_incr :: "string \<Rightarrow> int \<Rightarrow> int \<Rightarrow> 'c \<Rightarrow> (exc + int) \<times> 'c"
  cb_get_int :: "string \<Rightarrow> int \<Rightarrow> 'c \<Rightarrow> (exc + int) \<times> 'c"

text \<open>\<open>int(text)\<close>.\<close>

fun int_of_text :: "'v cached_text \<Rightarrow> exc + int" where
  "int_of_text (Num n) = Inr n"
| "int_of_text (Json _) = Inl (ValueError ''int()'')"
| "int_of_text (Garbage s) = Inl (ValueError s)"

section \<open>The in-process backend\<close>

type_synonym 'v memory = "string \<rightharpoonup> 'v cached_text \<times> int"

definition mem_live :: "string \<Rightarrow> int \<Rightarrow> 'v memory \<Rightarrow> 'v cached_text option \<times> 'v memory" where
  "mem_live key t m = (case m key of
     None \<Rightarrow> (None, m)
   | Some (val, expires) \<Rightarrow> if expires \<le> t then (None, m(key := None)) else (Some val, m))"

definition mem_get :: "string \<Rightarrow> int \<Rightarrow> 'v memory \<Rightarrow> (exc + 'v cached_text option) \<times> 'v memory" where
  "mem_get key t m = (case mem_live key t m of (v, m') \<Rightarrow> (Inr v, m'))"

definition mem_set :: "string \<Rightarrow> 'v cached_text \<Rightarrow> int \<Rightarrow> int \<Rightarrow> 'v memory \<Rightarrow> (exc + unit) \<times> 'v memory" where
  "mem_set key val ttl t m = (Inr (), m(key \<mapsto> (val, t + ttl * second_us)))"

definition mem_delete :: "string \<Rightarrow> int \<Rightarrow> 'v memory \<Rightarrow> (exc + unit) \<times> 'v memory" where
  "mem_delete key t m = (Inr (), m(key := None))"

definition mem_incr :: "string \<Rightarrow> int \<Rightarrow> int \<Rightarrow> 'v memory \<Rightarrow> (exc + int) \<times> 'v memory" where
  "mem_incr key ttl t m = (case mem_live key t m of
     (None, m') \<Rightarrow> (Inr 1, m'(key \<mapsto> (Num 1, t + ttl * second_us)))
   | (Some cur, m') \<Rightarrow> (case int_of_text cur of
       Inl e \<Rightarrow> (Inl e, m')
     | Inr n \<Rightarrow> (Inr (n + 1), m'(key \<mapsto> (Num (n + 1), snd (the (m' key)))))))"

text \<open>\<open>int(self._live(key) or 0)\<close>.\<close>

definition mem_get_int :: "string \<Rightarrow> int \<Rightarrow> 'v memory \<Rightarrow> (exc + int) \<times> 'v memory" where
  "mem_get_int key t m = (case mem_live key t m of
     (None, m') \<Rightarrow> (Inr 0, m')
   | (Some v, m') \<Rightarrow> (if v = Garbage '''' then Inr 0 else int_of_text v, m'))"

definition InMemoryBackend :: "('v memory, 'v) cache_backend" where
  "InMemoryBackend = \<lparr>cb_get = mem_get, cb_set = mem_set, cb_delete = mem_delete,
     cb_incr = mem_incr, cb_get_int = mem_get_int\<rparr>"

section \<open>The Redis backend\<close>

text \<open>
  The commands of the Redis client: GET, SET with EX, DEL, INCR, TTL and EXPIRE. Each may
  fail (a timeout, a lost connection) and works on the server's own state.
\<close>

record ('c, 'v) redis =
  rd_get :: "string \<Rightarrow> int \<Rightarrow> 'c \<Rightarrow> (exc + 'v cached_text option) \<times> 'c"
  rd_set_ex :: "string \<Rightarrow> 'v cached_text \<Rightarrow> int \<Rightarrow> int \<Rightarrow> 'c \<Rightarrow> (exc + unit) \<times> 'c"
  rd_delete :: "string \<Rightarrow> int \<Rightarrow> 'c \<Rightarrow> (exc + unit) \<times> 'c"
  rd_incr :: "string \<Rightarrow> int \<Rightarrow> 'c \<Rightarrow> (exc + int) \<times> 'c"
  rd_ttl :: "string \<Rightarrow> int \<Rightarrow> 'c \<Rightarrow> (exc + int) \<times> 'c"
  rd_expire :: "string \<Rightarrow> int \<Rightarrow> int \<Rightarrow> 'c \<Rightarrow> (exc + unit) \<times> 'c"

definition redis_incr :: "('c, 'v) redis \<Rightarrow> string \<Rightarrow> int \<Rightarrow> int \<Rightarrow> 'c \<Rightarrow> (exc + int) \<times> 'c" where
  "redis_incr R key ttl t =
     and_then (rd_incr R key t) (\<lambda>n.
     and_then (if n = 1 then ret True
       else and_then (rd_ttl R key t) (\<lambda>left. ret (left < 0))) (\<lambda>needs_ttl.
     and_then (only_if needs_ttl (rd_expire R key ttl t)) (\<lambda>_.
     ret n)))"

definition redis_get_int :: "('c, 'v) redis \<Rightarrow> string \<Rightarrow> int \<Rightarrow> 'c \<Rightarrow> (exc + int) \<times> 'c" where
  "redis_get_int R key t =
     and_then (rd_get R key t) (\<lambda>v. case v of
       None \<Rightarrow> ret 0
     | Some x \<Rightarrow> if x = Garbage '''' then ret 0 else lift_result (int_of_text x))"

definition RedisBackend :: "('c, 'v) redis \<Rightarrow> ('c, 'v) cache_backend" where
  "RedisBackend R = \<lparr>cb_get = rd_get R, cb_set = rd_set_ex R, cb_delete = rd_delete R,
     cb_incr = redis_incr R, cb_get_int = redis_get_int R\<rparr>"

section \<open>JSON on top\<close>

text \<open>
  \<open>get_json\<close> and \<open>set_json\<close>. The text of an integer decodes as that integer, which no reader
  of a cached document asked for; it is the \<open>Inr\<close> of the result.
\<close>

definition get_json :: "('c, 'v) cache_backend \<Rightarrow> string \<Rightarrow> int \<Rightarrow> 'c \<Rightarrow> (exc + ('v + int) option) \<times> 'c" where
  "get_json B key t =
     and_then (cb_get B key t) (\<lambda>raw. case raw of
       None \<Rightarrow> ret None
     | Some (Json v) \<Rightarrow> ret (Some (Inl v))
     | Some (Num n) \<Rightarrow> ret (Some (Inr n))
     | Some (Garbage _) \<Rightarrow> ret None)"

definition set_json :: "('c, 'v) cache_backend \<Rightarrow> string \<Rightarrow> 'v \<Rightarrow> int \<Rightarrow> int \<Rightarrow> 'c \<Rightarrow> (exc + unit) \<times> 'c" where
  "set_json B key val ttl t = cb_set B key (Json val) ttl t"

section \<open>A key-value store with expiry\<close>

text \<open>
  \<open>peek c t key\<close> is what a reader would be given at time \<open>t\<close>. An entry is readable until its
  time to live has passed and never after; a delete ends it at once; keys do not interfere.
\<close>

locale kv_store =
  fixes B :: "('c, 'v) cache_backend"
    and peek :: "'c \<Rightarrow> int \<Rightarrow> string \<Rightarrow> 'v cached_text option"
  assumes get_value: "fst (cb_get B k t c) = Inr (peek c t k)"
    and get_frame: "t \<le> t' \<Longrightarrow> peek (snd (cb_get B k t c)) t' k' = peek c t' k'"
    and set_value: "fst (cb_set B k v ttl t c) = Inr ()"
    and set_same: "peek (snd (cb_set B k v ttl t c)) t' k = (if t' < t + ttl * second_us then Some v else None)"
    and set_other: "k \<noteq> k' \<Longrightarrow> peek (snd (cb_set B k v ttl t c)) t' k' = peek c t' k'"
    and delete_value: "fst (cb_delete B k t c) = Inr ()"
    and delete_same: "peek (snd (cb_delete B k t c)) t' k = None"
    and delete_other: "k \<noteq> k' \<Longrightarrow> peek (snd (cb_delete B k t c)) t' k' = peek c t' k'"
    and peek_earlier: "t \<le> t' \<Longrightarrow> peek c t' k = Some v \<Longrightarrow> peek c t k = Some v"
begin

text \<open>What a reader of JSON gets: a document, an integer, or nothing.\<close>

definition decoded :: "'c \<Rightarrow> int \<Rightarrow> string \<Rightarrow> ('v + int) option" where
  "decoded c t k = (case peek c t k of
     Some (Json v) \<Rightarrow> Some (Inl v) | Some (Num n) \<Rightarrow> Some (Inr n) | _ \<Rightarrow> None)"

lemma get_json_value: "fst (get_json B k t c) = Inr (decoded c t k)"
  using get_value [of k t c]
  by (cases "cb_get B k t c")
    (auto simp: get_json_def and_then_def decoded_def split: option.split cached_text.split)

lemma get_json_frame:
  assumes "t \<le> t'"
  shows "peek (snd (get_json B k t c)) t' k' = peek c t' k'"
  using get_frame [OF assms, of k c k'] get_value [of k t c]
  by (cases "cb_get B k t c")
    (auto simp: get_json_def and_then_def split: option.split cached_text.split)

lemma decoded_frame: "t \<le> t' \<Longrightarrow> decoded (snd (get_json B k t c)) t' k' = decoded c t' k'"
  by (simp add: decoded_def get_json_frame)

lemma decoded_earlier: "t \<le> t' \<Longrightarrow> decoded c t k = None \<Longrightarrow> decoded c t' k = None"
  by (auto simp: decoded_def dest: peek_earlier split: option.splits cached_text.splits)

lemma decoded_set:
  "decoded (snd (set_json B k v ttl t c)) t' k' =
     (if k' = k then (if t' < t + ttl * second_us then Some (Inl v) else None) else decoded c t' k')"
  by (auto simp: decoded_def set_json_def set_same set_other)

lemma decoded_delete:
  "decoded (snd (cb_delete B k t c)) t' k' = (if k' = k then None else decoded c t' k')"
  by (auto simp: decoded_def delete_same delete_other)

lemma set_json_then_get:
  assumes "t' < t + ttl * second_us"
  shows "fst (get_json B k t' (snd (set_json B k v ttl t c))) = Inr (Some (Inl v))"
proof -
  have "fst (cb_get B k t' (snd (cb_set B k (Json v) ttl t c))) = Inr (Some (Json v))"
    using assms by (simp add: get_value set_same)
  then show ?thesis
    by (cases "cb_get B k t' (snd (cb_set B k (Json v) ttl t c))")
      (simp add: get_json_def set_json_def and_then_Inr)
qed

lemma get_json_after_delete:
  "fst (get_json B k t' (snd (cb_delete B k t c))) = Inr None"
proof -
  have "fst (cb_get B k t' (snd (cb_delete B k t c))) = Inr None"
    by (simp add: get_value delete_same)
  then show ?thesis
    by (cases "cb_get B k t' (snd (cb_delete B k t c))") (simp add: get_json_def and_then_Inr)
qed

end

definition mem_peek :: "'v memory \<Rightarrow> int \<Rightarrow> string \<Rightarrow> 'v cached_text option" where
  "mem_peek m t key = fst (mem_live key t m)"

lemma mem_peek_eq:
  "mem_peek m t key =
     (case m key of None \<Rightarrow> None | Some (v, e) \<Rightarrow> if t < e then Some v else None)"
  by (simp add: mem_peek_def mem_live_def split: option.split prod.split)

lemma mem_live_frame: "t \<le> t' \<Longrightarrow> mem_peek (snd (mem_live k t m)) t' k' = mem_peek m t' k'"
  by (auto simp: mem_peek_eq mem_live_def split: option.split prod.split)

interpretation mem_kv: kv_store "InMemoryBackend :: ('v memory, 'v) cache_backend" mem_peek
proof
  fix k k' t t' ttl and v :: "'v cached_text" and c :: "'v memory"
  show "fst (cb_get InMemoryBackend k t c) = Inr (mem_peek c t k)"
    by (simp add: InMemoryBackend_def mem_get_def mem_peek_def split: prod.split)
  show "t \<le> t' \<Longrightarrow> mem_peek (snd (cb_get InMemoryBackend k t c)) t' k' = mem_peek c t' k'"
    using mem_live_frame [of t t' k c k']
    by (cases "mem_live k t c") (simp add: InMemoryBackend_def mem_get_def)
qed (auto simp: InMemoryBackend_def mem_set_def mem_delete_def mem_peek_eq split: option.splits if_splits)

section \<open>A counter that lives as long as its window\<close>

text \<open>
  \<open>tally c t k\<close> is the number a reader sees; \<open>sound c k\<close> says that the key holds a number or
  nothing; \<open>lasts c k T\<close> that what it holds stays until \<open>T\<close>. A fixed window ending at \<open>T\<close> is
  counted right when the first increment asks for a time to live that reaches \<open>T\<close>.
\<close>

locale window_counter =
  fixes incr :: "string \<Rightarrow> int \<Rightarrow> int \<Rightarrow> 'c \<Rightarrow> (exc + int) \<times> 'c"
    and tally :: "'c \<Rightarrow> int \<Rightarrow> string \<Rightarrow> int"
    and sound :: "'c \<Rightarrow> string \<Rightarrow> bool"
    and lasts :: "'c \<Rightarrow> string \<Rightarrow> int \<Rightarrow> bool"
  assumes incr_value: "sound c k \<Longrightarrow> fst (incr k ttl t c) = Inr (tally c t k + 1)"
    and incr_sound: "sound c k \<Longrightarrow> sound (snd (incr k ttl t c)) k"
    and incr_tally: "sound c k \<Longrightarrow> lasts (snd (incr k ttl t c)) k T \<Longrightarrow> t' < T \<Longrightarrow>
        tally (snd (incr k ttl t c)) t' k = tally c t k + 1"
    and incr_lasts: "sound c k \<Longrightarrow> t < T \<Longrightarrow> lasts c k T \<or> (tally c t k = 0 \<and> T \<le> t + ttl * second_us) \<Longrightarrow>
        lasts (snd (incr k ttl t c)) k T"
    and incr_other: "k \<noteq> k' \<Longrightarrow> tally (snd (incr k ttl t c)) t' k' = tally c t' k'"
    and incr_other_sound: "k \<noteq> k' \<Longrightarrow> sound (snd (incr k ttl t c)) k' = sound c k'"
    and incr_other_lasts: "k \<noteq> k' \<Longrightarrow> lasts (snd (incr k ttl t c)) k' T = lasts c k' T"
begin

text \<open>\<open>counting c k T n\<close>: until \<open>T\<close> the key counts \<open>n\<close> increments, and goes on counting.\<close>

definition counting :: "'c \<Rightarrow> string \<Rightarrow> int \<Rightarrow> int \<Rightarrow> bool" where
  "counting c k T n \<longleftrightarrow> sound c k \<and> (\<forall>t < T. tally c t k = n) \<and> (lasts c k T \<or> n = 0)"

lemma counting_incr:
  assumes "counting c k T n" "t < T" "T \<le> t + ttl * second_us"
  shows "fst (incr k ttl t c) = Inr (n + 1)" "counting (snd (incr k ttl t c)) k T (n + 1)"
proof -
  have s: "sound c k" and n: "tally c t k = n" using assms(1,2) by (auto simp: counting_def)
  have l: "lasts (snd (incr k ttl t c)) k T"
    using assms n by (intro incr_lasts s) (auto simp: counting_def)
  show "fst (incr k ttl t c) = Inr (n + 1)" using incr_value [OF s] n by simp
  show "counting (snd (incr k ttl t c)) k T (n + 1)"
    using incr_sound [OF s] incr_tally [OF s l] l n by (simp add: counting_def)
qed

lemma counting_other:
  "k \<noteq> k' \<Longrightarrow> counting (snd (incr k ttl t c)) k' T n = counting c k' T n"
  by (simp add: counting_def incr_other incr_other_sound incr_other_lasts)

text \<open>A run of increments at the given times, with the values they returned.\<close>

primrec attempts :: "string \<Rightarrow> (int \<times> int) list \<Rightarrow> 'c \<Rightarrow> (exc + int) list" where
  "attempts k [] c = []"
| "attempts k (a # as) c = fst (incr k (snd a) (fst a) c) # attempts k as (snd (incr k (snd a) (fst a) c))"

lemma attempts_lasting:
  assumes "sound c k" "lasts c k T" "\<And>t. t < T \<Longrightarrow> tally c t k = n" "\<forall>a \<in> set as. fst a < T"
  shows "attempts k as c = map (\<lambda>i. Inr (n + int i + 1)) [0..<length as]"
  using assms
proof (induction as arbitrary: c n)
  case Nil
  then show ?case by simp
next
  case (Cons a as)
  let ?c = "snd (incr k (snd a) (fst a) c)"
  have t: "fst a < T" using Cons.prems(4) by simp
  have l: "lasts ?c k T" using Cons.prems(1,2) t incr_lasts by blast
  have tl: "tally ?c t' k = n + 1" if "t' < T" for t'
    using incr_tally [OF Cons.prems(1) l that] Cons.prems(3) [OF t] by simp
  have "attempts k as ?c = map (\<lambda>i. Inr (n + 1 + int i + 1)) [0..<length as]"
    using Cons.IH [OF incr_sound [OF Cons.prems(1)] l tl] Cons.prems(4) by simp
  then show ?case
    using incr_value [OF Cons.prems(1)] Cons.prems(3) [OF t]
    by (simp del: upt_Suc add: upt_conv_Cons map_Suc_upt [symmetric] comp_def algebra_simps)
qed

text \<open>
  In one window whose first increment sets a time to live that covers it, the \<open>i\<close>-th
  increment returns \<open>i\<close>: so at most \<open>limit\<close> of them return a number up to \<open>limit\<close>.
\<close>

lemma attempts_in_window:
  assumes "sound c k" "\<And>t. t < T \<Longrightarrow> tally c t k = 0"
    and "\<forall>a \<in> set as. fst a < T" "\<forall>a \<in> set as. T \<le> fst a + snd a * second_us"
  shows "attempts k as c = map (\<lambda>i. Inr (int i + 1)) [0..<length as]"
proof (cases as)
  case Nil
  then show ?thesis by simp
next
  case (Cons a bs)
  let ?c = "snd (incr k (snd a) (fst a) c)"
  have t: "fst a < T" "T \<le> fst a + snd a * second_us" using assms(3,4) Cons by auto
  have l: "lasts ?c k T" using assms(1,2) t incr_lasts by blast
  have tl: "tally ?c t' k = 1" if "t' < T" for t'
    using incr_tally [OF assms(1) l that] assms(2) [OF t(1)] by simp
  have "attempts k bs ?c = map (\<lambda>i. Inr (1 + int i + 1)) [0..<length bs]"
    using attempts_lasting [OF incr_sound [OF assms(1)] l tl] assms(3) Cons by simp
  then show ?thesis
    using incr_value [OF assms(1)] assms(2) [OF t(1)] Cons
    by (simp del: upt_Suc add: upt_conv_Cons map_Suc_upt [symmetric] comp_def algebra_simps)
qed

lemma admitted_in_window:
  assumes "sound c k" "\<And>t. t < T \<Longrightarrow> tally c t k = 0"
    and "\<forall>a \<in> set as. fst a < T" "\<forall>a \<in> set as. T \<le> fst a + snd a * second_us" "0 \<le> limit"
  shows "length (filter (\<lambda>r. \<exists>n. r = Inr n \<and> n \<le> limit) (attempts k as c)) = min (length as) (nat limit)"
proof -
  have "filter (\<lambda>r. \<exists>n. r = Inr n \<and> n \<le> limit) (map (\<lambda>i. Inr (int i + 1)) [0..<m]) =
      map (\<lambda>i. (Inr (int i + 1) :: exc + int)) [0..<min m (nat limit)]" for m
  proof (induction m)
    case 0
    show ?case by simp
  next
    case (Suc m)
    have "int m + 1 \<le> limit \<longleftrightarrow> m < nat limit" by linarith
    with Suc show ?case by (simp add: min_def)
  qed
  then show ?thesis by (simp add: attempts_in_window [OF assms(1-4)])
qed

end

definition mem_tally :: "'v memory \<Rightarrow> int \<Rightarrow> string \<Rightarrow> int" where
  "mem_tally m t k = (case mem_peek m t k of Some (Num n) \<Rightarrow> n | _ \<Rightarrow> 0)"

definition mem_sound :: "'v memory \<Rightarrow> string \<Rightarrow> bool" where
  "mem_sound m k \<longleftrightarrow> (case m k of None \<Rightarrow> True | Some (v, e) \<Rightarrow> (\<exists>n. v = Num n \<and> 1 \<le> n))"

definition mem_lasts :: "'v memory \<Rightarrow> string \<Rightarrow> int \<Rightarrow> bool" where
  "mem_lasts m k T \<longleftrightarrow> (case m k of None \<Rightarrow> False | Some (v, e) \<Rightarrow> T \<le> e)"

interpretation mem_counter: window_counter "mem_incr :: string \<Rightarrow> int \<Rightarrow> int \<Rightarrow> 'v memory \<Rightarrow> _"
  mem_tally mem_sound mem_lasts
proof
  fix k k' ttl t t' T and c :: "'v memory"
  show "mem_sound c k \<Longrightarrow> fst (mem_incr k ttl t c) = Inr (mem_tally c t k + 1)"
    by (auto simp: mem_sound_def mem_incr_def mem_tally_def mem_peek_eq mem_live_def split: option.splits)
  show "mem_sound c k \<Longrightarrow> mem_sound (snd (mem_incr k ttl t c)) k"
    by (auto simp: mem_sound_def mem_incr_def mem_live_def split: option.splits)
  show "mem_sound c k \<Longrightarrow> mem_lasts (snd (mem_incr k ttl t c)) k T \<Longrightarrow> t' < T \<Longrightarrow>
      mem_tally (snd (mem_incr k ttl t c)) t' k = mem_tally c t k + 1"
    by (auto simp: mem_sound_def mem_lasts_def mem_incr_def mem_tally_def mem_peek_eq mem_live_def
        split: option.splits if_splits)
  show "mem_sound c k \<Longrightarrow> t < T \<Longrightarrow>
      mem_lasts c k T \<or> mem_tally c t k = 0 \<and> T \<le> t + ttl * second_us \<Longrightarrow>
      mem_lasts (snd (mem_incr k ttl t c)) k T"
    by (auto simp: mem_sound_def mem_lasts_def mem_incr_def mem_tally_def mem_peek_eq mem_live_def
        split: option.splits if_splits)
  show "k \<noteq> k' \<Longrightarrow> mem_tally (snd (mem_incr k ttl t c)) t' k' = mem_tally c t' k'"
    by (auto simp: mem_incr_def mem_tally_def mem_peek_eq mem_live_def
        split: option.splits sum.splits if_splits)
  show "k \<noteq> k' \<Longrightarrow> mem_sound (snd (mem_incr k ttl t c)) k' = mem_sound c k'"
    by (auto simp: mem_incr_def mem_sound_def mem_live_def split: option.splits sum.splits if_splits)
  show "k \<noteq> k' \<Longrightarrow> mem_lasts (snd (mem_incr k ttl t c)) k' T = mem_lasts c k' T"
    by (auto simp: mem_incr_def mem_lasts_def mem_live_def split: option.splits sum.splits if_splits)
qed

end
