(* ===== verification/Session.thy ===== *)
theory Session
  imports Provider Cache
begin

text \<open>
  The world a handler runs in: the provider's state, the cache, the durable database and the
  session's view of it, the invalidation marks of \<open>session.info\<close>, the clock, and the metrics
  counted so far. The operations are those of SQLAlchemy's session as the service uses it
  (\<open>app/db.py\<close>: \<open>autoflush=False\<close>, \<open>expire_on_commit=False\<close>).

  \<^item> An object loaded by a query is a row of the session's view; assigning to its attributes
    is an update of that row, which the next flush checks against the unique constraints.
  \<^item> \<open>db_up\<close> false makes every statement raise, as an unreachable database does.
  \<^item> \<open>locked\<close> lists the customers whose row another transaction holds for longer than
    \<open>lock_timeout\<close>: \<open>SELECT ... FOR UPDATE\<close> of such a row raises.
  \<^item> \<open>rivals\<close> are the transactions of other workers that commit while this one runs: one of
    them lands just before each flush, in order, until the list is empty. A run without
    interference is one with the empty list.
  The clock does not advance inside one handler run.
\<close>

section \<open>State\<close>

record ('r, 'c) world =
  now :: int
  remote :: 'r
  cache :: 'c
  durable :: database
  view :: database
  marks :: "string list"
  db_up :: bool
  locked :: "string list"
  rivals :: "(database \<Rightarrow> database) list"
  fresh_ids :: "nat \<Rightarrow> string"
  next_id :: nat
  metrics :: "(string \<times> string list) list"

type_synonym ('r, 'c, 'a) service = "(('r, 'c) world, exc, 'a) prog"

text \<open>
  A world between two requests, without interference: nothing pending, nothing marked, the
  database reachable.
\<close>

definition idle :: "('r, 'c) world \<Rightarrow> bool" where
  "idle w \<longleftrightarrow> db_up w \<and> rivals w = [] \<and> marks w = [] \<and> view w = durable w \<and> unique_rows (durable w)"

section \<open>Statements\<close>

definition check_db :: "('r, 'c, unit) service" where
  "check_db = and_then (gets db_up) (\<lambda>up. if up then ret () else raise (DatabaseError ''unreachable''))"

definition query :: "(database \<Rightarrow> 'a) \<Rightarrow> ('r, 'c, 'a) service" where
  "query f = and_then check_db (\<lambda>_. gets (\<lambda>w. f (view w)))"

definition update_view :: "(database \<Rightarrow> database) \<Rightarrow> ('r, 'c, unit) service" where
  "update_view f = modify (\<lambda>w. w\<lparr>view := f (view w)\<rparr>)"

text \<open>\<open>result.scalar_one_or_none()\<close>.\<close>

definition scalar_one_or_none :: "'a list \<Rightarrow> ('r, 'c, 'a option) service" where
  "scalar_one_or_none rows = (case rows of
     [] \<Rightarrow> ret None
   | [x] \<Rightarrow> ret (Some x)
   | _ \<Rightarrow> raise MultipleResultsFound)"

definition rival_lands :: "('r, 'c) world \<Rightarrow> ('r, 'c) world" where
  "rival_lands w = (case rivals w of
     [] \<Rightarrow> w
   | f # fs \<Rightarrow> w\<lparr>durable := f (durable w), view := f (view w), rivals := fs\<rparr>)"

definition flush :: "('r, 'c, unit) service" where
  "flush = and_then check_db (\<lambda>_. and_then (modify rival_lands) (\<lambda>_.
     and_then (gets view) (\<lambda>db. if unique_rows db then ret () else raise IntegrityError)))"

section \<open>Transactions\<close>

definition inc :: "string \<Rightarrow> string list \<Rightarrow> ('r, 'c, unit) service" where
  "inc name labels = modify (\<lambda>w. w\<lparr>metrics := metrics w @ [(name, labels)]\<rparr>)"

text \<open>
  The listener \<open>_warn_on_undrained_marks\<close> of \<open>app/services/entitlements.py\<close>, run after every
  commit: marks still on the session are dropped and counted.
\<close>

definition after_commit :: "('r, 'c, unit) service" where
  "after_commit = and_then (gets marks) (\<lambda>left.
     and_then (modify (\<lambda>w. w\<lparr>marks := []\<rparr>)) (\<lambda>_.
     only_if (left \<noteq> []) (inc ''entitlement_invalidations_total'' [''undrained''])))"

definition commit :: "('r, 'c, unit) service" where
  "commit = and_then flush (\<lambda>_.
     and_then (modify (\<lambda>w. w\<lparr>durable := view w\<rparr>)) (\<lambda>_. after_commit))"

text \<open>\<open>session.rollback()\<close>, with the listener \<open>_discard_marks_on_rollback\<close>.\<close>

definition rollback :: "('r, 'c, unit) service" where
  "rollback = modify (\<lambda>w. w\<lparr>view := durable w, marks := []\<rparr>)"

text \<open>
  \<open>async with session.begin_nested()\<close>: a savepoint. Where the block raises, its own writes are
  undone and what other workers committed meanwhile stays visible.
\<close>

definition landed_since :: "('r, 'c) world \<Rightarrow> ('r, 'c) world \<Rightarrow> (database \<Rightarrow> database) list" where
  "landed_since w w' = take (length (rivals w) - length (rivals w')) (rivals w)"

definition begin_nested :: "('r, 'c, 'a) service \<Rightarrow> ('r, 'c, 'a) service" where
  "begin_nested m = (\<lambda>w. case m w of (r, w') \<Rightarrow> (case r of
     Inl e \<Rightarrow> (Inl e, w'\<lparr>view := fold (\<lambda>f db. f db) (landed_since w w') (view w)\<rparr>)
   | Inr a \<Rightarrow> (Inr a, w')))"

text \<open>\<open>get_session\<close>: a request's handler, rolled back where it raised.\<close>

definition request :: "('r, 'c, 'a) service \<Rightarrow> ('r, 'c, 'a) service" where
  "request m = try_except m (\<lambda>e. and_then rollback (\<lambda>_. raise e))"

section \<open>Calls to the provider and the cache\<close>

definition call :: "('r, 'a) call \<Rightarrow> ('r, 'c, 'a) service" where
  "call f = (\<lambda>w. case f (remote w) of (res, r) \<Rightarrow> (res, w\<lparr>remote := r\<rparr>))"

definition cached :: "(int \<Rightarrow> 'c \<Rightarrow> (exc + 'a) \<times> 'c) \<Rightarrow> ('r, 'c, 'a) service" where
  "cached f = (\<lambda>w. case f (now w) (cache w) of (res, c) \<Rightarrow> (res, w\<lparr>cache := c\<rparr>))"

definition clock :: "('r, 'c, int) service" where
  "clock = gets now"

definition fresh_id :: "('r, 'c, string) service" where
  "fresh_id = and_then (gets (\<lambda>w. fresh_ids w (next_id w))) (\<lambda>i.
     and_then (modify (\<lambda>w. w\<lparr>next_id := Suc (next_id w)\<rparr>)) (\<lambda>_. ret i))"

section \<open>How they run\<close>

lemma check_db_apply [simp]:
  "check_db w = (if db_up w then Inr () else Inl (DatabaseError ''unreachable''), w)"
  by (simp add: check_db_def)

lemma query_apply [simp]:
  "query f w = (if db_up w then Inr (f (view w)) else Inl (DatabaseError ''unreachable''), w)"
  by (simp add: query_def and_then_def)

lemma update_view_apply [simp]: "update_view f w = (Inr (), w\<lparr>view := f (view w)\<rparr>)"
  by (simp add: update_view_def)

lemma scalar_apply [simp]:
  "scalar_one_or_none rows w =
     (case rows of [] \<Rightarrow> Inr None | [x] \<Rightarrow> Inr (Some x) | _ \<Rightarrow> Inl MultipleResultsFound, w)"
  by (simp add: scalar_one_or_none_def split: list.split)

lemma inc_apply [simp]: "inc n ls w = (Inr (), w\<lparr>metrics := metrics w @ [(n, ls)]\<rparr>)"
  by (simp add: inc_def)

lemma clock_apply [simp]: "clock w = (Inr (now w), w)"
  by (simp add: clock_def)

lemma fresh_id_apply [simp]:
  "fresh_id w = (Inr (fresh_ids w (next_id w)), w\<lparr>next_id := Suc (next_id w)\<rparr>)"
  by (simp add: fresh_id_def)

lemma rollback_apply [simp]: "rollback w = (Inr (), w\<lparr>view := durable w, marks := []\<rparr>)"
  by (simp add: rollback_def)

lemma call_apply: "call f w = (fst (f (remote w)), w\<lparr>remote := snd (f (remote w))\<rparr>)"
  by (simp add: call_def split: prod.split)

lemma cached_apply: "cached f w = (fst (f (now w) (cache w)), w\<lparr>cache := snd (f (now w) (cache w))\<rparr>)"
  by (simp add: cached_def split: prod.split)

lemma after_commit_apply [simp]:
  "after_commit w = (Inr (), w\<lparr>marks := [],
     metrics := metrics w @ (if marks w = [] then [] else [(''entitlement_invalidations_total'', [''undrained''])])\<rparr>)"
  by (simp add: after_commit_def)

lemma flush_apply:
  "flush w = (if \<not> db_up w then (Inl (DatabaseError ''unreachable''), w)
     else if unique_rows (view (rival_lands w)) then (Inr (), rival_lands w)
     else (Inl IntegrityError, rival_lands w))"
  by (simp add: flush_def and_then_def)

lemma rival_lands_none [simp]: "rivals w = [] \<Longrightarrow> rival_lands w = w"
  by (simp add: rival_lands_def)

lemma flush_alone [simp]:
  "rivals w = [] \<Longrightarrow> db_up w \<Longrightarrow> flush w = (if unique_rows (view w) then Inr () else Inl IntegrityError, w)"
  by (simp add: flush_apply)

lemma flush_down [simp]: "\<not> db_up w \<Longrightarrow> flush w = (Inl (DatabaseError ''unreachable''), w)"
  by (simp add: flush_apply)

lemma commit_alone [simp]:
  "rivals w = [] \<Longrightarrow> db_up w \<Longrightarrow> unique_rows (view w) \<Longrightarrow>
   commit w = (Inr (), w\<lparr>durable := view w, marks := [],
     metrics := metrics w @ (if marks w = [] then [] else [(''entitlement_invalidations_total'', [''undrained''])])\<rparr>)"
  by (simp add: commit_def and_then_def)

lemma commit_down [simp]: "\<not> db_up w \<Longrightarrow> commit w = (Inl (DatabaseError ''unreachable''), w)"
  by (simp add: commit_def and_then_def)

lemma commit_conflict [simp]:
  "rivals w = [] \<Longrightarrow> db_up w \<Longrightarrow> \<not> unique_rows (view w) \<Longrightarrow> commit w = (Inl IntegrityError, w)"
  by (simp add: commit_def and_then_def)

lemma begin_nested_Inr: "m w = (Inr a, w') \<Longrightarrow> begin_nested m w = (Inr a, w')"
  by (simp add: begin_nested_def)

lemma begin_nested_Inl:
  "m w = (Inl e, w') \<Longrightarrow>
   begin_nested m w = (Inl e, w'\<lparr>view := fold (\<lambda>f db. f db) (landed_since w w') (view w)\<rparr>)"
  by (simp add: begin_nested_def)

lemma request_Inr: "m w = (Inr a, w') \<Longrightarrow> request m w = (Inr a, w')"
  by (simp add: request_def try_except_Inr)

lemma request_Inl: "m w = (Inl e, w') \<Longrightarrow> request m w = (Inl e, w'\<lparr>view := durable w', marks := []\<rparr>)"
  by (simp add: request_def try_except_Inl and_then_def)

section \<open>Invariants through the operations\<close>

text \<open>
  An invariant that only reads the session's view and the durable database is kept by every
  operation that leaves both alone.
\<close>

lemma keeps_check_db [keeps_intro]: "keeps P check_db"
  by (simp add: keeps_def)

lemma keeps_query [keeps_intro]: "keeps P (query f)"
  by (simp add: keeps_def)

lemma keeps_scalar [keeps_intro]: "keeps P (scalar_one_or_none rows)"
  by (simp add: keeps_def)

lemma keeps_clock [keeps_intro]: "keeps P clock"
  by (simp add: keeps_def)

lemma keeps_update_view: "(\<And>w. P w \<Longrightarrow> P (w\<lparr>view := f (view w)\<rparr>)) \<Longrightarrow> keeps P (update_view f)"
  by (simp add: keeps_def)

lemma keeps_inc: "(\<And>w. P w \<Longrightarrow> P (w\<lparr>metrics := metrics w @ [(n, ls)]\<rparr>)) \<Longrightarrow> keeps P (inc n ls)"
  by (simp add: keeps_def)

lemma keeps_call: "(\<And>w r. P w \<Longrightarrow> P (w\<lparr>remote := r\<rparr>)) \<Longrightarrow> keeps P (call f)"
  by (simp add: keeps_def call_apply)

lemma keeps_cached: "(\<And>w c. P w \<Longrightarrow> P (w\<lparr>cache := c\<rparr>)) \<Longrightarrow> keeps P (cached f)"
  by (simp add: keeps_def cached_apply)

end
