(* ===== verification/Audit_Trail.thy ===== *)
theory Audit_Trail
  imports Session
begin

text \<open>
  \<open>app/services/audit.py\<close>: the trail of transitions. A row is only ever appended.
\<close>

definition snapshot :: "subscription \<Rightarrow> string \<times> string" where
  "snapshot sub = (tier_col sub, status_col sub)"

definition audit_entry ::
  "int \<Rightarrow> string \<Rightarrow> string option \<times> string option \<Rightarrow> string option \<times> string option \<Rightarrow>
   string \<Rightarrow> string option \<Rightarrow> payload option \<Rightarrow> audit_row" where
  "audit_entry t uid before after reason event detail =
     \<lparr>audit_user = uid, from_tier = fst before, to_tier = fst after,
      from_status = snd before, to_status = snd after, audit_reason = reason,
      audit_event = event, audit_detail = detail, audit_created_at = Aware t\<rparr>"

definition record_audit ::
  "string \<Rightarrow> string option \<times> string option \<Rightarrow> string option \<times> string option \<Rightarrow>
   string \<Rightarrow> string option \<Rightarrow> payload option \<Rightarrow> ('r, 'c, unit) service" where
  "record_audit uid before after reason event detail =
     and_then clock (\<lambda>t. update_view (\<lambda>db. db\<lparr>subscription_audit :=
       subscription_audit db @ [audit_entry t uid before after reason event detail]\<rparr>))"

text \<open>A snapshot as \<open>record\<close> takes it.\<close>

definition some_pair :: "string \<times> string \<Rightarrow> string option \<times> string option" where
  "some_pair p = (Some (fst p), Some (snd p))"

lemma record_audit_apply [simp]:
  "record_audit uid before after reason event detail w =
     (Inr (), w\<lparr>view := (view w)\<lparr>subscription_audit :=
        subscription_audit (view w) @ [audit_entry (now w) uid before after reason event detail]\<rparr>\<rparr>)"
  by (simp add: record_audit_def and_then_def)

lemma some_pair_simps [simp]: "some_pair (a, b) = (Some a, Some b)"
  by (simp add: some_pair_def)

lemma snapshot_eq: "snapshot a = snapshot b \<longleftrightarrow> tier_col a = tier_col b \<and> status_col a = status_col b"
  by (auto simp: snapshot_def)

end
