(* ===== verification/Schemas.thy ===== *)
theory Schemas
  imports Json
begin

text \<open>
  The response models of \<open>app/schemas.py\<close> whose values come from Stripe: what a discount column
  and a price have to be for a response to be built from them. How pydantic reads a JSON value at a
  type is its own code and a parameter here (\<open>pydantic\<close>); what is relied on is that it
  takes a value of the very type (\<open>reads_own_types\<close>). Validation raises \<open>ValidationError\<close>.
\<close>

record pydantic =
  py_str :: "json \<Rightarrow> string option"
  py_int :: "json \<Rightarrow> int option"
  py_float :: "json \<Rightarrow> string option"

text \<open>A float is known by its literal.\<close>

definition reads_own_types :: "pydantic \<Rightarrow> bool" where
  "reads_own_types V \<longleftrightarrow> (\<forall>s. py_str V (JStr s) = Some s) \<and> (\<forall>n. py_int V (JInt n) = Some n) \<and>
     (\<forall>s. py_float V (JDec s) = Some s) \<and> (\<forall>n. \<exists>s. py_float V (JInt n) = Some s)"

text \<open>A field of type \<open>T | None\<close>.\<close>

definition optional_field :: "(json \<Rightarrow> 'a option) \<Rightarrow> json \<Rightarrow> exc + 'a option" where
  "optional_field read v = (if v = JNull then Inr None
     else case read v of Some x \<Rightarrow> Inr (Some x) | None \<Rightarrow> Inl ValidationError)"

section \<open>A discount\<close>

record discount_view =
  dv_coupon_id :: "string option"
  dv_name :: "string option"
  dv_percent_off :: "string option"
  dv_amount_off :: "int option"
  dv_currency :: "string option"
  dv_duration :: "string option"
  dv_duration_in_months :: "int option"
  dv_promotion_code :: "string option"
  dv_ends_at :: "int option"

text \<open>Every field has \<open>None\<close> for its default; a key that is no field is ignored.\<close>

definition Discount :: "pydantic \<Rightarrow> (string \<times> json) list \<Rightarrow> exc + discount_view" where
  "Discount V d =
     bind_result (optional_field (py_str V) (jlookup ''coupon_id'' d)) (\<lambda>coupon.
     bind_result (optional_field (py_str V) (jlookup ''name'' d)) (\<lambda>nam.
     bind_result (optional_field (py_float V) (jlookup ''percent_off'' d)) (\<lambda>percent.
     bind_result (optional_field (py_int V) (jlookup ''amount_off'' d)) (\<lambda>amount.
     bind_result (optional_field (py_str V) (jlookup ''currency'' d)) (\<lambda>cur.
     bind_result (optional_field (py_str V) (jlookup ''duration'' d)) (\<lambda>dur.
     bind_result (optional_field (py_int V) (jlookup ''duration_in_months'' d)) (\<lambda>months.
     bind_result (optional_field (py_str V) (jlookup ''promotion_code'' d)) (\<lambda>code.
     bind_result (optional_field (py_int V) (jlookup ''ends_at'' d)) (\<lambda>ends.
     Inr \<lparr>dv_coupon_id = coupon, dv_name = nam, dv_percent_off = percent, dv_amount_off = amount,
          dv_currency = cur, dv_duration = dur, dv_duration_in_months = months,
          dv_promotion_code = code, dv_ends_at = ends\<rparr>)))))))))"

text \<open>\<open>SubscriptionSummary.discount: Discount | None\<close>, from the column.\<close>

definition discount_field :: "pydantic \<Rightarrow> (string \<times> json) list option \<Rightarrow> exc + discount_view option" where
  "discount_field V column = (case column of None \<Rightarrow> Inr None
     | Some d \<Rightarrow> map_sum id Some (Discount V d))"

section \<open>A price\<close>

record plan_price =
  pp_price_id :: string
  pp_unit_amount :: "int option"
  pp_currency :: "string option"

definition PlanPrice :: "pydantic \<Rightarrow> string \<Rightarrow> json \<Rightarrow> json \<Rightarrow> exc + plan_price" where
  "PlanPrice V pid amount currency =
     bind_result (optional_field (py_int V) amount) (\<lambda>a.
     bind_result (optional_field (py_str V) currency) (\<lambda>c.
     Inr \<lparr>pp_price_id = pid, pp_unit_amount = a, pp_currency = c\<rparr>))"

section \<open>Values of the documented types\<close>

fun text_or_null :: "json \<Rightarrow> bool" where
  "text_or_null JNull = True"
| "text_or_null (JStr _) = True"
| "text_or_null _ = False"

fun whole_or_null :: "json \<Rightarrow> bool" where
  "whole_or_null JNull = True"
| "whole_or_null (JInt _) = True"
| "whole_or_null _ = False"

fun number_or_null :: "json \<Rightarrow> bool" where
  "number_or_null (JDec _) = True"
| "number_or_null v = whole_or_null v"

lemma text_or_null_cases: "text_or_null v \<longleftrightarrow> v = JNull \<or> (\<exists>s. v = JStr s)" by (cases v) simp_all
lemma whole_or_null_cases: "whole_or_null v \<longleftrightarrow> v = JNull \<or> (\<exists>n. v = JInt n)" by (cases v) simp_all
lemma number_or_null_cases: "number_or_null v \<longleftrightarrow> v = JNull \<or> (\<exists>n. v = JInt n) \<or> (\<exists>s. v = JDec s)"
  by (cases v) simp_all

text \<open>The value a field of each kind has, and that reading it succeeds.\<close>

fun text_of :: "json \<Rightarrow> string option" where
  "text_of (JStr s) = Some s"
| "text_of _ = None"

fun whole_of :: "json \<Rightarrow> int option" where
  "whole_of (JInt n) = Some n"
| "whole_of _ = None"

lemma optional_reads:
  assumes "reads_own_types V"
  shows "text_or_null v \<Longrightarrow> optional_field (py_str V) v = Inr (text_of v)"
    and "whole_or_null v \<Longrightarrow> optional_field (py_int V) v = Inr (whole_of v)"
    and "number_or_null v \<Longrightarrow> \<exists>p. optional_field (py_float V) v = Inr p \<and> (p = None \<longleftrightarrow> v = JNull)"
proof -
  have numbers: "\<exists>s. py_float V (JInt n) = Some s" "py_float V (JDec s) = Some s"
    "py_str V (JStr s) = Some s" "py_int V (JInt n) = Some n" for n s
    using assms by (simp_all add: reads_own_types_def)
  show "text_or_null v \<Longrightarrow> optional_field (py_str V) v = Inr (text_of v)"
    by (cases v) (simp_all add: optional_field_def numbers)
  show "whole_or_null v \<Longrightarrow> optional_field (py_int V) v = Inr (whole_of v)"
    by (cases v) (simp_all add: optional_field_def numbers)
  show "number_or_null v \<Longrightarrow> \<exists>p. optional_field (py_float V) v = Inr p \<and> (p = None \<longleftrightarrow> v = JNull)"
    using numbers(1) by (cases v) (auto simp: optional_field_def numbers split: option.split)
qed

text \<open>The nine values the adapter keeps have the types Stripe documents for them.\<close>

definition typed_discount :: "(string \<times> json) list \<Rightarrow> bool" where
  "typed_discount d \<longleftrightarrow>
     list_all (\<lambda>k. text_or_null (jlookup k d)) [''coupon_id'', ''name'', ''currency'', ''duration'', ''promotion_code''] \<and>
     list_all (\<lambda>k. whole_or_null (jlookup k d)) [''amount_off'', ''duration_in_months'', ''ends_at''] \<and>
     number_or_null (jlookup ''percent_off'' d)"

lemma typed_discount_is_read:
  assumes "reads_own_types V" "typed_discount d"
  shows "\<exists>p. Discount V d = Inr
    \<lparr>dv_coupon_id = text_of (jlookup ''coupon_id'' d), dv_name = text_of (jlookup ''name'' d), dv_percent_off = p,
     dv_amount_off = whole_of (jlookup ''amount_off'' d), dv_currency = text_of (jlookup ''currency'' d),
     dv_duration = text_of (jlookup ''duration'' d), dv_duration_in_months = whole_of (jlookup ''duration_in_months'' d),
     dv_promotion_code = text_of (jlookup ''promotion_code'' d), dv_ends_at = whole_of (jlookup ''ends_at'' d)\<rparr> \<and>
    (p = None \<longleftrightarrow> jlookup ''percent_off'' d = JNull)"
  using assms(2) optional_reads(3) [OF assms(1), of "jlookup ''percent_off'' d"]
  by (auto simp: typed_discount_def Discount_def optional_reads(1,2) [OF assms(1)])

lemma typed_price_is_read:
  assumes "reads_own_types V" "whole_or_null amount" "text_or_null currency"
  shows "PlanPrice V pid amount currency = Inr \<lparr>pp_price_id = pid, pp_unit_amount = whole_of amount, pp_currency = text_of currency\<rparr>"
  using assms(2,3) by (simp add: PlanPrice_def optional_reads [OF assms(1)])

text \<open>A reader of values of the very types, and nothing else.\<close>

definition strict_pydantic :: pydantic where
  "strict_pydantic = \<lparr>py_str = text_of, py_int = whole_of,
     py_float = (\<lambda>v. case v of JDec s \<Rightarrow> Some s | JInt n \<Rightarrow> Some (str_int n @ ''.0'') | _ \<Rightarrow> None)\<rparr>"

lemma strict_reads_own_types: "reads_own_types strict_pydantic"
  by (simp add: strict_pydantic_def reads_own_types_def)

end
