(* ===== verification/Documents.thy ===== *)
theory Documents
  imports Models Cache Schemas
begin

text \<open>
  The values the service computes, caches and answers with: \<open>Entitlements\<close> of
  \<open>app/services/entitlements.py\<close> and the response models of \<open>app/schemas.py\<close> the modelled
  handlers build. A cached document stands for its JSON text; pydantic's
  \<open>model_dump(mode="json")\<close> and \<open>model_validate\<close> are inverse to each other on it, and
  validating a document of another shape is a \<open>ValidationError\<close>.
\<close>

section \<open>Entitlements\<close>

datatype source = From_subscription | From_grant | From_default

record entitlements =
  ent_user_id :: string
  ent_tier :: tier
  ent_display_name :: string
  ent_status :: subscription_status
  ent_source :: source
  ent_features :: features
  ent_quotas :: "quota_limit list"
  ent_period_start :: "stamp option"
  ent_period_end :: "stamp option"
  ent_cancel_at_period_end :: bool
  ent_grace_ends_at :: "stamp option"

text \<open>\<open>Entitlements.quota(key)\<close>.\<close>

definition ent_quota :: "entitlements \<Rightarrow> string \<Rightarrow> quota_limit option" where
  "ent_quota e key = List.find (\<lambda>q. ql_key q = key) (ent_quotas e)"

section \<open>Responses\<close>

record quota_state =
  qs_key :: string
  qs_limit :: "int option"
  qs_used :: int
  qs_remaining :: "int option"
  qs_reset_at :: stamp

record entitlement_response =
  er_user_id :: string
  er_tier :: tier
  er_display_name :: string
  er_status :: subscription_status
  er_source :: source
  er_features :: features
  er_quotas :: "quota_state list"
  er_period_end :: "stamp option"
  er_cancel_at_period_end :: bool
  er_grace_ends_at :: "stamp option"

record plan_response =
  pr_tier :: tier
  pr_display_name :: string
  pr_purchasable :: bool
  pr_sales_led :: bool
  pr_features :: features
  pr_quotas :: "quota_limit list"
  pr_prices :: "(billing_interval, plan_price) dict"

section \<open>Cached documents\<close>

datatype document = Doc_entitlements entitlements | Doc_plans "plan_response list"

text \<open>\<open>Entitlements.model_validate(cached)\<close>.\<close>

fun validate_entitlements :: "document + int \<Rightarrow> exc + entitlements" where
  "validate_entitlements (Inl (Doc_entitlements e)) = Inr e"
| "validate_entitlements _ = Inl ValidationError"

end
