(* ===== verification/Entitlements.thy ===== *)
theory Entitlements
  imports Documents Session
begin

text \<open>
  The read path, \<open>app/services/entitlements.py\<close>: what one user may do right now, resolved
  from the subscription row and the grants, cached, and served from a stale copy when the
  database is unreachable; and the discipline of invalidation that write paths follow.

  \<open>entitlements_of\<close> is the pure specification of the resolution; \<open>resolve_from_db_spec\<close>
  shows that the queries compute it. The cache backend is a parameter of the read path, so
  what is proved of it holds for a cache that fails in any way.
\<close>

section \<open>Keys and marks\<close>

definition ent_key :: "string \<Rightarrow> string" where
  "ent_key uid = ''ent:v2:'' @ uid"

definition stale_key :: "string \<Rightarrow> string" where
  "stale_key uid = ''ent:v2:stale:'' @ uid"

definition STALE_TTL :: int where
  "STALE_TTL = 24 * 60 * 60"

definition invalidate_entitlements ::
  "('c, document) cache_backend \<Rightarrow> string \<Rightarrow> ('r, 'c, unit) service" where
  "invalidate_entitlements B uid = cached (cb_delete B (ent_key uid))"

definition mark_entitlements_stale :: "string \<Rightarrow> ('r, 'c, unit) service" where
  "mark_entitlements_stale uid = modify (\<lambda>w. w\<lparr>marks := List.insert uid (marks w)\<rparr>)"

definition invalidate_one :: "('c, document) cache_backend \<Rightarrow> string \<Rightarrow> ('r, 'c, unit) service" where
  "invalidate_one B uid =
     try_except
       (and_then (invalidate_entitlements B uid) (\<lambda>_. inc ''entitlement_invalidations_total'' [''ok'']))
       (\<lambda>_. inc ''entitlement_invalidations_total'' [''failed''])"

definition commit_and_invalidate :: "('c, document) cache_backend \<Rightarrow> ('r, 'c, unit) service" where
  "commit_and_invalidate B =
     and_then (gets marks) (\<lambda>user_ids.
     and_then (modify (\<lambda>w. w\<lparr>marks := []\<rparr>)) (\<lambda>_.
     and_then commit (\<lambda>_.
     for_each (invalidate_one B) user_ids)))"

section \<open>Resolution\<close>

definition grant_applies :: "int \<Rightarrow> entitlement_grant \<Rightarrow> bool" where
  "grant_applies t g \<longleftrightarrow> (case as_utc (expires_at g) of None \<Rightarrow> True | Some e \<Rightarrow> t < ticks e)"

definition active_grant_tier :: "string \<Rightarrow> ('r, 'c, tier option) service" where
  "active_grant_tier uid =
     and_then clock (\<lambda>t.
     and_then (query (\<lambda>db. filter (\<lambda>g. grant_user g = uid \<and> revoked_at g = None) (entitlement_grants db))) (\<lambda>rows.
     and_then (lift_result (map_result (\<lambda>g. Tier_of (grant_tier g)) (filter (grant_applies t) rows))) (\<lambda>tiers.
     ret (case tiers of [] \<Rightarrow> None | x # xs \<Rightarrow> Some (max_key tier_rank x xs)))))"

definition choose_source :: "tier option \<Rightarrow> tier \<Rightarrow> source" where
  "choose_source g subscription_tier =
     (if (case g of None \<Rightarrow> False | Some t \<Rightarrow> tier_rank subscription_tier < tier_rank t) then From_grant
      else if subscription_tier \<noteq> FREE then From_subscription
      else From_default)"

definition resolve_from_db :: "settings \<Rightarrow> string \<Rightarrow> ('r, 'c, entitlements) service" where
  "resolve_from_db S uid =
     and_then (query (\<lambda>db. filter (\<lambda>r. user_id r = uid) (subscriptions db))) (\<lambda>rows.
     and_then (scalar_one_or_none rows) (\<lambda>sub.
     and_then clock (\<lambda>t.
     and_then (case sub of
         None \<Rightarrow> ret (S_FREE, None, None, False, None, FREE)
       | Some row \<Rightarrow>
           and_then (lift_result (SubscriptionStatus_of (status_col row))) (\<lambda>st.
           and_then (if grants_access row \<and> \<not> grace_expired S t row
                     then lift_result (Tier_of (tier_col row)) else ret FREE) (\<lambda>tr.
           ret (st, current_period_start row, current_period_end row, cancel_at_period_end row,
                grace_ends_at S row, tr))))
       (\<lambda>(status, p_start, p_end, cancelling, grace_until, subscription_tier).
     and_then (active_grant_tier uid) (\<lambda>g.
     let effective = (case g of None \<Rightarrow> subscription_tier | Some gt \<Rightarrow> higher_tier subscription_tier gt);
         row = limits_for effective
     in and_then (lift_result (features_of (td_features row))) (\<lambda>fs.
     ret \<lparr>ent_user_id = uid,
          ent_tier = effective,
          ent_display_name = td_display_name row,
          ent_status = status,
          ent_source = choose_source g subscription_tier,
          ent_features = fs,
          ent_quotas = map (\<lambda>(k, q). QuotaLimit_of q) (td_quotas row),
          ent_period_start = as_utc p_start,
          ent_period_end = as_utc p_end,
          ent_cancel_at_period_end = cancelling,
          ent_grace_ends_at = grace_until\<rparr>))))))"

section \<open>Caching\<close>

definition ttl_for :: "settings \<Rightarrow> int \<Rightarrow> entitlements \<Rightarrow> int" where
  "ttl_for S t e = (let ttl = entitlement_cache_ttl S in
     case as_utc (ent_grace_ends_at e) of
       None \<Rightarrow> ttl
     | Some grace_until \<Rightarrow>
         let remaining = ticks grace_until - t in
         if remaining \<le> 0 then ttl
         else if remaining < second_us then 0
         else min ttl (trunc_seconds remaining))"

definition cache_get :: "('c, document) cache_backend \<Rightarrow> string \<Rightarrow> ('r, 'c, (document + int) option) service" where
  "cache_get B key = try_except (cached (get_json B key)) (\<lambda>_. ret None)"

definition cache_set ::
  "('c, document) cache_backend \<Rightarrow> string \<Rightarrow> document \<Rightarrow> int \<Rightarrow> ('r, 'c, unit) service" where
  "cache_set B key val ttl = try_except (cached (set_json B key val ttl)) (\<lambda>_. ret ())"

definition store_answer ::
  "settings \<Rightarrow> ('c, document) cache_backend \<Rightarrow> string \<Rightarrow> entitlements \<Rightarrow> ('r, 'c, entitlements) service" where
  "store_answer S B uid data =
     and_then (inc ''entitlement_cache_total'' [''miss'']) (\<lambda>_.
     and_then clock (\<lambda>t.
     let ttl = ttl_for S t data; payload = Doc_entitlements data in
     and_then (only_if (0 < ttl) (cache_set B (ent_key uid) payload ttl)) (\<lambda>_.
     and_then (cache_set B (stale_key uid) payload STALE_TTL) (\<lambda>_.
     ret data))))"

definition serve_stale ::
  "('c, document) cache_backend \<Rightarrow> string \<Rightarrow> exc \<Rightarrow> ('r, 'c, entitlements) service" where
  "serve_stale B uid e =
     and_then (cache_get B (stale_key uid)) (\<lambda>stale. case stale of
       Some doc \<Rightarrow> and_then (inc ''entitlement_cache_total'' [''stale'']) (\<lambda>_.
         lift_result (validate_entitlements doc))
     | None \<Rightarrow> raise e)"

definition resolve_entitlements ::
  "settings \<Rightarrow> ('c, document) cache_backend \<Rightarrow> string \<Rightarrow> ('r, 'c, entitlements) service" where
  "resolve_entitlements S B uid =
     and_then (cache_get B (ent_key uid)) (\<lambda>hit. case hit of
       Some doc \<Rightarrow> and_then (inc ''entitlement_cache_total'' [''hit'']) (\<lambda>_.
         lift_result (validate_entitlements doc))
     | None \<Rightarrow>
         and_then
           (try_except (and_then (resolve_from_db S uid) (\<lambda>data. ret (data, True)))
             (\<lambda>e. and_then (serve_stale B uid e) (\<lambda>data. ret (data, False))))
           (\<lambda>(data, computed). if computed then store_answer S B uid data else ret data))"

section \<open>Which tier unlocks a feature\<close>

text \<open>\<open>isinstance(available, list) and value in available\<close>, or a boolean feature that is on.\<close>

fun unlocks :: "feature_value option \<Rightarrow> feature_value \<Rightarrow> bool" where
  "unlocks (Some (FList xs)) (FStr s) = (s \<in> set xs)"
| "unlocks (Some (FBool b)) v = (b \<and> (case v of
      FBool c \<Rightarrow> c | FInt n \<Rightarrow> n \<noteq> 0 | FStr s \<Rightarrow> s \<noteq> [] | FList ys \<Rightarrow> ys \<noteq> [] | FNone \<Rightarrow> False))"
| "unlocks _ _ = False"

definition minimum_tier_for_feature :: "string \<Rightarrow> feature_value \<Rightarrow> tier option" where
  "minimum_tier_for_feature name val =
     List.find (\<lambda>t. unlocks (map_of (td_features (limits_for t)) name) val) tiers_by_rank"

section \<open>The specification of the resolution\<close>

definition is_tier :: "string \<Rightarrow> bool" where
  "is_tier v = (case Tier_of v of Inr _ \<Rightarrow> True | Inl _ \<Rightarrow> False)"

definition is_status :: "string \<Rightarrow> bool" where
  "is_status v = (case SubscriptionStatus_of v of Inr _ \<Rightarrow> True | Inl _ \<Rightarrow> False)"

definition decode_tier :: "string \<Rightarrow> tier" where
  "decode_tier v = (case Tier_of v of Inr t \<Rightarrow> t | Inl _ \<Rightarrow> FREE)"

definition decode_status :: "string \<Rightarrow> subscription_status" where
  "decode_status v = (case SubscriptionStatus_of v of Inr s \<Rightarrow> s | Inl _ \<Rightarrow> S_FREE)"

definition columns_ok :: "database \<Rightarrow> bool" where
  "columns_ok db \<longleftrightarrow>
     list_all (\<lambda>r. is_tier (tier_col r) \<and> is_status (status_col r)) (subscriptions db) \<and>
     list_all (\<lambda>g. is_tier (grant_tier g)) (entitlement_grants db)"

definition subscription_of :: "string \<Rightarrow> database \<Rightarrow> subscription option" where
  "subscription_of uid db = List.find (\<lambda>r. user_id r = uid) (subscriptions db)"

text \<open>The tier the subscription pays for now: none once its grace window has closed.\<close>

definition paid_tier :: "settings \<Rightarrow> int \<Rightarrow> string \<Rightarrow> database \<Rightarrow> tier" where
  "paid_tier S t uid db = (case subscription_of uid db of
     None \<Rightarrow> FREE
   | Some r \<Rightarrow> if grants_access r \<and> \<not> grace_expired S t r then decode_tier (tier_col r) else FREE)"

definition active_grants :: "int \<Rightarrow> string \<Rightarrow> database \<Rightarrow> tier list" where
  "active_grants t uid db =
     map (\<lambda>g. decode_tier (grant_tier g))
       (filter (\<lambda>g. grant_user g = uid \<and> revoked_at g = None \<and> grant_applies t g) (entitlement_grants db))"

definition effective_tier :: "settings \<Rightarrow> int \<Rightarrow> string \<Rightarrow> database \<Rightarrow> tier" where
  "effective_tier S t uid db = Max (set (paid_tier S t uid db # active_grants t uid db))"

definition entitlements_of :: "settings \<Rightarrow> int \<Rightarrow> string \<Rightarrow> database \<Rightarrow> entitlements" where
  "entitlements_of S t uid db =
     (let sub = subscription_of uid db; tier = effective_tier S t uid db in
      \<lparr>ent_user_id = uid,
       ent_tier = tier,
       ent_display_name = td_display_name (limits_for tier),
       ent_status = (case sub of None \<Rightarrow> S_FREE | Some r \<Rightarrow> decode_status (status_col r)),
       ent_source = (if paid_tier S t uid db < tier then From_grant
                     else if tier \<noteq> FREE then From_subscription else From_default),
       ent_features = catalog_features tier,
       ent_quotas = catalog_limits tier,
       ent_period_start = as_utc (Option.bind sub current_period_start),
       ent_period_end = as_utc (Option.bind sub current_period_end),
       ent_cancel_at_period_end = (case sub of None \<Rightarrow> False | Some r \<Rightarrow> cancel_at_period_end r),
       ent_grace_ends_at = Option.bind sub (grace_ends_at S)\<rparr>)"

lemma is_tier_iff: "is_tier v \<longleftrightarrow> (\<exists>t. v = tier_value t)"
proof (cases "Tier_of v")
  case (Inl e)
  then have "v \<noteq> tier_value t" for t by (metis Inl_Inr_False Tier_of_value)
  with Inl show ?thesis by (simp add: is_tier_def)
next
  case (Inr t)
  then show ?thesis by (auto simp: is_tier_def)
qed

lemma is_status_iff: "is_status v \<longleftrightarrow> (\<exists>s. v = status_value s)"
proof (cases "SubscriptionStatus_of v")
  case (Inl e)
  then have "v \<noteq> status_value s" for s by (metis Inl_Inr_False SubscriptionStatus_of_value)
  with Inl show ?thesis by (simp add: is_status_def)
next
  case (Inr t)
  then show ?thesis by (auto simp: is_status_def)
qed

lemma is_tier_value [simp]: "is_tier (tier_value t)"
  by (auto simp: is_tier_iff)

lemma is_status_value [simp]: "is_status (status_value s)"
  by (auto simp: is_status_iff)

lemma decode_value [simp]: "decode_tier (tier_value t) = t" "decode_status (status_value s) = s"
  by (simp_all add: decode_tier_def decode_status_def)

lemma Tier_of_is_tier: "is_tier v \<Longrightarrow> Tier_of v = Inr (decode_tier v)"
  by (auto simp: is_tier_iff)

lemma Status_of_is_status: "is_status v \<Longrightarrow> SubscriptionStatus_of v = Inr (decode_status v)"
  by (auto simp: is_status_iff)

lemma filter_key_unique:
  "distinct (map f xs) \<Longrightarrow>
   filter (\<lambda>x. f x = k) xs = (case List.find (\<lambda>x. f x = k) xs of None \<Rightarrow> [] | Some x \<Rightarrow> [x])"
proof (induction xs)
  case Nil
  show ?case by simp
next
  case (Cons a xs)
  show ?case
  proof (cases "f a = k")
    case True
    with Cons.prems have "filter (\<lambda>x. f x = k) xs = []"
      by (auto simp: filter_empty_conv image_iff)
    with True show ?thesis by simp
  next
    case False
    with Cons show ?thesis by simp
  qed
qed

lemma subscription_rows:
  assumes "unique_rows db"
  shows "filter (\<lambda>r. user_id r = uid) (subscriptions db) =
    (case subscription_of uid db of None \<Rightarrow> [] | Some r \<Rightarrow> [r])"
  using assms unfolding subscription_of_def
  by (intro filter_key_unique) (simp add: unique_rows_def unique_subscriptions_def)

lemma subscription_of_in:
  "subscription_of uid db = Some r \<Longrightarrow> r \<in> set (subscriptions db) \<and> user_id r = uid"
  by (auto simp: subscription_of_def dest: find_Some_D)

lemma max_key_Max: "max_key tier_rank x xs = Max (set (x # xs))"
proof (rule sym, rule Max_eqI)
  show "y \<le> max_key tier_rank x xs" if "y \<in> set (x # xs)" for y
    using max_key_ge [of y x xs tier_rank] that by (auto simp: less_eq_tier_def)
  show "max_key tier_rank x xs \<in> set (x # xs)"
    using max_key_in [of tier_rank x xs] by simp
qed simp

lemma active_grant_tier_spec:
  assumes "db_up w" "columns_ok (view w)"
  shows "active_grant_tier uid w =
    (Inr (case active_grants (now w) uid (view w) of [] \<Rightarrow> None | x # xs \<Rightarrow> Some (Max (set (x # xs)))), w)"
proof -
  let ?rows = "filter (\<lambda>g. grant_user g = uid \<and> revoked_at g = None \<and> grant_applies (now w) g)
    (entitlement_grants (view w))"
  have "is_tier (grant_tier g)" if "g \<in> set ?rows" for g
    using assms(2) that by (auto simp: columns_ok_def list_all_iff)
  then have "map_result (\<lambda>g. Tier_of (grant_tier g)) ?rows = Inr (active_grants (now w) uid (view w))"
    unfolding active_grants_def by (intro map_result_total) (auto simp: Tier_of_is_tier)
  moreover have "filter (grant_applies (now w))
      (filter (\<lambda>g. grant_user g = uid \<and> revoked_at g = None) (entitlement_grants (view w))) = ?rows"
    by (auto simp: conj_commute conj_left_commute intro!: filter_cong)
  ultimately show ?thesis
    using assms(1)
    by (simp add: active_grant_tier_def and_then_def max_key_Max del: set_simps split: list.split)
qed

lemma paid_tier_le: "paid_tier S t uid db \<le> effective_tier S t uid db"
  by (simp add: effective_tier_def)

lemma grant_le: "g \<in> set (active_grants t uid db) \<Longrightarrow> g \<le> effective_tier S t uid db"
  by (auto simp: effective_tier_def intro!: Max_ge)

lemma effective_tier_cases:
  "effective_tier S t uid db = (case active_grants t uid db of
     [] \<Rightarrow> paid_tier S t uid db
   | x # xs \<Rightarrow> higher_tier (paid_tier S t uid db) (Max (set (x # xs))))"
  by (auto simp: effective_tier_def higher_tier_max split: list.split)

lemma source_cases:
  assumes "g = (case active_grants t uid db of [] \<Rightarrow> None | x # xs \<Rightarrow> Some (Max (set (x # xs))))"
  shows "choose_source g (paid_tier S t uid db) =
    (if paid_tier S t uid db < effective_tier S t uid db then From_grant
     else if effective_tier S t uid db \<noteq> FREE then From_subscription else From_default)"
proof -
  have some: "choose_source (Some m) p =
      (if p < max p m then From_grant else if max p m \<noteq> FREE then From_subscription else From_default)"
    for m p :: tier
  proof (cases "p < m")
    case True
    then have "max p m = m" by (simp add: max_def less_imp_le)
    with True show ?thesis by (simp add: choose_source_def less_tier_def [symmetric])
  next
    case False
    then have "max p m = p" by (simp add: max_def not_less antisym)
    with False show ?thesis by (simp add: choose_source_def less_tier_def [symmetric])
  qed
  show ?thesis
  proof (cases "active_grants t uid db")
    case Nil
    then show ?thesis by (simp add: assms effective_tier_cases choose_source_def)
  next
    case (Cons x xs)
    then show ?thesis by (simp add: assms effective_tier_cases higher_tier_max some del: set_simps)
  qed
qed

lemma resolve_from_db_spec:
  assumes up: "db_up w" and u: "unique_rows (view w)" and ok: "columns_ok (view w)"
  shows "resolve_from_db S uid w = (Inr (entitlements_of S (now w) uid (view w)), w)"
proof -
  let ?db = "view w" and ?t = "now w"
  define g where "g = (case active_grants ?t uid ?db of [] \<Rightarrow> None | x # xs \<Rightarrow> Some (Max (set (x # xs))))"
  have eff: "(case g of None \<Rightarrow> paid_tier S ?t uid ?db | Some gt \<Rightarrow> higher_tier (paid_tier S ?t uid ?db) gt)
      = effective_tier S ?t uid ?db"
    by (simp add: effective_tier_cases g_def split: list.split)
  note src = source_cases [OF g_def, of S]
  note grants = active_grant_tier_spec [OF up ok, of uid, folded g_def]
  note run = resolve_from_db_def and_then_def up subscription_rows [OF u] entitlements_of_def Let_def
    grants catalog_features_ok catalog_limits_def
  show ?thesis
  proof (cases "subscription_of uid ?db")
    case None
    then have paid: "paid_tier S ?t uid ?db = FREE" by (simp add: paid_tier_def)
    show ?thesis using eff [unfolded paid] src [unfolded paid] by (simp add: run None paid)
  next
    case (Some r)
    then have cols: "is_tier (tier_col r)" "is_status (status_col r)"
      using ok subscription_of_in [OF Some] by (auto simp: columns_ok_def list_all_iff)
    show ?thesis
    proof (cases "grants_access r \<and> \<not> grace_expired S ?t r")
      case True
      then have paid: "paid_tier S ?t uid ?db = decode_tier (tier_col r)"
        by (simp add: paid_tier_def Some)
      show ?thesis using True eff [unfolded paid] src [unfolded paid]
        by (simp add: run Some paid Tier_of_is_tier [OF cols(1)] Status_of_is_status [OF cols(2)])
    next
      case False
      then have paid: "paid_tier S ?t uid ?db = FREE" by (auto simp: paid_tier_def Some)
      show ?thesis using eff [unfolded paid] src [unfolded paid]
        by (simp add: run Some paid if_not_P [OF False] Status_of_is_status [OF cols(2)])
    qed
  qed
qed

lemma resolve_from_db_down: "\<not> db_up w \<Longrightarrow> resolve_from_db S uid w = (Inl (DatabaseError ''unreachable''), w)"
  by (simp add: resolve_from_db_def and_then_def)

end
