(* ===== verification/Subscriptions.thy ===== *)
theory Subscriptions
  imports Audit_Trail Entitlements "HOL-Library.Char_ord" "HOL-Library.List_Lexorder"
begin

text \<open>
  The write path, \<open>app/services/subscriptions.py\<close>: the synchronisation of one customer's row
  with the provider, and the operations a customer starts. A handler holds the row object it
  loaded and assigns to it; in the model it holds the row's value and \<open>save\<close> writes it to
  the session's view.

  \<open>mirrored\<close> is the specification of a synchronised row: what the provider says, in the
  shape of the row. The theorems on the whole operation are in \<open>Sync_Facts\<close>.
\<close>

section \<open>Rows in the session\<close>

definition save :: "subscription \<Rightarrow> ('r, 'c, unit) service" where
  "save sub = update_view (\<lambda>db. db\<lparr>subscriptions := put_subscription sub (subscriptions db)\<rparr>)"

definition ORPHANED_AT :: string where
  "ORPHANED_AT = ''orphaned_at''"

type_synonym fingerprint =
  "string \<times> string \<times> string option \<times> stamp option \<times> stamp option \<times> bool \<times>
   stamp option \<times> stamp option \<times> (string \<times> json) list option"

definition fingerprint :: "subscription \<Rightarrow> fingerprint" where
  "fingerprint sub =
     (tier_col sub, status_col sub, stripe_price_id sub, current_period_start sub,
      current_period_end sub, cancel_at_period_end sub, trial_end sub, past_due_since sub,
      map_option (sort_key fst) (discount sub))"

section \<open>Lookups\<close>

definition get_subscription :: "string \<Rightarrow> ('r, 'c, subscription option) service" where
  "get_subscription uid =
     and_then (query (\<lambda>db. filter (\<lambda>r. user_id r = uid) (subscriptions db))) scalar_one_or_none"

definition get_or_create_subscription :: "string \<Rightarrow> ('r, 'c, subscription) service" where
  "get_or_create_subscription uid =
     and_then (get_subscription uid) (\<lambda>found. case found of
       Some sub \<Rightarrow> ret sub
     | None \<Rightarrow>
         let sub = new_subscription uid in
         and_then (update_view (\<lambda>db. db\<lparr>subscriptions := subscriptions db @ [sub]\<rparr>)) (\<lambda>_.
         and_then flush (\<lambda>_. ret sub)))"

text \<open>
  With \<open>lock\<close>, a row that another transaction holds for longer than the bound of
  \<open>_bound_lock_wait\<close> raises; a customer without a row has nothing to lock.
\<close>

definition find_by_customer :: "string \<Rightarrow> bool \<Rightarrow> ('r, 'c, subscription option) service" where
  "find_by_customer cid lock =
     and_then (query (\<lambda>db. filter (\<lambda>r. stripe_customer_id r = Some cid) (subscriptions db))) (\<lambda>rows.
     and_then (gets locked) (\<lambda>held.
     if lock \<and> rows \<noteq> [] \<and> cid \<in> set held then raise (DatabaseError ''lock timeout'')
     else scalar_one_or_none rows))"

section \<open>Tier resolution\<close>

definition resolve_tier ::
  "settings \<Rightarrow> remote_price option \<Rightarrow> tier option \<times> billing_interval option" where
  "resolve_tier S price = (case price of
     None \<Rightarrow> (None, None)
   | Some p \<Rightarrow>
       (case map_of (price_catalog S) (rp_id p) of
          Some (t, i) \<Rightarrow> (Some t, Some i)
        | None \<Rightarrow>
            if truthy (rp_tier p)
            then (case Tier_of (the (rp_tier p)) of
                    Inr t \<Rightarrow> (Some t, rp_interval p)
                  | Inl _ \<Rightarrow> (None, rp_interval p))
            else (None, rp_interval p)))"

definition belongs_to_this_service :: "settings \<Rightarrow> remote_subscription option \<Rightarrow> bool" where
  "belongs_to_this_service S r = (case r of
     None \<Rightarrow> False
   | Some rem \<Rightarrow> fst (resolve_tier S (rs_price rem)) \<noteq> None)"

section \<open>The mirrored state\<close>

record mirrored_state =
  ms_tier :: tier
  ms_status :: subscription_status
  ms_subscription_id :: "string option"
  ms_price_id :: "string option"
  ms_interval :: "billing_interval option"
  ms_period_start :: "stamp option"
  ms_period_end :: "stamp option"
  ms_cancel_at_period_end :: bool
  ms_trial_end :: "stamp option"
  ms_discount :: "(string \<times> json) list option"

definition NO_SUBSCRIPTION :: mirrored_state where
  "NO_SUBSCRIPTION =
     \<lparr>ms_tier = FREE, ms_status = S_FREE, ms_subscription_id = None, ms_price_id = None,
      ms_interval = None, ms_period_start = None, ms_period_end = None,
      ms_cancel_at_period_end = False, ms_trial_end = None, ms_discount = None\<rparr>"

definition project :: "settings \<Rightarrow> remote_subscription option \<Rightarrow> mirrored_state" where
  "project S r = (case r of
     None \<Rightarrow> NO_SUBSCRIPTION
   | Some rem \<Rightarrow>
       if rs_status rem = S_FREE then NO_SUBSCRIPTION else
       (case resolve_tier S (rs_price rem) of (t, i) \<Rightarrow>
         \<lparr>ms_tier = (if rs_grants_access rem \<and> t \<noteq> None then the t else FREE),
          ms_status = rs_status rem,
          ms_subscription_id = Some (rs_id rem),
          ms_price_id = map_option rp_id (rs_price rem),
          ms_interval = i,
          ms_period_start = rs_period_start rem,
          ms_period_end = rs_period_end rem,
          ms_cancel_at_period_end = rs_cancel_at_period_end rem,
          ms_trial_end = rs_trial_end rem,
          ms_discount = rs_discount rem\<rparr>))"

text \<open>\<open>_write\<close>, with the clock it reads as an argument.\<close>

definition write_state :: "int \<Rightarrow> mirrored_state \<Rightarrow> subscription \<Rightarrow> subscription" where
  "write_state t st sub = sub\<lparr>
     past_due_since :=
       (if ms_status st = PAST_DUE
        then (if past_due_since sub = None then Some (Aware t) else past_due_since sub)
        else None),
     tier_col := tier_value (ms_tier st),
     status_col := status_value (ms_status st),
     stripe_subscription_id := ms_subscription_id st,
     stripe_price_id := ms_price_id st,
     billing_interval_col := map_option interval_value (ms_interval st),
     current_period_start := ms_period_start st,
     current_period_end := ms_period_end st,
     cancel_at_period_end := ms_cancel_at_period_end st,
     trial_end := ms_trial_end st,
     discount := ms_discount st\<rparr>"

definition mirrored :: "settings \<Rightarrow> int \<Rightarrow> remote_subscription option \<Rightarrow> subscription \<Rightarrow> subscription" where
  "mirrored S t r sub = write_state t (project S r) sub"

section \<open>The one sync function\<close>

text \<open>Inserting the row of a customer seen for the first time, or taking the one a rival inserted.\<close>

definition create_or_take :: "string \<Rightarrow> string \<Rightarrow> ('r, 'c, subscription) service" where
  "create_or_take cid uid =
     try_except
       (begin_nested
         (and_then (get_or_create_subscription uid) (\<lambda>sub.
          let sub = sub\<lparr>stripe_customer_id := Some cid\<rparr> in
          and_then (save sub) (\<lambda>_. and_then flush (\<lambda>_. ret sub)))))
       (\<lambda>e. if e \<noteq> IntegrityError then raise e else
         and_then (find_by_customer cid True) (\<lambda>found.
         and_then (case found of Some sub \<Rightarrow> ret (Some sub) | None \<Rightarrow> get_subscription uid) (\<lambda>sub.
         case sub of
           None \<Rightarrow> raise e
         | Some sub \<Rightarrow>
             let sub = sub\<lparr>stripe_customer_id := Some cid\<rparr> in
             and_then (save sub) (\<lambda>_. ret sub))))"

text \<open>The branch without a local row: \<open>None\<close> where the subscription is not ours to record.\<close>

definition adopt_customer ::
  "settings \<Rightarrow> 'r provider \<Rightarrow> string \<Rightarrow> ('r, 'c, (subscription \<times> remote_subscription) option) service" where
  "adopt_customer S PV cid =
     and_then (call (p_fetch_current_subscription PV cid)) (\<lambda>remote.
     if \<not> belongs_to_this_service S remote then ret None else
     let rem = the remote in
     and_then (call (p_retrieve_customer PV cid)) (\<lambda>customer.
     if \<not> truthy (rc_user_id customer) then ret None else
     if truthy (dict_get (rs_metadata rem) ORPHANED_AT) then ret None else
     and_then (create_or_take cid (the (rc_user_id customer))) (\<lambda>sub.
     ret (Some (sub, rem)))))"

text \<open>From the loaded row on: write, count, audit, flush, mark.\<close>

definition write_mirror ::
  "settings \<Rightarrow> string option \<Rightarrow> string \<Rightarrow> subscription \<Rightarrow> remote_subscription option \<Rightarrow>
   ('r, 'c, subscription option) service" where
  "write_mirror S event reason sub answer =
     and_then clock (\<lambda>t.
     let before = snapshot sub;
         sub' = write_state t (project S answer) sub;
         after = snapshot sub';
         changed = (before \<noteq> after)
     in and_then (save sub') (\<lambda>_.
     and_then (only_if changed (inc ''subscription_transitions_total'' [fst before, fst after])) (\<lambda>_.
     and_then (only_if (changed \<or> reason \<noteq> ''stripe.sync'')
       (record_audit (user_id sub') (some_pair before) (some_pair after) reason event
         (Some [(''stripe_subscription_id'', opt_str (stripe_subscription_id sub'))]))) (\<lambda>_.
     and_then flush (\<lambda>_.
     and_then (only_if (fingerprint sub' \<noteq> fingerprint sub) (mark_entitlements_stale (user_id sub'))) (\<lambda>_.
     ret (Some sub')))))))"

definition sync_subscription_from_stripe ::
  "settings \<Rightarrow> 'r provider \<Rightarrow> string \<Rightarrow> string option \<Rightarrow> string \<Rightarrow> ('r, 'c, subscription option) service" where
  "sync_subscription_from_stripe S PV cid event reason =
     and_then (find_by_customer cid True) (\<lambda>found. case found of
       Some sub \<Rightarrow>
         and_then (call (p_fetch_current_subscription PV cid)) (\<lambda>remote.
         write_mirror S event reason sub remote)
     | None \<Rightarrow>
         and_then (adopt_customer S PV cid) (\<lambda>adopted. case adopted of
           None \<Rightarrow> ret None
         | Some (sub, rem) \<Rightarrow> write_mirror S event reason sub (Some rem)))"

definition mark_disputed :: "string \<Rightarrow> string option \<Rightarrow> ('r, 'c, subscription option) service" where
  "mark_disputed cid event =
     and_then (find_by_customer cid False) (\<lambda>found. case found of
       None \<Rightarrow> ret None
     | Some sub \<Rightarrow>
         and_then clock (\<lambda>t.
         let sub' = sub\<lparr>disputed_at := Some (Aware t)\<rparr> in
         and_then (save sub') (\<lambda>_.
         and_then (record_audit (user_id sub') (some_pair (snapshot sub')) (some_pair (snapshot sub'))
           ''charge.dispute.created'' event None) (\<lambda>_.
         and_then flush (\<lambda>_. ret (Some sub'))))))"

end
