(* ===== verification/Sync_Facts.thy ===== *)
theory Sync_Facts
  imports Subscriptions
begin

text \<open>
  What the synchronisation does, on every branch. \<open>sync_world\<close> is the specification of a run
  on a known row: the row becomes \<open>mirrored\<close>, one audit row and one metric follow a change of
  tier or status, and the user is marked when anything the cached payload shows has changed.
\<close>

declare tier_value.simps [simp del] status_value.simps [simp del]

lemma no_access_without_status [simp]: "\<not> status_grants_access S_FREE"
  by (simp add: status_grants_access_def PAID_STATUSES_def)

section \<open>The projected row\<close>

lemma project_status [simp]:
  "ms_status (project S r) = (case r of None \<Rightarrow> S_FREE | Some rem \<Rightarrow> rs_status rem)"
  by (simp add: project_def NO_SUBSCRIPTION_def split: option.split prod.split)

lemma project_tier:
  "ms_tier (project S r) = (case r of
     None \<Rightarrow> FREE
   | Some rem \<Rightarrow> if rs_grants_access rem
       then (case fst (resolve_tier S (rs_price rem)) of Some t \<Rightarrow> t | None \<Rightarrow> FREE) else FREE)"
  by (auto simp: project_def NO_SUBSCRIPTION_def rs_grants_access_def status_grants_access_def
      PAID_STATUSES_def split: option.split prod.split)

lemma project_ended: "rs_status rem = S_FREE \<Longrightarrow> project S (Some rem) = project S None"
  by (simp add: project_def)

lemma mirrored_fields [simp]:
  "user_id (write_state t st sub) = user_id sub"
  "tier_col (write_state t st sub) = tier_value (ms_tier st)"
  "status_col (write_state t st sub) = status_value (ms_status st)"
  "stripe_customer_id (write_state t st sub) = stripe_customer_id sub"
  "stripe_subscription_id (write_state t st sub) = ms_subscription_id st"
  "disputed_at (write_state t st sub) = disputed_at sub"
  "past_due_since (write_state t st sub) =
     (if ms_status st = PAST_DUE
      then (if past_due_since sub = None then Some (Aware t) else past_due_since sub) else None)"
  by (simp_all add: write_state_def)

lemma write_state_again [simp]: "write_state t' st (write_state t st sub) = write_state t st sub"
  by (simp add: write_state_def)

text \<open>
  A row is coherent when its columns name a tier and a status, a tier above free comes with a
  status that grants access, the grace clock runs exactly while the row is past due, and a row
  without a subscription holds nothing of one.
\<close>

definition row_coherent :: "subscription \<Rightarrow> bool" where
  "row_coherent r \<longleftrightarrow>
     is_tier (tier_col r) \<and> is_status (status_col r) \<and>
     (tier_col r \<noteq> tier_value FREE \<longrightarrow> grants_access r) \<and>
     (past_due_since r \<noteq> None \<longleftrightarrow> status_col r = status_value PAST_DUE) \<and>
     (grants_access r \<longrightarrow> stripe_subscription_id r \<noteq> None) \<and>
     (status_col r = status_value S_FREE \<longrightarrow>
        stripe_subscription_id r = None \<and> stripe_price_id r = None \<and> \<not> cancel_at_period_end r)"

lemma new_subscription_coherent [simp]: "row_coherent (new_subscription uid)"
  by (simp add: row_coherent_def new_subscription_def grants_access_iff)

lemma mirrored_coherent [simp]: "row_coherent (write_state t (project S r) sub)"
proof (cases r)
  case None
  then show ?thesis
    by (simp add: row_coherent_def write_state_def project_def NO_SUBSCRIPTION_def)
next
  case (Some rem)
  show ?thesis
  proof (cases "rs_status rem = S_FREE")
    case True
    then show ?thesis
      by (simp add: Some row_coherent_def write_state_def project_def NO_SUBSCRIPTION_def)
  next
    case False
    obtain ot i where "resolve_tier S (rs_price rem) = (ot, i)" by fastforce
    with False show ?thesis
      by (simp add: Some row_coherent_def write_state_def project_def rs_grants_access_def)
  qed
qed

section \<open>A run on a known row\<close>

definition synced_db ::
  "settings \<Rightarrow> int \<Rightarrow> string option \<Rightarrow> string \<Rightarrow> subscription \<Rightarrow> remote_subscription option \<Rightarrow>
   database \<Rightarrow> database" where
  "synced_db S t event reason sub ans db =
     (let sub' = mirrored S t ans sub in
      db\<lparr>subscriptions := put_subscription sub' (subscriptions db),
         subscription_audit := subscription_audit db @
           (if snapshot sub' \<noteq> snapshot sub \<or> reason \<noteq> ''stripe.sync''
            then [audit_entry t (user_id sub) (some_pair (snapshot sub)) (some_pair (snapshot sub'))
                    reason event (Some [(''stripe_subscription_id'', opt_str (stripe_subscription_id sub'))])]
            else [])\<rparr>)"

definition sync_world ::
  "settings \<Rightarrow> string option \<Rightarrow> string \<Rightarrow> subscription \<Rightarrow> remote_subscription option \<Rightarrow>
   ('r, 'c) world \<Rightarrow> ('r, 'c) world" where
  "sync_world S event reason sub ans w =
     (let sub' = mirrored S (now w) ans sub in
      w\<lparr>view := synced_db S (now w) event reason sub ans (view w),
        marks := (if fingerprint sub' \<noteq> fingerprint sub then List.insert (user_id sub) (marks w) else marks w),
        metrics := metrics w @ (if snapshot sub' \<noteq> snapshot sub
          then [(''subscription_transitions_total'', [tier_col sub, tier_col sub'])] else [])\<rparr>)"

lemma write_mirror_alone:
  assumes "db_up w" "rivals w = []" "unique_rows (synced_db S (now w) event reason sub ans (view w))"
  shows "write_mirror S event reason sub ans w =
    (Inr (Some (mirrored S (now w) ans sub)), sync_world S event reason sub ans w)"
proof -
  have fl: "flush w' = (Inr (), w')"
    if "db_up w'" "rivals w' = []" "unique_rows (view w')" for w' :: "('r, 'c) world"
    using that by simp
  show ?thesis
    using assms
    by (auto simp: write_mirror_def and_then_def save_def Let_def mirrored_def sync_world_def
        synced_db_def snapshot_def mark_entitlements_stale_def fl)
qed

lemma write_mirror_conflict:
  assumes "db_up w" "rivals w = []" "\<not> unique_rows (synced_db S (now w) event reason sub ans (view w))"
  shows "fst (write_mirror S event reason sub ans w) = Inl IntegrityError"
  using assms
  by (auto simp: write_mirror_def and_then_def save_def Let_def mirrored_def
      synced_db_def snapshot_def mark_entitlements_stale_def)

lemma in_map_filter: "y \<in> set (List.map_filter f xs) \<longleftrightarrow> (\<exists>x \<in> set xs. f x = Some y)"
  by (induction xs) (auto simp: map_filter_simps split: option.splits)

lemma filter_column_unique:
  assumes "distinct (List.map_filter f xs)" "x \<in> set xs" "f x = Some k"
  shows "filter (\<lambda>r. f r = Some k) xs = [x]"
  using assms
proof (induction xs)
  case Nil
  then show ?case by simp
next
  case (Cons a xs)
  show ?case
  proof (cases "f a = Some k")
    case True
    then have "k \<notin> set (List.map_filter f xs)" using Cons.prems(1) by (simp add: map_filter_simps)
    then have "\<forall>r \<in> set xs. f r \<noteq> Some k" by (auto simp: in_map_filter)
    then show ?thesis using Cons.prems(2,3) True by (auto simp: filter_empty_conv)
  next
    case False
    then show ?thesis using Cons by (auto simp: map_filter_simps split: option.splits)
  qed
qed

lemma customer_rows:
  assumes "unique_rows db" "sub \<in> set (subscriptions db)" "stripe_customer_id sub = Some cid"
  shows "filter (\<lambda>r. stripe_customer_id r = Some cid) (subscriptions db) = [sub]"
  using assms filter_column_unique [of stripe_customer_id "subscriptions db" sub cid]
  by (simp add: unique_rows_def unique_subscriptions_def)

lemma find_by_customer_found:
  assumes "db_up w" "unique_rows (view w)" "sub \<in> set (subscriptions (view w))"
    and "stripe_customer_id sub = Some cid" "lock \<longrightarrow> cid \<notin> set (locked w)"
  shows "find_by_customer cid lock w = (Inr (Some sub), w)"
  using assms by (simp add: find_by_customer_def and_then_def customer_rows)

lemma find_by_customer_none:
  assumes "db_up w" "\<forall>r \<in> set (subscriptions (view w)). stripe_customer_id r \<noteq> Some cid"
  shows "find_by_customer cid lock w = (Inr None, w)"
proof -
  have "filter (\<lambda>r. stripe_customer_id r = Some cid) (subscriptions (view w)) = []"
    using assms(2) by (simp add: filter_empty_conv)
  with assms(1) show ?thesis by (simp add: find_by_customer_def and_then_def)
qed

lemma find_by_customer_held:
  assumes "db_up w" "sub \<in> set (subscriptions (view w))" "stripe_customer_id sub = Some cid"
    and "cid \<in> set (locked w)"
  shows "find_by_customer cid True w = (Inl (DatabaseError ''lock timeout''), w)"
proof -
  have "filter (\<lambda>r. stripe_customer_id r = Some cid) (subscriptions (view w)) \<noteq> []"
    using assms(2,3) by (auto simp: filter_empty_conv)
  with assms show ?thesis by (simp add: find_by_customer_def and_then_def)
qed

text \<open>The hypotheses of a run without interference on the row of a customer.\<close>

definition ready :: "string \<Rightarrow> subscription \<Rightarrow> ('r, 'c) world \<Rightarrow> bool" where
  "ready cid sub w \<longleftrightarrow>
     db_up w \<and> rivals w = [] \<and> cid \<notin> set (locked w) \<and> unique_rows (view w) \<and>
     sub \<in> set (subscriptions (view w)) \<and> stripe_customer_id sub = Some cid"

lemma sync_known_spec:
  assumes "ready cid sub w" "p_fetch_current_subscription PV cid (remote w) = (Inr ans, r')"
    and "unique_rows (synced_db S (now w) event reason sub ans (view w))"
  shows "sync_subscription_from_stripe S PV cid event reason w =
    (Inr (Some (mirrored S (now w) ans sub)), sync_world S event reason sub ans (w\<lparr>remote := r'\<rparr>))"
proof -
  have "find_by_customer cid True w = (Inr (Some sub), w)"
    using assms(1) by (simp add: ready_def find_by_customer_found)
  then show ?thesis
    using assms write_mirror_alone [of "w\<lparr>remote := r'\<rparr>" S event reason sub ans]
    by (simp add: sync_subscription_from_stripe_def and_then_def call_apply ready_def)
qed

lemma sync_fetch_failed:
  assumes "ready cid sub w" "p_fetch_current_subscription PV cid (remote w) = (Inl e, r')"
  shows "sync_subscription_from_stripe S PV cid event reason w = (Inl e, w\<lparr>remote := r'\<rparr>)"
proof -
  have "find_by_customer cid True w = (Inr (Some sub), w)"
    using assms(1) by (simp add: ready_def find_by_customer_found)
  then show ?thesis
    using assms by (simp add: sync_subscription_from_stripe_def and_then_def call_apply)
qed

lemma put_self:
  assumes "unique_rows db" "sub \<in> set (subscriptions db)"
  shows "put_subscription sub (subscriptions db) = subscriptions db"
  using assms by (intro put_same) (auto simp: unique_rows_def unique_subscriptions_def)

lemma synced_row_present:
  assumes "sub \<in> set (subscriptions db)"
  shows "mirrored S t ans sub \<in> set (subscriptions (synced_db S t event reason sub ans db))"
  using assms by (auto simp: synced_db_def Let_def mirrored_def set_put_subscription image_iff)

lemma ready_after:
  assumes "ready cid sub w" "unique_rows (synced_db S (now w) event reason sub ans (view w))"
  shows "ready cid (mirrored S (now w) ans sub) (sync_world S event reason sub ans w)"
  using assms synced_row_present [of sub "view w" S "now w" ans event reason]
  by (auto simp: ready_def sync_world_def Let_def mirrored_def)

text \<open>A second run that hears the same answer writes nothing, whenever it happens.\<close>

lemma sync_world_again:
  assumes "unique_rows (view w)" "sub \<in> set (subscriptions (view w))"
    and "mirrored S (now w) ans sub = sub"
  shows "sync_world S event ''stripe.sync'' sub ans w = w"
  using assms by (simp add: sync_world_def synced_db_def Let_def put_self)

section \<open>When the answer fits the table\<close>

text \<open>Another customer's row holds the subscription the provider answers with: the flush would refuse it.\<close>

definition held_elsewhere :: "remote_subscription option \<Rightarrow> subscription \<Rightarrow> database \<Rightarrow> bool" where
  "held_elsewhere ans sub db \<longleftrightarrow> (case ans of
     None \<Rightarrow> False
   | Some rem \<Rightarrow> list_ex (\<lambda>r. user_id r \<noteq> user_id sub \<and> stripe_subscription_id r = Some (rs_id rem)) (subscriptions db))"

lemma distinct_columnD:
  "distinct (List.map_filter f xs) \<Longrightarrow> x \<in> set xs \<Longrightarrow> y \<in> set xs \<Longrightarrow> f x = Some v \<Longrightarrow> f y = Some v \<Longrightarrow> x = y"
proof -
  assume a: "distinct (List.map_filter f xs)" "x \<in> set xs" "y \<in> set xs" "f x = Some v" "f y = Some v"
  show "x = y"
    using filter_column_unique [OF a(1,2,4)] filter_column_unique [OF a(1,3,5)] by simp
qed

lemma distinct_columnI:
  assumes "distinct (map k xs)" "\<And>x y v. x \<in> set xs \<Longrightarrow> y \<in> set xs \<Longrightarrow> f x = Some v \<Longrightarrow> f y = Some v \<Longrightarrow> k x = k y"
  shows "distinct (List.map_filter f xs)"
  using assms
proof (induction xs)
  case Nil
  then show ?case by (simp add: map_filter_simps)
next
  case (Cons a xs)
  have "distinct (List.map_filter f xs)" using Cons by simp
  moreover have "v \<notin> set (List.map_filter f xs)" if "f a = Some v" for v
  proof
    assume "v \<in> set (List.map_filter f xs)"
    then obtain y where "y \<in> set xs" "f y = Some v" by (auto simp: in_map_filter)
    with Cons.prems(2) [of a y v] that Cons.prems(1) show False by (auto simp: image_iff)
  qed
  ultimately show ?case by (simp add: map_filter_simps split: option.split)
qed

lemma unique_put_subscription:
  assumes "unique_subscriptions rows" "sub \<in> set rows" "user_id sub' = user_id sub"
    and "stripe_customer_id sub' = stripe_customer_id sub"
    and "\<And>r v. r \<in> set rows \<Longrightarrow> user_id r \<noteq> user_id sub \<Longrightarrow> stripe_subscription_id sub' = Some v \<Longrightarrow> stripe_subscription_id r \<noteq> Some v"
  shows "unique_subscriptions (put_subscription sub' rows)"
proof -
  have old: "distinct (map user_id rows)" "distinct (List.map_filter stripe_customer_id rows)"
    "distinct (List.map_filter stripe_subscription_id rows)"
    using assms(1) by (simp_all add: unique_subscriptions_def)
  have users: "distinct (map user_id (put_subscription sub' rows))" using old(1) by simp
  have member: "r = sub' \<or> r \<in> set rows \<and> user_id r \<noteq> user_id sub" if "r \<in> set (put_subscription sub' rows)" for r
    using that assms(3) by (auto simp: set_put_subscription split: if_splits)
  have "distinct (List.map_filter stripe_customer_id (put_subscription sub' rows))"
  proof (rule distinct_columnI [OF users])
    fix x y v
    assume "x \<in> set (put_subscription sub' rows)" "y \<in> set (put_subscription sub' rows)"
      "stripe_customer_id x = Some v" "stripe_customer_id y = Some v"
    then show "user_id x = user_id y"
      using member distinct_columnD [OF old(2)] assms(2-4) by metis
  qed
  moreover have "distinct (List.map_filter stripe_subscription_id (put_subscription sub' rows))"
  proof (rule distinct_columnI [OF users])
    fix x y v
    assume "x \<in> set (put_subscription sub' rows)" "y \<in> set (put_subscription sub' rows)"
      "stripe_subscription_id x = Some v" "stripe_subscription_id y = Some v"
    then show "user_id x = user_id y"
      using member distinct_columnD [OF old(3)] assms(5) by metis
  qed
  ultimately show ?thesis using users by (simp add: unique_subscriptions_def)
qed

lemma mirrored_subscription_id:
  "stripe_subscription_id (mirrored S t ans sub) = Some v \<Longrightarrow> \<exists>rem. ans = Some rem \<and> rs_id rem = v"
  by (auto simp: mirrored_def write_state_def project_def NO_SUBSCRIPTION_def split: option.splits prod.splits if_splits)

lemma synced_unique:
  assumes "unique_rows db" "sub \<in> set (subscriptions db)" "\<not> held_elsewhere ans sub db"
  shows "unique_rows (synced_db S t event reason sub ans db)"
proof -
  have "unique_subscriptions (put_subscription (mirrored S t ans sub) (subscriptions db))"
  proof (rule unique_put_subscription)
    show "unique_subscriptions (subscriptions db)" using assms(1) by (simp add: unique_rows_def)
    show "sub \<in> set (subscriptions db)" by fact
    show "stripe_subscription_id r \<noteq> Some v"
      if "r \<in> set (subscriptions db)" "user_id r \<noteq> user_id sub" "stripe_subscription_id (mirrored S t ans sub) = Some v" for r v
      using that assms(3) mirrored_subscription_id [OF that(3)] by (auto simp: held_elsewhere_def list_ex_iff)
  qed (simp_all add: mirrored_def)
  with assms(1) show ?thesis by (simp add: synced_db_def Let_def unique_rows_def)
qed

section \<open>Every other branch\<close>

lemma sync_held:
  assumes "db_up w" "sub \<in> set (subscriptions (view w))" "stripe_customer_id sub = Some cid"
    and "cid \<in> set (locked w)"
  shows "sync_subscription_from_stripe S PV cid event reason w = (Inl (DatabaseError ''lock timeout''), w)"
  using find_by_customer_held [OF assms] by (simp add: sync_subscription_from_stripe_def and_then_def)

text \<open>A customer with no row: whose subscription is ours is decided by the price alone.\<close>

definition unknown :: "string \<Rightarrow> ('r, 'c) world \<Rightarrow> bool" where
  "unknown cid w \<longleftrightarrow> db_up w \<and> (\<forall>r \<in> set (subscriptions (view w)). stripe_customer_id r \<noteq> Some cid)"

lemma sync_foreign:
  assumes "unknown cid w" "p_fetch_current_subscription PV cid (remote w) = (Inr ans, r')"
    and "\<not> belongs_to_this_service S ans"
  shows "sync_subscription_from_stripe S PV cid event reason w = (Inr None, w\<lparr>remote := r'\<rparr>)"
  using assms
  by (simp add: unknown_def sync_subscription_from_stripe_def and_then_def find_by_customer_none
      adopt_customer_def call_apply)

lemma sync_no_user:
  assumes "unknown cid w" "p_fetch_current_subscription PV cid (remote w) = (Inr (Some rem), r1)"
    and "p_retrieve_customer PV cid r1 = (Inr c, r2)"
    and "\<not> truthy (rc_user_id c) \<or> truthy (map_of (rs_metadata rem) ORPHANED_AT)"
  shows "\<exists>r'. sync_subscription_from_stripe S PV cid event reason w = (Inr None, w\<lparr>remote := r'\<rparr>)"
  using assms
  by (cases "belongs_to_this_service S (Some rem)")
    (auto simp: unknown_def sync_subscription_from_stripe_def and_then_def find_by_customer_none
      adopt_customer_def call_apply)

text \<open>
  The value a run returns is the mirror of the provider's answer, in every world: with other
  workers interfering, with a row or without one.
\<close>

lemma write_mirror_returns:
  assumes "write_mirror S event reason sub ans w = (Inr r, w')"
  shows "r = Some (mirrored S (now w) ans sub)"
  using assms by (auto simp: write_mirror_def and_then_returns Let_def mirrored_def)

lemma find_by_customer_frame: "snd (find_by_customer cid lock w) = w"
  by (simp add: find_by_customer_def and_then_def split: list.split)

lemma keeps_now_flush: "keeps (\<lambda>w. now w = t) flush"
  by (auto simp: keeps_def flush_apply rival_lands_def split: list.split)

lemma get_subscription_frame: "snd (get_subscription uid w) = w"
  by (simp add: get_subscription_def and_then_def split: list.split)

lemma keeps_frame: "(\<And>w. snd (m w) = w) \<Longrightarrow> keeps P m"
  by (simp add: keeps_def)

lemma keeps_begin_nested:
  assumes "keeps P m"
    and "\<And>w w'. P w \<Longrightarrow> P w' \<Longrightarrow> P (w'\<lparr>view := fold (\<lambda>f db. f db) (landed_since w w') (view w)\<rparr>)"
  shows "keeps P (begin_nested m)"
  using assms by (fastforce simp: keeps_def begin_nested_def split: prod.splits sum.splits)

lemma keeps_now_create: "keeps (\<lambda>w. now w = t) (create_or_take cid uid)"
  unfolding create_or_take_def get_or_create_subscription_def save_def Let_def
  by (intro keeps_intro keeps_begin_nested keeps_update_view keeps_now_flush
      keeps_frame find_by_customer_frame get_subscription_frame) simp_all

lemma adopt_customer_returns:
  assumes "adopt_customer S PV cid w = (Inr (Some (sub, rem)), u)"
  shows "\<exists>ans r1. p_fetch_current_subscription PV cid (remote w) = (Inr ans, r1) \<and>
    belongs_to_this_service S ans \<and> rem = the ans \<and> now u = now w"
proof -
  obtain ans r1 where fetch: "p_fetch_current_subscription PV cid (remote w) = (Inr ans, r1)"
    using assms by (cases "p_fetch_current_subscription PV cid (remote w)")
      (auto simp: adopt_customer_def and_then_returns call_apply)
  have b: "belongs_to_this_service S ans"
    using assms by (cases "belongs_to_this_service S ans")
      (simp_all add: adopt_customer_def and_then_def call_apply fetch)
  from assms obtain c r2 uid where
    "create_or_take cid uid (w\<lparr>remote := r2\<rparr>) = (Inr sub, u)" "rem = the ans"
    by (auto simp: adopt_customer_def and_then_returns call_apply fetch b Let_def split: if_splits)
  moreover have "now u = now w"
    using keepsD [OF keeps_now_create [of "now w"] _ calculation(1)] by simp
  ultimately show ?thesis using fetch b by blast
qed

lemma sync_returns_mirror:
  assumes "sync_subscription_from_stripe S PV cid event reason w = (Inr (Some s), w')"
  shows "\<exists>ans r' sub. p_fetch_current_subscription PV cid (remote w) = (Inr ans, r') \<and>
    s = mirrored S (now w) ans sub"
proof -
  obtain found u where f: "find_by_customer cid True w = (Inr found, u)"
    using assms by (auto simp: sync_subscription_from_stripe_def and_then_returns)
  with find_by_customer_frame [of cid True w] have [simp]: "u = w" by simp
  show ?thesis
  proof (cases found)
    case (Some sub)
    then show ?thesis using assms f
      by (cases "p_fetch_current_subscription PV cid (remote w)")
        (auto simp: sync_subscription_from_stripe_def and_then_returns call_apply
          dest!: write_mirror_returns)
  next
    case None
    then obtain sub rem u' where a: "adopt_customer S PV cid w = (Inr (Some (sub, rem)), u')"
      and m: "write_mirror S event reason sub (Some rem) u' = (Inr (Some s), w')"
      using assms f
      by (auto simp: sync_subscription_from_stripe_def and_then_returns split: option.splits)
    from adopt_customer_returns [OF a] obtain ans r1
      where fetch: "p_fetch_current_subscription PV cid (remote w) = (Inr ans, r1)"
      and b: "belongs_to_this_service S ans" "rem = the ans" and t: "now u' = now w" by blast
    have "Some rem = ans" using b by (cases ans) (auto simp: belongs_to_this_service_def)
    with m t fetch show ?thesis by (fastforce dest: write_mirror_returns)
  qed
qed

lemma mirrored_access:
  "grants_access (mirrored S t ans sub) \<longleftrightarrow> (\<exists>rem. ans = Some rem \<and> rs_grants_access rem)"
  by (cases ans) (auto simp: mirrored_def rs_grants_access_def)

lemma mirrored_tier:
  "tier_col (mirrored S t ans sub) = tier_value tr \<longleftrightarrow>
     tr = (case ans of
       Some rem \<Rightarrow> if rs_grants_access rem
         then (case fst (resolve_tier S (rs_price rem)) of Some t \<Rightarrow> t | None \<Rightarrow> FREE) else FREE
     | None \<Rightarrow> FREE)"
  by (auto simp: mirrored_def project_tier)

section \<open>A customer's first row\<close>

definition first_row :: "string \<Rightarrow> string \<Rightarrow> subscription" where
  "first_row cid uid = (new_subscription uid)\<lparr>stripe_customer_id := Some cid\<rparr>"

definition add_row :: "subscription \<Rightarrow> database \<Rightarrow> database" where
  "add_row sub db = db\<lparr>subscriptions := subscriptions db @ [sub]\<rparr>"

lemma first_row_simps [simp]:
  "user_id (new_subscription uid) = uid" "user_id (first_row cid uid) = uid"
  "stripe_customer_id (new_subscription uid) = None" "stripe_customer_id (first_row cid uid) = Some cid"
  "stripe_subscription_id (new_subscription uid) = None" "stripe_subscription_id (first_row cid uid) = None"
  by (simp_all add: first_row_def new_subscription_def)

lemma map_filter_snoc [simp]:
  "List.map_filter f (xs @ [x]) = List.map_filter f xs @ (case f x of None \<Rightarrow> [] | Some y \<Rightarrow> [y])"
  by (induction xs) (auto simp: map_filter_simps split: option.split)

lemma unique_rows_add:
  assumes "unique_rows db" "user_id sub \<notin> user_id ` set (subscriptions db)"
    and "\<forall>r \<in> set (subscriptions db). stripe_customer_id r = None \<or> stripe_customer_id r \<noteq> stripe_customer_id sub"
    and "stripe_subscription_id sub = None"
  shows "unique_rows (add_row sub db)"
  using assms
  by (auto simp: unique_rows_def unique_subscriptions_def add_row_def in_map_filter split: option.split)

lemma put_added:
  assumes "user_id sub = user_id sub'" "user_id sub \<notin> user_id ` set rows"
  shows "put_subscription sub' (rows @ [sub]) = rows @ [sub']"
  using assms by (auto simp: put_subscription_def image_iff intro!: map_idI)

lemma get_subscription_absent:
  "db_up w \<Longrightarrow> uid \<notin> user_id ` set (subscriptions (view w)) \<Longrightarrow> get_subscription uid w = (Inr None, w)"
  by (auto simp: get_subscription_def and_then_def split: list.split dest!: filter_Cons_D)

lemma create_or_take_new:
  assumes "unknown cid w" "rivals w = []" "unique_rows (view w)"
    and "uid \<notin> user_id ` set (subscriptions (view w))"
  shows "create_or_take cid uid w = (Inr (first_row cid uid), w\<lparr>view := add_row (first_row cid uid) (view w)\<rparr>)"
proof -
  let ?new = "new_subscription uid" and ?first = "first_row cid uid"
  have u1: "unique_rows (add_row ?new (view w))"
    using assms by (intro unique_rows_add) auto
  have u2: "unique_rows (add_row ?first (view w))"
    using assms by (intro unique_rows_add) (auto simp: unknown_def)
  have up: "db_up w" using assms(1) by (simp add: unknown_def)
  have put: "put_subscription ?first (subscriptions (view w) @ [?new]) = subscriptions (view w) @ [?first]"
    using assms(4) by (intro put_added) auto
  show ?thesis
    unfolding create_or_take_def
    by (intro try_except_Inr begin_nested_Inr)
      (use up u1 u2 put assms(2,4) in \<open>simp add: get_or_create_subscription_def and_then_def
        get_subscription_absent Let_def add_row_def save_def flip: first_row_def\<close>)
qed

lemma create_or_take_race:
  fixes w :: "('r, 'c) world"
  assumes "unknown cid w" "rivals w = [add_row winner]" "unique_rows (view w)"
    and "uid \<notin> user_id ` set (subscriptions (view w))" "cid \<notin> set (locked w)"
    and "user_id winner = uid" "stripe_customer_id winner = Some cid"
    and "unique_rows (add_row winner (view w))"
  shows "create_or_take cid uid w = (Inr winner,
    w\<lparr>view := add_row winner (view w), durable := add_row winner (durable w), rivals := []\<rparr>)"
proof -
  let ?new = "new_subscription uid"
  let ?w1 = "w\<lparr>view := add_row winner (add_row ?new (view w)), durable := add_row winner (durable w), rivals := []\<rparr>"
  let ?w2 = "w\<lparr>view := add_row winner (view w), durable := add_row winner (durable w), rivals := []\<rparr>"
  have up: "db_up w" using assms(1) by (simp add: unknown_def)
  have clash: "\<not> unique_rows (add_row winner (add_row ?new (view w)))"
    using assms(6) by (simp add: unique_rows_def unique_subscriptions_def add_row_def)
  have "get_or_create_subscription uid w = (Inl IntegrityError, ?w1)"
    using up clash assms(2,4)
    by (simp add: get_or_create_subscription_def and_then_def get_subscription_absent Let_def
        flush_apply rival_lands_def add_row_def)
  then have raised: "and_then (get_or_create_subscription uid) f w = (Inl IntegrityError, ?w1)"
    for f :: "subscription \<Rightarrow> ('r, 'c, subscription) service"
    by (rule and_then_Inl)
  have "begin_nested (and_then (get_or_create_subscription uid) f) w = (Inl IntegrityError, ?w2)"
    for f :: "subscription \<Rightarrow> ('r, 'c, subscription) service"
    using begin_nested_Inl [of "and_then (get_or_create_subscription uid) f" w IntegrityError ?w1]
      raised [of f] assms(2) by (simp add: landed_since_def)
  moreover have "find_by_customer cid True ?w2 = (Inr (Some winner), ?w2)"
    using assms up by (intro find_by_customer_found) (simp_all add: add_row_def)
  moreover have "winner\<lparr>stripe_customer_id := Some cid\<rparr> = winner"
    using assms(7) by simp
  moreover have "put_subscription winner (subscriptions (add_row winner (view w))) =
      subscriptions (add_row winner (view w))"
    using assms(8) by (intro put_self) (simp_all add: add_row_def)
  ultimately show ?thesis
    by (simp add: create_or_take_def try_except_Inl and_then_def Let_def save_def)
qed

lemma adopt_customer_ours:
  assumes "unknown cid w" "p_fetch_current_subscription PV cid (remote w) = (Inr (Some rem), r1)"
    and "p_retrieve_customer PV cid r1 = (Inr \<lparr>rc_id = cid, rc_user_id = Some uid\<rparr>, r2)" "uid \<noteq> []"
    and "belongs_to_this_service S (Some rem)" "\<not> truthy (map_of (rs_metadata rem) ORPHANED_AT)"
    and "create_or_take cid uid (w\<lparr>remote := r2\<rparr>) = (Inr sub, u)"
  shows "sync_subscription_from_stripe S PV cid event reason w = write_mirror S event reason sub (Some rem) u"
  using assms
  by (simp add: unknown_def sync_subscription_from_stripe_def and_then_def find_by_customer_none
      adopt_customer_def call_apply)

section \<open>The invariant of the tables\<close>

definition coherent_db :: "database \<Rightarrow> bool" where
  "coherent_db db \<longleftrightarrow>
     list_all row_coherent (subscriptions db) \<and>
     list_all (\<lambda>g. is_tier (grant_tier g)) (entitlement_grants db)"

definition coherent :: "('r, 'c) world \<Rightarrow> bool" where
  "coherent w \<longleftrightarrow> coherent_db (view w) \<and> coherent_db (durable w) \<and>
     list_all (\<lambda>f. \<forall>db. coherent_db db \<longrightarrow> coherent_db (f db)) (rivals w)"

lemma coherent_columns: "coherent_db db \<Longrightarrow> columns_ok db"
  by (auto simp: coherent_db_def columns_ok_def row_coherent_def list_all_iff)

lemma coherent_put:
  "coherent_db db \<Longrightarrow> row_coherent sub \<Longrightarrow>
   coherent_db (db\<lparr>subscriptions := put_subscription sub (subscriptions db)\<rparr>)"
  by (auto simp: coherent_db_def list_all_iff set_put_subscription)

lemma coherent_fields [simp]:
  "coherent (w\<lparr>marks := ms\<rparr>) = coherent w" "coherent (w\<lparr>remote := r\<rparr>) = coherent w"
  "coherent (w\<lparr>cache := c\<rparr>) = coherent w" "coherent (w\<lparr>metrics := x\<rparr>) = coherent w"
  "coherent (w\<lparr>next_id := n\<rparr>) = coherent w" "coherent (w\<lparr>now := t\<rparr>) = coherent w"
  by (simp_all add: coherent_def)

lemma coherent_db_fields [simp]:
  "coherent_db (db\<lparr>subscription_audit := a\<rparr>) = coherent_db db"
  "coherent_db (db\<lparr>processed_events := e\<rparr>) = coherent_db db"
  "coherent_db (db\<lparr>usage_counters := c\<rparr>) = coherent_db db"
  "coherent_db (db\<lparr>sales_inquiries := i\<rparr>) = coherent_db db"
  by (simp_all add: coherent_db_def)

lemma coherent_update:
  "coherent w \<Longrightarrow> (coherent_db (view w) \<Longrightarrow> coherent_db (f (view w))) \<Longrightarrow> coherent (w\<lparr>view := f (view w)\<rparr>)"
  by (simp add: coherent_def)

lemma keeps_coherent_update:
  "(\<And>db. coherent_db db \<Longrightarrow> coherent_db (f db)) \<Longrightarrow> keeps coherent (update_view f)"
  by (simp add: keeps_def coherent_def)

lemma coherent_rival: "coherent w \<Longrightarrow> coherent (rival_lands w)"
  by (auto simp: coherent_def rival_lands_def split: list.split)

lemma keeps_coherent_basic:
  "keeps coherent flush" "keeps coherent commit" "keeps coherent rollback"
  "keeps coherent (inc n ls)" "keeps coherent (call g)" "keeps coherent (cached h)"
  "keeps coherent fresh_id" "keeps coherent (mark_entitlements_stale uid)"
proof -
  show fl: "keeps coherent flush"
    by (auto simp: keeps_def flush_apply coherent_rival)
  have "keeps coherent (modify (\<lambda>w. w\<lparr>durable := view w\<rparr>))"
    by (simp add: keeps_def coherent_def)
  then show "keeps coherent commit"
    unfolding commit_def by (intro keeps_and_then fl) (simp_all add: keeps_def)
qed (simp_all add: keeps_def coherent_def call_apply cached_apply mark_entitlements_stale_def)

lemma coherent_fold:
  "list_all (\<lambda>f. \<forall>db. coherent_db db \<longrightarrow> coherent_db (f db)) fs \<Longrightarrow> coherent_db db \<Longrightarrow>
   coherent_db (fold (\<lambda>f db. f db) fs db)"
  by (induction fs arbitrary: db) auto

lemma keeps_coherent_nested:
  fixes m :: "('r, 'c, 'a) service"
  assumes "keeps coherent m"
  shows "keeps coherent (begin_nested m)"
proof (rule keeps_begin_nested [OF assms])
  fix w w' :: "('r, 'c) world"
  assume "coherent w" "coherent w'"
  moreover from this have "coherent_db (fold (\<lambda>f db. f db) (landed_since w w') (view w))"
    by (intro coherent_fold) (auto simp: coherent_def landed_since_def list_all_iff dest: in_set_takeD)
  ultimately show "coherent (w'\<lparr>view := fold (\<lambda>f db. f db) (landed_since w w') (view w)\<rparr>)"
    by (simp add: coherent_def)
qed

lemma keeps_coherent_save: "row_coherent sub \<Longrightarrow> keeps coherent (save sub)"
  unfolding save_def by (intro keeps_coherent_update coherent_put)

lemma keeps_coherent_audit: "keeps coherent (record_audit uid b a r e d)"
  unfolding record_audit_def by (intro keeps_intro keeps_coherent_update) simp

lemmas keeps_coherent = keeps_coherent_basic keeps_coherent_nested keeps_coherent_audit

lemma yields_coherent_rows:
  "yields coherent (get_subscription uid) (\<lambda>r. \<forall>s. r = Some s \<longrightarrow> row_coherent s)"
  "yields coherent (find_by_customer cid lock) (\<lambda>r. \<forall>s. r = Some s \<longrightarrow> row_coherent s)"
  by (auto simp: yields_def get_subscription_def find_by_customer_def and_then_returns coherent_def
      coherent_db_def list_all_iff split: list.splits if_splits dest!: filter_Cons_D)

lemma coherent_add:
  "coherent_db db \<Longrightarrow> row_coherent sub \<Longrightarrow> coherent_db (db\<lparr>subscriptions := subscriptions db @ [sub]\<rparr>)"
  by (simp add: coherent_db_def)

lemma customer_coherent [simp]: "row_coherent (sub\<lparr>stripe_customer_id := c\<rparr>) = row_coherent sub"
  by (simp add: row_coherent_def grants_access_def)

lemma keeps_coherent_get_or_create:
  "keeps coherent (get_or_create_subscription uid)"
  "yields coherent (get_or_create_subscription uid) row_coherent"
proof -
  show "keeps coherent (get_or_create_subscription uid)"
    unfolding get_or_create_subscription_def Let_def
    by (intro keeps_intro keeps_coherent keeps_coherent_update coherent_add
        keeps_frame get_subscription_frame) simp_all
  show "yields coherent (get_or_create_subscription uid) row_coherent"
    unfolding get_or_create_subscription_def Let_def
  proof (rule yields_and_then [OF _ yields_coherent_rows(1)])
    fix a assume "\<forall>s. a = Some s \<longrightarrow> row_coherent s"
    then show "yields coherent (case a of None \<Rightarrow> and_then (update_view (\<lambda>db. db\<lparr>subscriptions :=
        subscriptions db @ [new_subscription uid]\<rparr>)) (\<lambda>_. and_then flush (\<lambda>_. ret (new_subscription uid)))
        | Some sub \<Rightarrow> ret sub) row_coherent"
      by (cases a) (auto simp: yields_def and_then_returns)
  qed (simp add: keeps_frame get_subscription_frame)
qed

lemma keeps_coherent_create: "keeps coherent (create_or_take cid uid)"
proof -
  have coh: "yields coherent (case found of Some sub \<Rightarrow> ret (Some sub) | None \<Rightarrow> get_subscription uid)
      (\<lambda>r. \<forall>s. r = Some s \<longrightarrow> row_coherent s)"
    if "\<forall>s. found = Some s \<longrightarrow> row_coherent s" for found
    using that by (cases found) (auto simp: yields_coherent_rows)
  have k: "keeps coherent (case found of Some sub \<Rightarrow> ret (Some sub) | None \<Rightarrow> get_subscription uid)" for found
    by (cases found) (auto simp: keeps_frame get_subscription_frame keeps_ret)
  show ?thesis
    unfolding create_or_take_def Let_def
    by (intro keeps_try_except keeps_coherent_nested keeps_if keeps_raise
        keeps_and_then_yields [OF keeps_coherent_get_or_create]
        keeps_and_then_yields [OF keeps_frame [OF find_by_customer_frame] yields_coherent_rows(2)]
        keeps_and_then_yields [OF k coh] keeps_case_option keeps_and_then
        keeps_coherent_save keeps_coherent keeps_ret) auto
qed

lemma keeps_coherent_write_mirror: "keeps coherent (write_mirror S event reason sub ans)"
  unfolding write_mirror_def Let_def
  by (intro keeps_intro keeps_coherent keeps_coherent_save mirrored_coherent)

lemma keeps_coherent_sync: "keeps coherent (sync_subscription_from_stripe S PV cid event reason)"
  unfolding sync_subscription_from_stripe_def adopt_customer_def Let_def
  by (intro keeps_intro keeps_coherent keeps_coherent_write_mirror keeps_coherent_create
      keeps_frame find_by_customer_frame)

lemma keeps_coherent_disputed: "keeps coherent (mark_disputed cid event)"
  unfolding mark_disputed_def Let_def
  by (intro keeps_and_then_yields [OF keeps_frame [OF find_by_customer_frame] yields_coherent_rows(2)]
      keeps_intro keeps_coherent keeps_coherent_save) (auto simp: row_coherent_def grants_access_def)

section \<open>What the writes leave alone\<close>

text \<open>Nothing here commits: until \<open>commit_and_invalidate\<close>, the durable rows stay as they were.\<close>

definition settled :: "database \<Rightarrow> int \<Rightarrow> ('r, 'c) world \<Rightarrow> bool" where
  "settled d t w \<longleftrightarrow> durable w = d \<and> now w = t \<and> db_up w \<and> rivals w = []"

lemma keeps_settled:
  "keeps (settled d t) flush" "keeps (settled d t) (update_view f)" "keeps (settled d t) (inc n ls)"
  "keeps (settled d t) (call g)" "keeps (settled d t) (mark_entitlements_stale uid)"
  "keeps (settled d t) (save sub)" "keeps (settled d t) (record_audit uid b a r e dt)"
  by (simp_all add: keeps_def settled_def call_apply mark_entitlements_stale_def save_def)

lemma keeps_settled_nested: "keeps (settled d t) m \<Longrightarrow> keeps (settled d t) (begin_nested m)"
  by (intro keeps_begin_nested) (auto simp: settled_def)

lemma keeps_settled_create: "keeps (settled d t) (create_or_take cid uid)"
proof -
  have k: "keeps (settled d t) (case found of Some sub \<Rightarrow> ret (Some sub) | None \<Rightarrow> get_subscription uid)" for found
    by (cases found) (auto simp: keeps_frame get_subscription_frame keeps_ret)
  show ?thesis
    unfolding create_or_take_def get_or_create_subscription_def Let_def
    by (intro keeps_intro keeps_settled keeps_settled_nested
        keeps_frame find_by_customer_frame get_subscription_frame)
qed

lemma keeps_settled_sync: "keeps (settled d t) (sync_subscription_from_stripe S PV cid event reason)"
  unfolding sync_subscription_from_stripe_def adopt_customer_def write_mirror_def Let_def
  by (intro keeps_intro keeps_settled keeps_settled_create keeps_frame find_by_customer_frame)

end
