(* ===== verification/Stripe_Client.thy ===== *)
theory Stripe_Client
  imports Provider
begin

text \<open>
  \<open>app/stripe_client.py\<close>: the adapter between the Stripe SDK and the provider contract.
  The SDK is a parameter, a record of its calls over JSON documents; \<open>_as_dict\<close> is the
  identity here because the model's SDK already answers in plain documents, and the HTTP
  client, its timeout and the worker thread of \<open>_call\<close> are not modelled. The parsing
  functions follow the source expression by expression, with the errors of missing keys and
  of values that are no objects.
\<close>

section \<open>The SDK\<close>

record 'r sdk =
  sdk_customer_create :: "string option \<Rightarrow> (string \<times> json) list \<Rightarrow> string \<Rightarrow> ('r, json) call"
  sdk_customer_retrieve :: "string \<Rightarrow> ('r, json) call"
  sdk_checkout_create :: "string \<Rightarrow> (string \<times> json) list \<Rightarrow> ('r, json) call"
  sdk_portal_create :: "(string \<times> json) list \<Rightarrow> ('r, json) call"
  sdk_subscription_list :: "(string \<times> json) list \<Rightarrow> ('r, json) call"
  sdk_subscription_modify :: "string \<Rightarrow> (string \<times> json) list \<Rightarrow> ('r, json) call"
  sdk_price_retrieve :: "string \<Rightarrow> ('r, json) call"
  sdk_charge_retrieve :: "string \<Rightarrow> ('r, json) call"
  sdk_construct_event :: "string \<Rightarrow> string \<Rightarrow> string \<Rightarrow> ('r, json) call"

section \<open>Statuses\<close>

definition STATUSES :: "(string, subscription_status) dict" where
  "STATUSES =
     [(''active'', ACTIVE),
      (''trialing'', TRIALING),
      (''past_due'', PAST_DUE),
      (''unpaid'', PAST_DUE),
      (''paused'', PAUSED),
      (''incomplete'', INCOMPLETE),
      (''incomplete_expired'', S_FREE),
      (''canceled'', S_FREE)]"

definition ENDED :: "string list" where
  "ENDED = [''canceled'', ''incomplete_expired'']"

definition STATUS_PRIORITY :: "string list" where
  "STATUS_PRIORITY =
     [''active'', ''trialing'', ''past_due'', ''unpaid'', ''paused'', ''incomplete'']"

definition translate_status :: "string \<Rightarrow> subscription_status" where
  "translate_status s = (case map_of STATUSES s of Some st \<Rightarrow> st | None \<Rightarrow> S_FREE)"

section \<open>Parsing\<close>

text \<open>\<open>_ts\<close>: a unix timestamp, with 0 and \<open>None\<close> read as absent.\<close>

fun ts :: "int option \<Rightarrow> stamp option" where
  "ts None = None"
| "ts (Some v) = (if v = 0 then None else Some (Aware (v * second_us)))"

text \<open>\<open>(obj.get("items") or {}).get("data") or []\<close>.\<close>

definition line_items :: "json \<Rightarrow> exc + json list" where
  "line_items raw = bind_result (jget2 ''items'' ''data'' raw) (\<lambda>d. as_list (jor d (JList [])))"

definition period :: "json \<Rightarrow> exc + (json \<times> json)" where
  "period sub =
     bind_result (jget ''current_period_start'' sub) (\<lambda>start.
     bind_result (jget ''current_period_end'' sub) (\<lambda>finish.
     if start \<noteq> JNull \<and> finish \<noteq> JNull then Inr (start, finish) else
     bind_result (line_items sub) (\<lambda>items.
     case items of
       [] \<Rightarrow> Inr (JNull, JNull)
     | first # _ \<Rightarrow>
         bind_result (jget ''current_period_start'' first) (\<lambda>s.
         bind_result (jget ''current_period_end'' first) (\<lambda>e. Inr (s, e))))))"

definition INTERVALS :: "(string, billing_interval) dict" where
  "INTERVALS = [(''month'', MONTHLY), (''year'', ANNUAL)]"

definition interval_of :: "json \<Rightarrow> billing_interval option" where
  "interval_of v = (case v of JStr s \<Rightarrow> map_of INTERVALS s | _ \<Rightarrow> None)"

definition price_of :: "json \<Rightarrow> exc + remote_price option" where
  "price_of price =
     (if \<not> jtruthy price then Inr None else
      case price of
        JStr s \<Rightarrow> Inr (Some \<lparr>rp_id = s, rp_interval = None, rp_tier = None\<rparr>)
      | _ \<Rightarrow>
        bind_result (jget2 ''recurring'' ''interval'' price) (\<lambda>iv.
        bind_result (bind_result (jitem ''id'' price) as_string) (\<lambda>pid.
        bind_result (jget2 ''metadata'' ''tier'' price) (\<lambda>t.
        bind_result (as_opt_string (jor t JNull)) (\<lambda>tier.
        Inr (Some \<lparr>rp_id = pid, rp_interval = interval_of iv, rp_tier = tier\<rparr>))))))"

text \<open>\<open>x if isinstance(x, dict) else None\<close>.\<close>

definition dict_or_none :: "json \<Rightarrow> json" where
  "dict_or_none v = (if is_dict v then v else JNull)"

definition DISCOUNT_FIELDS :: "string list" where
  "DISCOUNT_FIELDS =
     [''name'', ''percent_off'', ''amount_off'', ''currency'', ''duration'', ''duration_in_months'']"

definition discount_of :: "json \<Rightarrow> exc + (string \<times> json) list option" where
  "discount_of sub =
     bind_result (bind_result (jget ''discounts'' sub) (\<lambda>d. as_list (jor d (JList [])))) (\<lambda>discounts.
     bind_result (case discounts of d # _ \<Rightarrow> Inr d | [] \<Rightarrow> jget ''discount'' sub) (\<lambda>raw.
     if \<not> jtruthy raw \<or> is_str raw then Inr None else
     bind_result (jget2 ''source'' ''coupon'' raw) (\<lambda>c1.
     bind_result (jget ''coupon'' raw) (\<lambda>c2.
     let coupon = jor (dict_or_none c1) (dict_or_none c2) in
     if coupon = JNull then Inr None else
     bind_result (jget ''id'' coupon) (\<lambda>cid.
     bind_result (map_result (\<lambda>f. bind_result (jget f coupon) (\<lambda>v. Inr (f, v))) DISCOUNT_FIELDS) (\<lambda>fields.
     bind_result (jget ''promotion_code'' raw) (\<lambda>code.
     bind_result (jget ''end'' raw) (\<lambda>ends.
     Inr (Some ((''coupon_id'', cid) # fields @
       [(''promotion_code'', code), (''ends_at'', ends)]))))))))))"

text \<open>\<open>tuple(item["id"] for item in items if item.get("id"))\<close>.\<close>

fun item_ids :: "json list \<Rightarrow> exc + string list" where
  "item_ids [] = Inr []"
| "item_ids (item # items) =
     bind_result (jget ''id'' item) (\<lambda>v.
     if jtruthy v
     then bind_result (as_string v) (\<lambda>i. bind_result (item_ids items) (\<lambda>is. Inr (i # is)))
     else item_ids items)"

text \<open>\<open>dict(raw.get("metadata") or {})\<close>: Stripe metadata values are strings.\<close>

definition metadata_of :: "json \<Rightarrow> exc + (string, string) dict" where
  "metadata_of raw = bind_result (jget ''metadata'' raw) (\<lambda>m.
     case jor m (JObj []) of
       JObj kvs \<Rightarrow> map_result (\<lambda>(k, v). bind_result (as_string v) (\<lambda>s. Inr (k, s))) kvs
     | _ \<Rightarrow> Inl TypeError)"

definition customer_of :: "json \<Rightarrow> exc + string option" where
  "customer_of customer =
     (if is_dict customer then bind_result (jget ''id'' customer) as_opt_string
      else as_opt_string customer)"

definition parse_subscription :: "json \<Rightarrow> exc + remote_subscription" where
  "parse_subscription raw =
     bind_result (bind_result (jget ''status'' raw) (\<lambda>v. as_string (jor v (JStr '''')))) (\<lambda>stripe_status.
     bind_result (jget ''customer'' raw) (\<lambda>customer.
     bind_result (period raw) (\<lambda>(p_start, p_end).
     bind_result (line_items raw) (\<lambda>items.
     bind_result (bind_result (jitem ''id'' raw) as_string) (\<lambda>rid.
     bind_result (customer_of customer) (\<lambda>cid.
     bind_result (case items of [] \<Rightarrow> Inr None
       | item # _ \<Rightarrow> bind_result (jget ''price'' item) price_of) (\<lambda>price.
     bind_result (item_ids items) (\<lambda>ids.
     bind_result (as_opt_int p_start) (\<lambda>ps.
     bind_result (as_opt_int p_end) (\<lambda>pe.
     bind_result (jget ''cancel_at_period_end'' raw) (\<lambda>cancel.
     bind_result (bind_result (jget ''trial_end'' raw) as_opt_int) (\<lambda>trial.
     bind_result (discount_of raw) (\<lambda>disc.
     bind_result (metadata_of raw) (\<lambda>meta.
     Inr \<lparr>rs_id = rid,
          rs_customer_id = cid,
          rs_status = translate_status stripe_status,
          rs_provider_status = stripe_status,
          rs_ended = (stripe_status \<in> set ENDED),
          rs_price = price,
          rs_item_ids = ids,
          rs_period_start = ts ps,
          rs_period_end = ts pe,
          rs_cancel_at_period_end = jtruthy cancel,
          rs_trial_end = ts trial,
          rs_discount = disc,
          rs_metadata = meta\<rparr>))))))))))))))"

definition parse_customer :: "json \<Rightarrow> exc + remote_customer" where
  "parse_customer raw =
     bind_result (bind_result (jitem ''id'' raw) as_string) (\<lambda>cid.
     bind_result (bind_result (jget2 ''metadata'' ''user_id'' raw) as_opt_string) (\<lambda>uid.
     Inr \<lparr>rc_id = cid, rc_user_id = uid\<rparr>))"

section \<open>Which subscription is current\<close>

fun find_status :: "string \<Rightarrow> json list \<Rightarrow> exc + json option" where
  "find_status name [] = Inr None"
| "find_status name (sub # subs) =
     bind_result (jget ''status'' sub) (\<lambda>v.
     if v = JStr name then Inr (Some sub) else find_status name subs)"

fun find_by_priority :: "string list \<Rightarrow> json list \<Rightarrow> exc + json option" where
  "find_by_priority [] subs = Inr None"
| "find_by_priority (name # names) subs =
     bind_result (find_status name subs) (\<lambda>found.
     case found of Some sub \<Rightarrow> Inr (Some sub) | None \<Rightarrow> find_by_priority names subs)"

text \<open>\<open>s.get("created") or 0\<close>.\<close>

definition created_key :: "json \<Rightarrow> exc + int" where
  "created_key s = bind_result (jget ''created'' s) (\<lambda>v.
     case jor v (JInt 0) of JInt n \<Rightarrow> Inr n | _ \<Rightarrow> Inl TypeError)"

definition newest :: "json list \<Rightarrow> exc + json" where
  "newest subs = bind_result (map_result (\<lambda>s. bind_result (created_key s) (\<lambda>k. Inr (s, k))) subs)
     (\<lambda>keyed. case keyed of
        [] \<Rightarrow> Inl (ValueError ''max() arg is an empty sequence'')
      | sk # rest \<Rightarrow> Inr (fst (max_key snd sk rest)))"

definition current :: "json list \<Rightarrow> exc + json" where
  "current subs = bind_result (find_by_priority STATUS_PRIORITY subs) (\<lambda>found.
     case found of Some sub \<Rightarrow> Inr sub | None \<Rightarrow> newest subs)"

section \<open>The operations\<close>

definition ensure_customer ::
  "'r sdk \<Rightarrow> string \<Rightarrow> string option \<Rightarrow> string option \<Rightarrow> ('r, string) call" where
  "ensure_customer K uid email existing_id =
     (if truthy existing_id then ret (the existing_id) else
      and_then (sdk_customer_create K email [(''user_id'', JStr uid)] (''customer:'' @ uid)) (\<lambda>customer.
      lift_result (bind_result (jitem ''id'' customer) as_string)))"

text \<open>The parameters of \<open>Session.create\<close>, in the order the source builds them.\<close>

definition checkout_session_params :: "settings \<Rightarrow> checkout_params \<Rightarrow> (string \<times> json) list" where
  "checkout_session_params S cp =
     [(''mode'', JStr ''subscription''),
      (''customer'', JStr (cp_customer_id cp)),
      (''client_reference_id'', JStr (cp_user_id cp)),
      (''line_items'', JList [JObj [(''price'', JStr (cp_price_id cp)), (''quantity'', JInt 1)]]),
      (''success_url'', JStr (cp_success_url cp)),
      (''cancel_url'', JStr (cp_cancel_url cp)),
      (''subscription_data'', JObj ((''metadata'', JObj [(''user_id'', JStr (cp_user_id cp))]) #
         (if cp_trial_period_days cp \<noteq> 0
          then [(''trial_period_days'', JInt (cp_trial_period_days cp))] else [])))] @
     (if automatic_tax S
      then [(''automatic_tax'', JObj [(''enabled'', JBool True)]),
            (''customer_update'', JObj [(''address'', JStr ''auto'')])] else []) @
     (if truthy (cp_promo_code cp)
      then [(''discounts'', JList [JObj [(''promotion_code'', JStr (the (cp_promo_code cp)))]])]
      else [(''allow_promotion_codes'', JBool True)])"

definition create_checkout_session :: "'r sdk \<Rightarrow> settings \<Rightarrow> checkout_params \<Rightarrow> ('r, json) call" where
  "create_checkout_session K S cp =
     sdk_checkout_create K (cp_idempotency_key cp) (checkout_session_params S cp)"

definition set_cancel_at_period_end :: "'r sdk \<Rightarrow> string \<Rightarrow> bool \<Rightarrow> ('r, unit) call" where
  "set_cancel_at_period_end K sid val =
     and_then (sdk_subscription_modify K sid [(''cancel_at_period_end'', JBool val)]) (\<lambda>_. ret ())"

definition set_subscription_metadata :: "'r sdk \<Rightarrow> string \<Rightarrow> (string, string) dict \<Rightarrow> ('r, unit) call" where
  "set_subscription_metadata K sid meta =
     and_then (sdk_subscription_modify K sid
       [(''metadata'', JObj (map (\<lambda>(k, v). (k, JStr v)) meta))]) (\<lambda>_. ret ())"

definition flow_json :: "portal_flow \<Rightarrow> json" where
  "flow_json f = JObj
     [(''type'', JStr ''subscription_update_confirm''),
      (''subscription_update_confirm'', JObj
        [(''subscription'', JStr (pf_subscription f)),
         (''items'', JList [JObj [(''id'', JStr (pf_item f)), (''price'', JStr (pf_price f)),
                                  (''quantity'', JInt 1)]])])]"

definition create_portal_session ::
  "'r sdk \<Rightarrow> settings \<Rightarrow> string \<Rightarrow> string \<Rightarrow> portal_flow option \<Rightarrow> ('r, json) call" where
  "create_portal_session K S cid return_url flow = sdk_portal_create K
     ([(''customer'', JStr cid), (''return_url'', JStr return_url)] @
      (if stripe_portal_configuration_id S \<noteq> []
       then [(''configuration'', JStr (stripe_portal_configuration_id S))] else []) @
      (case flow of Some f \<Rightarrow> [(''flow_data'', flow_json f)] | None \<Rightarrow> []))"

definition EXPAND :: json where
  "EXPAND = JList [JStr ''data.items.data.price'', JStr ''data.discounts.source.coupon'']"

text \<open>\<open>result.get("data", [])\<close>.\<close>

definition data_or_empty :: "json \<Rightarrow> exc + json" where
  "data_or_empty result = (case result of
     JObj kvs \<Rightarrow> Inr (case map_of kvs ''data'' of Some v \<Rightarrow> v | None \<Rightarrow> JList [])
   | _ \<Rightarrow> Inl AttributeError)"

definition current_of :: "json \<Rightarrow> exc + remote_subscription option" where
  "current_of result = bind_result (data_or_empty result) (\<lambda>d.
     if \<not> jtruthy d then Inr None else
     bind_result (as_list d) (\<lambda>subs.
     bind_result (current subs) (\<lambda>raw.
     bind_result (parse_subscription raw) (\<lambda>s. Inr (Some s)))))"

definition fetch_current_subscription ::
  "'r sdk \<Rightarrow> string \<Rightarrow> ('r, remote_subscription option) call" where
  "fetch_current_subscription K customer_id =
     and_then (sdk_subscription_list K
       [(''customer'', JStr customer_id), (''status'', JStr ''all''), (''limit'', JInt 100),
        (''expand'', EXPAND)])
     (\<lambda>result. lift_result (current_of result))"

definition page_of :: "json \<Rightarrow> exc + subscription_page" where
  "page_of page =
     bind_result (bind_result (data_or_empty page) as_list) (\<lambda>data.
     bind_result (map_result parse_subscription data) (\<lambda>items.
     bind_result (jget ''has_more'' page) (\<lambda>more.
     Inr \<lparr>page_items = items, page_has_more = jtruthy more\<rparr>)))"

definition list_subscriptions_page ::
  "'r sdk \<Rightarrow> string option \<Rightarrow> ('r, subscription_page) call" where
  "list_subscriptions_page K starting_after =
     and_then (sdk_subscription_list K
       ([(''status'', JStr ''all''), (''limit'', JInt 100), (''expand'', EXPAND)] @
        (if truthy starting_after
         then [(''starting_after'', JStr (the starting_after))] else [])))
     (\<lambda>page. lift_result (page_of page))"

definition retrieve_customer :: "'r sdk \<Rightarrow> string \<Rightarrow> ('r, remote_customer) call" where
  "retrieve_customer K cid =
     and_then (sdk_customer_retrieve K cid) (\<lambda>raw. lift_result (parse_customer raw))"

definition construct_event :: "'r sdk \<Rightarrow> settings \<Rightarrow> string \<Rightarrow> string \<Rightarrow> ('r, json) call" where
  "construct_event K S payload signature =
     sdk_construct_event K payload signature (stripe_webhook_secret S)"

definition stripe_provider :: "'r sdk \<Rightarrow> settings \<Rightarrow> 'r provider" where
  "stripe_provider K S =
     \<lparr>p_ensure_customer = ensure_customer K,
      p_retrieve_customer = retrieve_customer K,
      p_fetch_current_subscription = fetch_current_subscription K,
      p_list_subscriptions_page = list_subscriptions_page K,
      p_set_cancel_at_period_end = set_cancel_at_period_end K,
      p_set_subscription_metadata = set_subscription_metadata K,
      p_create_checkout_session = create_checkout_session K S,
      p_create_portal_session = create_portal_session K S,
      p_retrieve_price = sdk_price_retrieve K,
      p_retrieve_charge = sdk_charge_retrieve K,
      p_construct_event = construct_event K S\<rparr>"

section \<open>The adapter keeps the contract\<close>

lemma parse_subscription_status:
  assumes "parse_subscription raw = Inr s"
  shows "rs_status s = translate_status (rs_provider_status s)"
    "rs_ended s \<longleftrightarrow> rs_provider_status s \<in> set ENDED"
  using assms by (auto simp: parse_subscription_def bind_result_Inr)

lemma translate_ended: "w \<in> set ENDED \<Longrightarrow> translate_status w = S_FREE"
  by (auto simp: ENDED_def translate_status_def STATUSES_def)

lemma parse_subscription_ended: "parse_subscription raw = Inr s \<Longrightarrow> rs_ended s \<Longrightarrow> rs_status s = S_FREE"
  by (simp add: parse_subscription_status translate_ended)

lemma fetch_parses:
  assumes "fetch_current_subscription K c r = (Inr (Some s), r')"
  obtains raw where "parse_subscription raw = Inr s"
  using assms
  by (auto simp: fetch_current_subscription_def current_of_def and_then_returns bind_result_Inr
      split: if_splits)

lemma map_result_in:
  "map_result f xs = Inr ys \<Longrightarrow> y \<in> set ys \<Longrightarrow> \<exists>x \<in> set xs. f x = Inr y"
  by (induction xs arbitrary: ys) (auto simp: bind_result_Inr)

lemma page_parses:
  assumes "list_subscriptions_page K a r = (Inr p, r')" "s \<in> set (page_items p)"
  obtains raw where "parse_subscription raw = Inr s"
  using assms map_result_in [of parse_subscription]
  by (fastforce simp: list_subscriptions_page_def page_of_def and_then_returns bind_result_Inr)

interpretation stripe_values: billing_values "fetch_current_subscription K" "list_subscriptions_page K"
  for K :: "'r sdk"
  by unfold_locales (auto elim!: fetch_parses page_parses dest: parse_subscription_ended)

section \<open>The current subscription is the best one\<close>

definition status_word :: "json \<Rightarrow> string option" where
  "status_word s = (case jget ''status'' s of Inr (JStr w) \<Rightarrow> Some w | _ \<Rightarrow> None)"

lemma find_status_total:
  assumes "list_all is_dict subs"
  shows "find_status w subs = Inr (List.find (\<lambda>s. status_word s = Some w) subs)"
  using assms
proof (induction subs)
  case Nil
  then show ?case by simp
next
  case (Cons s subs)
  then obtain kvs where "s = JObj kvs" by (cases s) auto
  with Cons show ?case by (auto simp: status_word_def split: json.split)
qed

lemma find_by_priority_total:
  assumes "list_all is_dict subs"
  shows "find_by_priority ws subs =
    Inr (case List.find (\<lambda>w. \<exists>s \<in> set subs. status_word s = Some w) ws of
      None \<Rightarrow> None | Some w \<Rightarrow> List.find (\<lambda>s. status_word s = Some w) subs)"
proof (induction ws)
  case Nil
  show ?case by simp
next
  case (Cons w ws)
  show ?case
  proof (cases "List.find (\<lambda>s. status_word s = Some w) subs")
    case None
    then have "\<not> (\<exists>s \<in> set subs. status_word s = Some w)" by (auto simp: find_None_iff)
    with None Cons.IH show ?thesis by (simp add: find_status_total [OF assms])
  next
    case (Some s)
    then have "\<exists>s \<in> set subs. status_word s = Some w" by (auto dest: find_Some_D)
    with Some show ?thesis by (simp add: find_status_total [OF assms])
  qed
qed

lemma current_live:
  assumes dicts: "list_all is_dict subs"
    and live: "s \<in> set subs" "status_word s = Some w" "w \<in> set STATUS_PRIORITY"
  obtains c v where "current subs = Inr c" "c \<in> set subs" "status_word c = Some v"
    "index_of v STATUS_PRIORITY \<le> index_of w STATUS_PRIORITY" "v \<in> set STATUS_PRIORITY"
proof -
  let ?P = "\<lambda>w. \<exists>s \<in> set subs. status_word s = Some w"
  obtain v where v: "List.find ?P STATUS_PRIORITY = Some v"
    using live by (cases "List.find ?P STATUS_PRIORITY") (auto dest: find_None_D)
  then obtain c where c: "List.find (\<lambda>s. status_word s = Some v) subs = Some c"
    by (cases "List.find (\<lambda>s. status_word s = Some v) subs") (auto dest: find_None_D find_Some_D)
  have "current subs = Inr c"
    by (simp add: current_def find_by_priority_total [OF dicts] v c)
  moreover have "index_of v STATUS_PRIORITY \<le> index_of w STATUS_PRIORITY"
  proof -
    obtain i where i: "i < length STATUS_PRIORITY" "v = STATUS_PRIORITY ! i" "?P v"
      "\<forall>j < i. \<not> ?P (STATUS_PRIORITY ! j)"
      using v by (auto simp: find_Some_iff)
    obtain k where k: "k < length STATUS_PRIORITY" "w = STATUS_PRIORITY ! k"
      using live(3) by (auto simp: in_set_conv_nth)
    have "i \<le> k" using i(4) k live(1,2) by (meson not_le)
    moreover have "index_of (STATUS_PRIORITY ! j) STATUS_PRIORITY = j"
      if "j < length STATUS_PRIORITY" for j
      using that by (auto simp: STATUS_PRIORITY_def index_of_def less_Suc_eq)
    ultimately show ?thesis using i k by simp
  qed
  moreover have "c \<in> set subs" "status_word c = Some v" "v \<in> set STATUS_PRIORITY"
    using c v by (auto dest: find_Some_D)
  ultimately show ?thesis using that by blast
qed

end
