(* ===== verification/Examples.thy ===== *)
theory Examples
  imports Sync_Facts Stripe_Client
begin

text \<open>
  One small concrete deployment, the input at which the properties are applied: two configured
  prices, a provider whose state is the subscription it answers with, and a database with one
  customer. The facts below say that it meets the hypotheses the properties state.
\<close>

definition ex_settings :: settings where
  "ex_settings = default_settings\<lparr>
     stripe_price_ids := [(''plus_monthly'', ''price_plus''), (''pro_annual'', ''price_pro'')]\<rparr>"

definition ex_remote :: remote_subscription where
  "ex_remote =
     \<lparr>rs_id = ''sub_1'', rs_customer_id = Some ''cus_1'', rs_status = ACTIVE,
      rs_provider_status = ''active'', rs_ended = False,
      rs_price = Some \<lparr>rp_id = ''price_plus'', rp_interval = Some MONTHLY, rp_tier = None\<rparr>,
      rs_item_ids = [''si_1''], rs_period_start = Some (Aware 0),
      rs_period_end = Some (Aware 2592000000000), rs_cancel_at_period_end = False,
      rs_trial_end = None, rs_discount = None, rs_metadata = []\<rparr>"

definition ex_failing :: remote_subscription where
  "ex_failing = ex_remote\<lparr>rs_status := PAST_DUE, rs_provider_status := ''past_due''\<rparr>"

definition ex_foreign :: remote_subscription where
  "ex_foreign = ex_remote\<lparr>rs_price := Some \<lparr>rp_id = ''price_other'', rp_interval = None, rp_tier = None\<rparr>\<rparr>"

text \<open>A provider whose state is its answer; \<open>None\<close> inside means no subscription.\<close>

type_synonym ex_state = "remote_subscription option"

definition ex_provider :: "ex_state provider" where
  "ex_provider =
     \<lparr>p_ensure_customer = (\<lambda>uid email old. ret (case old of Some c \<Rightarrow> c | None \<Rightarrow> ''cus_'' @ uid)),
      p_retrieve_customer = (\<lambda>cid. ret \<lparr>rc_id = cid, rc_user_id = Some ''alice''\<rparr>),
      p_fetch_current_subscription = (\<lambda>cid. gets (\<lambda>s. s)),
      p_list_subscriptions_page = (\<lambda>after. gets (\<lambda>s.
        \<lparr>page_items = (case s of None \<Rightarrow> [] | Some r \<Rightarrow> [r]), page_has_more = False\<rparr>)),
      p_set_cancel_at_period_end = (\<lambda>sid flag. modify (map_option (\<lambda>r. r\<lparr>rs_cancel_at_period_end := flag\<rparr>))),
      p_set_subscription_metadata = (\<lambda>sid m. modify (map_option (\<lambda>r. r\<lparr>rs_metadata := m\<rparr>))),
      p_create_checkout_session = (\<lambda>cp. ret (JObj [(''url'', JStr ''https://pay''), (''id'', JStr ''cs_1'')])),
      p_create_portal_session = (\<lambda>cid url flow. ret (JObj [(''url'', JStr ''https://portal'')])),
      p_retrieve_price = (\<lambda>pid. ret (JObj [(''unit_amount'', JInt 2000), (''currency'', JStr ''usd'')])),
      p_retrieve_charge = (\<lambda>cid. ret (JObj [(''customer'', JStr ''cus_1'')])),
      p_construct_event = (\<lambda>payload sig. raise SignatureVerificationError)\<rparr>"

text \<open>The same provider during an outage: every read of a subscription fails.\<close>

definition ex_outage :: "ex_state provider" where
  "ex_outage = ex_provider\<lparr>p_fetch_current_subscription := (\<lambda>cid. raise (StripeError APIConnectionError ''down''))\<rparr>"

definition ex_row :: subscription where
  "ex_row = first_row ''cus_1'' ''alice''"

definition ex_db :: database where
  "ex_db = empty_db\<lparr>subscriptions := [ex_row]\<rparr>"

definition ex_world :: "database \<Rightarrow> ex_state \<Rightarrow> (ex_state, document memory) world" where
  "ex_world db answer =
     \<lparr>now = 1000000, remote = answer, cache = (\<lambda>_. None), durable = db, view = db, marks = [],
      db_up = True, locked = [], rivals = [], fresh_ids = (\<lambda>n. ''id_'' @ str_nat n),
      next_id = 0, metrics = []\<rparr>"

lemma ex_world_simps [simp]:
  "now (ex_world db a) = 1000000" "remote (ex_world db a) = a" "view (ex_world db a) = db"
  "durable (ex_world db a) = db" "marks (ex_world db a) = []" "db_up (ex_world db a)"
  "locked (ex_world db a) = []" "rivals (ex_world db a) = []" "cache (ex_world db a) = (\<lambda>_. None)"
  "metrics (ex_world db a) = []"
  by (simp_all add: ex_world_def)

lemma ex_provider_simps [simp]:
  "p_fetch_current_subscription ex_provider cid s = (Inr s, s)"
  "p_fetch_current_subscription ex_outage cid s = (Inl (StripeError APIConnectionError ''down''), s)"
  "p_retrieve_customer ex_provider cid s = (Inr \<lparr>rc_id = cid, rc_user_id = Some ''alice''\<rparr>, s)"
  by (simp_all add: ex_provider_def ex_outage_def)

lemma ex_row_simps [simp]:
  "user_id ex_row = ''alice''" "stripe_customer_id ex_row = Some ''cus_1''"
  "stripe_subscription_id ex_row = None"
  by (simp_all add: ex_row_def)

lemma empty_db_simps [simp]: "unique_rows empty_db" "subscriptions empty_db = []"
  by (simp_all add: unique_rows_def unique_subscriptions_def empty_db_def map_filter_simps)

lemma ex_db_rows [simp]:
  "subscriptions ex_db = [ex_row]" "processed_events ex_db = []" "usage_counters ex_db = []"
  "entitlement_grants ex_db = []" "subscription_audit ex_db = []" "sales_inquiries ex_db = []"
  by (simp_all add: ex_db_def empty_db_def)

lemma unique_one:
  "unique_rows db \<Longrightarrow> unique_rows (db\<lparr>subscriptions := [r]\<rparr>)"
  by (simp add: unique_rows_def unique_subscriptions_def map_filter_simps split: option.split)

lemma ex_unique [simp]: "unique_rows ex_db"
  unfolding ex_db_def by (intro unique_one) simp

lemma ex_ready [simp]: "ready ''cus_1'' ex_row (ex_world ex_db a)"
  by (simp add: ready_def)

lemma ex_synced_unique [simp]: "unique_rows (synced_db S t e reason ex_row a ex_db)"
  using unique_one [of ex_db "mirrored S t a ex_row"]
  by (simp add: synced_db_def Let_def put_subscription_def mirrored_def)

lemma ex_prices [simp]:
  "map_of (price_catalog ex_settings) ''price_plus'' = Some (PLUS, MONTHLY)"
  "map_of (price_catalog ex_settings) ''price_other'' = None"
  by (simp_all add: price_catalog_unfold map_of_add_price ex_settings_def price_key_def tier_value.simps)

text \<open>A customer who is subscribed, and an older subscription of theirs that has ended.\<close>

definition ex_ended :: remote_subscription where
  "ex_ended = ex_remote\<lparr>rs_id := ''sub_0'', rs_status := S_FREE, rs_provider_status := ''canceled'', rs_ended := True\<rparr>"

definition ex_subscribed :: subscription where
  "ex_subscribed = mirrored ex_settings 1000000 (Some ex_remote) ex_row"

section \<open>A Stripe account\<close>

text \<open>The documents of one active subscription, and an SDK that serves them.\<close>

definition ex_subscription_json :: json where
  "ex_subscription_json = JObj
     [(''id'', JStr ''sub_1''), (''status'', JStr ''active''), (''customer'', JStr ''cus_1''),
      (''created'', JInt 5), (''cancel_at_period_end'', JBool False),
      (''items'', JObj [(''data'', JList [JObj
         [(''id'', JStr ''si_1''), (''current_period_start'', JInt 1), (''current_period_end'', JInt 2592001),
          (''price'', JObj [(''id'', JStr ''price_plus''),
             (''recurring'', JObj [(''interval'', JStr ''month'')])])]])])]"

definition ex_list_json :: json where
  "ex_list_json = JObj [(''data'', JList [ex_subscription_json]), (''has_more'', JBool False)]"

definition ex_sdk :: "ex_state sdk" where
  "ex_sdk =
     \<lparr>sdk_customer_create = (\<lambda>email meta key. ret (JObj [(''id'', JStr ''cus_1'')])),
      sdk_customer_retrieve = (\<lambda>cid. ret (JObj [(''id'', JStr cid), (''metadata'', JObj [(''user_id'', JStr ''alice'')])])),
      sdk_checkout_create = (\<lambda>key ps. ret (JObj [(''url'', JStr ''https://pay''), (''id'', JStr ''cs_1'')])),
      sdk_portal_create = (\<lambda>ps. ret (JObj [(''url'', JStr ''https://portal'')])),
      sdk_subscription_list = (\<lambda>ps. ret ex_list_json),
      sdk_subscription_modify = (\<lambda>sid ps. ret ex_subscription_json),
      sdk_price_retrieve = (\<lambda>pid. ret (JObj [(''id'', JStr pid)])),
      sdk_charge_retrieve = (\<lambda>cid. ret (JObj [(''customer'', JStr ''cus_1'')])),
      sdk_construct_event = (\<lambda>payload sig secret. ret (JObj []))\<rparr>"

end
