(* ===== verification/Sync_Properties.thy ===== *)
theory Sync_Properties
  imports Examples
begin

text \<open>
  The properties of the synchronisation with the provider, each followed by a run of it on the
  deployment of \<open>Examples\<close>.
\<close>

section \<open>The row follows the provider\<close>

text \<open>
  What a row should say of an answer, column by column and without the code's own projection. A
  subscription that is over for the provider, or none at all, leaves a free row; the plan is
  the one the price sells, from the configuration or else from the price's metadata, and only
  while the subscription is in one of the three paid states.
\<close>

definition answered_tier :: "settings \<Rightarrow> remote_subscription \<Rightarrow> tier" where
  "answered_tier S rem =
     (if rs_status rem \<notin> {TRIALING, ACTIVE, PAST_DUE} then FREE else
      case rs_price rem of
        None \<Rightarrow> FREE
      | Some p \<Rightarrow> (case map_of (price_catalog S) (rp_id p) of
          Some (t, _) \<Rightarrow> t
        | None \<Rightarrow> (case List.find (\<lambda>t. rp_tier p = Some (tier_value t)) [FREE, PLUS, PRO, ENTERPRISE] of
            Some t \<Rightarrow> t | None \<Rightarrow> FREE)))"

definition answered_interval :: "settings \<Rightarrow> remote_subscription \<Rightarrow> string option" where
  "answered_interval S rem = map_option interval_value (case rs_price rem of
     None \<Rightarrow> None
   | Some p \<Rightarrow> (case map_of (price_catalog S) (rp_id p) of Some (_, i) \<Rightarrow> Some i | None \<Rightarrow> rp_interval p))"

definition answered_row :: "settings \<Rightarrow> int \<Rightarrow> remote_subscription option \<Rightarrow> subscription \<Rightarrow> subscription" where
  "answered_row S t ans sub = (case Option.bind ans (\<lambda>rem. if rs_status rem = S_FREE then None else Some rem) of
     None \<Rightarrow> sub\<lparr>tier_col := ''free'', status_col := ''free'', stripe_subscription_id := None, stripe_price_id := None,
       billing_interval_col := None, current_period_start := None, current_period_end := None,
       cancel_at_period_end := False, trial_end := None, past_due_since := None, discount := None\<rparr>
   | Some rem \<Rightarrow> sub\<lparr>tier_col := tier_value (answered_tier S rem), status_col := status_value (rs_status rem),
       stripe_subscription_id := Some (rs_id rem), stripe_price_id := map_option rp_id (rs_price rem),
       billing_interval_col := answered_interval S rem,
       current_period_start := rs_period_start rem, current_period_end := rs_period_end rem,
       cancel_at_period_end := rs_cancel_at_period_end rem, trial_end := rs_trial_end rem,
       past_due_since := (if rs_status rem \<noteq> PAST_DUE then None
         else if past_due_since sub = None then Some (Aware t) else past_due_since sub),
       discount := rs_discount rem\<rparr>)"

text \<open>The columns a user is shown: all the mirrored ones but the subscription's id and its interval.\<close>

definition shown_differs :: "subscription \<Rightarrow> subscription \<Rightarrow> bool" where
  "shown_differs a b \<longleftrightarrow> tier_col a \<noteq> tier_col b \<or> status_col a \<noteq> status_col b \<or> stripe_price_id a \<noteq> stripe_price_id b \<or>
     current_period_start a \<noteq> current_period_start b \<or> current_period_end a \<noteq> current_period_end b \<or>
     cancel_at_period_end a \<noteq> cancel_at_period_end b \<or> trial_end a \<noteq> trial_end b \<or>
     past_due_since a \<noteq> past_due_since b \<or>
     map_option (sort_key fst) (discount a) \<noteq> map_option (sort_key fst) (discount b)"

lemma resolve_tier_spec:
  "map_option interval_value (snd (resolve_tier S (rs_price rem))) = answered_interval S rem"
  "(case fst (resolve_tier S (rs_price rem)) of Some t \<Rightarrow> if rs_grants_access rem then t else FREE | None \<Rightarrow> FREE) = answered_tier S rem"
proof -
  show "map_option interval_value (snd (resolve_tier S (rs_price rem))) = answered_interval S rem"
    by (auto simp: resolve_tier_def answered_interval_def split: option.split sum.split prod.split)
  show "(case fst (resolve_tier S (rs_price rem)) of Some t \<Rightarrow> if rs_grants_access rem then t else FREE | None \<Rightarrow> FREE) = answered_tier S rem"
  proof (cases "rs_price rem")
    case None
    then show ?thesis by (simp add: resolve_tier_def answered_tier_def)
  next
    case (Some p)
    have access: "rs_grants_access rem \<longleftrightarrow> rs_status rem \<in> {TRIALING, ACTIVE, PAST_DUE}"
      by (simp add: rs_grants_access_def status_grants_access_def PAID_STATUSES_def)
    show ?thesis
    proof (cases "map_of (price_catalog S) (rp_id p)")
      case None
      show ?thesis
      proof (cases "rp_tier p")
        case (Some v)
        show ?thesis
        proof (cases "Tier_of v")
          case (Inl e)
          then have "v \<noteq> tier_value t" for t by auto
          with Inl Some None \<open>rs_price rem = Some p\<close> show ?thesis
            by (simp add: resolve_tier_def answered_tier_def)
        next
          case (Inr t)
          then have v: "rp_tier p = Some (tier_value t)" using Some by simp
          then have "fst (resolve_tier S (rs_price rem)) = Some t"
            using None \<open>rs_price rem = Some p\<close> by (simp add: resolve_tier_def tier_value_nonempty)
          moreover have "List.find (\<lambda>u. rp_tier p = Some (tier_value u)) [FREE, PLUS, PRO, ENTERPRISE] = Some t"
            unfolding v by (cases t) simp_all
          ultimately show ?thesis
            using None \<open>rs_price rem = Some p\<close> by (simp add: answered_tier_def access del: find.simps)
        qed
      qed (use \<open>rs_price rem = Some p\<close> None in \<open>simp add: resolve_tier_def answered_tier_def access\<close>)
    qed (use Some in \<open>auto simp: resolve_tier_def answered_tier_def access\<close>)
  qed
qed

lemma mirrored_answered: "mirrored S t ans sub = answered_row S t ans sub"
proof (cases "Option.bind ans (\<lambda>rem. if rs_status rem = S_FREE then None else Some rem)")
  case None
  then have "project S ans = NO_SUBSCRIPTION"
    by (cases ans) (auto simp: project_def split: if_splits)
  then show ?thesis
    by (simp add: mirrored_def write_state_def NO_SUBSCRIPTION_def answered_row_def None tier_value.simps status_value.simps)
next
  case (Some rem)
  then have "ans = Some rem" "rs_status rem \<noteq> S_FREE" by (cases ans; simp split: if_splits)+
  then show ?thesis
    using resolve_tier_spec [where S = S and rem = rem]
    by (cases "resolve_tier S (rs_price rem)")
      (auto simp: mirrored_def write_state_def project_def answered_row_def split: option.splits)
qed

lemma fingerprint_shown: "fingerprint a \<noteq> fingerprint b \<longleftrightarrow> shown_differs a b"
  by (auto simp: fingerprint_def shown_differs_def)

text \<open>
  C2: Synchronising a customer whose row exists and is not held by another transaction writes
  what the provider answered, and nothing else. The row of that user gets the columns
  \<open>answered_row\<close> reads off the answer, and is what is returned; no other row and no other table
  changes, nothing is committed. One audit row is appended, with the tier and status before and
  after, where one of the two changed or the caller named a reason of its own; one transition is
  counted where one of the two changed; and the user is marked for invalidation exactly where a
  column they are shown has changed.
\<close>

theorem sync_mirrors_provider:
  fixes S :: settings
  assumes "ready cid sub w" "p_fetch_current_subscription PV cid (remote w) = (Inr ans, r')"
    and "\<not> held_elsewhere ans sub (view w)"
  defines "s \<equiv> answered_row S (now w) ans sub"
  defines "changed \<equiv> tier_col s \<noteq> tier_col sub \<or> status_col s \<noteq> status_col sub"
  shows "sync_subscription_from_stripe S PV cid event reason w = (Inr (Some s), w\<lparr>remote := r',
    view := (view w)\<lparr>
      subscriptions := map (\<lambda>r. if user_id r = user_id sub then s else r) (subscriptions (view w)),
      subscription_audit := subscription_audit (view w) @ (if changed \<or> reason \<noteq> ''stripe.sync''
        then [\<lparr>audit_user = user_id sub, from_tier = Some (tier_col sub), to_tier = Some (tier_col s),
          from_status = Some (status_col sub), to_status = Some (status_col s), audit_reason = reason, audit_event = event,
          audit_detail = Some [(''stripe_subscription_id'', opt_str (stripe_subscription_id s))],
          audit_created_at = Aware (now w)\<rparr>]
        else [])\<rparr>,
    marks := (if shown_differs s sub then List.insert (user_id sub) (marks w) else marks w),
    metrics := metrics w @ (if changed then [(''subscription_transitions_total'', [tier_col sub, tier_col s])] else [])\<rparr>)"
proof -
  have u: "unique_rows (synced_db S (now w) event reason sub ans (view w))"
    using assms(1,3) by (intro synced_unique) (simp_all add: ready_def)
  have user: "user_id (mirrored S (now w) ans sub) = user_id sub" by (simp add: mirrored_def)
  show ?thesis
    using sync_known_spec [OF assms(1,2) u] user
    by (simp add: sync_world_def synced_db_def Let_def put_subscription_def audit_entry_def some_pair_def snapshot_def
        fingerprint_shown mirrored_answered flip: s_def)
      (auto simp: changed_def)
qed

theorem sync_mirrors_provider_witness:
  "\<exists>s w'. sync_subscription_from_stripe ex_settings ex_provider ''cus_1'' (Some ''evt_1'') ''stripe.webhook''
     (ex_world ex_db (Some ex_remote)) = (Inr (Some s), w') \<and>
     tier_col s = ''plus'' \<and> status_col s = ''active'' \<and> subscriptions (view w') = [s] \<and>
     marks w' = [''alice''] \<and> map audit_reason (subscription_audit (view w')) = [''stripe.webhook''] \<and> durable w' = ex_db"
proof -
  let ?s = "answered_row ex_settings 1000000 (Some ex_remote) ex_row"
  have s: "tier_col ?s = ''plus''" "status_col ?s = ''active''" "shown_differs ?s ex_row" "tier_col ex_row = ''free''"
    "\<not> held_elsewhere (Some ex_remote) ex_row ex_db"
    by code_simp+
  show ?thesis
    using sync_mirrors_provider [where cid = "''cus_1''" and sub = ex_row and w = "ex_world ex_db (Some ex_remote)"
        and PV = ex_provider and ans = "Some ex_remote" and r' = "Some ex_remote" and S = ex_settings
        and event = "Some ''evt_1''" and reason = "''stripe.webhook''"] s
    by auto
qed



text \<open>
  Access is never invented. Whatever the state of the database, whichever other workers
  interfere, and whether or not the customer had a row: where a synchronisation returns a row,
  the row grants access exactly where the subscription the provider answered with does, and a
  tier above free is the one its price resolves to.
\<close>

theorem sync_grants_only_what_provider_grants:
  assumes "sync_subscription_from_stripe S PV cid event reason w = (Inr (Some s), w')"
  shows "\<exists>ans r'. p_fetch_current_subscription PV cid (remote w) = (Inr ans, r') \<and>
    (grants_access s \<longleftrightarrow> (\<exists>rem. ans = Some rem \<and> rs_grants_access rem)) \<and>
    (\<forall>t. tier_col s = tier_value t \<and> t \<noteq> FREE \<longrightarrow>
      (\<exists>rem. ans = Some rem \<and> rs_grants_access rem \<and> fst (resolve_tier S (rs_price rem)) = Some t))"
proof -
  obtain ans r' sub where "p_fetch_current_subscription PV cid (remote w) = (Inr ans, r')"
    and "s = mirrored S (now w) ans sub"
    using sync_returns_mirror [OF assms] by blast
  then show ?thesis
    by (auto simp: mirrored_access mirrored_tier split: option.splits if_splits)
qed

theorem sync_grants_only_what_provider_grants_witness:
  "\<exists>s w'. sync_subscription_from_stripe ex_settings ex_provider ''cus_1'' None ''stripe.sync''
     (ex_world ex_db (Some ex_remote)) = (Inr (Some s), w') \<and> grants_access s"
proof -
  obtain s w' where run: "sync_subscription_from_stripe ex_settings ex_provider ''cus_1'' None
      ''stripe.sync'' (ex_world ex_db (Some ex_remote)) = (Inr (Some s), w')"
    using sync_known_spec [of "''cus_1''" ex_row "ex_world ex_db (Some ex_remote)" ex_provider
        "Some ex_remote" "Some ex_remote" ex_settings None "''stripe.sync''"] by simp
  have "rs_grants_access ex_remote"
    by (simp add: ex_remote_def rs_grants_access_def status_grants_access_def PAID_STATUSES_def)
  with run sync_grants_only_what_provider_grants [OF run] show ?thesis by auto
qed

text \<open>
  Behind the Stripe adapter, a row that grants access after a synchronisation comes from a
  subscription Stripe has not ended, with one of the statuses that pay.
\<close>

theorem sync_access_is_live_at_stripe:
  assumes "sync_subscription_from_stripe S (stripe_provider K S) cid event reason w = (Inr (Some s), w')"
    and "grants_access s"
  shows "\<exists>rem r'. fetch_current_subscription K cid (remote w) = (Inr (Some rem), r') \<and>
    \<not> rs_ended rem \<and> rs_provider_status rem \<in> {''active'', ''trialing'', ''past_due'', ''unpaid''}"
proof -
  obtain ans r' sub where f: "fetch_current_subscription K cid (remote w) = (Inr ans, r')"
    and s: "s = mirrored S (now w) ans sub"
    using sync_returns_mirror [OF assms(1)] by (auto simp: stripe_provider_def)
  then obtain rem where rem: "ans = Some rem" "rs_grants_access rem"
    using assms(2) by (auto simp: mirrored_access)
  have "\<not> rs_ended rem"
    using stripe_values.fetch_access_not_ended [OF f [unfolded rem(1)] rem(2)] .
  moreover have "rs_status rem = translate_status (rs_provider_status rem)"
    using fetch_parses [OF f [unfolded rem(1)]] parse_subscription_status(1) by metis
  then have "rs_provider_status rem \<in> {''active'', ''trialing'', ''past_due'', ''unpaid''}"
    using rem(2) by (auto simp: translate_status_def STATUSES_def rs_grants_access_def
        status_grants_access_def PAID_STATUSES_def split: if_splits)
  ultimately show ?thesis using f rem by blast
qed

theorem sync_access_is_live_at_stripe_witness:
  "\<exists>rem r'. fetch_current_subscription ex_sdk ''cus_1'' None = (Inr (Some rem), r') \<and> \<not> rs_ended rem"
proof -
  let ?run = "sync_subscription_from_stripe ex_settings (stripe_provider ex_sdk ex_settings) ''cus_1''
    None ''stripe.sync'' (ex_world ex_db None)"
  have "case fst ?run of Inr (Some s) \<Rightarrow> grants_access s | _ \<Rightarrow> False"
    by code_simp
  then obtain s w' where "?run = (Inr (Some s), w')" "grants_access s"
    by (cases ?run) (auto split: sum.splits option.splits)
  from sync_access_is_live_at_stripe [OF this] show ?thesis by auto
qed

section \<open>Failures, strangers and races\<close>

text \<open>
  C19: When the provider cannot be read, or the row is held by another worker for longer than
  the bound, the synchronisation raises and has written nothing: the database, the marks and
  the metrics are as before, so the caller answers 500 and Stripe retries.
\<close>

theorem sync_failure_writes_nothing:
  assumes "db_up w" "unique_rows (view w)" "sub \<in> set (subscriptions (view w))"
    and "stripe_customer_id sub = Some cid"
    and "cid \<in> set (locked w) \<or>
      rivals w = [] \<and> p_fetch_current_subscription PV cid (remote w) = (Inl e, r')"
  shows "\<exists>e' r''. sync_subscription_from_stripe S PV cid event reason w = (Inl e', w\<lparr>remote := r''\<rparr>)"
proof (cases "cid \<in> set (locked w)")
  case True
  then show ?thesis using sync_held [of w sub cid S PV event reason] assms
    by (metis (no_types) world.surjective world.update_convs(2))
next
  case False
  then show ?thesis using sync_fetch_failed [of cid sub w PV e r' S event reason] assms
    by (auto simp: ready_def)
qed

theorem sync_failure_writes_nothing_witness:
  "\<exists>e r. sync_subscription_from_stripe ex_settings ex_outage ''cus_1'' None ''stripe.sync''
     (ex_world ex_db (Some ex_remote)) = (Inl e, (ex_world ex_db (Some ex_remote))\<lparr>remote := r\<rparr>)"
  using sync_failure_writes_nothing [of "ex_world ex_db (Some ex_remote)" ex_row "''cus_1''" ex_outage
      "StripeError APIConnectionError ''down''" "Some ex_remote" ex_settings None "''stripe.sync''"]
  by simp

text \<open>
  C20: A customer without a row is left alone, and nothing is written, where the provider has no
  subscription for it, where its price is not one this service sells, where the customer names
  no user, and where the subscription is marked as belonging to a deleted account.
\<close>

theorem sync_leaves_strangers_alone:
  assumes "unknown cid w" "p_fetch_current_subscription PV cid (remote w) = (Inr ans, r1)"
    and "p_retrieve_customer PV cid r1 = (Inr c, r2)"
    and "ans = None \<or> fst (resolve_tier S (rs_price (the ans))) = None \<or> \<not> truthy (rc_user_id c) \<or>
      truthy (map_of (rs_metadata (the ans)) ORPHANED_AT)"
  shows "\<exists>r'. sync_subscription_from_stripe S PV cid event reason w = (Inr None, w\<lparr>remote := r'\<rparr>)"
proof (cases "belongs_to_this_service S ans")
  case False
  then show ?thesis using sync_foreign [OF assms(1,2) False] by auto
next
  case True
  then obtain rem where "ans = Some rem" "fst (resolve_tier S (rs_price rem)) \<noteq> None"
    by (cases ans) (auto simp: belongs_to_this_service_def)
  then show ?thesis using sync_no_user [of cid w PV rem r1 c r2 S event reason] assms by auto
qed

theorem sync_leaves_strangers_alone_witness:
  "\<exists>r. sync_subscription_from_stripe ex_settings ex_provider ''cus_9'' None ''stripe.sync''
     (ex_world ex_db (Some ex_foreign)) = (Inr None, (ex_world ex_db (Some ex_foreign))\<lparr>remote := r\<rparr>)"
proof -
  have "fst (resolve_tier ex_settings (rs_price ex_foreign)) = None"
    by (simp add: resolve_tier_def ex_foreign_def)
  then show ?thesis
    using sync_leaves_strangers_alone [of "''cus_9''" "ex_world ex_db (Some ex_foreign)" ex_provider
        "Some ex_foreign" "Some ex_foreign" "\<lparr>rc_id = ''cus_9'', rc_user_id = Some ''alice''\<rparr>"
        "Some ex_foreign" ex_settings None "''stripe.sync''"]
    by (simp add: unknown_def)
qed

text \<open>
  A new customer's events may arrive together. Where another worker commits the row of the
  same user and customer just before this one's insert, the insert fails inside its savepoint
  and the run goes on with the winner's row: it returns without an error, the loser's row is
  nowhere, and the winner's row carries the mirror of the answer.
\<close>

theorem sync_survives_create_race:
  assumes "unknown cid w" "rivals w = [add_row winner]" "unique_rows (view w)"
    and "uid \<notin> user_id ` set (subscriptions (view w))" "cid \<notin> set (locked w)" "uid \<noteq> []"
    and "user_id winner = uid" "stripe_customer_id winner = Some cid"
    and "p_fetch_current_subscription PV cid (remote w) = (Inr (Some rem), r1)"
    and "p_retrieve_customer PV cid r1 = (Inr \<lparr>rc_id = cid, rc_user_id = Some uid\<rparr>, r2)"
    and "belongs_to_this_service S (Some rem)" "\<not> truthy (map_of (rs_metadata rem) ORPHANED_AT)"
    and "unique_rows (add_row winner (view w))"
    and "unique_rows (add_row (mirrored S (now w) (Some rem) winner) (view w))"
  shows "\<exists>w'. sync_subscription_from_stripe S PV cid event reason w =
      (Inr (Some (mirrored S (now w) (Some rem) winner)), w') \<and>
    subscriptions (view w') = subscriptions (view w) @ [mirrored S (now w) (Some rem) winner]"
proof -
  let ?w = "w\<lparr>remote := r2, view := add_row winner (view w), durable := add_row winner (durable w), rivals := []\<rparr>"
  have "create_or_take cid uid (w\<lparr>remote := r2\<rparr>) = (Inr winner, ?w)"
    using create_or_take_race [of cid "w\<lparr>remote := r2\<rparr>" winner uid] assms by (simp add: unknown_def)
  then have run: "sync_subscription_from_stripe S PV cid event reason w =
      write_mirror S event reason winner (Some rem) ?w"
    by (rule adopt_customer_ours [OF assms(1,9,10,6,11,12)])
  have put: "put_subscription (mirrored S (now w) (Some rem) winner) (subscriptions (view w) @ [winner]) =
      subscriptions (view w) @ [mirrored S (now w) (Some rem) winner]"
    using assms(4,7) by (intro put_added) (auto simp: mirrored_def)
  have u: "unique_rows (synced_db S (now ?w) event reason winner (Some rem) (view ?w))"
    using assms(14) put by (simp add: synced_db_def Let_def add_row_def)
  have up: "db_up ?w" using assms(1) by (simp add: unknown_def)
  show ?thesis
    using run write_mirror_alone [OF up _ u] put
    by (simp add: sync_world_def synced_db_def Let_def add_row_def)
qed

theorem sync_survives_create_race_witness:
  "\<exists>w'. sync_subscription_from_stripe ex_settings ex_provider ''cus_2'' None ''stripe.sync''
     ((ex_world empty_db (Some ex_remote))\<lparr>rivals := [add_row (first_row ''cus_2'' ''alice'')]\<rparr>) =
     (Inr (Some (mirrored ex_settings 1000000 (Some ex_remote) (first_row ''cus_2'' ''alice''))), w') \<and>
     length (subscriptions (view w')) = 1"
proof -
  have own: "belongs_to_this_service ex_settings (Some ex_remote)" "rs_metadata ex_remote = []"
    by (simp_all add: belongs_to_this_service_def resolve_tier_def ex_remote_def)
  have one: "unique_rows (add_row r empty_db)" for r
    using unique_one [of empty_db r] by (simp add: add_row_def)
  show ?thesis
    using sync_survives_create_race [of "''cus_2''" "(ex_world empty_db (Some ex_remote))\<lparr>rivals :=
        [add_row (first_row ''cus_2'' ''alice'')]\<rparr>" "first_row ''cus_2'' ''alice''" "''alice''" ex_provider
        ex_remote "Some ex_remote" "Some ex_remote" ex_settings None "''stripe.sync''"]
    by (auto simp: unknown_def own one)
qed

section \<open>The grace clock\<close>

text \<open>
  While the provider keeps reporting a failed payment, the start of the grace window is
  the time of the first synchronisation that saw it: no later one, however many and whenever,
  moves it. So the window ends \<open>dunning_grace\<close> after that first sight.
\<close>

theorem grace_clock_starts_once:
  assumes "past_due_since sub = None" "runs = (t, ans) # later"
    and "\<forall>r \<in> set runs. \<exists>rem. snd r = Some rem \<and> rs_status rem = PAST_DUE"
  shows "past_due_since (fold (\<lambda>(t, ans). mirrored S t ans) runs sub) = Some (Aware t) \<and>
    grace_ends_at S (fold (\<lambda>(t, ans). mirrored S t ans) runs sub) = Some (Aware (t + dunning_grace S))"
proof -
  let ?P = "\<lambda>s. past_due_since s = Some (Aware t) \<and> status_col s = status_value PAST_DUE"
  have later: "?P (fold (\<lambda>(t, ans). mirrored S t ans) rs s)"
    if "?P s" "\<forall>r \<in> set rs. \<exists>rem. snd r = Some rem \<and> rs_status rem = PAST_DUE" for rs s
    using that by (induction rs arbitrary: s) (auto simp: mirrored_def)
  have "?P (mirrored S t ans sub)" using assms by (auto simp: mirrored_def)
  with later [of "mirrored S t ans sub" later] assms
  have "?P (fold (\<lambda>(t, ans). mirrored S t ans) runs sub)" by simp
  then show ?thesis by (simp add: grace_ends_at_def)
qed

theorem grace_clock_starts_once_witness:
  "past_due_since (fold (\<lambda>(t, ans). mirrored ex_settings t ans)
     [(5, Some ex_failing), (700, Some ex_failing)] ex_row) = Some (Aware 5)"
  by (rule grace_clock_starts_once [of _ _ 5 "Some ex_failing" "[(700, Some ex_failing)]" ex_settings, THEN conjunct1])
    (simp_all add: ex_row_def first_row_def new_subscription_def ex_failing_def)

section \<open>Prices and tiers\<close>

text \<open>
  The price checkout sells for a tier and an interval is recognised as that tier and
  interval when it comes back on a subscription, whatever metadata the price carries.
\<close>

theorem checkout_price_resolves:
  assumes "price_id_for S t i = Some p"
  shows "resolve_tier S (Some \<lparr>rp_id = p, rp_interval = iv, rp_tier = md\<rparr>) = (Some t, Some i)"
  using find_price_in_catalog [OF assms] by (simp add: resolve_tier_def)

theorem checkout_price_resolves_witness:
  "resolve_tier ex_settings (Some \<lparr>rp_id = ''price_pro'', rp_interval = None, rp_tier = Some ''free''\<rparr>) =
     (Some PRO, Some ANNUAL)"
  by (rule checkout_price_resolves) code_simp

text \<open>
  Exactly the recognised prices carry a tier: a configured id gives the configured tier; an
  id that is not configured gives the tier its metadata names; and where neither does, the
  subscription mirrors as free, never as something guessed.
\<close>

theorem resolve_tier_cases:
  "fst (resolve_tier S price) = Some t \<longleftrightarrow>
     (\<exists>p. price = Some p \<and>
       (case map_of (price_catalog S) (rp_id p) of
          Some ti \<Rightarrow> fst ti = t
        | None \<Rightarrow> rp_tier p = Some (tier_value t)))"
proof (cases price)
  case None
  then show ?thesis by (simp add: resolve_tier_def)
next
  case (Some p)
  show ?thesis
  proof (cases "map_of (price_catalog S) (rp_id p)")
    case None
    show ?thesis
    proof (cases "rp_tier p")
      case None
      with Some \<open>map_of _ _ = None\<close> show ?thesis by (simp add: resolve_tier_def)
    next
      case (Some v)
      then show ?thesis using \<open>price = Some p\<close> \<open>map_of _ _ = None\<close> tier_value_nonempty(2) [of t]
        by (cases "Tier_of v") (auto simp: resolve_tier_def)
    qed
  next
    case (Some ti)
    with \<open>price = Some p\<close> show ?thesis by (cases ti) (simp add: resolve_tier_def)
  qed
qed

end
