(* ===== verification/Sync_History.thy ===== *)
theory Sync_History
  imports Sync_Properties
begin

text \<open>
  Many synchronisations of one row, in any order and any number. Webhooks arrive late, twice, or
  out of order; each one mirrors what the provider says when it is handled
  (\<open>sync_subscription_from_stripe\<close> in \<open>app/services/subscriptions.py\<close>), so a history is a list of
  answers with the times they were written. The reference is the last answer alone.
\<close>

definition synced_through :: "settings \<Rightarrow> (int \<times> remote_subscription option) list \<Rightarrow> subscription \<Rightarrow> subscription" where
  "synced_through S h sub = fold (\<lambda>(t, ans) r. mirrored S t ans r) h sub"

definition failing :: "remote_subscription option \<Rightarrow> bool" where
  "failing ans \<longleftrightarrow> (case ans of None \<Rightarrow> False | Some rem \<Rightarrow> rs_status rem = PAST_DUE)"

lemma clock_of_mirrored:
  "past_due_since (mirrored S t ans r) =
     (if failing ans then (case past_due_since r of None \<Rightarrow> Some (Aware t) | Some s \<Rightarrow> Some s) else None)"
  by (auto simp: mirrored_def failing_def split: option.split)

text \<open>But for the grace clock, a row is a function of the last answer and of what never changes.\<close>

definition same_but_clock :: "subscription \<Rightarrow> subscription \<Rightarrow> bool" where
  "same_but_clock a b \<longleftrightarrow> a\<lparr>past_due_since := None\<rparr> = b\<lparr>past_due_since := None\<rparr>"

lemma mirrored_forgets: "same_but_clock (mirrored S t ans (mirrored S t' ans' r)) (mirrored S t ans r)"
  by (simp add: same_but_clock_def mirrored_def write_state_def)

lemma mirrored_same: "same_but_clock a b \<Longrightarrow> same_but_clock (mirrored S t ans a) (mirrored S t ans b)"
  by (cases a; cases b) (simp add: same_but_clock_def mirrored_def write_state_def)

lemma mirrored_any_time: "same_but_clock (mirrored S t ans r) (mirrored S t' ans r)"
  by (simp add: same_but_clock_def mirrored_def write_state_def)

lemma same_but_clock_trans: "same_but_clock a b \<Longrightarrow> same_but_clock b c \<Longrightarrow> same_but_clock a c"
  by (simp add: same_but_clock_def)

lemma same_but_clock_refl [simp]: "same_but_clock a a"
  by (simp add: same_but_clock_def)

lemma synced_through_last: "same_but_clock (synced_through S (h @ [(t, ans)]) r) (mirrored S t ans r)"
proof (induction h arbitrary: r)
  case Nil
  show ?case by (simp add: synced_through_def)
next
  case (Cons x h)
  obtain u b where x: "x = (u, b)" by fastforce
  have "same_but_clock (synced_through S (h @ [(t, ans)]) (mirrored S u b r)) (mirrored S t ans (mirrored S u b r))"
    by (rule Cons.IH)
  then have "same_but_clock (synced_through S (h @ [(t, ans)]) (mirrored S u b r)) (mirrored S t ans r)"
    using mirrored_forgets by (rule same_but_clock_trans)
  then show ?case by (simp add: x synced_through_def)
qed

text \<open>
  The failing answers a history ends with, and since when the grace clock runs after it: it does not
  run where the last answer is not failing; it runs on where the row came with a running clock and
  every answer has been failing; else it started with the first answer of that last streak.
\<close>

definition last_streak :: "(int \<times> remote_subscription option) list \<Rightarrow> (int \<times> remote_subscription option) list" where
  "last_streak h = rev (takeWhile (\<lambda>(t, ans). failing ans) (rev h))"

definition clock_after :: "(int \<times> remote_subscription option) list \<Rightarrow> subscription \<Rightarrow> stamp option" where
  "clock_after h sub = (case last_streak h of
     [] \<Rightarrow> None
   | (t0, _) # _ \<Rightarrow> if last_streak h = h \<and> past_due_since sub \<noteq> None then past_due_since sub else Some (Aware t0))"

lemma last_streak_snoc: "last_streak (h @ [(t, ans)]) = (if failing ans then last_streak h @ [(t, ans)] else [])"
  by (simp add: last_streak_def)

lemma clock_after_run: "h \<noteq> [] \<Longrightarrow> past_due_since (synced_through S h sub) = clock_after h sub"
proof (induction h rule: rev_induct)
  case Nil
  then show ?case by simp
next
  case (snoc x h)
  obtain t ans where x: "x = (t, ans)" by fastforce
  have step: "past_due_since (synced_through S (h @ [x]) sub) =
      (if failing ans then (case past_due_since (synced_through S h sub) of None \<Rightarrow> Some (Aware t) | Some c \<Rightarrow> Some c) else None)"
    by (simp add: x synced_through_def clock_of_mirrored)
  show ?case
  proof (cases "h = []")
    case True
    then show ?thesis
      unfolding step by (auto simp: x clock_after_def last_streak_def synced_through_def split: option.split)
  next
    case False
    with snoc.IH have "past_due_since (synced_through S h sub) = clock_after h sub" by simp
    then show ?thesis
      unfolding step using False
      by (cases "last_streak h") (auto simp: x clock_after_def last_streak_snoc split: option.split if_split_asm)
  qed
qed

section \<open>The runs\<close>

text \<open>
  The synchronisations of one customer, one after the other: at which time, in which state of the
  account, for which event and reason. \<open>answer\<close> is what the provider says in a state.
\<close>

type_synonym 'r sync_run = "int \<times> 'r \<times> string option \<times> string"

fun sync_runs :: "settings \<Rightarrow> 'r provider \<Rightarrow> string \<Rightarrow> 'r sync_run list \<Rightarrow> ('r, 'c) world \<Rightarrow> ('r, 'c) world" where
  "sync_runs S PV cid [] w = w"
| "sync_runs S PV cid ((t, r, event, reason) # h) w =
     sync_runs S PV cid h (snd (sync_subscription_from_stripe S PV cid event reason (w\<lparr>now := t, remote := r\<rparr>)))"

definition answers :: "('r \<Rightarrow> remote_subscription option) \<Rightarrow> 'r sync_run list \<Rightarrow> (int \<times> remote_subscription option) list" where
  "answers answer h = map (\<lambda>(t, r, event, reason). (t, answer r)) h"

lemma held_elsewhere_put:
  "user_id sub' = user_id sub \<Longrightarrow> held_elsewhere ans sub' (db\<lparr>subscriptions := put_subscription sub' rows, subscription_audit := x\<rparr>) =
     held_elsewhere ans sub (db\<lparr>subscriptions := rows\<rparr>)"
  by (auto simp: held_elsewhere_def put_subscription_def list_ex_iff split: option.split)

lemma sync_runs_row:
  assumes "ready cid sub w" "\<And>r. p_fetch_current_subscription PV cid r = (Inr (answer r), r)"
    and "list_all (\<lambda>(t, ans). \<not> held_elsewhere ans sub (view w)) (answers answer h)"
  shows "ready cid (synced_through S (answers answer h) sub) (sync_runs S PV cid h w)"
  using assms(1,3)
proof (induction h arbitrary: sub w)
  case Nil
  then show ?case by (simp add: answers_def synced_through_def)
next
  case (Cons x h)
  obtain t r event reason where x: "x = (t, r, event, reason)" by (cases x) auto
  let ?w = "w\<lparr>now := t, remote := r\<rparr>" and ?sub = "mirrored S t (answer r) sub"
  have ready: "ready cid sub ?w" using Cons.prems(1) by (simp add: ready_def)
  have u: "unique_rows (synced_db S (now ?w) event reason sub (answer r) (view ?w))"
    using Cons.prems by (intro synced_unique) (simp_all add: ready_def x answers_def)
  let ?v = "sync_world S event reason sub (answer r) ?w"
  have run: "snd (sync_subscription_from_stripe S PV cid event reason ?w) = ?v"
    using sync_known_spec [OF ready _ u, of PV r] assms(2) by simp
  have "ready cid ?sub ?v" using ready_after [OF ready u] by simp
  moreover have "held_elsewhere ans ?sub (view ?v) = held_elsewhere ans sub (view w)" for ans
    by (simp add: sync_world_def synced_db_def Let_def held_elsewhere_put mirrored_def)
  then have "list_all (\<lambda>(t, ans). \<not> held_elsewhere ans ?sub (view ?v)) (answers answer h)"
    using Cons.prems(2) by (simp add: answers_def)
  ultimately have "ready cid (synced_through S (answers answer h) ?sub) (sync_runs S PV cid h ?v)"
    by (rule Cons.IH)
  then show ?case using run by (simp add: x answers_def synced_through_def)
qed

text \<open>
  C11: Any history of synchronisations ends where its last answer alone would. However often, in
  whatever order and for whatever reasons a customer is synchronised - duplicates, replays and
  reorderings included - the row has the columns \<open>answered_row\<close> reads off the last answer, but for the moment the grace
  clock started. The clock runs after a history exactly if its last answer is failing, and from
  the first answer of the unbroken run of failing ones at its end, however often the failure is
  reported; only a clock that ran before a history that never stopped failing runs on.
\<close>

theorem history_equals_last_answer:
  assumes "ready cid sub w" "\<And>r. p_fetch_current_subscription PV cid r = (Inr (answer r), r)"
    and "list_all (\<lambda>(t, ans). \<not> held_elsewhere ans sub (view w)) (answers answer h)" "h \<noteq> []"
  shows "\<exists>s. filter (\<lambda>r. stripe_customer_id r = Some cid) (subscriptions (view (sync_runs S PV cid h w))) = [s] \<and>
    s\<lparr>past_due_since := None\<rparr> = (answered_row S t (snd (last (answers answer h))) sub)\<lparr>past_due_since := None\<rparr> \<and>
    past_due_since s = clock_after (answers answer h) sub"
proof -
  let ?h = "answers answer h"
  have h: "?h \<noteq> []" using assms(4) by (simp add: answers_def)
  have "?h = butlast ?h @ [(fst (last ?h), snd (last ?h))]"
    unfolding prod.collapse by (rule append_butlast_last_id [OF h, symmetric])
  then have "same_but_clock (synced_through S ?h sub) (mirrored S (fst (last ?h)) (snd (last ?h)) sub)"
    by (metis synced_through_last)
  then have "same_but_clock (synced_through S ?h sub) (mirrored S t (snd (last ?h)) sub)"
    using mirrored_any_time by (rule same_but_clock_trans)
  moreover have "ready cid (synced_through S ?h sub) (sync_runs S PV cid h w)"
    using assms(1-3) by (rule sync_runs_row)
  then have "filter (\<lambda>r. stripe_customer_id r = Some cid) (subscriptions (view (sync_runs S PV cid h w))) = [synced_through S ?h sub]"
    by (intro customer_rows) (simp_all add: ready_def)
  ultimately show ?thesis using clock_after_run [OF h, of S sub] by (simp add: same_but_clock_def mirrored_answered)
qed

text \<open>A failure, a payment, and a failure that is reported twice.\<close>

theorem history_equals_last_answer_witness:
  "map past_due_since (subscriptions (view (sync_runs ex_settings ex_provider ''cus_1''
     [(4, Some ex_failing, None, ''stripe.webhook''), (5, Some ex_remote, None, ''stripe.webhook''),
      (6, Some ex_failing, None, ''reconcile.drift''), (9, Some ex_failing, None, ''stripe.webhook'')] (ex_world ex_db None)))) =
   [Some (Aware 6)]"
proof -
  let ?h = "[(4, Some ex_failing, None, ''stripe.webhook''), (5, Some ex_remote, None, ''stripe.webhook''),
    (6, Some ex_failing, None, ''reconcile.drift''), (9, Some ex_failing, None, ''stripe.webhook'')]"
  have c: "clock_after (answers (\<lambda>r. r) ?h) ex_row = Some (Aware 6)"
    by (simp add: clock_after_def last_streak_def answers_def failing_def ex_failing_def ex_remote_def)
  have free: "\<not> held_elsewhere ans ex_row ex_db" for ans by (simp add: held_elsewhere_def split: option.split)
  let ?V = "view (sync_runs ex_settings ex_provider ''cus_1'' ?h (ex_world ex_db None))"
  have "map stripe_customer_id (subscriptions ?V) = [Some ''cus_1'']" by code_simp
  then have all: "filter (\<lambda>r. stripe_customer_id r = Some ''cus_1'') (subscriptions ?V) = subscriptions ?V"
    by (simp only: map_eq_Cons_conv map_is_Nil_conv) (elim exE conjE, simp only: filter.simps refl if_True)
  have fetch: "p_fetch_current_subscription ex_provider ''cus_1'' r = (Inr r, r)" for r by simp
  have fits: "list_all (\<lambda>(t, ans). \<not> held_elsewhere ans ex_row (view (ex_world ex_db None))) (answers (\<lambda>r. r) ?h)"
    by (simp add: answers_def free)
  have some: "?h \<noteq> []" by simp
  obtain s where s: "subscriptions (view (sync_runs ex_settings ex_provider ''cus_1'' ?h (ex_world ex_db None))) = [s]"
    "past_due_since s = clock_after (answers (\<lambda>r. r) ?h) ex_row"
    using history_equals_last_answer [OF ex_ready fetch fits some, of ex_settings 0, unfolded all] by blast
  show ?thesis
    unfolding s(1) by (simp only: list.map s(2) c)
qed

end
