(* ===== verification/Entitlement_Properties.thy ===== *)
theory Entitlement_Properties
  imports Examples
begin

text \<open>
  What the entitlement read path promises: the answer is the specification's, a failing cache
  is a miss, a failing database is a stale answer, no cached answer outlives a grace window;
  and what the invalidation after a commit achieves.
\<close>

section \<open>Facts on the cached reads\<close>

lemma cache_get_apply:
  "cache_get B key w =
    (Inr (case fst (get_json B key (now w) (cache w)) of Inl _ \<Rightarrow> None | Inr r \<Rightarrow> r),
     w\<lparr>cache := snd (get_json B key (now w) (cache w))\<rparr>)"
  by (cases "get_json B key (now w) (cache w)")
    (auto simp: cache_get_def try_except_def cached_apply split: sum.split)

lemma cache_set_apply:
  "cache_set B key d ttl w = (Inr (), w\<lparr>cache := snd (set_json B key d ttl (now w) (cache w))\<rparr>)"
  by (cases "set_json B key d ttl (now w) (cache w)")
    (auto simp: cache_set_def try_except_def cached_apply split: sum.split)

text \<open>The cache after the two writes of an answer.\<close>

definition stored ::
  "settings \<Rightarrow> ('c, document) cache_backend \<Rightarrow> string \<Rightarrow> int \<Rightarrow> entitlements \<Rightarrow> 'c \<Rightarrow> 'c" where
  "stored S B uid t e c =
     (let ttl = ttl_for S t e;
          c' = (if 0 < ttl then snd (set_json B (ent_key uid) (Doc_entitlements e) ttl t c) else c)
      in snd (set_json B (stale_key uid) (Doc_entitlements e) STALE_TTL t c'))"

lemma store_answer_apply:
  "store_answer S B uid e w = (Inr e, w\<lparr>cache := stored S B uid (now w) e (cache w),
     metrics := metrics w @ [(''entitlement_cache_total'', [''miss''])]\<rparr>)"
  by (simp add: store_answer_def and_then_def cache_set_apply stored_def Let_def)

definition missed :: "('c, document) cache_backend \<Rightarrow> string \<Rightarrow> ('r, 'c) world \<Rightarrow> bool" where
  "missed B uid w \<longleftrightarrow>
     (case fst (get_json B (ent_key uid) (now w) (cache w)) of Inr (Some _) \<Rightarrow> False | _ \<Rightarrow> True)"

lemma missed_get:
  "missed B uid w \<Longrightarrow> cache_get B (ent_key uid) w =
     (Inr None, w\<lparr>cache := snd (get_json B (ent_key uid) (now w) (cache w))\<rparr>)"
  by (auto simp: missed_def cache_get_apply split: sum.splits option.splits)

lemma resolve_miss:
  assumes "missed B uid w" "db_up w" "unique_rows (view w)" "columns_ok (view w)"
  shows "resolve_entitlements S B uid w =
    (Inr (entitlements_of S (now w) uid (view w)),
     w\<lparr>cache := stored S B uid (now w) (entitlements_of S (now w) uid (view w))
          (snd (get_json B (ent_key uid) (now w) (cache w))),
        metrics := metrics w @ [(''entitlement_cache_total'', [''miss''])]\<rparr>)"
proof -
  let ?w = "w\<lparr>cache := snd (get_json B (ent_key uid) (now w) (cache w))\<rparr>"
  have "resolve_from_db S uid ?w = (Inr (entitlements_of S (now w) uid (view w)), ?w)"
    using resolve_from_db_spec [of ?w S uid] assms by simp
  then show ?thesis
    by (simp add: resolve_entitlements_def and_then_def try_except_def missed_get [OF assms(1)]
        store_answer_apply)
qed

section \<open>The answer\<close>

text \<open>
  C12: With the database reachable, resolving a user answers what the specification says of
  the rows - the plan that is paid for or granted, never an error - whenever the cache has no
  answer, and a cache that raises on every operation counts as one that has none. Nothing but
  the cache and the metrics changes.
\<close>

theorem resolve_is_spec_and_fails_open:
  assumes "missed B uid w" "db_up w" "unique_rows (view w)" "coherent_db (view w)"
  shows "\<exists>c m. resolve_entitlements S B uid w =
    (Inr (entitlements_of S (now w) uid (view w)), w\<lparr>cache := c, metrics := m\<rparr>)"
  using resolve_miss [OF assms(1-3) coherent_columns [OF assms(4)], of S] by blast

text \<open>A cache that is down: every operation raises.\<close>

definition dead_cache :: "('c, document) cache_backend" where
  "dead_cache = \<lparr>cb_get = (\<lambda>k t c. (Inl CacheError, c)), cb_set = (\<lambda>k v ttl t c. (Inl CacheError, c)),
     cb_delete = (\<lambda>k t c. (Inl CacheError, c)), cb_incr = (\<lambda>k ttl t c. (Inl CacheError, c)),
     cb_get_int = (\<lambda>k t c. (Inl CacheError, c))\<rparr>"

lemma coherent_ex_db [simp]: "coherent_db ex_db" "coherent_db empty_db"
  by (simp_all add: coherent_db_def ex_row_def first_row_def empty_db_def)

theorem resolve_is_spec_and_fails_open_witness:
  "\<exists>w'. resolve_entitlements ex_settings dead_cache ''alice'' (ex_world ex_db None) =
    (Inr (entitlements_of ex_settings 1000000 ''alice'' ex_db), w')"
proof -
  have "missed dead_cache ''alice'' (ex_world ex_db None)"
    by (simp add: missed_def dead_cache_def get_json_def and_then_def)
  from resolve_is_spec_and_fails_open [OF this, of ex_settings] show ?thesis by auto
qed

text \<open>
  The tier of the answer is the highest of what is paid for and what is granted: it is one
  of them, no applying grant is above it, and a grant never lowers what the subscription pays
  for. A subscription whose grace window has closed, and a grant that is revoked or expired,
  count for nothing.
\<close>

theorem effective_tier_is_highest:
  "effective_tier S t uid db \<in> insert (paid_tier S t uid db) (set (active_grants t uid db)) \<and>
   paid_tier S t uid db \<le> effective_tier S t uid db \<and>
   (\<forall>g \<in> set (entitlement_grants db). grant_user g = uid \<and> revoked_at g = None \<and>
      (case expires_at g of None \<Rightarrow> True | Some e \<Rightarrow> t < ticks e) \<longrightarrow>
      decode_tier (grant_tier g) \<le> effective_tier S t uid db) \<and>
   ((\<exists>r. subscription_of uid db = Some r \<and> grace_expired S t r) \<longrightarrow> paid_tier S t uid db = FREE)"
proof -
  have applies: "grant_applies t g \<longleftrightarrow> (case expires_at g of None \<Rightarrow> True | Some e \<Rightarrow> t < ticks e)"
    for g :: entitlement_grant
    by (cases "expires_at g") (simp_all add: grant_applies_def)
  have mem: "effective_tier S t uid db \<in> insert (paid_tier S t uid db) (set (active_grants t uid db))"
    unfolding effective_tier_def using Max_in by fastforce
  have "decode_tier (grant_tier g) \<le> effective_tier S t uid db"
    if "g \<in> set (entitlement_grants db)" "grant_user g = uid" "revoked_at g = None" "grant_applies t g" for g
    unfolding effective_tier_def using that by (intro Max_ge) (auto simp: active_grants_def)
  moreover have "paid_tier S t uid db \<le> effective_tier S t uid db"
    unfolding effective_tier_def by (intro Max_ge) auto
  ultimately show ?thesis using mem by (auto simp: applies paid_tier_def)
qed

theorem effective_tier_is_highest_witness:
  "paid_tier ex_settings 5 ''alice'' ex_db \<le> effective_tier ex_settings 5 ''alice'' ex_db"
  using effective_tier_is_highest [of ex_settings 5 "''alice''" ex_db] by blast

section \<open>Outages\<close>

text \<open>
  C32: An answer survives the database. Once a user has been resolved from the database, the
  in-process cache answers the same for the next 24 hours even while every statement fails:
  first from the entry itself, then from the stale copy. No error reaches the caller.
\<close>

theorem stale_answer_survives_outage:
  fixes w :: "('r, document memory) world"
  assumes "missed InMemoryBackend uid w" "db_up w" "unique_rows (view w)" "coherent_db (view w)"
    and "now w \<le> t" "t < now w + 24 * 60 * 60 * second_us"
    and "resolve_entitlements S InMemoryBackend uid w = (Inr e, w1)"
  shows "fst (resolve_entitlements S InMemoryBackend uid (w1\<lparr>now := t, db_up := False\<rparr>)) = Inr e"
proof -
  let ?B = "InMemoryBackend :: (document memory, document) cache_backend"
  let ?w = "w1\<lparr>now := t, db_up := False\<rparr>"
  define c0 where "c0 = snd (get_json ?B (ent_key uid) (now w) (cache w))"
  have e: "e = entitlements_of S (now w) uid (view w)"
    and w1: "w1 = w\<lparr>cache := stored S ?B uid (now w) e c0,
        metrics := metrics w @ [(''entitlement_cache_total'', [''miss''])]\<rparr>"
    using resolve_miss [OF assms(1-3) coherent_columns [OF assms(4)], of S] assms(7)
    by (simp_all add: c0_def)
  have keys: "ent_key uid \<noteq> stale_key uid"
    by (simp add: ent_key_def stale_key_def)
  have stale: "mem_kv.decoded (cache ?w) t (stale_key uid) = Some (Inl (Doc_entitlements e))"
    using assms(6) by (simp add: w1 stored_def Let_def mem_kv.decoded_set STALE_TTL_def)
  have "mem_kv.decoded c0 (now w) (ent_key uid) = None"
    using assms(1) by (simp add: missed_def mem_kv.get_json_value c0_def mem_kv.decoded_frame split: option.splits)
  then have "mem_kv.decoded c0 t (ent_key uid) = None"
    using mem_kv.decoded_earlier assms(5) by blast
  then have fast: "mem_kv.decoded (cache ?w) t (ent_key uid) \<in> {None, Some (Inl (Doc_entitlements e))}"
    using keys by (simp add: w1 stored_def Let_def mem_kv.decoded_set)
  have frame: "mem_kv.decoded (snd (get_json ?B k t (cache ?w))) t k' = mem_kv.decoded (cache ?w) t k'" for k k'
    by (rule mem_kv.decoded_frame) simp
  show ?thesis
    using fast stale frame [of "ent_key uid" "stale_key uid"]
    by (auto simp: resolve_entitlements_def and_then_def try_except_def cache_get_apply
        mem_kv.get_json_value resolve_from_db_down serve_stale_def)
qed

lemma ex_missed: "missed InMemoryBackend uid (ex_world db a)"
  by (simp add: missed_def mem_kv.get_json_value mem_kv.decoded_def mem_peek_eq)

theorem stale_answer_survives_outage_witness:
  "\<exists>e w1. resolve_entitlements ex_settings InMemoryBackend ''alice'' (ex_world ex_db None) = (Inr e, w1) \<and>
    fst (resolve_entitlements ex_settings InMemoryBackend ''alice''
      (w1\<lparr>now := 80000000000, db_up := False\<rparr>)) = Inr e"
proof -
  obtain e w1 where run: "resolve_entitlements ex_settings InMemoryBackend ''alice'' (ex_world ex_db None) = (Inr e, w1)"
    using resolve_miss [OF ex_missed [of "''alice''" ex_db None], of ex_settings] coherent_columns by simp
  show ?thesis
    using run stale_answer_survives_outage [OF ex_missed _ _ _ _ _ run, of 80000000000]
    by (simp add: second_us_def)
qed

text \<open>
  C14: An answer computed inside a grace window is never served from the cache once the window
  has closed. The entry's time to live is at most the configured one, and it runs out at or
  before the boundary; in the last second before it the answer is not cached at all.
\<close>

theorem cached_answer_ends_with_grace:
  fixes w :: "('r, document memory) world"
  assumes "missed InMemoryBackend uid w" "db_up w" "unique_rows (view w)" "coherent_db (view w)"
    and "resolve_entitlements S InMemoryBackend uid w = (Inr e, w1)"
    and "ent_grace_ends_at e = Some g" "now w < ticks g" "ticks g \<le> t"
  shows "missed InMemoryBackend uid (w1\<lparr>now := t\<rparr>)"
proof -
  let ?B = "InMemoryBackend :: (document memory, document) cache_backend"
  define c0 where "c0 = snd (get_json ?B (ent_key uid) (now w) (cache w))"
  have w1: "w1 = w\<lparr>cache := stored S ?B uid (now w) e c0,
        metrics := metrics w @ [(''entitlement_cache_total'', [''miss''])]\<rparr>"
    using resolve_miss [OF assms(1-3) coherent_columns [OF assms(4)], of S] assms(5)
    by (simp add: c0_def)
  have keys: "ent_key uid \<noteq> stale_key uid"
    by (simp add: ent_key_def stale_key_def)
  have "mem_kv.decoded c0 (now w) (ent_key uid) = None"
    using assms(1) by (simp add: missed_def mem_kv.get_json_value c0_def mem_kv.decoded_frame split: option.splits)
  from mem_kv.decoded_earlier [OF _ this, of t]
  have old: "mem_kv.decoded c0 t (ent_key uid) = None"
    using assms(7,8) by simp
  have ttl: "ttl_for S (now w) e * second_us \<le> ticks g - now w" if "0 < ttl_for S (now w) e"
  proof -
    have "ttl_for S (now w) e \<le> trunc_seconds (ticks g - now w)"
      using that assms(6,7) by (cases g) (auto simp: ttl_for_def Let_def split: if_splits)
    then have "ttl_for S (now w) e * second_us \<le> trunc_seconds (ticks g - now w) * second_us"
      by (simp add: second_us_def)
    with trunc_seconds_le [of "ticks g - now w"] assms(7) show ?thesis by simp
  qed
  have "mem_kv.decoded (cache w1) t (ent_key uid) = None"
    using keys old ttl assms(8) by (auto simp: w1 stored_def Let_def mem_kv.decoded_set)
  then show ?thesis by (simp add: missed_def mem_kv.get_json_value)
qed

text \<open>A customer whose payment failed at time 0, with the default window of seven days.\<close>

definition ex_overdue :: database where
  "ex_overdue = ex_db\<lparr>subscriptions := [mirrored ex_settings 0 (Some ex_failing) ex_row]\<rparr>"

lemma ex_overdue_ok [simp]: "unique_rows ex_overdue" "coherent_db ex_overdue"
proof -
  show "unique_rows ex_overdue" unfolding ex_overdue_def by (intro unique_one) simp
  show "coherent_db ex_overdue"
    by (simp add: ex_overdue_def coherent_db_def mirrored_def)
qed

theorem cached_answer_ends_with_grace_witness:
  "missed InMemoryBackend ''alice'' ((snd (resolve_entitlements ex_settings InMemoryBackend ''alice''
     (ex_world ex_overdue None)))\<lparr>now := 604800000000\<rparr>)"
proof -
  let ?run = "resolve_entitlements ex_settings InMemoryBackend ''alice'' (ex_world ex_overdue None)"
  let ?e = "entitlements_of ex_settings 1000000 ''alice'' ex_overdue"
  have "?run = (Inr ?e, snd ?run)"
    using resolve_miss [OF ex_missed [of "''alice''" ex_overdue None], of ex_settings]
      coherent_columns [of ex_overdue] by simp
  moreover have "ent_grace_ends_at ?e = Some (Aware 604800000000)"
    by code_simp
  ultimately show ?thesis
    using cached_answer_ends_with_grace [OF ex_missed [of "''alice''" ex_overdue None], of ex_settings ?e
        "snd ?run" "Aware 604800000000" 604800000000]
    by simp
qed

text \<open>
  Known limit of the cached answer. A grant lapses with the passage of time, as a grace
  window does, but the time to live is not capped at its expiry: here a user with an expired
  grant is still answered \<open>plus\<close> from the cache, 59 seconds after a computation half a second
  before the expiry, while the specification at that instant says \<open>free\<close>.
\<close>

definition ex_grant :: entitlement_grant where
  "ex_grant = \<lparr>grant_id = ''g_1'', grant_user = ''alice'', grant_tier = ''plus'',
     expires_at = Some (Aware 1500000), grant_reason = ''trial'', created_by = ''ops'',
     grant_created_at = Aware 0, revoked_at = None\<rparr>"

definition ex_granted :: database where
  "ex_granted = ex_db\<lparr>entitlement_grants := [ex_grant]\<rparr>"

theorem cached_grant_outlives_expiry:
  "\<exists>w1 e. resolve_entitlements ex_settings InMemoryBackend ''alice'' (ex_world ex_granted None) = (Inr e, w1) \<and>
    map_sum id ent_tier (fst (resolve_entitlements ex_settings InMemoryBackend ''alice'' (w1\<lparr>now := 60000000\<rparr>))) = Inr PLUS \<and>
    effective_tier ex_settings 60000000 ''alice'' (view (w1\<lparr>now := 60000000\<rparr>)) = FREE"
proof -
  let ?run = "resolve_entitlements ex_settings InMemoryBackend ''alice'' (ex_world ex_granted None)"
  have first: "case fst ?run of Inr e \<Rightarrow> ent_tier e = PLUS | Inl _ \<Rightarrow> False"
    by code_simp
  have later: "case fst (resolve_entitlements ex_settings InMemoryBackend ''alice''
      ((snd ?run)\<lparr>now := 60000000\<rparr>)) of Inr e \<Rightarrow> ent_tier e = PLUS | Inl _ \<Rightarrow> False"
    by code_simp
  have spec: "effective_tier ex_settings 60000000 ''alice'' (view ((snd ?run)\<lparr>now := 60000000\<rparr>)) = FREE"
    by code_simp
  show ?thesis
    using first later spec
    by (intro exI [of _ "snd ?run"] exI [of _ "projr (fst ?run)"])
      (cases ?run; auto split: sum.splits)
qed

section \<open>Committing and invalidating\<close>

lemma invalidate_one_apply:
  "\<exists>m. invalidate_one B uid w = (Inr (), w\<lparr>cache := snd (cb_delete B (ent_key uid) (now w) (cache w)), metrics := m\<rparr>)"
  by (cases "cb_delete B (ent_key uid) (now w) (cache w)")
    (auto simp: invalidate_one_def invalidate_entitlements_def try_except_def and_then_def cached_apply
      split: sum.split)

lemma invalidate_all_apply:
  "\<exists>m. for_each (invalidate_one B) uids w =
     (Inr (), w\<lparr>cache := fold (\<lambda>uid c. snd (cb_delete B (ent_key uid) (now w) c)) uids (cache w), metrics := m\<rparr>)"
proof (induction uids arbitrary: w)
  case Nil
  show ?case by (rule exI [of _ "metrics w"]) simp
next
  case (Cons u us)
  obtain m where m: "invalidate_one B u w =
      (Inr (), w\<lparr>cache := snd (cb_delete B (ent_key u) (now w) (cache w)), metrics := m\<rparr>)"
    using invalidate_one_apply by blast
  show ?case
    using Cons.IH [of "w\<lparr>cache := snd (cb_delete B (ent_key u) (now w) (cache w)), metrics := m\<rparr>"]
    by (auto simp: and_then_def m)
qed

lemma commit_and_invalidate_apply:
  assumes "db_up w" "rivals w = []" "unique_rows (view w)"
  shows "\<exists>m. commit_and_invalidate B w = (Inr (), w\<lparr>durable := view w, marks := [],
    cache := fold (\<lambda>uid c. snd (cb_delete B (ent_key uid) (now w) c)) (marks w) (cache w), metrics := m\<rparr>)"
  using invalidate_all_apply [of B "marks w" "w\<lparr>durable := view w, marks := []\<rparr>"] assms
  by (auto simp: commit_and_invalidate_def and_then_def)

text \<open>
  Committing with invalidation makes the session's writes durable, leaves no mark behind
  and never raises for the cache's sake, however many of its deletes fail; and no commit
  counts an undrained mark.
\<close>

theorem commit_and_invalidate_commits:
  assumes "db_up w" "rivals w = []" "unique_rows (view w)"
  shows "\<exists>c m. commit_and_invalidate B w = (Inr (), w\<lparr>durable := view w, marks := [], cache := c, metrics := m\<rparr>)"
  using commit_and_invalidate_apply [OF assms, of B] by blast

theorem commit_and_invalidate_commits_witness:
  "\<exists>c m. commit_and_invalidate dead_cache ((ex_world ex_db None)\<lparr>durable := empty_db, marks := [''alice'']\<rparr>) =
     (Inr (), (ex_world ex_db None)\<lparr>durable := ex_db, marks := [], cache := c, metrics := m\<rparr>)"
proof -
  have "(ex_world ex_db None)\<lparr>durable := empty_db, marks := [''alice''], durable := ex_db, marks := [], cache := c, metrics := m\<rparr> =
      (ex_world ex_db None)\<lparr>durable := ex_db, marks := [], cache := c, metrics := m\<rparr>" for c m
    by simp
  then show ?thesis
    using commit_and_invalidate_commits [of "(ex_world ex_db None)\<lparr>durable := empty_db, marks := [''alice'']\<rparr>" dead_cache]
    by simp
qed

text \<open>
  On the in-process cache, after committing with invalidation no marked user has a cached
  answer any more: the next read, whenever it comes, is computed from the committed rows.
\<close>

theorem marked_users_are_recomputed:
  fixes w :: "('r, document memory) world"
  assumes "db_up w" "rivals w = []" "unique_rows (view w)" "coherent_db (view w)"
    and "uid \<in> set (marks w)" "commit_and_invalidate InMemoryBackend w = (res, w1)"
  shows "\<exists>w2. resolve_entitlements S InMemoryBackend uid (w1\<lparr>now := t\<rparr>) =
    (Inr (entitlements_of S t uid (durable w1)), w2)"
proof -
  let ?B = "InMemoryBackend :: (document memory, document) cache_backend"
  have gone: "mem_kv.decoded (fold (\<lambda>uid c. snd (cb_delete ?B (ent_key uid) n c)) us c) t (ent_key uid) = None"
    if "uid \<in> set us \<or> mem_kv.decoded c t (ent_key uid) = None" for us n c
    using that by (induction us arbitrary: c) (auto simp: mem_kv.decoded_delete)
  obtain m where w1: "w1 = w\<lparr>durable := view w, marks := [],
      cache := fold (\<lambda>uid c. snd (cb_delete ?B (ent_key uid) (now w) c)) (marks w) (cache w), metrics := m\<rparr>"
    using commit_and_invalidate_apply [OF assms(1-3), of ?B] assms(6) by auto
  have "missed ?B uid (w1\<lparr>now := t\<rparr>)"
    using gone assms(5) by (simp add: missed_def mem_kv.get_json_value w1)
  from resolve_miss [OF this, of S] show ?thesis
    using assms coherent_columns by (simp add: w1)
qed

theorem marked_users_are_recomputed_witness:
  "\<exists>w2. resolve_entitlements ex_settings InMemoryBackend ''alice''
     ((snd (commit_and_invalidate InMemoryBackend ((ex_world ex_granted None)\<lparr>durable := ex_db, marks := [''alice'']\<rparr>)))
       \<lparr>now := 9\<rparr>) = (Inr (entitlements_of ex_settings 9 ''alice'' ex_granted), w2)"
proof -
  let ?w = "(ex_world ex_granted None)\<lparr>durable := ex_db, marks := [''alice'']\<rparr>"
  have ok: "unique_rows ex_granted" "coherent_db ex_granted"
    by code_simp+
  obtain c m where run: "commit_and_invalidate InMemoryBackend ?w = (Inr (), ?w\<lparr>durable := view ?w, marks := [], cache := c, metrics := m\<rparr>)"
    using commit_and_invalidate_apply [of ?w InMemoryBackend] ok by auto
  show ?thesis
    using marked_users_are_recomputed [OF _ _ _ _ _ run, of "''alice''" ex_settings 9] ok run by simp
qed

section \<open>The upgrade a blocked feature asks for\<close>

text \<open>
  The tier named to a user who lacks a feature is the lowest one that has it: it unlocks
  the value, no lower tier does, and no tier is named only where none unlocks it.
\<close>

theorem minimum_tier_is_least:
  "(case minimum_tier_for_feature name val of
      Some t \<Rightarrow> unlocks (map_of (td_features (limits_for t)) name) val \<and>
        (\<forall>t'. t' < t \<longrightarrow> \<not> unlocks (map_of (td_features (limits_for t')) name) val)
    | None \<Rightarrow> \<forall>t. \<not> unlocks (map_of (td_features (limits_for t)) name) val)"
proof -
  let ?U = "\<lambda>t. unlocks (map_of (td_features (limits_for t)) name) val"
  have "List.find ?U tiers_by_rank =
      (if ?U FREE then Some FREE else if ?U PLUS then Some PLUS else if ?U PRO then Some PRO
       else if ?U ENTERPRISE then Some ENTERPRISE else None)"
    by (simp add: tiers_by_rank_eq)
  moreover have "\<not> t' < FREE" "t' < PLUS \<longleftrightarrow> t' = FREE" "t' < PRO \<longleftrightarrow> t' = FREE \<or> t' = PLUS"
    "t' < ENTERPRISE \<longleftrightarrow> t' = FREE \<or> t' = PLUS \<or> t' = PRO" for t'
    by (cases t'; simp add: less_tier_def)+
  moreover have "(\<forall>t. \<not> ?U t) \<longleftrightarrow> \<not> ?U FREE \<and> \<not> ?U PLUS \<and> \<not> ?U PRO \<and> \<not> ?U ENTERPRISE"
    by (metis tier.exhaust)
  ultimately show ?thesis by (auto simp: minimum_tier_for_feature_def)
qed

theorem minimum_tier_is_least_witness:
  "minimum_tier_for_feature ''models'' (FStr ''reasoning'') = Some PRO \<and>
    \<not> unlocks (map_of (td_features (limits_for PLUS)) ''models'') (FStr ''reasoning'')"
proof -
  have r: "minimum_tier_for_feature ''models'' (FStr ''reasoning'') = Some PRO"
    by code_simp
  with minimum_tier_is_least [of "''models''" "FStr ''reasoning''"] show ?thesis
    by (simp add: less_tier_def)
qed

end
