(* ===== verification/Cache_Race.thy ===== *)
theory Cache_Race
  imports Entitlement_Properties
begin

text \<open>
  A reader and a writer of the same user, interleaved: the reader has read the rows, the writer
  commits and invalidates, and only then does the reader store its answer. The writer's run is
  \<open>commit_and_invalidate\<close>, the reader's two halves are \<open>resolve_from_db\<close> and \<open>store_answer\<close>, the
  two halves of \<open>resolve_entitlements\<close> on a cache miss (\<open>app/services/entitlements.py\<close>).
\<close>

lemma deleted_after_commit:
  fixes w :: "('r, document memory) world"
  assumes "uid \<in> set us"
  shows "mem_kv.decoded (fold (\<lambda>uid c. snd (cb_delete (InMemoryBackend :: (document memory, document) cache_backend) (ent_key uid) n c)) us c)
    t (ent_key uid) = None"
proof -
  have "mem_kv.decoded (fold (\<lambda>uid c. snd (cb_delete (InMemoryBackend :: (document memory, document) cache_backend) (ent_key uid) n c)) us c)
      t (ent_key uid) = None"
    if "uid \<in> set us \<or> mem_kv.decoded c t (ent_key uid) = None" for c
    using that by (induction us arbitrary: c) (auto simp: mem_kv.decoded_delete)
  then show ?thesis using assms by blast
qed

lemma ttl_for_le: "0 \<le> entitlement_cache_ttl S \<Longrightarrow> ttl_for S t e \<le> entitlement_cache_ttl S"
  by (auto simp: ttl_for_def Let_def split: option.split)

text \<open>
  The readers that store late: at which time, and with which answer. Each writes the fast-path key and
  the stale copy of the same user.
\<close>

fun stored_late ::
  "settings \<Rightarrow> string \<Rightarrow> (int \<times> entitlements) list \<Rightarrow> ('r, document memory) world \<Rightarrow> ('r, document memory) world" where
  "stored_late S uid [] w = w"
| "stored_late S uid ((u, e) # late) w = stored_late S uid late (snd (store_answer S InMemoryBackend uid e (w\<lparr>now := u\<rparr>)))"

lemma stored_late_frame:
  "\<exists>c m. snd (store_answer S InMemoryBackend uid e w) = w\<lparr>cache := c, metrics := m\<rparr>"
  "\<exists>c m u. stored_late S uid late w = w\<lparr>cache := c, metrics := m, now := u\<rparr>"
proof -
  show one: "\<exists>c m. snd (store_answer S InMemoryBackend uid e w) = w\<lparr>cache := c, metrics := m\<rparr>" for e w
    by (auto simp: store_answer_apply)
  show "\<exists>c m u. stored_late S uid late w = w\<lparr>cache := c, metrics := m, now := u\<rparr>"
  proof (induction late arbitrary: w)
    case Nil
    show ?case by (intro exI [of _ "cache w"] exI [of _ "metrics w"] exI [of _ "now w"]) simp
  next
    case (Cons x late)
    obtain u e where x: "x = (u, e)" by fastforce
    obtain c m where "snd (store_answer S InMemoryBackend uid e (w\<lparr>now := u\<rparr>)) = w\<lparr>now := u, cache := c, metrics := m\<rparr>"
      using one [of e "w\<lparr>now := u\<rparr>"] by auto
    with Cons.IH [of "w\<lparr>now := u, cache := c, metrics := m\<rparr>"] x show ?case by (cases w) auto
  qed
qed

lemma stored_late_gone:
  assumes "0 \<le> entitlement_cache_ttl S" "list_all (\<lambda>(u, e). u + entitlement_cache_ttl S * second_us \<le> t) late"
    and "mem_kv.decoded (cache w) t (ent_key uid) = None"
  shows "mem_kv.decoded (cache (stored_late S uid late w)) t (ent_key uid) = None"
  using assms(2,3)
proof (induction late arbitrary: w)
  case Nil
  then show ?case by simp
next
  case (Cons x late)
  obtain u e where x: "x = (u, e)" by fastforce
  have "ent_key uid \<noteq> stale_key uid" by (simp add: ent_key_def stale_key_def)
  moreover have "u + ttl_for S u e * second_us \<le> t"
    using ttl_for_le [OF assms(1), of u e] Cons.prems(1) by (simp add: x second_us_def)
  ultimately have "mem_kv.decoded (cache (snd (store_answer S InMemoryBackend uid e (w\<lparr>now := u\<rparr>)))) t (ent_key uid) = None"
    using Cons.prems(2) by (auto simp: store_answer_apply stored_def Let_def mem_kv.decoded_set)
  with Cons.IH [of "snd (store_answer S InMemoryBackend uid e (w\<lparr>now := u\<rparr>))"] Cons.prems(1) show ?case by (simp add: x)
qed

text \<open>
  C15: A late answer is served by the fast path for the configured time to live and no longer.
  However many readers store an answer of theirs after a write has been committed and its users
  invalidated, at whatever times and with whatever answers, once \<open>entitlement_cache_ttl\<close> seconds
  have passed since each of them stored, the user is answered from the committed rows while the
  database is up, and that read replaces the stale copy too. (Until a read does, the stale copy
  of a late reader stays for its 24 hours; it is served only while the database fails.)
\<close>

theorem late_answer_lives_at_most_ttl:
  fixes w :: "('r, document memory) world"
  assumes "db_up w" "rivals w = []" "unique_rows (view w)" "coherent_db (view w)"
    and "uid \<in> set (marks w)" "commit_and_invalidate InMemoryBackend w = (res, w1)"
    and "0 \<le> entitlement_cache_ttl S" "list_all (\<lambda>(u, old). u + entitlement_cache_ttl S * second_us \<le> t) late"
  shows "\<exists>w3. resolve_entitlements S InMemoryBackend uid ((stored_late S uid late w1)\<lparr>now := t\<rparr>) =
      (Inr (entitlements_of S t uid (durable w1)), w3) \<and>
    mem_kv.decoded (cache w3) t (stale_key uid) = Some (Inl (Doc_entitlements (entitlements_of S t uid (durable w1))))"
proof -
  let ?B = "InMemoryBackend :: (document memory, document) cache_backend"
  obtain m where w1: "w1 = w\<lparr>durable := view w, marks := [],
      cache := fold (\<lambda>uid c. snd (cb_delete ?B (ent_key uid) (now w) c)) (marks w) (cache w), metrics := m\<rparr>"
    using commit_and_invalidate_apply [OF assms(1-3), of ?B] assms(6) by auto
  have "mem_kv.decoded (cache w1) t (ent_key uid) = None"
    using deleted_after_commit [OF assms(5)] by (simp add: w1)
  from stored_late_gone [OF assms(7,8) this]
  have "missed ?B uid ((stored_late S uid late w1)\<lparr>now := t\<rparr>)"
    by (simp add: missed_def mem_kv.get_json_value)
  moreover obtain c n u where "stored_late S uid late w1 = w1\<lparr>cache := c, metrics := n, now := u\<rparr>"
    using stored_late_frame(2) [of S uid late w1] by blast
  ultimately show ?thesis
    using resolve_miss [of ?B uid "(stored_late S uid late w1)\<lparr>now := t\<rparr>" S] assms(1,3) coherent_columns [OF assms(4)]
    by (simp add: w1) (simp add: stored_def Let_def mem_kv.decoded_set STALE_TTL_def second_us_def)
qed

text \<open>A lifetime grant, and the writer that revokes it.\<close>

definition ex_lifetime :: database where
  "ex_lifetime = ex_db\<lparr>entitlement_grants := [ex_grant\<lparr>expires_at := None\<rparr>]\<rparr>"

definition ex_revoked :: database where
  "ex_revoked = ex_db\<lparr>entitlement_grants := [ex_grant\<lparr>expires_at := None, revoked_at := Some (Aware 999999)\<rparr>]\<rparr>"

definition ex_writer :: "(ex_state, document memory) world" where
  "ex_writer = (ex_world ex_lifetime None)\<lparr>view := ex_revoked, marks := [''alice'']\<rparr>"

lemma ex_writer_ok [simp]:
  "db_up ex_writer" "rivals ex_writer = []" "marks ex_writer = [''alice'']" "view ex_writer = ex_revoked"
  "now ex_writer = 1000000" "unique_rows ex_revoked" "coherent_db ex_revoked"
  by (simp_all add: ex_writer_def) (code_simp+)

lemma ex_ttl [simp]: "entitlement_cache_ttl ex_settings = 60"
  by code_simp

text \<open>The old answer is stored ten seconds after the commit, and is gone a minute later.\<close>

theorem late_answer_lives_at_most_ttl_witness:
  "(let w1 = snd (commit_and_invalidate InMemoryBackend ex_writer);
       late = [(11000000, entitlements_of ex_settings 1000000 ''alice'' ex_lifetime)] in
     \<exists>w3. resolve_entitlements ex_settings InMemoryBackend ''alice'' ((stored_late ex_settings ''alice'' late w1)\<lparr>now := 71000000\<rparr>) =
       (Inr (entitlements_of ex_settings 71000000 ''alice'' (durable w1)), w3))"
proof -
  obtain res w1 where run: "commit_and_invalidate InMemoryBackend ex_writer = (res, w1)" by fastforce
  show ?thesis
    using late_answer_lives_at_most_ttl [OF _ _ _ _ _ run, of "''alice''" ex_settings 71000000
        "[(11000000, entitlements_of ex_settings 1000000 ''alice'' ex_lifetime)]"] run
    by (auto simp: second_us_def Let_def)
qed

text \<open>
  Committing before invalidating leaves a window. A reader that has read the rows before a
  revocation commits, and stores its answer after the invalidation, puts the revoked grant's
  answer back: every later read within the time to live serves the tier that was revoked,
  while the committed rows say \<open>free\<close>, and no mark or later invalidation is left to remove it.
\<close>

theorem late_reader_caches_revoked_answer:
  "\<exists>e r1 w1 r2 w2.
    resolve_from_db ex_settings ''alice'' (ex_world ex_lifetime None) = (Inr e, ex_world ex_lifetime None) \<and>
    commit_and_invalidate InMemoryBackend ex_writer = (Inr r1, w1) \<and>
    store_answer ex_settings InMemoryBackend ''alice'' e w1 = (Inr r2, w2) \<and>
    effective_tier ex_settings 60999999 ''alice'' (durable w2) = FREE \<and> marks w2 = [] \<and>
    map_sum id ent_tier (fst (resolve_entitlements ex_settings InMemoryBackend ''alice'' (w2\<lparr>now := 60999999\<rparr>))) = Inr PLUS"
proof -
  define e where "e = entitlements_of ex_settings 1000000 ''alice'' ex_lifetime"
  define w1 where "w1 = snd (commit_and_invalidate InMemoryBackend ex_writer)"
  define w2 where "w2 = snd (store_answer ex_settings InMemoryBackend ''alice'' e w1)"
  have ok: "unique_rows ex_lifetime" "columns_ok ex_lifetime" by code_simp+
  have read: "resolve_from_db ex_settings ''alice'' (ex_world ex_lifetime None) = (Inr e, ex_world ex_lifetime None)"
    using resolve_from_db_spec [of "ex_world ex_lifetime None" ex_settings "''alice''"] ok by (simp add: e_def)
  have commit: "commit_and_invalidate InMemoryBackend ex_writer = (Inr (), w1)"
    using commit_and_invalidate_apply [of ex_writer InMemoryBackend] by (auto simp: w1_def)
  have store: "store_answer ex_settings InMemoryBackend ''alice'' e w1 = (Inr e, w2)"
    by (simp add: w2_def store_answer_apply)
  have rest: "effective_tier ex_settings 60999999 ''alice'' (durable w2) = FREE" "marks w2 = []"
    "case fst (resolve_entitlements ex_settings InMemoryBackend ''alice'' (w2\<lparr>now := 60999999\<rparr>)) of
       Inr e \<Rightarrow> ent_tier e = PLUS | Inl _ \<Rightarrow> False"
    unfolding w2_def w1_def e_def by code_simp+
  show ?thesis
    using read commit store rest by (intro exI conjI) (auto split: sum.splits)
qed

end
