(* ===== verification/Quota.thy ===== *)
theory Quota
  imports Entitlements
begin

text \<open>
  \<open>app/services/quota.py\<close>: windows, the enforcement of a cap with an atomic counter in the
  cache, the durable mirror in its own transaction, and the display of usage. The cache
  backend is a parameter; the cap is proved for the in-process one through the interface
  \<open>window_counter\<close>.
\<close>

section \<open>Windows\<close>

definition calendar_month :: "int \<Rightarrow> stamp \<times> stamp" where
  "calendar_month t = (let start = month_start t in
     (Aware start, Aware (month_start (start + 32 * day_us))))"

definition window_for :: "int \<Rightarrow> quota_window \<Rightarrow> entitlements \<Rightarrow> stamp \<times> stamp" where
  "window_for t window e =
     (if window = DAILY then (Aware (day_start t), Aware (day_start t + day_us))
      else case (as_utc (ent_period_start e), as_utc (ent_period_end e)) of
        (Some s, Some f) \<Rightarrow> if ticks s \<le> t \<and> t < ticks f then (s, f) else calendar_month t
      | _ \<Rightarrow> calendar_month t)"

definition counter_key :: "string \<Rightarrow> string \<Rightarrow> stamp \<Rightarrow> string" where
  "counter_key uid key start =
     ''quota:'' @ uid @ '':'' @ key @ '':'' @ str_int (trunc_seconds (ticks start))"

section \<open>The upgrade that lifts a cap\<close>

definition raises_cap :: "int option \<Rightarrow> int option \<Rightarrow> bool" where
  "raises_cap new old = (case new of
     None \<Rightarrow> True
   | Some n \<Rightarrow> (case old of None \<Rightarrow> False | Some m \<Rightarrow> m < n))"

definition upgrade_tier_for :: "string \<Rightarrow> tier \<Rightarrow> tier option" where
  "upgrade_tier_for key current =
     (let current_limit = (case map_of (td_quotas (limits_for current)) key of
        Some q \<Rightarrow> q_limit q | None \<Rightarrow> Some 0)
      in List.find (\<lambda>t.
           tier_rank current < tier_rank t \<and>
           td_purchasable (limits_for t) \<and>
           (case map_of (td_quotas (limits_for t)) key of
              None \<Rightarrow> False
            | Some q \<Rightarrow> raises_cap (q_limit q) current_limit)) tiers_by_rank)"

section \<open>Reading usage\<close>

definition remaining_of :: "int option \<Rightarrow> int \<Rightarrow> int option" where
  "remaining_of limit used = map_option (\<lambda>l. max 0 (l - used)) limit"

definition peek_quota ::
  "('c, document) cache_backend \<Rightarrow> string \<Rightarrow> string \<Rightarrow> entitlements \<Rightarrow> ('r, 'c, quota_state option) service" where
  "peek_quota B uid key e =
     (case ent_quota e key of
        None \<Rightarrow> ret None
      | Some found \<Rightarrow>
          and_then clock (\<lambda>t.
          let (start, finish) = window_for t (ql_window found) e in
          and_then (try_except (cached (cb_get_int B (counter_key uid key start))) (\<lambda>_. ret 0)) (\<lambda>used.
          ret (Some \<lparr>qs_key = key, qs_limit = ql_limit found, qs_used = used,
            qs_remaining = remaining_of (ql_limit found) used, qs_reset_at = finish\<rparr>))))"

fun states_of ::
  "('c, document) cache_backend \<Rightarrow> string \<Rightarrow> entitlements \<Rightarrow> quota_limit list \<Rightarrow> ('r, 'c, quota_state list) service" where
  "states_of B uid e [] = ret []"
| "states_of B uid e (q # qs) =
     and_then (peek_quota B uid (ql_key q) e) (\<lambda>st.
     and_then (states_of B uid e qs) (\<lambda>rest.
     ret (case st of None \<Rightarrow> rest | Some s \<Rightarrow> s # rest)))"

definition quota_states ::
  "('c, document) cache_backend \<Rightarrow> string \<Rightarrow> entitlements \<Rightarrow> ('r, 'c, quota_state list) service" where
  "quota_states B uid e = states_of B uid e (ent_quotas e)"

section \<open>The durable mirror\<close>

definition is_counter :: "string \<Rightarrow> string \<Rightarrow> stamp \<Rightarrow> usage_counter \<Rightarrow> bool" where
  "is_counter uid key start c \<longleftrightarrow> counter_user c = uid \<and> counter_name c = key \<and> window_start c = start"

definition increment_counter :: "string \<Rightarrow> string \<Rightarrow> stamp \<Rightarrow> database \<Rightarrow> database" where
  "increment_counter uid key start db = db\<lparr>usage_counters :=
     map (\<lambda>c. if is_counter uid key start c then c\<lparr>counter_count := counter_count c + 1\<rparr> else c)
       (usage_counters db)\<rparr>"

definition has_counter :: "string \<Rightarrow> string \<Rightarrow> stamp \<Rightarrow> database \<Rightarrow> bool" where
  "has_counter uid key start db = list_ex (is_counter uid key start) (usage_counters db)"

definition insert_counter :: "string \<Rightarrow> string \<Rightarrow> stamp \<Rightarrow> stamp \<Rightarrow> database \<Rightarrow> database" where
  "insert_counter uid key start finish db = db\<lparr>usage_counters := usage_counters db @
     [\<lparr>counter_user = uid, counter_name = key, window_start = start, window_end = finish, counter_count = 1\<rparr>]\<rparr>"

text \<open>
  A statement committed by another session: it changes the durable rows, and the request's
  session sees it. The insert is preceded by whatever another worker commits first.
\<close>

definition own_commit :: "(database \<Rightarrow> database) \<Rightarrow> ('r, 'c, unit) service" where
  "own_commit f = modify (\<lambda>w. w\<lparr>durable := f (durable w), view := f (view w)\<rparr>)"

definition mirror_usage :: "string \<Rightarrow> string \<Rightarrow> stamp \<Rightarrow> stamp \<Rightarrow> ('r, 'c, unit) service" where
  "mirror_usage uid key start finish =
     try_except
       (and_then check_db (\<lambda>_.
        and_then (gets durable) (\<lambda>db.
        if has_counter uid key start db then own_commit (increment_counter uid key start) else
        and_then (modify rival_lands) (\<lambda>_.
        and_then (gets durable) (\<lambda>db'.
        if has_counter uid key start db' then own_commit (increment_counter uid key start)
        else own_commit (insert_counter uid key start finish))))))
       (\<lambda>_. ret ())"

section \<open>Consuming\<close>

record consumed =
  co_key :: string
  co_limit :: "int option"
  co_used :: int
  co_remaining :: "int option"
  co_reset_at :: "stamp option"

definition quota_ttl :: "int \<Rightarrow> stamp \<Rightarrow> int" where
  "quota_ttl t finish = max 60 (trunc_seconds (ticks finish - t))"

definition consume ::
  "('c, document) cache_backend \<Rightarrow> string \<Rightarrow> string \<Rightarrow> entitlements \<Rightarrow> ('r, 'c, consumed) service" where
  "consume B uid key e =
     (case ent_quota e key of
        None \<Rightarrow> ret \<lparr>co_key = key, co_limit = None, co_used = 0, co_remaining = None, co_reset_at = None\<rparr>
      | Some found \<Rightarrow>
          and_then clock (\<lambda>t.
          let limit = ql_limit found; (start, finish) = window_for t (ql_window found) e in
          and_then (try_except
              (and_then (cached (cb_incr B (counter_key uid key start) (quota_ttl t finish))) (\<lambda>n. ret (Some n)))
              (\<lambda>_. and_then (inc ''quota_errors_total'' [key]) (\<lambda>_. ret None))) (\<lambda>counted.
          case counted of
            None \<Rightarrow>
              and_then (mirror_usage uid key start finish) (\<lambda>_.
              ret \<lparr>co_key = key, co_limit = limit, co_used = 0, co_remaining = limit, co_reset_at = None\<rparr>)
          | Some used \<Rightarrow>
              if (case limit of None \<Rightarrow> False | Some l \<Rightarrow> l < used) then
                and_then (inc ''quota_rejections_total'' [key, tier_value (ent_tier e)]) (\<lambda>_.
                raise (QuotaExceeded \<lparr>qe_key = key, qe_limit = the limit, qe_used = used,
                  qe_reset_at = finish, qe_current_tier = tier_value (ent_tier e),
                  qe_upgrade_tier = map_option tier_value (upgrade_tier_for key (ent_tier e))\<rparr>))
              else
                and_then (mirror_usage uid key start finish) (\<lambda>_.
                ret \<lparr>co_key = key, co_limit = limit, co_used = used,
                     co_remaining = remaining_of limit used, co_reset_at = Some finish\<rparr>))))"

definition counter_rows :: "string \<Rightarrow> ('r, 'c, usage_counter list) service" where
  "counter_rows uid = query (\<lambda>db. take 50 (sort_key (\<lambda>c. - ticks (window_start c))
     (filter (\<lambda>c. counter_user c = uid) (usage_counters db))))"

section \<open>Facts on windows\<close>

lemma window_for_contains:
  assumes "window_for t window e = (start, finish)"
  shows "ticks start \<le> t \<and> t < ticks finish"
proof -
  have month: "ticks (fst (calendar_month t)) \<le> t \<and> t < ticks (snd (calendar_month t))"
    using calendar_month_contains [of t] by (simp add: calendar_month_def Let_def)
  show ?thesis
    using assms month day_start_bounds [of t]
    by (cases "as_utc (ent_period_start e)"; cases "as_utc (ent_period_end e)")
      (auto simp: window_for_def split: if_splits)
qed

lemma window_daily: "window_for t DAILY e = (Aware (day_start t), Aware (day_start t + day_us))"
  by (simp add: window_for_def)

lemma quota_ttl_covers: "t < ticks finish \<Longrightarrow> ticks finish - second_us < t + quota_ttl t finish * second_us"
proof -
  assume "t < ticks finish"
  then have pos: "0 \<le> ticks finish - t" by simp
  have "ticks finish - t < (trunc_seconds (ticks finish - t) + 1) * second_us"
    using trunc_seconds_nonneg [OF pos] by (simp add: second_us_def)
  also have "\<dots> \<le> (quota_ttl t finish + 1) * second_us"
    by (simp add: quota_ttl_def second_us_def)
  finally show ?thesis by (simp add: algebra_simps)
qed

section \<open>Facts on the mirror\<close>

lemma mirror_usage_frame:
  "fst (mirror_usage uid key start finish w) = Inr () \<and>
   snd (mirror_usage uid key start finish w) = w\<lparr>
     durable := durable (snd (mirror_usage uid key start finish w)),
     view := view (snd (mirror_usage uid key start finish w)),
     rivals := rivals (snd (mirror_usage uid key start finish w))\<rparr>"
  by (simp add: mirror_usage_def try_except_def and_then_def own_commit_def rival_lands_def
      split: list.split)

lemma mirror_usage_quiet:
  obtains w' where "mirror_usage uid key start finish w = (Inr (), w')"
    "w' = w\<lparr>durable := durable w', view := view w', rivals := rivals w'\<rparr>"
  using mirror_usage_frame [of uid key start finish w]
  by (cases "mirror_usage uid key start finish w") auto

section \<open>A series of attempts\<close>

text \<open>The answers of the calls made at the given times, one after the other.\<close>

fun consume_at ::
  "('c, document) cache_backend \<Rightarrow> string \<Rightarrow> string \<Rightarrow> entitlements \<Rightarrow> int list \<Rightarrow> ('r, 'c) world \<Rightarrow>
   (exc + consumed) list" where
  "consume_at B uid key e [] w = []"
| "consume_at B uid key e (t # ts) w =
     fst (consume B uid key e (w\<lparr>now := t\<rparr>)) # consume_at B uid key e ts (snd (consume B uid key e (w\<lparr>now := t\<rparr>)))"

definition admitted :: "exc + 'a \<Rightarrow> bool" where
  "admitted r = (case r of Inr _ \<Rightarrow> True | Inl _ \<Rightarrow> False)"

lemma consume_step:
  fixes w :: "('r, document memory) world"
  assumes "ent_quota e key = Some q" "ql_limit q = Some limit"
    and "window_for (now w) (ql_window q) e = (start, finish)"
    and "mem_incr (counter_key uid key start) (quota_ttl (now w) finish) (now w) (cache w) = (Inr n, c)"
  shows "(admitted (fst (consume InMemoryBackend uid key e w)) \<longleftrightarrow> n \<le> limit) \<and>
    cache (snd (consume InMemoryBackend uid key e w)) = c"
proof -
  have incr: "cached (cb_incr InMemoryBackend (counter_key uid key start) (quota_ttl (now w) finish)) w =
      (Inr n, w\<lparr>cache := c\<rparr>)"
    using assms(4) by (simp add: cached_apply InMemoryBackend_def)
  obtain w' where m: "mirror_usage uid key start finish (w\<lparr>cache := c\<rparr>) = (Inr (), w')"
    and w': "w' = w\<lparr>cache := c\<rparr>\<lparr>durable := durable w', view := view w', rivals := rivals w'\<rparr>"
    by (rule mirror_usage_quiet)
  have "cache w' = c" using arg_cong [OF w', of cache] by simp
  then show ?thesis
    by (simp add: consume_def assms and_then_def try_except_def incr m admitted_def Let_def not_less)
qed

text \<open>
  The admitted calls of a window are the increments that stay within the limit: the calls of
  one user and one key run the counter of the interface \<open>window_counter\<close>.
\<close>

lemma consume_at_attempts:
  fixes w :: "('r, document memory) world"
  assumes "ent_quota e key = Some q" "ql_limit q = Some limit"
    and "\<forall>t \<in> set ts. window_for t (ql_window q) e = (start, finish)"
    and "mem_sound (cache w) (counter_key uid key start)"
  shows "map admitted (consume_at InMemoryBackend uid key e ts w) =
    map (\<lambda>r. \<exists>n. r = Inr n \<and> n \<le> limit)
      (mem_counter.attempts (counter_key uid key start) (map (\<lambda>t. (t, quota_ttl t finish)) ts) (cache w))"
  using assms(3,4)
proof (induction ts arbitrary: w)
  case Nil
  show ?case by simp
next
  case (Cons t ts)
  let ?k = "counter_key uid key start" and ?w = "w\<lparr>now := t\<rparr>"
  have sound: "mem_sound (cache ?w) ?k" using Cons.prems by simp
  obtain r c where run: "mem_incr ?k (quota_ttl t finish) t (cache w) = (r, c)" by fastforce
  have r: "r = Inr (mem_tally (cache w) t ?k + 1)" and c: "mem_sound c ?k"
    using mem_counter.incr_value [of "cache w" ?k "quota_ttl t finish" t]
      mem_counter.incr_sound [of "cache w" ?k "quota_ttl t finish" t] sound run by simp_all
  have step: "(admitted (fst (consume InMemoryBackend uid key e ?w)) \<longleftrightarrow> mem_tally (cache w) t ?k + 1 \<le> limit) \<and>
      cache (snd (consume InMemoryBackend uid key e ?w)) = c"
    using consume_step [of e key q limit ?w start finish uid] assms(1,2) Cons.prems(1) run r by simp
  show ?case
    using Cons.IH [of "snd (consume InMemoryBackend uid key e ?w)"] Cons.prems(1) step c run r by simp
qed

text \<open>The one error consuming can raise, on any backend.\<close>

lemma consume_error:
  assumes "consume B uid key e w = (Inl err, w')"
  shows "\<exists>q limit used start finish. ent_quota e key = Some q \<and> ql_limit q = Some limit \<and>
    window_for (now w) (ql_window q) e = (start, finish) \<and> limit < used \<and>
    fst (cb_incr B (counter_key uid key start) (quota_ttl (now w) finish) (now w) (cache w)) = Inr used \<and>
    err = QuotaExceeded \<lparr>qe_key = key, qe_limit = limit, qe_used = used, qe_reset_at = finish,
      qe_current_tier = tier_value (ent_tier e),
      qe_upgrade_tier = map_option tier_value (upgrade_tier_for key (ent_tier e))\<rparr>"
proof (cases "ent_quota e key")
  case None
  then show ?thesis using assms by (simp add: consume_def)
next
  case (Some q)
  obtain start finish where win: "window_for (now w) (ql_window q) e = (start, finish)" by fastforce
  obtain r c where run: "cb_incr B (counter_key uid key start) (quota_ttl (now w) finish) (now w) (cache w) = (r, c)"
    by fastforce
  obtain w1 where m1: "mirror_usage uid key start finish (w\<lparr>cache := c\<rparr>) = (Inr (), w1)"
    using mirror_usage_frame [of uid key start finish "w\<lparr>cache := c\<rparr>"] by (metis prod.collapse)
  obtain w2 where m2: "mirror_usage uid key start finish
      (w\<lparr>cache := c, metrics := metrics w @ [(''quota_errors_total'', [key])]\<rparr>) = (Inr (), w2)"
    using mirror_usage_frame [of uid key start finish
      "w\<lparr>cache := c, metrics := metrics w @ [(''quota_errors_total'', [key])]\<rparr>"] by (metis prod.collapse)
  show ?thesis
    using assms
    by (cases r; cases "ql_limit q")
      (auto simp: consume_def Some win and_then_def try_except_def cached_apply run m1 m2 Let_def
        split: if_splits)
qed

end
