(* ===== verification/View.thy ===== *)
theory View
  imports Quota
begin

text \<open>
  The assembled answers of the product's own endpoints: \<open>app/services/view.py\<close>,
  \<open>app/routers/entitlements.py\<close> and the metered stand-in \<open>app/routers/chat_demo.py\<close>.
\<close>

definition entitlement_view ::
  "settings \<Rightarrow> ('c, document) cache_backend \<Rightarrow> string \<Rightarrow> ('r, 'c, entitlement_response) service" where
  "entitlement_view S B uid =
     and_then (resolve_entitlements S B uid) (\<lambda>resolved.
     and_then (quota_states B uid resolved) (\<lambda>usage.
     ret \<lparr>er_user_id = ent_user_id resolved,
          er_tier = ent_tier resolved,
          er_display_name = ent_display_name resolved,
          er_status = ent_status resolved,
          er_source = ent_source resolved,
          er_features = ent_features resolved,
          er_quotas = usage,
          er_period_end = ent_period_end resolved,
          er_cancel_at_period_end = ent_cancel_at_period_end resolved,
          er_grace_ends_at = ent_grace_ends_at resolved\<rparr>))"

definition my_entitlements ::
  "settings \<Rightarrow> ('c, document) cache_backend \<Rightarrow> string \<Rightarrow> ('r, 'c, entitlement_response) service" where
  "my_entitlements S B uid = request (entitlement_view S B uid)"

record chat_reply =
  cr_model :: string
  cr_reply :: string
  cr_quota :: consumed

definition chat ::
  "settings \<Rightarrow> ('c, document) cache_backend \<Rightarrow> string \<Rightarrow> string \<Rightarrow> string \<Rightarrow> ('r, 'c, chat_reply) service" where
  "chat S B uid model message = request
     (and_then (resolve_entitlements S B uid) (\<lambda>ents.
      if model \<notin> set (models (ent_features ents)) then
        raise (FeatureNotEntitled
          \<lparr>fe_feature = ''model:'' @ model,
           fe_current_tier = tier_value (ent_tier ents),
           fe_required_tier = map_option tier_value (minimum_tier_for_feature ''models'' (FStr model))\<rparr>)
      else
        and_then (consume B uid ''messages_per_day'' ents) (\<lambda>state.
        ret \<lparr>cr_model = model,
             cr_reply = ''['' @ tier_value (ent_tier ents) @ ''] echo: '' @ message,
             cr_quota = state\<rparr>)))"

lemma peek_quota_value:
  "\<exists>s c. peek_quota B uid key e w = (Inr s, w\<lparr>cache := c\<rparr>)"
proof (cases "ent_quota e key")
  case None
  then show ?thesis by (intro exI [of _ None] exI [of _ "cache w"]) (simp add: peek_quota_def)
next
  case (Some q)
  obtain start finish where win: "window_for (now w) (ql_window q) e = (start, finish)" by fastforce
  obtain r c where run: "cb_get_int B (counter_key uid key start) (now w) (cache w) = (r, c)" by fastforce
  show ?thesis
    by (cases r) (auto simp: peek_quota_def Some win run and_then_def try_except_def cached_apply)
qed

lemma quota_states_value: "\<exists>s c. quota_states B uid e w = (Inr s, w\<lparr>cache := c\<rparr>)"
proof -
  have "\<exists>s c. states_of B uid e qs w = (Inr s, w\<lparr>cache := c\<rparr>)" for qs
  proof (induction qs arbitrary: w)
    case Nil
    show ?case by (intro exI [of _ "[]"] exI [of _ "cache w"]) simp
  next
    case (Cons q qs)
    obtain s c where "peek_quota B uid (ql_key q) e w = (Inr s, w\<lparr>cache := c\<rparr>)"
      using peek_quota_value [of B uid "ql_key q" e w] by blast
    moreover obtain s' c' where "states_of B uid e qs (w\<lparr>cache := c\<rparr>) = (Inr s', w\<lparr>cache := c\<rparr>\<lparr>cache := c'\<rparr>)"
      using Cons.IH [of "w\<lparr>cache := c\<rparr>"] by blast
    ultimately show ?case by (auto simp: and_then_def)
  qed
  then show ?thesis by (simp add: quota_states_def)
qed

end
