(* ===== verification/Ratelimit.thy ===== *)
theory Ratelimit
  imports Session Documents
begin

text \<open>
  \<open>app/ratelimit.py\<close>: fixed windows counted in the cache, and who a request is counted
  against. A window of 0 requests is switched off; a cache that fails lets the request through.
\<close>

record rl_window =
  rw_name :: string
  rw_limit :: int
  rw_seconds :: int

text \<open>\<open>str.split(",")[0]\<close> and \<open>str.strip()\<close> on ASCII white space.\<close>

definition first_item :: "string \<Rightarrow> string" where
  "first_item s = takeWhile (\<lambda>c. c \<noteq> CHR '','') s"

definition is_space :: "char \<Rightarrow> bool" where
  "is_space c = (let n = of_char c :: nat in n = 32 \<or> (9 \<le> n \<and> n \<le> 13))"

definition strip :: "string \<Rightarrow> string" where
  "strip s = rev (dropWhile is_space (rev (dropWhile is_space s)))"

text \<open>The header, if present, and the peer's address, if known.\<close>

definition client_ip :: "settings \<Rightarrow> string option \<Rightarrow> string option \<Rightarrow> string" where
  "client_ip S forwarded peer =
     (let first = strip (first_item (case forwarded of Some h \<Rightarrow> h | None \<Rightarrow> ''''));
          host = (case peer of Some h \<Rightarrow> h | None \<Rightarrow> ''unknown'')
      in if trust_proxy_headers S \<and> first \<noteq> [] then take 45 first else host)"

definition rl_bucket :: "int \<Rightarrow> rl_window \<Rightarrow> int" where
  "rl_bucket t w = t div (rw_seconds w * second_us)"

definition rl_key :: "string \<Rightarrow> string \<Rightarrow> int \<Rightarrow> rl_window \<Rightarrow> string" where
  "rl_key scope identity t w =
     ''rl:'' @ scope @ '':'' @ rw_name w @ '':'' @ identity @ '':'' @ str_int (rl_bucket t w)"

definition rl_retry_after_of :: "int \<Rightarrow> rl_window \<Rightarrow> int" where
  "rl_retry_after_of t w = max 1 (trunc_seconds ((rl_bucket t w + 1) * rw_seconds w * second_us - t))"

fun enforce ::
  "('c, document) cache_backend \<Rightarrow> string \<Rightarrow> string \<Rightarrow> rl_window list \<Rightarrow> ('r, 'c, unit) service" where
  "enforce B scope identity [] = ret ()"
| "enforce B scope identity (w # ws) =
     (if rw_limit w \<le> 0 then enforce B scope identity ws else
      and_then clock (\<lambda>t.
      and_then (try_except
          (and_then (cached (cb_incr B (rl_key scope identity t w) (rw_seconds w))) (\<lambda>n. ret (Some n)))
          (\<lambda>_. and_then (inc ''rate_limit_errors_total'' [scope]) (\<lambda>_. ret None))) (\<lambda>counted.
      case counted of
        None \<Rightarrow> ret ()
      | Some used \<Rightarrow>
          if rw_limit w < used then
            and_then (inc ''rate_limit_rejections_total'' [scope, rw_name w]) (\<lambda>_.
            raise (RateLimited \<lparr>rl_scope = scope, rl_limit = rw_limit w,
              rl_window_seconds = rw_seconds w, rl_retry_after = rl_retry_after_of t w\<rparr>))
          else enforce B scope identity ws)))"

definition contact_sales_windows :: "settings \<Rightarrow> rl_window list" where
  "contact_sales_windows S =
     [\<lparr>rw_name = ''hour'', rw_limit = contact_sales_per_hour S, rw_seconds = 3600\<rparr>,
      \<lparr>rw_name = ''day'', rw_limit = contact_sales_per_day S, rw_seconds = 86400\<rparr>]"

definition contact_sales_rate_limit ::
  "settings \<Rightarrow> ('c, document) cache_backend \<Rightarrow> string option \<Rightarrow> string option \<Rightarrow> ('r, 'c, unit) service" where
  "contact_sales_rate_limit S B forwarded peer =
     enforce B ''contact_sales'' (client_ip S forwarded peer) (contact_sales_windows S)"

text \<open>A rate limit never writes the database.\<close>

lemma enforce_frame:
  "view (snd (enforce B scope identity ws w)) = view w \<and>
   durable (snd (enforce B scope identity ws w)) = durable w \<and>
   marks (snd (enforce B scope identity ws w)) = marks w"
proof (induction ws arbitrary: w)
  case Nil
  show ?case by simp
next
  case (Cons x xs)
  obtain r c where "cb_incr B (rl_key scope identity (now w) x) (rw_seconds x) (now w) (cache w) = (r, c)"
    by fastforce
  then show ?case
    using Cons.IH [of w] Cons.IH [of "w\<lparr>cache := c\<rparr>"]
    by (cases r) (auto simp: and_then_def try_except_def cached_apply Let_def)
qed

section \<open>A series of requests\<close>

fun enforce_at ::
  "('c, document) cache_backend \<Rightarrow> string \<Rightarrow> string \<Rightarrow> rl_window list \<Rightarrow> int list \<Rightarrow> ('r, 'c) world \<Rightarrow>
   (exc + unit) list" where
  "enforce_at B scope identity ws [] w = []"
| "enforce_at B scope identity ws (t # later) w =
     fst (enforce B scope identity ws (w\<lparr>now := t\<rparr>)) #
     enforce_at B scope identity ws later (snd (enforce B scope identity ws (w\<lparr>now := t\<rparr>)))"

lemma enforce_step:
  fixes w :: "('r, document memory) world"
  assumes "\<not> rw_limit y \<le> 0"
    and "mem_incr (rl_key scope identity (now w) y) (rw_seconds y) (now w) (cache w) = (Inr m, c)"
  shows "enforce InMemoryBackend scope identity (y # ys) w =
      (if rw_limit y < m then
         (Inl (RateLimited \<lparr>rl_scope = scope, rl_limit = rw_limit y, rl_window_seconds = rw_seconds y,
            rl_retry_after = rl_retry_after_of (now w) y\<rparr>),
          w\<lparr>cache := c, metrics := metrics w @ [(''rate_limit_rejections_total'', [scope, rw_name y])]\<rparr>)
       else enforce InMemoryBackend scope identity ys (w\<lparr>cache := c\<rparr>))"
  using assms by (simp add: and_then_def try_except_def cached_apply InMemoryBackend_def)

lemma enforce_step_error:
  fixes w :: "('r, document memory) world"
  assumes "\<not> rw_limit y \<le> 0"
    and "mem_incr (rl_key scope identity (now w) y) (rw_seconds y) (now w) (cache w) = (Inl e, c)"
  shows "enforce InMemoryBackend scope identity (y # ys) w =
      (Inr (), w\<lparr>cache := c, metrics := metrics w @ [(''rate_limit_errors_total'', [scope])]\<rparr>)"
  using assms by (simp add: and_then_def try_except_def cached_apply InMemoryBackend_def)

lemma enforce_other:
  fixes w :: "('r, document memory) world"
  assumes "k \<notin> set (map (rl_key scope identity (now w)) ws)"
  shows "mem_counter.counting (cache (snd (enforce InMemoryBackend scope identity ws w))) k T n =
    mem_counter.counting (cache w) k T n"
  using assms
proof (induction ws arbitrary: w)
  case Nil
  then show ?case by simp
next
  case (Cons y ys)
  let ?key = "rl_key scope identity (now w)"
  show ?case
  proof (cases "rw_limit y \<le> 0")
    case True
    with Cons show ?thesis by simp
  next
    case False
    obtain r c where run: "mem_incr (?key y) (rw_seconds y) (now w) (cache w) = (r, c)" by fastforce
    have "mem_counter.counting c k T n = mem_counter.counting (cache w) k T n"
      using mem_counter.counting_other [of "?key y" k "rw_seconds y" "now w" "cache w"] Cons.prems run
      by auto
    then show ?thesis
      using Cons.IH [of "w\<lparr>cache := c\<rparr>"] Cons.prems run
      by (cases r) (simp_all add: enforce_step [OF False] enforce_step_error [OF False] del: enforce.simps)
  qed
qed

text \<open>
  One request and one window \<open>x\<close> of the list, whose counter stands at \<open>n\<close>: the counter never
  goes back, and a request that is let through was counted and found within the limit. The
  counters of the other windows hold numbers, or the limiter would have failed open.
\<close>

lemma enforce_counts:
  fixes w :: "('r, document memory) world"
  assumes "x \<in> set ws" "0 < rw_limit x" "distinct (map (rl_key scope identity (now w)) ws)"
    and "mem_counter.counting (cache w) (rl_key scope identity (now w) x) T n"
    and "now w < T" "T \<le> now w + rw_seconds x * second_us"
    and "\<forall>y \<in> set ws. mem_sound (cache w) (rl_key scope identity (now w) y)"
    and "enforce InMemoryBackend scope identity ws w = (res, w')"
  shows "\<exists>n'. mem_counter.counting (cache w') (rl_key scope identity (now w) x) T n' \<and> n \<le> n' \<and>
    (res = Inr () \<longrightarrow> n' = n + 1 \<and> n + 1 \<le> rw_limit x)"
  using assms
proof (induction ws arbitrary: w)
  case Nil
  then show ?case by simp
next
  case (Cons y ys)
  let ?key = "rl_key scope identity (now w)"
  show ?case
  proof (cases "rw_limit y \<le> 0")
    case True
    then have "x \<in> set ys" using Cons.prems(1,2) by auto
    with True show ?thesis using Cons.prems by (intro Cons.IH [of w]) auto
  next
    case False
    obtain r c where run: "mem_incr (?key y) (rw_seconds y) (now w) (cache w) = (r, c)" by fastforce
    have sy: "mem_sound (cache w) (?key y)" using Cons.prems(7) by simp
    obtain m where r: "r = Inr m"
      using mem_counter.incr_value [OF sy, of "rw_seconds y" "now w"] run by simp
    note rest = enforce_step [OF False run [unfolded r]]
    note fin = Cons.prems(8) [unfolded rest]
    show ?thesis
    proof (cases "y = x")
      case True
      have m: "m = n + 1" and cnt: "mem_counter.counting c (?key x) T (n + 1)"
        using mem_counter.counting_incr [OF Cons.prems(4,5,6)] run r True by simp_all
      have "?key x \<notin> set (map ?key ys)" using Cons.prems(3) True by simp
      then have "mem_counter.counting (cache (snd (enforce InMemoryBackend scope identity ys (w\<lparr>cache := c\<rparr>)))) (?key x) T (n + 1)"
        using enforce_other [where w = "w\<lparr>cache := c\<rparr>"] cnt by simp
      with cnt show ?thesis using fin m True
        by (cases "rw_limit y < m") (auto intro!: exI [of _ "n + 1"])
    next
      case False
      then have x: "x \<in> set ys" using Cons.prems(1) by simp
      then have ne: "?key y \<noteq> ?key x" using Cons.prems(3) by auto
      have cnt: "mem_counter.counting c (?key x) T n"
        using mem_counter.counting_other [OF ne, of "rw_seconds y" "now w" "cache w"] Cons.prems(4) run by simp
      show ?thesis
      proof (cases "rw_limit y < m")
        case True
        then show ?thesis using fin cnt by auto
      next
        case False
        have sound: "\<forall>z \<in> set ys. mem_sound c (?key z)"
        proof
          fix z assume "z \<in> set ys"
          then have "?key y \<noteq> ?key z" "mem_sound (cache w) (?key z)" using Cons.prems(3,7) by auto
          then show "mem_sound c (?key z)"
            using mem_counter.incr_other_sound [of "?key y" "?key z" "rw_seconds y" "now w" "cache w"] run by simp
        qed
        show ?thesis
          using Cons.IH [of "w\<lparr>cache := c\<rparr>"] x Cons.prems(2-6) fin False cnt sound by simp
      qed
    qed
  qed
qed

lemma enforce_sound:
  fixes w :: "('r, document memory) world"
  assumes "mem_sound (cache w) k"
  shows "mem_sound (cache (snd (enforce InMemoryBackend scope identity ws w))) k"
  using assms
proof (induction ws arbitrary: w)
  case Nil
  then show ?case by simp
next
  case (Cons y ys)
  let ?k = "rl_key scope identity (now w) y"
  show ?case
  proof (cases "rw_limit y \<le> 0")
    case True
    with Cons show ?thesis by simp
  next
    case False
    obtain r c where run: "mem_incr ?k (rw_seconds y) (now w) (cache w) = (r, c)" by fastforce
    have "mem_sound c k"
      using Cons.prems run mem_counter.incr_sound [of "cache w" k "rw_seconds y" "now w"]
        mem_counter.incr_other_sound [of ?k k "rw_seconds y" "now w" "cache w"]
      by (cases "?k = k") auto
    then show ?thesis
      using Cons.IH [of "w\<lparr>cache := c\<rparr>"] run
      by (cases r) (simp_all add: enforce_step [OF False] enforce_step_error [OF False] del: enforce.simps)
  qed
qed

lemma bucket_bounds:
  assumes "0 < rw_seconds x" "rl_bucket t x = b"
  shows "t < (b + 1) * (rw_seconds x * second_us)"
    "(b + 1) * (rw_seconds x * second_us) \<le> t + rw_seconds x * second_us"
proof -
  let ?S = "rw_seconds x * second_us"
  have pos: "0 < ?S" using assms(1) by (simp add: second_us_def)
  have "t = b * ?S + t mod ?S" using assms(2) div_mult_mod_eq [of t ?S] by (simp add: rl_bucket_def)
  moreover have "0 \<le> t mod ?S" "t mod ?S < ?S" using pos by simp_all
  ultimately show "t < (b + 1) * ?S" "(b + 1) * ?S \<le> t + ?S" by (simp_all add: algebra_simps)
qed

text \<open>So the requests let through in one bucket of a window are at most its limit.\<close>

lemma enforce_at_bound:
  fixes w :: "('r, document memory) world"
  assumes "x \<in> set ws" "0 < rw_limit x" "0 < rw_seconds x"
    and "\<And>t. distinct (map (rl_key scope identity t) ws)"
    and "\<forall>t \<in> set calls. rl_bucket t x = b"
    and "\<And>t. rl_bucket t x = b \<Longrightarrow> rl_key scope identity t x = k"
    and "mem_counter.counting (cache w) k ((b + 1) * (rw_seconds x * second_us)) n"
    and "\<And>t y. y \<in> set ws \<Longrightarrow> mem_sound (cache w) (rl_key scope identity t y)"
  shows "int (length (filter (\<lambda>r. r = Inr ()) (enforce_at InMemoryBackend scope identity ws calls w)))
    \<le> max 0 (rw_limit x - n)"
  using assms(5,7,8)
proof (induction calls arbitrary: w n)
  case Nil
  then show ?case by simp
next
  case (Cons t later)
  let ?T = "(b + 1) * (rw_seconds x * second_us)" and ?w = "w\<lparr>now := t\<rparr>"
  obtain res w' where run: "enforce InMemoryBackend scope identity ws ?w = (res, w')" by fastforce
  have b: "rl_bucket t x = b" using Cons.prems(1) by simp
  have t: "t < ?T" "?T \<le> t + rw_seconds x * second_us"
    using bucket_bounds [OF assms(3) b] by simp_all
  have "\<exists>n'. mem_counter.counting (cache w') k ?T n' \<and> n \<le> n' \<and>
      (res = Inr () \<longrightarrow> n' = n + 1 \<and> n + 1 \<le> rw_limit x)"
    using enforce_counts [of x ws scope identity ?w ?T n res w'] assms(1,2,4) assms(6) [OF b]
      Cons.prems(2,3) t run by simp
  then obtain n' where n': "mem_counter.counting (cache w') k ?T n'" "n \<le> n'"
    "res = Inr () \<Longrightarrow> n' = n + 1 \<and> n + 1 \<le> rw_limit x" by blast
  have sound: "mem_sound (cache w') (rl_key scope identity t' y)" if "y \<in> set ws" for t' y
    using enforce_sound [of ?w "rl_key scope identity t' y" scope identity ws] Cons.prems(3) [OF that] run by simp
  have "int (length (filter (\<lambda>r. r = Inr ()) (enforce_at InMemoryBackend scope identity ws later w')))
      \<le> max 0 (rw_limit x - n')"
    using Cons.IH [OF _ n'(1) sound] Cons.prems(1) by simp
  then show ?case using n'(2,3) run by (auto simp: max_def split: if_splits)
qed

end
