(* ===== verification/Quota_Properties.thy ===== *)
theory Quota_Properties
  imports View Ratelimit Entitlement_Properties
begin

text \<open>What metering promises: the cap, the windows, the upgrade named, and failing open.\<close>

section \<open>The cap\<close>

lemma count_of_map: "length (filter P xs) = length (filter (\<lambda>b. b) (map P xs))"
  by (simp add: filter_map comp_def)

text \<open>
  C13: A cap holds. Of all the calls one user makes in one day under one limit, at any times
  before the last second of the day and however many, exactly the first \<open>limit\<close> are admitted
  and every further one is refused - on the in-process cache, starting from a day whose
  counter is not set yet.
\<close>

theorem daily_cap_is_enforced:
  fixes w :: "('r, document memory) world"
  assumes "ent_quota e key = Some q" "ql_limit q = Some limit" "ql_window q = DAILY" "0 \<le> limit"
    and "\<forall>t \<in> set calls. day_start t = d \<and> t < d + day_us - second_us"
    and "cache w (counter_key uid key (Aware d)) = None"
  shows "length (filter admitted (consume_at InMemoryBackend uid key e calls w)) = min (length calls) (nat limit)"
proof -
  let ?k = "counter_key uid key (Aware d)" and ?T = "d + day_us - second_us"
  let ?as = "map (\<lambda>t. (t, quota_ttl t (Aware (d + day_us)))) calls"
  have win: "\<forall>t \<in> set calls. window_for t (ql_window q) e = (Aware d, Aware (d + day_us))"
    using assms(3,5) by (simp add: window_daily)
  have sound: "mem_sound (cache w) ?k" "mem_tally (cache w) t ?k = 0" for t
    using assms(6) by (simp_all add: mem_sound_def mem_tally_def mem_peek_eq)
  have inside: "\<forall>a \<in> set ?as. fst a < ?T"
    using assms(5) by auto
  have covers: "\<forall>a \<in> set ?as. ?T \<le> fst a + snd a * second_us"
  proof (intro ballI)
    fix a assume "a \<in> set ?as"
    then obtain t where t: "t \<in> set calls" "a = (t, quota_ttl t (Aware (d + day_us)))" by auto
    then have "t < d + day_us" using assms(5) by (auto simp: second_us_def)
    with quota_ttl_covers [of t "Aware (d + day_us)"] t show "?T \<le> fst a + snd a * second_us" by simp
  qed
  have same: "map admitted (consume_at InMemoryBackend uid key e calls w) =
      map (\<lambda>r. \<exists>n. r = Inr n \<and> n \<le> limit) (mem_counter.attempts ?k ?as (cache w))"
    using consume_at_attempts [OF assms(1,2) win sound(1)] .
  have "length (filter admitted (consume_at InMemoryBackend uid key e calls w)) =
      length (filter (\<lambda>b. b) (map admitted (consume_at InMemoryBackend uid key e calls w)))"
    by (rule count_of_map)
  also have "\<dots> = length (filter (\<lambda>r. \<exists>n. r = Inr n \<and> n \<le> limit) (mem_counter.attempts ?k ?as (cache w)))"
    unfolding same by (rule count_of_map [symmetric])
  also have "\<dots> = min (length ?as) (nat limit)"
    by (rule mem_counter.admitted_in_window [OF sound inside covers assms(4)])
  finally show ?thesis by simp
qed

text \<open>A user of the free tier, as resolved at time 0.\<close>

definition ex_free :: entitlements where
  "ex_free = entitlements_of ex_settings 0 ''alice'' ex_db"

theorem daily_cap_is_enforced_witness:
  "length (filter admitted (consume_at InMemoryBackend ''alice'' ''file_uploads_per_day'' ex_free
     [10, 20, 30, 40, 50] (ex_world ex_db None))) = 3"
proof -
  have q: "ent_quota ex_free ''file_uploads_per_day'' =
      Some \<lparr>ql_key = ''file_uploads_per_day'', ql_limit = Some 3, ql_window = DAILY\<rparr>"
    by code_simp
  show ?thesis
    using daily_cap_is_enforced [OF q, of 3 "[10, 20, 30, 40, 50]" 0 "ex_world ex_db None" "''alice''"]
    by (simp add: day_start_def day_us_def second_us_def)
qed

text \<open>
  Known limit of the cap. The counter's time to live is truncated to whole seconds, so it
  may run out up to a second before the day does, and the calls of that last fraction start a
  new count: here six uploads of one day are admitted under a cap of three.
\<close>

theorem cap_can_double_in_last_second:
  "length (filter admitted (consume_at InMemoryBackend ''alice'' ''file_uploads_per_day'' ex_free
     [82799500000, 82799600000, 82799700000, 86399600000, 86399700000, 86399800000]
     (ex_world ex_db None))) = 6 \<and>
   ent_quota ex_free ''file_uploads_per_day'' =
     Some \<lparr>ql_key = ''file_uploads_per_day'', ql_limit = Some 3, ql_window = DAILY\<rparr> \<and>
   list_all (\<lambda>t. day_start t = 0)
     [82799500000, 82799600000, 82799700000, 86399600000, 86399700000, 86399800000]"
  by code_simp

text \<open>
  Metering fails open and refuses only over the cap. On any backend, in any state of the
  database: the one error consuming can raise is \<open>QuotaExceeded\<close>, raised only where the counter
  answered a number above the limit, and it names that limit, that number, the end of the
  window and the upgrade. A cache that fails, or a mirror that fails, refuses nobody.
\<close>

theorem consume_refuses_only_over_cap:
  assumes "consume B uid key e w = (Inl err, w')"
  shows "\<exists>q limit used start finish. ent_quota e key = Some q \<and> ql_limit q = Some limit \<and>
    window_for (now w) (ql_window q) e = (start, finish) \<and> limit < used \<and>
    fst (cb_incr B (counter_key uid key start) (quota_ttl (now w) finish) (now w) (cache w)) = Inr used \<and>
    err = QuotaExceeded \<lparr>qe_key = key, qe_limit = limit, qe_used = used, qe_reset_at = finish,
      qe_current_tier = tier_value (ent_tier e),
      qe_upgrade_tier = map_option tier_value (upgrade_tier_for key (ent_tier e))\<rparr>"
  using assms by (rule consume_error)

theorem consume_refuses_only_over_cap_witness:
  "\<exists>err limit used. fst (consume InMemoryBackend ''alice'' ''file_uploads_per_day'' ex_free
     ((ex_world ex_db None)\<lparr>cache := [counter_key ''alice'' ''file_uploads_per_day'' (Aware 0) \<mapsto> (Num 3, 9000000)]\<rparr>)) = Inl err \<and>
     limit < used \<and> ent_quota ex_free ''file_uploads_per_day'' =
       Some \<lparr>ql_key = ''file_uploads_per_day'', ql_limit = Some limit, ql_window = DAILY\<rparr>"
proof -
  let ?w = "(ex_world ex_db None)\<lparr>cache := [counter_key ''alice'' ''file_uploads_per_day'' (Aware 0) \<mapsto> (Num 3, 9000000)]\<rparr>"
  let ?run = "consume InMemoryBackend ''alice'' ''file_uploads_per_day'' ex_free ?w"
  have q: "ent_quota ex_free ''file_uploads_per_day'' =
      Some \<lparr>ql_key = ''file_uploads_per_day'', ql_limit = Some 3, ql_window = DAILY\<rparr>"
    by code_simp
  have "case fst ?run of Inl e \<Rightarrow> True | Inr _ \<Rightarrow> False"
    by code_simp
  then obtain err w' where run: "?run = (Inl err, w')"
    by (cases ?run) (auto split: sum.splits)
  then show ?thesis
    using consume_refuses_only_over_cap [OF run] q by auto
qed

section \<open>Windows\<close>

text \<open>
  The window a call is counted in always contains the moment of the call. A daily window is
  one UTC day; a billing window is the subscriber's own period while the period lasts, and the
  calendar month otherwise.
\<close>

theorem window_contains_now:
  assumes "window_for t window e = (start, finish)"
  shows "ticks start \<le> t \<and> t < ticks finish \<and>
    (window = DAILY \<longrightarrow> ticks finish = ticks start + day_us \<and> ticks start mod day_us = 0) \<and>
    (window = BILLING_PERIOD \<longrightarrow>
      (case (as_utc (ent_period_start e), as_utc (ent_period_end e)) of
         (Some s, Some f) \<Rightarrow> if ticks s \<le> t \<and> t < ticks f then (start, finish) = (s, f)
                            else (start, finish) = calendar_month t
       | _ \<Rightarrow> (start, finish) = calendar_month t))"
proof -
  have "day_start t mod day_us = 0" by (simp add: day_start_def)
  with window_for_contains [OF assms] assms show ?thesis
    by (auto simp: window_for_def split: option.splits)
qed

theorem window_contains_now_witness:
  "fst (window_for 5000000 BILLING_PERIOD ex_free) = Aware 0 \<and>
    ticks (snd (window_for 5000000 BILLING_PERIOD ex_free)) = 31 * day_us \<and>
    5000000 < ticks (snd (window_for 5000000 BILLING_PERIOD ex_free))"
proof -
  have eq: "window_for 5000000 BILLING_PERIOD ex_free = (Aware 0, Aware (31 * day_us))"
    by code_simp
  from window_contains_now [OF eq] eq show ?thesis by simp
qed

section \<open>The upgrade a blocked call asks for\<close>

text \<open>
  The upgrade named to a user who ran out is the lowest purchasable tier above theirs whose
  cap on the same key is higher or absent, so following it always helps and never leads to a
  checkout that refuses; and none is named only where there is no such tier.
\<close>

definition helps :: "string \<Rightarrow> tier \<Rightarrow> tier \<Rightarrow> bool" where
  "helps key cur t \<longleftrightarrow>
     cur < t \<and> t \<in> set PURCHASABLE_TIERS \<and>
     (\<exists>q. map_of (td_quotas (limits_for t)) key = Some q \<and>
        raises_cap (q_limit q) (case map_of (td_quotas (limits_for cur)) key of
          Some q' \<Rightarrow> q_limit q' | None \<Rightarrow> Some 0))"

theorem upgrade_is_cheapest_that_helps:
  "(case upgrade_tier_for key cur of
      Some t \<Rightarrow> helps key cur t \<and> (\<forall>t'. t' < t \<longrightarrow> \<not> helps key cur t')
    | None \<Rightarrow> \<forall>t. \<not> helps key cur t)"
proof -
  let ?H = "helps key cur"
  have buy: "td_purchasable (limits_for t) \<longleftrightarrow> t \<in> set PURCHASABLE_TIERS" for t
    by (simp add: limits_for_rows PURCHASABLE_TIERS_eq)
  have H: "?H t \<longleftrightarrow> tier_rank cur < tier_rank t \<and> td_purchasable (limits_for t) \<and>
      (case map_of (td_quotas (limits_for t)) key of None \<Rightarrow> False
       | Some q \<Rightarrow> raises_cap (q_limit q) (case map_of (td_quotas (limits_for cur)) key of
          Some q' \<Rightarrow> q_limit q' | None \<Rightarrow> Some 0))" for t
    by (auto simp: helps_def buy less_tier_def split: option.splits)
  have "upgrade_tier_for key cur =
      (if ?H FREE then Some FREE else if ?H PLUS then Some PLUS else if ?H PRO then Some PRO
       else if ?H ENTERPRISE then Some ENTERPRISE else None)"
    unfolding upgrade_tier_for_def Let_def by (simp add: tiers_by_rank_eq H)
  moreover have "\<not> t' < FREE" "t' < PLUS \<longleftrightarrow> t' = FREE" "t' < PRO \<longleftrightarrow> t' = FREE \<or> t' = PLUS"
    "t' < ENTERPRISE \<longleftrightarrow> t' = FREE \<or> t' = PLUS \<or> t' = PRO" for t'
    by (cases t'; simp add: less_tier_def)+
  moreover have "(\<forall>t. \<not> ?H t) \<longleftrightarrow> \<not> ?H FREE \<and> \<not> ?H PLUS \<and> \<not> ?H PRO \<and> \<not> ?H ENTERPRISE"
    by (metis tier.exhaust)
  ultimately show ?thesis by auto
qed

theorem upgrade_is_cheapest_that_helps_witness:
  "upgrade_tier_for ''messages_per_day'' PRO = None \<and> \<not> helps ''messages_per_day'' PRO ENTERPRISE \<and>
    upgrade_tier_for ''messages_per_day'' FREE = Some PLUS"
proof -
  have r: "upgrade_tier_for ''messages_per_day'' PRO = None" "upgrade_tier_for ''messages_per_day'' FREE = Some PLUS"
    by code_simp+
  with upgrade_is_cheapest_that_helps [of "''messages_per_day''" PRO] show ?thesis by simp
qed

section \<open>The public form\<close>

text \<open>
  However requests to the contact form are spread over an hour or a day, from one address at
  most \<open>contact_sales_per_hour\<close> of one hour and at most \<open>contact_sales_per_day\<close> of one day are
  let through, starting from an empty cache; a limit of 0 switches its window off.
\<close>

theorem contact_sales_cap:
  fixes w :: "('r, document memory) world"
  assumes "x \<in> set (contact_sales_windows S)" "0 < rw_limit x"
    and "\<forall>t \<in> set calls. rl_bucket t x = b" "cache w = (\<lambda>_. None)"
  shows "int (length (filter (\<lambda>r. r = Inr ())
    (enforce_at InMemoryBackend ''contact_sales'' identity (contact_sales_windows S) calls w))) \<le> rw_limit x"
proof -
  have secs: "0 < rw_seconds x"
    using assms(1) by (auto simp: contact_sales_windows_def)
  have keys: "distinct (map (rl_key ''contact_sales'' identity t) (contact_sales_windows S))" for t
    by (simp add: contact_sales_windows_def rl_key_def)
  have "mem_counter.counting (cache w) k T 0" for k T
    by (simp add: mem_counter.counting_def assms(4) mem_sound_def mem_tally_def mem_peek_eq)
  moreover have "mem_sound (cache w) k" for k
    by (simp add: assms(4) mem_sound_def)
  ultimately show ?thesis
    using enforce_at_bound [of x "contact_sales_windows S" "''contact_sales''" identity calls b
        "''rl:contact_sales:'' @ rw_name x @ '':'' @ identity @ '':'' @ str_int b" w 0]
      assms(1-3) secs keys by (simp add: rl_key_def)
qed

theorem contact_sales_cap_witness:
  "int (length (filter (\<lambda>r. r = Inr ())
    (enforce_at InMemoryBackend ''contact_sales'' ''1.2.3.4'' (contact_sales_windows ex_settings)
      [1, 2, 3, 4, 5, 6, 7] (ex_world ex_db None)))) \<le> 5"
  using contact_sales_cap [of "\<lparr>rw_name = ''hour'', rw_limit = 5, rw_seconds = 3600\<rparr>" ex_settings
      "[1, 2, 3, 4, 5, 6, 7]" 0 "ex_world ex_db None" "''1.2.3.4''"]
  by (simp add: contact_sales_windows_def ex_settings_def default_settings_def rl_bucket_def second_us_def)

section \<open>The two checks of a metered route\<close>

text \<open>
  The route with the plan resolved: any backend, any answer of its counter. A counter that fails
  lets the message through uncounted.
\<close>

lemma chat_run:
  assumes "resolve_entitlements S B uid w = (Inr e, w1)" "model \<in> set (models (ent_features e))"
    and "ent_quota e ''messages_per_day'' = Some \<lparr>ql_key = ''messages_per_day'', ql_limit = limit, ql_window = DAILY\<rparr>"
    and "cb_incr B (counter_key uid ''messages_per_day'' (Aware (day_start (now w1))))
      (quota_ttl (now w1) (Aware (day_start (now w1) + day_us))) (now w1) (cache w1) = (r, c)"
  shows "\<exists>w'. chat S B uid model message w =
      ((case r of
         Inr used \<Rightarrow>
           if (case limit of None \<Rightarrow> False | Some l \<Rightarrow> l < used)
           then Inl (QuotaExceeded \<lparr>qe_key = ''messages_per_day'', qe_limit = the limit, qe_used = used,
             qe_reset_at = Aware (day_start (now w1) + day_us), qe_current_tier = tier_value (ent_tier e),
             qe_upgrade_tier = map_option tier_value (upgrade_tier_for ''messages_per_day'' (ent_tier e))\<rparr>)
           else Inr \<lparr>cr_model = model, cr_reply = ''['' @ tier_value (ent_tier e) @ ''] echo: '' @ message,
             cr_quota = \<lparr>co_key = ''messages_per_day'', co_limit = limit, co_used = used,
               co_remaining = remaining_of limit used, co_reset_at = Some (Aware (day_start (now w1) + day_us))\<rparr>\<rparr>
       | Inl _ \<Rightarrow> Inr \<lparr>cr_model = model, cr_reply = ''['' @ tier_value (ent_tier e) @ ''] echo: '' @ message,
           cr_quota = \<lparr>co_key = ''messages_per_day'', co_limit = limit, co_used = 0,
             co_remaining = limit, co_reset_at = None\<rparr>\<rparr>), w') \<and> cache w' = c"
proof -
  let ?d = "Aware (day_start (now w1))" and ?f = "Aware (day_start (now w1) + day_us)"
  obtain w2 where m2: "mirror_usage uid ''messages_per_day'' ?d ?f (w1\<lparr>cache := c\<rparr>) = (Inr (), w2)"
    and f2: "w2 = w1\<lparr>cache := c\<rparr>\<lparr>durable := durable w2, view := view w2, rivals := rivals w2\<rparr>"
    by (rule mirror_usage_quiet)
  obtain w3 where m3: "mirror_usage uid ''messages_per_day'' ?d ?f
      (w1\<lparr>cache := c, metrics := metrics w1 @ [(''quota_errors_total'', [''messages_per_day''])]\<rparr>) = (Inr (), w3)"
    and f3: "w3 = w1\<lparr>cache := c, metrics := metrics w1 @ [(''quota_errors_total'', [''messages_per_day''])]\<rparr>
      \<lparr>durable := durable w3, view := view w3, rivals := rivals w3\<rparr>"
    by (rule mirror_usage_quiet)
  have "cache w2 = c" "cache w3 = c"
    using arg_cong [OF f2, of cache] arg_cong [OF f3, of cache] by simp_all
  then show ?thesis
    by (cases r; cases limit)
      (auto simp: chat_def consume_def request_def try_except_def and_then_def cached_apply
        window_daily Let_def assms m2 m3)
qed

lemma stored_other:
  assumes "k \<noteq> ent_key uid" "k \<noteq> stale_key uid"
  shows "stored S InMemoryBackend uid t e (snd (get_json InMemoryBackend (ent_key uid) t c)) k = c k"
  using assms
  by (auto simp: stored_def Let_def set_json_def get_json_def InMemoryBackend_def mem_set_def mem_get_def
      mem_live_def and_then_def split: option.splits prod.splits cached_text.splits)

text \<open>What a day of messages costs, read off \<open>plans.py\<close>.\<close>

lemma chat_quota:
  "ent_quota (entitlements_of S t uid db) ''messages_per_day'' =
    Some \<lparr>ql_key = ''messages_per_day'', ql_limit = (case effective_tier S t uid db of
      FREE \<Rightarrow> Some 20 | PLUS \<Rightarrow> Some 300 | PRO \<Rightarrow> Some 1500 | ENTERPRISE \<Rightarrow> None), ql_window = DAILY\<rparr>"
proof -
  have "List.find (\<lambda>q. ql_key q = ''messages_per_day'') (catalog_limits tier) =
    Some \<lparr>ql_key = ''messages_per_day'', ql_limit = (case tier of
      FREE \<Rightarrow> Some 20 | PLUS \<Rightarrow> Some 300 | PRO \<Rightarrow> Some 1500 | ENTERPRISE \<Rightarrow> None), ql_window = DAILY\<rparr>" for tier
    by (cases tier) (simp_all add: catalog_limits_def limits_for_def CATALOG_def q_default_def QuotaLimit_of_def)
  then show ?thesis by (simp add: ent_quota_def entitlements_of_def Let_def)
qed

text \<open>
  C34: The metered route answers only what the plan includes, and counts it. With the database
  reachable, no cached answer, and \<open>n - 1\<close> messages counted for the user's UTC day on the
  in-process cache: a model the tier does not have is refused, naming the lowest tier that has it,
  and nothing is counted. Otherwise the message is counted, whatever comes of it, and the reply
  comes exactly if \<open>n\<close> is within the tier's cap, 20, 300 and 1500 a day, none for
  \<open>enterprise\<close>; it shows the cap, the \<open>n\<close> used and the end of the day, and the refusal does too.
\<close>

theorem chat_enforces_plan:
  fixes w :: "('r, document memory) world"
  assumes "missed InMemoryBackend uid w" "db_up w" "unique_rows (view w)" "coherent_db (view w)"
    and "mem_sound (cache w) (counter_key uid ''messages_per_day'' (Aware (day_start (now w))))"
    and "chat S InMemoryBackend uid model message w = (res, w')"
  defines "t \<equiv> effective_tier S (now w) uid (view w)"
    and "k \<equiv> counter_key uid ''messages_per_day'' (Aware (day_start (now w)))"
    and "finish \<equiv> Aware (day_start (now w) + day_us)"
  defines "limit \<equiv> (case t of FREE \<Rightarrow> Some 20 | PLUS \<Rightarrow> Some 300 | PRO \<Rightarrow> Some 1500 | ENTERPRISE \<Rightarrow> None)"
    and "n \<equiv> mem_tally (cache w) (now w) k + 1"
  shows "(if model \<notin> set (models (catalog_features t))
     then res = Inl (FeatureNotEntitled \<lparr>fe_feature = ''model:'' @ model, fe_current_tier = tier_value t,
         fe_required_tier = map_option tier_value (minimum_tier_for_feature ''models'' (FStr model))\<rparr>) \<and>
       mem_tally (cache w') (now w) k = n - 1
     else mem_tally (cache w') (now w) k = n \<and>
       res = (if (case limit of None \<Rightarrow> True | Some l \<Rightarrow> n \<le> l)
         then Inr \<lparr>cr_model = model, cr_reply = ''['' @ tier_value t @ ''] echo: '' @ message,
           cr_quota = \<lparr>co_key = ''messages_per_day'', co_limit = limit, co_used = n,
             co_remaining = map_option (\<lambda>l. l - n) limit, co_reset_at = Some finish\<rparr>\<rparr>
         else Inl (QuotaExceeded \<lparr>qe_key = ''messages_per_day'', qe_limit = the limit, qe_used = n,
           qe_reset_at = finish, qe_current_tier = tier_value t,
           qe_upgrade_tier = map_option tier_value (upgrade_tier_for ''messages_per_day'' t)\<rparr>)))"
proof -
  let ?e = "entitlements_of S (now w) uid (view w)"
  define c1 where "c1 = stored S InMemoryBackend uid (now w) ?e (snd (get_json InMemoryBackend (ent_key uid) (now w) (cache w)))"
  let ?w1 = "w\<lparr>cache := c1, metrics := metrics w @ [(''entitlement_cache_total'', [''miss''])]\<rparr>"
  have run: "resolve_entitlements S InMemoryBackend uid w = (Inr ?e, ?w1)"
    using resolve_miss [OF assms(1-3) coherent_columns [OF assms(4)], of S] by (simp add: c1_def)
  have e: "ent_features ?e = catalog_features t" "ent_tier ?e = t"
    by (simp_all add: entitlements_of_def Let_def t_def)
  have "k \<noteq> ent_key uid" "k \<noteq> stale_key uid"
    by (simp_all add: k_def counter_key_def ent_key_def stale_key_def)
  then have k: "c1 k = cache w k" by (simp add: c1_def stored_other)
  then have sound: "mem_sound c1 k" and tally: "mem_tally c1 (now w) k = n - 1"
    using assms(5) by (simp_all add: k_def n_def mem_sound_def mem_tally_def mem_peek_eq)
  let ?ttl = "quota_ttl (now w) finish"
  obtain c where incr: "mem_incr k ?ttl (now w) c1 = (Inr n, c)"
    using mem_counter.incr_value [OF sound, of ?ttl "now w"] tally by (cases "mem_incr k ?ttl (now w) c1") auto
  have "0 < ?ttl" by (simp add: quota_ttl_def)
  then have "mem_lasts c1 k (now w + 1) \<or> mem_tally c1 (now w) k = 0 \<and> now w + 1 \<le> now w + ?ttl * second_us"
    by (auto simp: mem_lasts_def mem_tally_def mem_peek_eq second_us_def split: option.split)
  then have "mem_lasts c k (now w + 1)"
    using mem_counter.incr_lasts [OF sound, of "now w" "now w + 1" ?ttl] incr by simp
  then have counted: "mem_tally c (now w) k = n"
    using mem_counter.incr_tally [OF sound, of ?ttl "now w" "now w + 1" "now w"] incr tally by simp
  show ?thesis
  proof (cases "model \<in> set (models (catalog_features t))")
    case False
    then have "chat S InMemoryBackend uid model message w =
        (Inl (FeatureNotEntitled \<lparr>fe_feature = ''model:'' @ model, fe_current_tier = tier_value t,
           fe_required_tier = map_option tier_value (minimum_tier_for_feature ''models'' (FStr model))\<rparr>),
         ?w1\<lparr>view := durable w, marks := []\<rparr>)"
      using run by (simp add: chat_def request_def try_except_def and_then_def e)
    with assms(6) False tally show ?thesis by auto
  next
    case True
    have quota: "ent_quota ?e ''messages_per_day'' =
        Some \<lparr>ql_key = ''messages_per_day'', ql_limit = limit, ql_window = DAILY\<rparr>"
      by (simp add: chat_quota limit_def t_def)
    have step: "cb_incr InMemoryBackend (counter_key uid ''messages_per_day'' (Aware (day_start (now ?w1))))
        (quota_ttl (now ?w1) (Aware (day_start (now ?w1) + day_us))) (now ?w1) (cache ?w1) = (Inr n, c)"
      using incr by (simp add: InMemoryBackend_def k_def finish_def)
    have "model \<in> set (models (ent_features ?e))" using True by (simp add: e)
    from chat_run [OF run this quota step, of message] counted True assms(6) show ?thesis
      by (cases limit) (auto simp: e finish_def remaining_of_def not_le)
  qed
qed

text \<open>The free plan's last message of the day, and the one after it.\<close>

theorem chat_enforces_plan_witness:
  "(let w = (ex_world ex_db None)\<lparr>cache := [counter_key ''alice'' ''messages_per_day'' (Aware 0) \<mapsto> (Num 19, 86400000000)]\<rparr>;
       first = chat ex_settings InMemoryBackend ''alice'' ''small'' ''hi'' w in
     (\<exists>reply. fst first = Inr reply \<and> cr_reply reply = ''[free] echo: hi'' \<and> co_used (cr_quota reply) = 20) \<and>
     mem_tally (cache (snd first)) 1000000 (counter_key ''alice'' ''messages_per_day'' (Aware 0)) = 20)"
proof -
  let ?k = "counter_key ''alice'' ''messages_per_day'' (Aware 0)"
  let ?w = "(ex_world ex_db None)\<lparr>cache := [?k \<mapsto> (Num 19, 86400000000)]\<rparr>"
  obtain res w' where run: "chat ex_settings InMemoryBackend ''alice'' ''small'' ''hi'' ?w = (res, w')"
    by fastforce
  have free: "effective_tier ex_settings 1000000 ''alice'' ex_db = FREE" by code_simp
  have day: "day_start 1000000 = 0" by code_simp
  have "?k \<noteq> ent_key ''alice''" by (simp add: counter_key_def ent_key_def)
  then have missed: "missed InMemoryBackend ''alice'' ?w"
    by (simp add: missed_def mem_kv.get_json_value mem_kv.decoded_def mem_peek_eq)
  have "mem_sound (cache ?w) (counter_key ''alice'' ''messages_per_day'' (Aware (day_start (now ?w))))"
    by (simp add: day mem_sound_def)
  from chat_enforces_plan [OF missed _ _ _ this run] run show ?thesis
    by (simp add: day free catalog_models tier_value.simps mem_tally_def mem_peek_eq)
qed

end
