(* ===== verification/Webhooks.thy ===== *)
theory Webhooks
  imports Sync_Facts
begin

text \<open>
  \<open>app/routers/webhooks.py\<close>: the endpoint Stripe delivers events to. An event id is claimed
  in a transaction of its own, then the handler re-reads the customer and the event is marked,
  in one transaction with what the handler wrote. A handler that raises is rolled back and the
  event is kept as failed, so the retry runs it again. \<open>trace\<close> is the text of a traceback;
  the latency observations and log lines are not modelled.
\<close>

section \<open>Events\<close>

definition SUBSCRIPTION_EVENTS :: "string list" where
  "SUBSCRIPTION_EVENTS =
     [''checkout.session.completed'',
      ''customer.subscription.created'',
      ''customer.subscription.updated'',
      ''customer.subscription.deleted'',
      ''customer.subscription.paused'',
      ''customer.subscription.resumed'',
      ''customer.subscription.pending_update_applied'',
      ''customer.subscription.pending_update_expired'',
      ''invoice.paid'',
      ''invoice.payment_succeeded'',
      ''invoice.payment_failed'',
      ''invoice.marked_uncollectible'']"

definition DISPUTE_EVENTS :: "string list" where
  "DISPUTE_EVENTS = [''charge.dispute.created'']"

definition find_event :: "string \<Rightarrow> database \<Rightarrow> processed_event option" where
  "find_event eid db = List.find (\<lambda>e. event_id e = eid) (processed_events db)"

definition change_event :: "string \<Rightarrow> (processed_event \<Rightarrow> processed_event) \<Rightarrow> database \<Rightarrow> database" where
  "change_event eid f db = db\<lparr>processed_events :=
     map (\<lambda>e. if event_id e = eid then f e else e) (processed_events db)\<rparr>"

definition add_event :: "string \<Rightarrow> string \<Rightarrow> int \<Rightarrow> database \<Rightarrow> database" where
  "add_event eid etype t db = db\<lparr>processed_events := processed_events db @
     [\<lparr>event_id = eid, event_type = etype, event_status = ''processing'', event_error = None,
       received_at = Aware t, completed_at = None\<rparr>]\<rparr>"

section \<open>The endpoint\<close>

definition claim_event :: "string \<Rightarrow> string \<Rightarrow> ('r, 'c, bool) service" where
  "claim_event eid etype =
     and_then (query (find_event eid)) (\<lambda>existing. case existing of
       Some row \<Rightarrow>
         if event_status row = ''processed'' then ret False else
         and_then (update_view (change_event eid
           (\<lambda>e. e\<lparr>event_status := ''processing'', event_error := None\<rparr>))) (\<lambda>_.
         and_then commit (\<lambda>_. ret True))
     | None \<Rightarrow>
         and_then clock (\<lambda>t.
         and_then (update_view (add_event eid etype t)) (\<lambda>_.
         try_except (and_then commit (\<lambda>_. ret True))
           (\<lambda>e. if e \<noteq> IntegrityError then raise e else and_then rollback (\<lambda>_. ret False)))))"

definition mark_event :: "string \<Rightarrow> string \<Rightarrow> string option \<Rightarrow> ('r, 'c, unit) service" where
  "mark_event eid state error =
     and_then (query (find_event eid)) (\<lambda>row. case row of
       None \<Rightarrow> ret ()
     | Some _ \<Rightarrow>
         and_then clock (\<lambda>t. update_view (change_event eid
           (\<lambda>e. e\<lparr>event_status := state, event_error := error, completed_at := Some (Aware t)\<rparr>))))"

text \<open>\<open>obj.get("customer")\<close>, \<open>None\<close> where it is falsy.\<close>

definition truthy_string :: "json \<Rightarrow> exc + string option" where
  "truthy_string v = (if jtruthy v then map_sum id Some (as_string v) else Inr None)"

definition handle_event ::
  "settings \<Rightarrow> 'r provider \<Rightarrow> string \<Rightarrow> string \<Rightarrow> json \<Rightarrow> ('r, 'c, bool) service" where
  "handle_event S PV eid etype event =
     and_then (lift_result (bind_result (jitem ''data'' event) (jitem ''object''))) (\<lambda>obj.
     if etype \<in> set SUBSCRIPTION_EVENTS then
       and_then (lift_result (bind_result (jget ''customer'' obj) truthy_string)) (\<lambda>customer. case customer of
         None \<Rightarrow> ret False
       | Some cid \<Rightarrow>
           and_then (sync_subscription_from_stripe S PV cid (Some eid) etype) (\<lambda>_. ret True))
     else if etype \<in> set DISPUTE_EVENTS then
       and_then (lift_result (bind_result (jget ''customer'' obj) truthy_string)) (\<lambda>direct.
       and_then (case direct of
           Some cid \<Rightarrow> ret (Some cid)
         | None \<Rightarrow>
             and_then (lift_result (bind_result (jget ''charge'' obj) truthy_string)) (\<lambda>charge. case charge of
               None \<Rightarrow> ret None
             | Some ch \<Rightarrow>
                 and_then (call (p_retrieve_charge PV ch)) (\<lambda>c.
                 lift_result (bind_result (jget ''customer'' c) truthy_string)))) (\<lambda>customer. case customer of
         None \<Rightarrow> ret False
       | Some cid \<Rightarrow>
           and_then (mark_disputed cid (Some eid)) (\<lambda>_.
           and_then (sync_subscription_from_stripe S PV cid (Some eid) etype) (\<lambda>_. ret True))))
     else ret False)"

record webhook_reply =
  wr_status :: string
  wr_event_id :: string

text \<open>After a claim: handle, mark and commit, or roll back and keep the failure.\<close>

definition process_event ::
  "settings \<Rightarrow> 'r provider \<Rightarrow> ('c, document) cache_backend \<Rightarrow> (exc \<Rightarrow> string) \<Rightarrow> string \<Rightarrow> string \<Rightarrow> json \<Rightarrow>
   ('r, 'c, bool) service" where
  "process_event S PV B trace eid etype event =
     try_except
       (and_then (handle_event S PV eid etype event) (\<lambda>handled.
        and_then (mark_event eid ''processed'' None) (\<lambda>_.
        and_then (commit_and_invalidate B) (\<lambda>_. ret handled))))
       (\<lambda>e. and_then rollback (\<lambda>_.
            and_then (mark_event eid ''failed'' (Some (trace e))) (\<lambda>_.
            and_then commit (\<lambda>_.
            and_then (inc ''webhook_events_total'' [etype, ''failed'']) (\<lambda>_.
            raise (HTTPException 500 ''webhook handling failed''))))))"

definition stripe_webhook ::
  "settings \<Rightarrow> 'r provider \<Rightarrow> ('c, document) cache_backend \<Rightarrow> (exc \<Rightarrow> string) \<Rightarrow>
   string \<Rightarrow> string option \<Rightarrow> ('r, 'c, webhook_reply) service" where
  "stripe_webhook S PV B trace payload signature = request
     (if \<not> truthy signature then raise (HTTPException 400 ''missing stripe-signature header'') else
      and_then (try_except (call (p_construct_event PV payload (the signature)))
        (\<lambda>_. raise (HTTPException 400 ''signature verification failed''))) (\<lambda>event.
      and_then (lift_result (bind_result (jitem ''id'' event) as_string)) (\<lambda>eid.
      and_then (lift_result (bind_result (jitem ''type'' event) as_string)) (\<lambda>etype.
      and_then (claim_event eid etype) (\<lambda>claimed.
      if \<not> claimed then
        and_then (inc ''webhook_events_total'' [etype, ''duplicate'']) (\<lambda>_.
        ret \<lparr>wr_status = ''duplicate'', wr_event_id = eid\<rparr>)
      else
        and_then (process_event S PV B trace eid etype event) (\<lambda>handled.
        and_then (inc ''webhook_events_total'' [etype, if handled then ''processed'' else ''ignored'']) (\<lambda>_.
        and_then (only_if (etype = ''invoice.payment_failed'') (inc ''payment_failures_total'' [])) (\<lambda>_.
        ret \<lparr>wr_status = if handled then ''ok'' else ''ignored'', wr_event_id = eid\<rparr>))))))))"

text \<open>\<open>recent_events\<close>: the newest events first.\<close>

definition recent_events :: "nat \<Rightarrow> ('r, 'c, processed_event list) service" where
  "recent_events limit = query (\<lambda>db. take limit (sort_key (\<lambda>e. - ticks (received_at e)) (processed_events db)))"

section \<open>Facts on the events table\<close>

lemma event_frames [simp]:
  "subscriptions (change_event eid f db) = subscriptions db"
  "subscriptions (add_event eid etype t db) = subscriptions db"
  "subscription_audit (change_event eid f db) = subscription_audit db"
  "subscription_audit (add_event eid etype t db) = subscription_audit db"
  "entitlement_grants (change_event eid f db) = entitlement_grants db"
  "entitlement_grants (add_event eid etype t db) = entitlement_grants db"
  by (simp_all add: change_event_def add_event_def)

lemma find_event_None: "find_event eid db = None \<longleftrightarrow> eid \<notin> event_id ` set (processed_events db)"
  by (auto simp: find_event_def find_None_iff)

lemma unique_change_event [simp]:
  assumes "\<And>e. event_id (f e) = event_id e"
  shows "unique_rows (change_event eid f db) = unique_rows db"
proof -
  have "event_id \<circ> (\<lambda>e. if event_id e = eid then f e else e) = event_id"
    by (auto simp: fun_eq_iff assms)
  then show ?thesis by (simp add: unique_rows_def change_event_def)
qed

lemma unique_add_event:
  "unique_rows db \<Longrightarrow> find_event eid db = None \<Longrightarrow> unique_rows (add_event eid etype t db)"
  by (auto simp: unique_rows_def add_event_def find_event_None)

lemma find_change_event:
  assumes "\<And>e. event_id (f e) = event_id e"
  shows "find_event eid (change_event eid f db) = map_option f (find_event eid db)"
proof -
  have "List.find (\<lambda>e. event_id e = eid) (map (\<lambda>e. if event_id e = eid then f e else e) es) =
      map_option f (List.find (\<lambda>e. event_id e = eid) es)" for es
    by (induction es) (auto simp: assms)
  then show ?thesis by (simp add: find_event_def change_event_def)
qed

lemma find_add_event:
  "find_event eid db = None \<Longrightarrow> find_event eid (add_event eid etype t db) =
     Some \<lparr>event_id = eid, event_type = etype, event_status = ''processing'', event_error = None,
       received_at = Aware t, completed_at = None\<rparr>"
proof -
  have "List.find (\<lambda>e. event_id e = eid) (es @ [x]) = (if event_id x = eid then Some x else None)"
    if "List.find (\<lambda>e. event_id e = eid) es = None" for es and x :: processed_event
    using that by (induction es) (auto split: if_splits)
  then show "find_event eid db = None \<Longrightarrow> ?thesis" by (simp add: find_event_def add_event_def)
qed

lemma mark_event_apply:
  "db_up w \<Longrightarrow> mark_event eid st er w = (Inr (), w\<lparr>view := change_event eid
     (\<lambda>e. e\<lparr>event_status := st, event_error := er, completed_at := Some (Aware (now w))\<rparr>) (view w)\<rparr>)"
proof -
  have "change_event eid f db = db" if "find_event eid db = None" for f db
  proof -
    have "map (\<lambda>e. if event_id e = eid then f e else e) (processed_events db) = processed_events db"
      using that by (intro map_idI) (auto simp: find_event_None)
    then show ?thesis by (simp add: change_event_def)
  qed
  then show "db_up w \<Longrightarrow> ?thesis"
    by (cases "find_event eid (view w)") (auto simp: mark_event_def and_then_def)
qed

section \<open>Claims\<close>

definition claimed_db :: "string \<Rightarrow> string \<Rightarrow> int \<Rightarrow> database \<Rightarrow> database" where
  "claimed_db eid etype t db = (case find_event eid db of
     None \<Rightarrow> add_event eid etype t db
   | Some _ \<Rightarrow> change_event eid (\<lambda>e. e\<lparr>event_status := ''processing'', event_error := None\<rparr>) db)"

lemma claimed_db_facts [simp]:
  "subscriptions (claimed_db eid etype t db) = subscriptions db"
  "subscription_audit (claimed_db eid etype t db) = subscription_audit db"
  "entitlement_grants (claimed_db eid etype t db) = entitlement_grants db"
  by (simp_all add: claimed_db_def split: option.split)

lemma unique_claimed: "unique_rows db \<Longrightarrow> unique_rows (claimed_db eid etype t db)"
  by (auto simp: claimed_db_def unique_add_event split: option.split)

lemma find_claimed: "\<exists>row. find_event eid (claimed_db eid etype t db) = Some row"
  by (auto simp: claimed_db_def find_add_event find_change_event split: option.split)

lemma claim_granted:
  assumes "idle w" "\<forall>row. find_event eid (view w) = Some row \<longrightarrow> event_status row \<noteq> ''processed''"
  shows "claim_event eid etype w = (Inr True,
    w\<lparr>view := claimed_db eid etype (now w) (view w), durable := claimed_db eid etype (now w) (view w)\<rparr>)"
proof (cases "find_event eid (view w)")
  case None
  then show ?thesis using assms
    by (simp add: claim_event_def and_then_def try_except_def idle_def claimed_db_def unique_add_event)
next
  case (Some row)
  then show ?thesis using assms
    by (simp add: claim_event_def and_then_def idle_def claimed_db_def)
qed

lemma claim_refused:
  assumes "db_up w" "find_event eid (view w) = Some row" "event_status row = ''processed''"
  shows "claim_event eid etype w = (Inr False, w)"
  using assms by (simp add: claim_event_def and_then_def)

lemma claim_lost:
  assumes "db_up w" "find_event eid (view w) = None" "view w = durable w"
    and "rivals w = [add_event eid etype' t]"
  shows "claim_event eid etype w = (Inr False,
    w\<lparr>view := add_event eid etype' t (durable w), durable := add_event eid etype' t (durable w),
       rivals := [], marks := []\<rparr>)"
proof -
  have "\<not> unique_rows (add_event eid etype' t (add_event eid etype (now w) (durable w)))"
    by (simp add: unique_rows_def add_event_def)
  with assms show ?thesis
    by (simp add: claim_event_def and_then_def try_except_def commit_def flush_apply rival_lands_def)
qed

section \<open>What a handler leaves alone\<close>

lemma keeps_settled_handle: "keeps (settled d t) (handle_event S PV eid etype event)"
  unfolding handle_event_def mark_disputed_def Let_def
  by (intro keeps_intro keeps_settled keeps_settled_sync keeps_frame find_by_customer_frame)

end
