(* ===== verification/Webhook_Properties.thy ===== *)
theory Webhook_Properties
  imports Sync_Properties Webhooks Entitlement_Properties
begin

text \<open>
  What the webhook endpoint promises: an event is processed once, all of it or nothing, and a
  failed one is processed by Stripe's retry.
\<close>

section \<open>A delivery\<close>

definition delivered ::
  "'r provider \<Rightarrow> string \<Rightarrow> string option \<Rightarrow> json \<Rightarrow> string \<Rightarrow> string \<Rightarrow> 'r \<Rightarrow> 'r \<Rightarrow> bool" where
  "delivered PV payload signature event eid etype r r' \<longleftrightarrow>
     truthy signature \<and> p_construct_event PV payload (the signature) r = (Inr event, r') \<and>
     bind_result (jitem ''id'' event) as_string = Inr eid \<and>
     bind_result (jitem ''type'' event) as_string = Inr etype"

definition ex_event :: json where
  "ex_event = JObj [(''id'', JStr ''evt_1''), (''type'', JStr ''customer.subscription.updated''),
     (''data'', JObj [(''object'', JObj [(''customer'', JStr ''cus_1'')])])]"

definition ex_hook :: "ex_state provider \<Rightarrow> ex_state provider" where
  "ex_hook PV = PV\<lparr>p_construct_event := (\<lambda>payload sig. ret ex_event)\<rparr>"

lemma ex_delivered [simp]:
  "delivered (ex_hook PV) ''{}'' (Some ''sig'') ex_event ''evt_1'' ''customer.subscription.updated'' r r"
  by (simp add: delivered_def ex_hook_def ex_event_def)

lemma ex_hook_fetch [simp]: "p_fetch_current_subscription (ex_hook PV) = p_fetch_current_subscription PV"
  by (simp add: ex_hook_def)

lemma ex_idle [simp]: "idle (ex_world ex_db a)"
  by (simp add: idle_def)

lemma ex_no_event [simp]: "find_event eid ex_db = None"
  by (simp add: find_event_def)

text \<open>The two ends of a claimed event, over the world its handler left behind.\<close>

definition marked_db :: "string \<Rightarrow> string \<Rightarrow> string option \<Rightarrow> int \<Rightarrow> database \<Rightarrow> database" where
  "marked_db eid st er t = change_event eid
     (\<lambda>e. e\<lparr>event_status := st, event_error := er, completed_at := Some (Aware t)\<rparr>)"

lemma marked_db_facts [simp]:
  "subscriptions (marked_db eid st er t db) = subscriptions db"
  "subscription_audit (marked_db eid st er t db) = subscription_audit db"
  "entitlement_grants (marked_db eid st er t db) = entitlement_grants db"
  "unique_rows (marked_db eid st er t db) = unique_rows db"
  "find_event eid (marked_db eid st er t db) =
     map_option (\<lambda>e. e\<lparr>event_status := st, event_error := er, completed_at := Some (Aware t)\<rparr>) (find_event eid db)"
  by (simp_all add: marked_db_def find_change_event)

lemma webhook_success:
  assumes "delivered PV payload signature event eid etype (remote w) r1"
    and "claim_event eid etype (w\<lparr>remote := r1\<rparr>) = (Inr True, w1)"
    and "handle_event S PV eid etype event w1 = (Inr h, w2)"
    and "db_up w2" "rivals w2 = []" "unique_rows (view w2)"
  shows "\<exists>ms. stripe_webhook S PV B trace payload signature w =
    (Inr \<lparr>wr_status = if h then ''ok'' else ''ignored'', wr_event_id = eid\<rparr>,
     w2\<lparr>view := marked_db eid ''processed'' None (now w2) (view w2),
        durable := marked_db eid ''processed'' None (now w2) (view w2), marks := [],
        cache := fold (\<lambda>uid c. snd (cb_delete B (ent_key uid) (now w2) c)) (marks w2) (cache w2), metrics := ms\<rparr>)"
proof -
  let ?w3 = "w2\<lparr>view := marked_db eid ''processed'' None (now w2) (view w2)\<rparr>"
  obtain ms where com: "commit_and_invalidate B ?w3 = (Inr (), ?w3\<lparr>durable := view ?w3, marks := [],
      cache := fold (\<lambda>uid c. snd (cb_delete B (ent_key uid) (now ?w3) c)) (marks ?w3) (cache ?w3), metrics := ms\<rparr>)"
    using commit_and_invalidate_apply [of ?w3 B] assms(4-6) by auto
  have mark: "mark_event eid ''processed'' None w2 = (Inr (), ?w3)"
    using mark_event_apply [OF assms(4)] by (simp add: marked_db_def)
  show ?thesis
    using assms(1-3)
    by (auto simp: stripe_webhook_def process_event_def request_def try_except_def and_then_def call_apply
        delivered_def mark com)
qed

lemma webhook_failure:
  assumes "delivered PV payload signature event eid etype (remote w) r1"
    and "claim_event eid etype (w\<lparr>remote := r1\<rparr>) = (Inr True, w1)"
    and "handle_event S PV eid etype event w1 = (Inl e, w2)"
    and "db_up w2" "rivals w2 = []" "unique_rows (durable w2)"
  shows "\<exists>ms. stripe_webhook S PV B trace payload signature w =
    (Inl (HTTPException 500 ''webhook handling failed''),
     w2\<lparr>view := marked_db eid ''failed'' (Some (trace e)) (now w2) (durable w2),
        durable := marked_db eid ''failed'' (Some (trace e)) (now w2) (durable w2), marks := [], metrics := ms\<rparr>)"
proof -
  let ?w3 = "w2\<lparr>view := marked_db eid ''failed'' (Some (trace e)) (now w2) (durable w2), marks := []\<rparr>"
  have mark: "mark_event eid ''failed'' (Some (trace e)) (w2\<lparr>view := durable w2, marks := []\<rparr>) = (Inr (), ?w3)"
    using mark_event_apply [of "w2\<lparr>view := durable w2, marks := []\<rparr>"] assms(4) by (simp add: marked_db_def)
  have com: "commit ?w3 = (Inr (), ?w3\<lparr>durable := view ?w3\<rparr>)"
    using assms(4-6) by simp
  show ?thesis
    using assms(1-3)
    by (intro exI [of _ "metrics w2 @ [(''webhook_events_total'', [etype, ''failed''])]"])
      (auto simp: stripe_webhook_def process_event_def request_def try_except_def and_then_def call_apply
        delivered_def mark com)
qed

section \<open>Refused deliveries\<close>

text \<open>
  A delivery that is not signed, or whose signature does not verify, is answered 400 and
  reaches neither the database nor the cache.
\<close>

theorem forged_webhook_is_refused:
  assumes "\<not> truthy signature \<or> fst (p_construct_event PV payload (the signature) (remote w)) = Inl err"
  shows "\<exists>detail r'. stripe_webhook S PV B trace payload signature w =
    (Inl (HTTPException 400 detail), w\<lparr>remote := r', view := durable w, marks := []\<rparr>)"
proof (cases "truthy signature")
  case False
  then show ?thesis
    by (intro exI [of _ "''missing stripe-signature header''"] exI [of _ "remote w"])
      (simp add: stripe_webhook_def request_def try_except_def and_then_def)
next
  case True
  with assms show ?thesis
    by (cases "p_construct_event PV payload (the signature) (remote w)")
      (auto simp: stripe_webhook_def request_def try_except_def and_then_def call_apply)
qed

theorem forged_webhook_is_refused_witness:
  "\<exists>detail r'. stripe_webhook ex_settings ex_provider InMemoryBackend (\<lambda>_. '''') ''{}'' (Some ''forged'')
     (ex_world ex_db None) = (Inl (HTTPException 400 detail),
       (ex_world ex_db None)\<lparr>remote := r', view := ex_db, marks := []\<rparr>)"
  using forged_webhook_is_refused [of "Some ''forged''" ex_provider "''{}''" "ex_world ex_db None"
      SignatureVerificationError ex_settings InMemoryBackend "\<lambda>_. ''''"]
  by (simp add: ex_provider_def)

text \<open>
  C7: An event that was processed is never processed again: a second delivery is answered
  \<open>duplicate\<close> without reading the subscription from the provider, and the rows, the marks and
  the cache are untouched. So is the delivery that loses the race for a new event's id: the
  worker that inserted the id handles it.
\<close>

theorem event_is_processed_once:
  assumes "delivered PV payload signature event eid etype (remote w) r'" "db_up w" "view w = durable w"
    and "(\<exists>row. find_event eid (view w) = Some row \<and> event_status row = ''processed'') \<and> d = durable w \<and> rs = rivals w \<and> ms = marks w \<or>
      find_event eid (view w) = None \<and> rivals w = [add_event eid etype' t] \<and>
        d = add_event eid etype' t (durable w) \<and> rs = [] \<and> ms = []"
  shows "stripe_webhook S PV B trace payload signature w =
    (Inr \<lparr>wr_status = ''duplicate'', wr_event_id = eid\<rparr>,
     w\<lparr>remote := r', view := d, durable := d, rivals := rs, marks := ms,
        metrics := metrics w @ [(''webhook_events_total'', [etype, ''duplicate''])]\<rparr>)"
proof -
  let ?w = "w\<lparr>remote := r'\<rparr>"
  have claim: "claim_event eid etype ?w = (Inr False, ?w\<lparr>view := d, durable := d, rivals := rs, marks := ms\<rparr>)"
    using assms(4)
  proof
    assume "(\<exists>row. find_event eid (view w) = Some row \<and> event_status row = ''processed'') \<and>
      d = durable w \<and> rs = rivals w \<and> ms = marks w"
    then show ?thesis using claim_refused [of ?w eid _ etype] assms(2,3) by auto
  next
    assume "find_event eid (view w) = None \<and> rivals w = [add_event eid etype' t] \<and>
        d = add_event eid etype' t (durable w) \<and> rs = [] \<and> ms = []"
    then show ?thesis using claim_lost [of ?w eid etype' t etype] assms(2,3) by simp
  qed
  then show ?thesis using assms(1)
    by (simp add: stripe_webhook_def request_def try_except_def and_then_def call_apply delivered_def)
qed

theorem event_is_processed_once_witness:
  "fst (stripe_webhook ex_settings (ex_hook ex_provider) InMemoryBackend (\<lambda>_. '''') ''{}'' (Some ''sig'')
     ((ex_world ex_db (Some ex_remote))\<lparr>rivals := [add_event ''evt_1'' ''x'' 7]\<rparr>)) =
   Inr \<lparr>wr_status = ''duplicate'', wr_event_id = ''evt_1''\<rparr>"
  by (subst event_is_processed_once [where d = "add_event ''evt_1'' ''x'' 7 ex_db" and rs = "[]" and ms = "[]"
        and r' = "Some ex_remote" and event = ex_event and eid = "''evt_1''" and etype = "''customer.subscription.updated''"
        and etype' = "''x''" and t = 7]) simp_all

section \<open>Processed deliveries\<close>

text \<open>
  C8: A subscription event for a customer with a row ends with the provider's answer durable. The
  reply is \<open>ok\<close>; the committed row of that user has the columns \<open>answered_row\<close> reads off the answer,
  no other row changes; the event is recorded as processed, without an error; nothing is left
  uncommitted and no mark is left; and where the answer changed a column the user is shown, the
  fast-path cache has no entry of theirs at any later time, so the next read computes from the
  new row.
\<close>

theorem webhook_makes_answer_durable:
  fixes w :: "('r, document memory) world"
  assumes "delivered PV payload signature event eid etype (remote w) r1" "idle w"
    and "bind_result (bind_result (jitem ''data'' event) (jitem ''object'')) (jget ''customer'') = Inr (JStr cid)"
    and "cid \<noteq> []" "etype \<in> set SUBSCRIPTION_EVENTS"
    and "\<forall>row. find_event eid (view w) = Some row \<longrightarrow> event_status row \<noteq> ''processed''"
    and "ready cid sub w" "p_fetch_current_subscription PV cid r1 = (Inr ans, r2)"
    and "\<not> held_elsewhere ans sub (view w)"
  shows "\<exists>w'. stripe_webhook S PV InMemoryBackend trace payload signature w =
      (Inr \<lparr>wr_status = ''ok'', wr_event_id = eid\<rparr>, w') \<and>
    subscriptions (durable w') =
      map (\<lambda>r. if user_id r = user_id sub then answered_row S (now w) ans sub else r) (subscriptions (durable w)) \<and>
    (\<exists>row. find_event eid (durable w') = Some row \<and> event_status row = ''processed'' \<and> event_error row = None) \<and>
    view w' = durable w' \<and> marks w' = [] \<and>
    (shown_differs (answered_row S (now w) ans sub) sub \<longrightarrow> missed InMemoryBackend (user_id sub) (w'\<lparr>now := t\<rparr>))"
proof -
  let ?B = "InMemoryBackend :: (document memory, document) cache_backend"
  let ?c = "claimed_db eid etype (now w) (view w)"
  let ?w1 = "w\<lparr>remote := r1, view := ?c, durable := ?c\<rparr>"
  let ?w2 = "sync_world S (Some eid) etype sub ans (?w1\<lparr>remote := r2\<rparr>)"
  let ?m = "mirrored S (now w) ans sub"
  have claim: "claim_event eid etype (w\<lparr>remote := r1\<rparr>) = (Inr True, ?w1)"
    using claim_granted [of "w\<lparr>remote := r1\<rparr>" eid etype] assms(2,6) by (simp add: idle_def)
  have rdy: "ready cid sub ?w1"
    using assms(2,7) unique_claimed [of "view w"] by (simp add: ready_def idle_def)
  have "held_elsewhere ans sub ?c = held_elsewhere ans sub (view w)"
    by (cases ans) (simp_all add: held_elsewhere_def)
  with rdy assms(9) have u: "unique_rows (synced_db S (now w) (Some eid) etype sub ans ?c)"
    by (intro synced_unique) (simp_all add: ready_def)
  have sync: "sync_subscription_from_stripe S PV cid (Some eid) etype ?w1 = (Inr (Some ?m), ?w2)"
    using sync_known_spec [OF rdy, of PV ans r2 S "Some eid" etype] assms(8) u by simp
  have handle: "handle_event S PV eid etype event ?w1 = (Inr True, ?w2)"
    using assms(3,4,5) sync
    by (auto simp: handle_event_def and_then_def bind_result_Inr truthy_string_def)
  have w2: "db_up ?w2" "rivals ?w2 = []" "now ?w2 = now w" "unique_rows (view ?w2)" "marks w = []"
    using assms(2) u by (simp_all add: sync_world_def Let_def idle_def)
  obtain ms where run: "stripe_webhook S PV ?B trace payload signature w =
    (Inr \<lparr>wr_status = ''ok'', wr_event_id = eid\<rparr>,
     ?w2\<lparr>view := marked_db eid ''processed'' None (now ?w2) (view ?w2),
        durable := marked_db eid ''processed'' None (now ?w2) (view ?w2), marks := [],
        cache := fold (\<lambda>uid c. snd (cb_delete ?B (ent_key uid) (now ?w2) c)) (marks ?w2) (cache ?w2), metrics := ms\<rparr>)"
    using webhook_success [OF assms(1) claim handle w2(1,2,4), of ?B trace] by auto
  have user: "user_id ?m = user_id sub" by (simp add: mirrored_def)
  have event: "\<exists>row. find_event eid (view ?w2) = Some row"
    using find_claimed [of eid etype "now w" "view w"]
    by (simp add: sync_world_def synced_db_def Let_def find_event_def)
  show ?thesis
    by (rule exI, rule conjI, rule run)
      (use event assms(2) w2(5) in \<open>auto simp: sync_world_def synced_db_def Let_def idle_def missed_def put_subscription_def
        fingerprint_shown mirrored_answered [symmetric] user mem_kv.get_json_value mem_kv.decoded_delete\<close>)
qed

theorem webhook_makes_answer_durable_witness:
  "\<exists>w'. stripe_webhook ex_settings (ex_hook ex_provider) InMemoryBackend (\<lambda>_. '''') ''{}'' (Some ''sig'')
     (ex_world ex_db (Some ex_remote)) = (Inr \<lparr>wr_status = ''ok'', wr_event_id = ''evt_1''\<rparr>, w') \<and>
     map tier_col (subscriptions (durable w')) = [''plus''] \<and> marks w' = [] \<and>
     missed InMemoryBackend ''alice'' (w'\<lparr>now := 1000001\<rparr>)"
proof -
  have path: "bind_result (bind_result (jitem ''data'' ex_event) (jitem ''object'')) (jget ''customer'') = Inr (JStr ''cus_1'')"
    by (simp add: ex_event_def)
  have s: "\<not> held_elsewhere (Some ex_remote) ex_row ex_db" "tier_col (answered_row ex_settings 1000000 (Some ex_remote) ex_row) = ''plus''"
    "shown_differs (answered_row ex_settings 1000000 (Some ex_remote) ex_row) ex_row"
    by code_simp+
  show ?thesis
    using webhook_makes_answer_durable [of "ex_hook ex_provider" "''{}''" "Some ''sig''" ex_event "''evt_1''"
        "''customer.subscription.updated''" "ex_world ex_db (Some ex_remote)" "Some ex_remote" "''cus_1''" ex_row
        "Some ex_remote" "Some ex_remote" ex_settings "\<lambda>_. ''''" 1000001]
    by (auto simp: path s SUBSCRIPTION_EVENTS_def)
qed

text \<open>
  C6: A delivery whose handler raises - for whatever reason, at whatever point - is all undone:
  subscriptions, grants and the audit trail are what they were, nothing is marked or dropped
  from the cache, the event is recorded as failed with its error, the reply is 500, and the
  next delivery of the same event is claimed and handled again.
\<close>

theorem failed_webhook_is_undone_and_retried:
  assumes "delivered PV payload signature event eid etype (remote w) r1" "idle w"
    and "\<forall>row. find_event eid (view w) = Some row \<longrightarrow> event_status row \<noteq> ''processed''"
    and "handle_event S PV eid etype event (w\<lparr>remote := r1, view := claimed_db eid etype (now w) (view w),
        durable := claimed_db eid etype (now w) (view w)\<rparr>) = (Inl e, w2)"
  shows "\<exists>w'. stripe_webhook S PV B trace payload signature w =
      (Inl (HTTPException 500 ''webhook handling failed''), w') \<and>
    subscriptions (durable w') = subscriptions (durable w) \<and>
    entitlement_grants (durable w') = entitlement_grants (durable w) \<and>
    subscription_audit (durable w') = subscription_audit (durable w) \<and>
    marks w' = [] \<and> cache w' = cache w2 \<and> view w' = durable w' \<and>
    (\<exists>row. find_event eid (durable w') = Some row \<and> event_status row = ''failed'' \<and> event_error row = Some (trace e)) \<and>
    fst (claim_event eid etype w') = Inr True"
proof -
  let ?c = "claimed_db eid etype (now w) (view w)"
  let ?w1 = "w\<lparr>remote := r1, view := ?c, durable := ?c\<rparr>"
  have claim: "claim_event eid etype (w\<lparr>remote := r1\<rparr>) = (Inr True, ?w1)"
    using claim_granted [of "w\<lparr>remote := r1\<rparr>" eid etype] assms(2,3) by (simp add: idle_def)
  have "settled ?c (now w) ?w1" using assms(2) by (simp add: settled_def idle_def)
  then have "settled ?c (now w) w2"
    using keepsD [OF keeps_settled_handle _ assms(4)] by blast
  then have w2: "durable w2 = ?c" "now w2 = now w" "db_up w2" "rivals w2 = []"
    by (simp_all add: settled_def)
  have uc: "unique_rows ?c" using assms(2) unique_claimed by (simp add: idle_def)
  obtain ms where run: "stripe_webhook S PV B trace payload signature w =
    (Inl (HTTPException 500 ''webhook handling failed''),
     w2\<lparr>view := marked_db eid ''failed'' (Some (trace e)) (now w2) (durable w2),
        durable := marked_db eid ''failed'' (Some (trace e)) (now w2) (durable w2), marks := [], metrics := ms\<rparr>)"
    using webhook_failure [OF assms(1) claim assms(4) w2(3,4)] uc w2(1) by auto
  obtain row where row: "find_event eid ?c = Some row" using find_claimed by blast
  have again: "fst (claim_event eid etype (w2\<lparr>view := marked_db eid ''failed'' (Some (trace e)) (now w2) (durable w2),
        durable := marked_db eid ''failed'' (Some (trace e)) (now w2) (durable w2), marks := [], metrics := ms\<rparr>)) = Inr True"
    using claim_granted [of "w2\<lparr>view := marked_db eid ''failed'' (Some (trace e)) (now w2) (durable w2),
        durable := marked_db eid ''failed'' (Some (trace e)) (now w2) (durable w2), marks := [], metrics := ms\<rparr>" eid etype]
      w2 uc row by (simp add: idle_def)
  show ?thesis
    by (rule exI, rule conjI, rule run) (use w2 row again assms(2) in \<open>simp add: idle_def\<close>)
qed

theorem failed_webhook_is_undone_and_retried_witness:
  "\<exists>w'. stripe_webhook ex_settings (ex_hook ex_outage) InMemoryBackend (\<lambda>_. ''boom'') ''{}'' (Some ''sig'')
     (ex_world ex_db (Some ex_remote)) = (Inl (HTTPException 500 ''webhook handling failed''), w') \<and>
     subscriptions (durable w') = [ex_row] \<and> fst (claim_event ''evt_1'' ''customer.subscription.updated'' w') = Inr True"
proof -
  let ?w = "ex_world ex_db (Some ex_remote)" and ?ty = "''customer.subscription.updated''"
  let ?c = "claimed_db ''evt_1'' ?ty 1000000 ex_db"
  let ?w1 = "?w\<lparr>remote := Some ex_remote, view := ?c, durable := ?c\<rparr>"
  have "ready ''cus_1'' ex_row ?w1"
    using unique_claimed [of ex_db] by (simp add: ready_def)
  then have "sync_subscription_from_stripe ex_settings (ex_hook ex_outage) ''cus_1'' (Some ''evt_1'') ?ty ?w1 =
      (Inl (StripeError APIConnectionError ''down''), ?w1\<lparr>remote := Some ex_remote\<rparr>)"
    by (rule sync_fetch_failed) simp
  then have "handle_event ex_settings (ex_hook ex_outage) ''evt_1'' ?ty ex_event ?w1 =
      (Inl (StripeError APIConnectionError ''down''), ?w1)"
    by (simp add: handle_event_def and_then_def ex_event_def truthy_string_def SUBSCRIPTION_EVENTS_def)
  then show ?thesis
    using failed_webhook_is_undone_and_retried [of "ex_hook ex_outage" "''{}''" "Some ''sig''" ex_event "''evt_1''"
        ?ty ?w "Some ex_remote" ex_settings "StripeError APIConnectionError ''down''" ?w1 InMemoryBackend "\<lambda>_. ''boom''"]
    by auto
qed

end
