(* ===== verification/Expire_Grace.thy ===== *)
theory Expire_Grace
  imports Sync_Facts
begin

text \<open>
  \<open>app/jobs/expire_grace.py\<close>: the nightly job that records that a grace window has closed. It
  appends to the audit trail and marks users for invalidation; it never writes a subscription.
\<close>

definition REASON :: string where
  "REASON = ''dunning.grace_expired''"

definition reported :: "database \<Rightarrow> subscription \<Rightarrow> bool" where
  "reported db sub = (case past_due_since sub of
     None \<Rightarrow> False
   | Some since \<Rightarrow> list_ex (\<lambda>a. audit_user a = user_id sub \<and> audit_reason a = REASON \<and>
       ticks since < ticks (audit_created_at a)) (subscription_audit db))"

definition already_reported :: "subscription \<Rightarrow> ('r, 'c, bool) service" where
  "already_reported sub =
     (if past_due_since sub = None then ret False else query (\<lambda>db. reported db sub))"

definition grace_detail :: "subscription \<Rightarrow> payload" where
  "grace_detail sub =
     [(''past_due_since'', case past_due_since sub of None \<Rightarrow> PNone | Some s \<Rightarrow> PStamp s),
      (''mirrored_tier'', PStr (tier_col sub)),
      (''note'', PStr ''effective tier only; subscriptions.tier mirrors Stripe and is unchanged'')]"

fun expire_rows :: "settings \<Rightarrow> subscription list \<Rightarrow> ('r, 'c, string list) service" where
  "expire_rows S [] = ret []"
| "expire_rows S (sub # subs) =
     and_then clock (\<lambda>t.
     if \<not> grace_expired S t sub then expire_rows S subs else
     and_then (already_reported sub) (\<lambda>skip.
     if skip then expire_rows S subs else
     and_then (record_audit (user_id sub) (some_pair (snapshot sub)) (Some (tier_value FREE), Some (status_col sub))
       REASON None (Some (grace_detail sub))) (\<lambda>_.
     and_then (expire_rows S subs) (\<lambda>rest. ret (user_id sub # rest)))))"

definition dunning_row :: "subscription \<Rightarrow> bool" where
  "dunning_row r \<longleftrightarrow> status_col r = status_value PAST_DUE \<and> tier_col r \<noteq> tier_value FREE"

definition expire_grace_windows ::
  "settings \<Rightarrow> ('c, document) cache_backend \<Rightarrow> ('r, 'c, string list) service" where
  "expire_grace_windows S B =
     and_then (query (\<lambda>db. filter dunning_row (subscriptions db))) (\<lambda>rows.
     and_then (expire_rows S rows) (\<lambda>expired.
     and_then (only_if (expired \<noteq> [])
       (and_then (for_each mark_entitlements_stale expired) (\<lambda>_. commit_and_invalidate B))) (\<lambda>_.
     ret expired)))"

section \<open>What the job computes\<close>

definition due :: "settings \<Rightarrow> int \<Rightarrow> database \<Rightarrow> subscription \<Rightarrow> bool" where
  "due S t db r \<longleftrightarrow> grace_expired S t r \<and> \<not> reported db r"

definition grace_entry :: "int \<Rightarrow> subscription \<Rightarrow> audit_row" where
  "grace_entry t r = audit_entry t (user_id r) (some_pair (snapshot r)) (Some (tier_value FREE), Some (status_col r))
     REASON None (Some (grace_detail r))"

definition with_reports :: "int \<Rightarrow> subscription list \<Rightarrow> database \<Rightarrow> database" where
  "with_reports t rs db = db\<lparr>subscription_audit := subscription_audit db @ map (grace_entry t) rs\<rparr>"

lemma with_reports_frames [simp]:
  "subscriptions (with_reports t rs db) = subscriptions db"
  "unique_rows (with_reports t rs db) = unique_rows db"
  "coherent_db (with_reports t rs db) = coherent_db db"
  "with_reports t [] db = db"
  by (simp_all add: with_reports_def)

lemma grace_entry_fields [simp]:
  "audit_user (grace_entry t r) = user_id r" "audit_reason (grace_entry t r) = REASON"
  "audit_created_at (grace_entry t r) = Aware t"
  by (simp_all add: grace_entry_def audit_entry_def)

lemma reported_other:
  "user_id r \<notin> user_id ` set rs \<Longrightarrow> reported (with_reports t rs db) r = reported db r"
proof -
  assume "user_id r \<notin> user_id ` set rs"
  then have "\<not> list_ex (\<lambda>a. audit_user a = user_id r \<and> audit_reason a = REASON \<and> c < ticks (audit_created_at a))
      (map (grace_entry t) rs)" for c
    by (auto simp: list_ex_iff image_iff dest: sym)
  then show ?thesis by (simp add: reported_def with_reports_def split: option.split)
qed

lemma expire_rows_spec:
  assumes "db_up w" "distinct (map user_id rs)"
  shows "expire_rows S rs w = (Inr (map user_id (filter (due S (now w) (view w)) rs)),
    w\<lparr>view := with_reports (now w) (filter (due S (now w) (view w)) rs) (view w)\<rparr>)"
  using assms
proof (induction rs arbitrary: w)
  case Nil
  show ?case by simp
next
  case (Cons r rs)
  let ?db = "view w" and ?t = "now w"
  have rep: "already_reported r w = (Inr (reported ?db r), w)"
    using Cons.prems(1) by (auto simp: already_reported_def reported_def)
  show ?case
  proof (cases "due S ?t ?db r")
    case False
    then show ?thesis using Cons.IH [of w] Cons.prems rep by (auto simp: due_def and_then_def)
  next
    case True
    let ?w = "w\<lparr>view := with_reports ?t [r] ?db\<rparr>"
    have fresh: "user_id x \<notin> user_id ` set [r]" if "x \<in> set rs" for x
      using Cons.prems(2) that by (auto simp: image_iff)
    have same: "filter (due S ?t (with_reports ?t [r] ?db)) rs = filter (due S ?t ?db) rs"
      using reported_other [OF fresh] by (auto simp: due_def intro!: filter_cong)
    have "record_audit (user_id r) (some_pair (snapshot r)) (Some (tier_value FREE), Some (status_col r))
       REASON None (Some (grace_detail r)) w = (Inr (), ?w)"
      by (simp add: with_reports_def grace_entry_def)
    moreover have "expire_rows S rs ?w = (Inr (map user_id (filter (due S ?t ?db) rs)),
        ?w\<lparr>view := with_reports ?t (filter (due S ?t ?db) rs) (with_reports ?t [r] ?db)\<rparr>)"
      using Cons.IH [of ?w] Cons.prems same by simp
    moreover have "grace_expired S ?t r" "reported ?db r = False" using True by (simp_all add: due_def)
    ultimately show ?thesis using rep
      by (simp add: True and_then_def) (simp add: with_reports_def)
  qed
qed

end
