(* ===== verification/Job_Properties.thy ===== *)
theory Job_Properties
  imports Expire_Grace Entitlement_Properties
begin

text \<open>What the nightly jobs promise.\<close>

section \<open>Closed grace windows\<close>

lemma mark_all_apply:
  "for_each mark_entitlements_stale uids w = (Inr (), w\<lparr>marks := fold List.insert uids (marks w)\<rparr>)"
  by (induction uids arbitrary: w) (simp_all add: mark_entitlements_stale_def)

definition due_rows :: "settings \<Rightarrow> int \<Rightarrow> database \<Rightarrow> subscription list" where
  "due_rows S t db = filter (\<lambda>r. dunning_row r \<and> due S t db r) (subscriptions db)"

lemma expire_run:
  assumes "idle w"
  shows "\<exists>c m. expire_grace_windows S B w = (Inr (map user_id (due_rows S (now w) (durable w))),
    w\<lparr>view := with_reports (now w) (due_rows S (now w) (durable w)) (durable w),
       durable := with_reports (now w) (due_rows S (now w) (durable w)) (durable w), cache := c, metrics := m\<rparr>)"
proof -
  let ?rs = "due_rows S (now w) (durable w)"
  let ?w = "w\<lparr>view := with_reports (now w) ?rs (durable w)\<rparr>"
  let ?w' = "?w\<lparr>marks := fold List.insert (map user_id ?rs) []\<rparr>"
  have facts: "db_up w" "rivals w = []" "marks w = []" "view w = durable w" "unique_rows (durable w)"
    using assms by (simp_all add: idle_def)
  have "distinct (map user_id (filter dunning_row (subscriptions (durable w))))"
    using facts(5) by (simp add: unique_rows_def unique_subscriptions_def distinct_map_filter)
  from expire_rows_spec [OF facts(1) this, of S]
  have rows: "expire_rows S (filter dunning_row (subscriptions (durable w))) w = (Inr (map user_id ?rs), ?w)"
    by (simp add: due_rows_def facts(4) conj_commute)
  obtain c m where com: "commit_and_invalidate B ?w' = (Inr (), ?w'\<lparr>durable := view ?w', marks := [], cache := c, metrics := m\<rparr>)"
    using commit_and_invalidate_apply [of ?w' B] facts by auto
  show ?thesis
  proof (cases "?rs = []")
    case True
    then show ?thesis
      by (intro exI [of _ "cache w"] exI [of _ "metrics w"])
        (use rows facts in \<open>simp add: expire_grace_windows_def and_then_def\<close>)
  next
    case False
    have m': "for_each mark_entitlements_stale (map user_id ?rs) ?w = (Inr (), ?w')"
      by (simp add: mark_all_apply facts)
    show ?thesis
      by (intro exI [of _ c] exI [of _ m])
        (use rows facts False m' com in \<open>simp add: expire_grace_windows_def and_then_def\<close>)
  qed
qed

text \<open>
  C38: The job reports exactly the subscribers whose grace window has closed, who are still
  mirrored on a paid tier and who were not yet reported in this cycle, with one audit row
  each; and it writes no subscription, grant or event: the mirror of Stripe has one writer.
\<close>

theorem expire_grace_reports_and_leaves_mirror:
  assumes "idle w"
  shows "\<exists>w'. expire_grace_windows S B w = (Inr (map user_id (due_rows S (now w) (durable w))), w') \<and>
    durable w' = (durable w)\<lparr>subscription_audit := subscription_audit (durable w) @
      map (grace_entry (now w)) (due_rows S (now w) (durable w))\<rparr> \<and> marks w' = []"
  using expire_run [OF assms, of S B] assms by (auto simp: with_reports_def idle_def)

theorem expire_grace_reports_and_leaves_mirror_witness:
  "\<exists>w'. expire_grace_windows ex_settings InMemoryBackend ((ex_world ex_overdue None)\<lparr>now := 700000000000\<rparr>) =
     (Inr [''alice''], w') \<and> subscriptions (durable w') = subscriptions ex_overdue"
proof -
  let ?w = "(ex_world ex_overdue None)\<lparr>now := 700000000000\<rparr>"
  have idle: "idle ?w" by (simp add: idle_def)
  have "map user_id (due_rows ex_settings 700000000000 ex_overdue) = [''alice'']" by code_simp
  then show ?thesis
    using expire_grace_reports_and_leaves_mirror [OF idle, of ex_settings InMemoryBackend] by auto
qed

text \<open>
  The job is idempotent: run again at any later time over the rows it left, it reports
  nobody it has reported before and, where no further window has closed, writes nothing at all.
\<close>

theorem expire_grace_idempotent:
  assumes "idle w" "0 < dunning_grace S" "now w \<le> t"
    and "expire_grace_windows S B w = (Inr ids, w1)"
    and "expire_grace_windows S B (w1\<lparr>now := t\<rparr>) = (Inr ids', w2)"
  shows "set ids \<inter> set ids' = {} \<and> (t = now w \<longrightarrow> ids' = [] \<and> durable w2 = durable w1)"
proof -
  let ?rs = "due_rows S (now w) (durable w)"
  have w1: "durable w1 = with_reports (now w) ?rs (durable w)" "ids = map user_id ?rs"
    and i1: "idle (w1\<lparr>now := t\<rparr>)"
    using expire_run [OF assms(1), of S B] assms(1,4) by (auto simp: idle_def)
  have w2: "ids' = map user_id (due_rows S t (durable w1))" "durable w2 = with_reports t (due_rows S t (durable w1)) (durable w1)"
    using expire_run [OF i1, of S B] assms(5) by auto
  have seen: "reported (durable w1) r" if r: "r \<in> set ?rs" for r
  proof -
    obtain since where since: "past_due_since r = Some since" "ticks since + dunning_grace S \<le> now w"
      using r by (auto simp: due_rows_def due_def grace_expired_iff)
    then show ?thesis
      using r assms(2) by (force simp: reported_def w1(1) with_reports_def list_ex_iff)
  qed
  have u: "distinct (map user_id (subscriptions (durable w)))"
    using assms(1) by (simp add: idle_def unique_rows_def unique_subscriptions_def)
  have apart: "r = r'" if "r \<in> set (subscriptions (durable w))" "r' \<in> set (subscriptions (durable w))"
    "user_id r = user_id r'" for r r'
    using u that by (auto simp: distinct_map inj_on_def)
  have disj: "set ids \<inter> set ids' = {}"
  proof (rule ccontr)
    assume "set ids \<inter> set ids' \<noteq> {}"
    then obtain r r' where r: "r \<in> set ?rs" "r' \<in> set (due_rows S t (durable w1))" "user_id r = user_id r'"
      by (auto simp: w1(2) w2(1))
    then have "r = r'" by (intro apart) (auto simp: due_rows_def w1(1))
    with r seen [OF r(1)] show False by (auto simp: due_rows_def due_def)
  qed
  have "due_rows S t (durable w1) = []" if "t = now w"
  proof -
    have "\<not> due S t (durable w1) r" if "r \<in> set (subscriptions (durable w))" "dunning_row r" for r
    proof
      assume d: "due S t (durable w1) r"
      have "reported (durable w) r \<Longrightarrow> reported (durable w1) r"
        by (auto simp: reported_def w1(1) with_reports_def list_ex_iff split: option.splits)
      with d have "r \<in> set ?rs" using that \<open>t = now w\<close> by (auto simp: due_rows_def due_def)
      with seen d show False by (simp add: due_def)
    qed
    then show ?thesis by (auto simp: due_rows_def filter_empty_conv w1(1))
  qed
  then show ?thesis using disj w2 by simp
qed

theorem expire_grace_idempotent_witness:
  "fst (expire_grace_windows ex_settings InMemoryBackend
     ((snd (expire_grace_windows ex_settings InMemoryBackend
        ((ex_world ex_overdue None)\<lparr>now := 700000000000\<rparr>)))\<lparr>now := 700000000000\<rparr>)) = Inr []"
proof -
  let ?w = "(ex_world ex_overdue None)\<lparr>now := 700000000000\<rparr>"
  have idle: "idle ?w" by (simp add: idle_def)
  obtain ids w1 where a: "expire_grace_windows ex_settings InMemoryBackend ?w = (Inr ids, w1)"
    using expire_run [OF idle, of ex_settings InMemoryBackend] by auto
  have "idle (w1\<lparr>now := 700000000000\<rparr>)"
    using expire_run [OF idle, of ex_settings InMemoryBackend] a by (auto simp: idle_def)
  then obtain ids' w2 where b: "expire_grace_windows ex_settings InMemoryBackend (w1\<lparr>now := 700000000000\<rparr>) = (Inr ids', w2)"
    using expire_run [of "w1\<lparr>now := 700000000000\<rparr>" ex_settings InMemoryBackend] by auto
  have grace: "0 < dunning_grace ex_settings" by code_simp
  show ?thesis
    using expire_grace_idempotent [OF idle grace _ a b] a b by simp
qed

end
