(* ===== verification/Reconcile.thy ===== *)
theory Reconcile
  imports Sync_Facts
begin

text \<open>
  \<open>app/jobs/reconcile.py\<close>: the nightly walk over every subscription of the Stripe account. The
  job's state is the world and the report; what a failing customer added to the report before
  it raised stays there, as it does in Python. Pages are read with fuel, one unit a page;
  \<open>Reconcile_Properties\<close> shows that the number of pages is enough.
\<close>

section \<open>The report\<close>

record drift_detail =
  dd_user :: string
  dd_customer :: string
  dd_local :: "string \<times> string"
  dd_stripe :: "string \<times> string"

record orphan =
  or_user :: string
  or_customer :: string
  or_subscription :: string
  or_status :: string
  or_cancel :: bool
  or_orphaned_at :: "string option"
  or_notified_at :: "string option"

record report =
  rr_checked :: nat
  rr_mismatched :: nat
  rr_repaired :: nat
  rr_failed :: "string list"
  rr_ignored :: nat
  rr_unknown :: "string list"
  rr_details :: "drift_detail list"
  rr_orphaned :: "orphan list"
  rr_orphaned_closed :: nat
  rr_notified :: "string list"
  rr_unnotified :: "string list"

definition empty_report :: report where
  "empty_report = \<lparr>rr_checked = 0, rr_mismatched = 0, rr_repaired = 0, rr_failed = [], rr_ignored = 0,
     rr_unknown = [], rr_details = [], rr_orphaned = [], rr_orphaned_closed = 0, rr_notified = [],
     rr_unnotified = []\<rparr>"

type_synonym ('r, 'c, 'a) job = "(('r, 'c) world \<times> report, exc, 'a) prog"

definition svc :: "('r, 'c, 'a) service \<Rightarrow> ('r, 'c, 'a) job" where
  "svc m = (\<lambda>(w, rep). case m w of (r, w') \<Rightarrow> (r, (w', rep)))"

definition jot :: "(report \<Rightarrow> report) \<Rightarrow> ('r, 'c, unit) job" where
  "jot f = modify (\<lambda>(w, rep). (w, f rep))"

section \<open>One subscription\<close>

definition NOTIFIED_AT :: string where
  "NOTIFIED_AT = ''orphan_notified_at''"

text \<open>The marks a subscription carries: the metadata entries of the two names that are set.\<close>

definition orphan_marks :: "remote_subscription \<Rightarrow> (string, string) dict" where
  "orphan_marks rem = concat (map (\<lambda>k. case map_of (rs_metadata rem) k of
     Some v \<Rightarrow> if v \<noteq> [] then [(k, v)] else [] | None \<Rightarrow> []) [ORPHANED_AT, NOTIFIED_AT])"

definition user_id_of :: "'r provider \<Rightarrow> remote_subscription \<Rightarrow> string \<Rightarrow> ('r, 'c, string option) service" where
  "user_id_of PV rem cid =
     (let uid = map_of (rs_metadata rem) ''user_id'' in
      if truthy uid then ret uid
      else and_then (call (p_retrieve_customer PV cid)) (\<lambda>c. ret (rc_user_id c)))"

text \<open>
  The account directory: the ids without an account, or \<open>None\<close> where it cannot tell.
\<close>

type_synonym ('r, 'c) accounts = "string list \<Rightarrow> ('r, 'c, string list option) service"

definition account_state :: "('r, 'c) accounts \<Rightarrow> string \<Rightarrow> ('r, 'c, bool option) service" where
  "account_state AD uid =
     and_then (AD [uid]) (\<lambda>missing. ret (map_option (\<lambda>ids. uid \<in> set ids) missing))"

definition record_orphan ::
  "'r provider \<Rightarrow> bool \<Rightarrow> remote_subscription \<Rightarrow> string \<Rightarrow> string \<Rightarrow> ('r, 'c, unit) job" where
  "record_orphan PV dry rem cid uid =
     (if rs_ended rem then jot (\<lambda>rep. rep\<lparr>rr_orphaned_closed := rr_orphaned_closed rep + 1\<rparr>) else
      let marked = map_of (orphan_marks rem) ORPHANED_AT in
      and_then (if marked = None \<and> \<not> dry then
          svc (and_then clock (\<lambda>t.
            let at = iso_seconds t in
            and_then (call (p_set_subscription_metadata PV (rs_id rem) [(ORPHANED_AT, at)])) (\<lambda>_. ret (Some at))))
        else ret marked) (\<lambda>orphaned_at.
      jot (\<lambda>rep. rep\<lparr>rr_orphaned := rr_orphaned rep @
        [\<lparr>or_user = uid, or_customer = cid, or_subscription = rs_id rem, or_status = rs_provider_status rem,
          or_cancel = rs_cancel_at_period_end rem, or_orphaned_at = orphaned_at,
          or_notified_at = map_of (orphan_marks rem) NOTIFIED_AT\<rparr>]\<rparr>)))"

definition drifted :: "settings \<Rightarrow> subscription \<Rightarrow> remote_subscription \<Rightarrow> bool" where
  "drifted S sub rem \<longleftrightarrow>
     \<not> (tier_col sub = tier_value (ms_tier (project S (Some rem))) \<and>
        status_col sub = status_value (ms_status (project S (Some rem))))"

definition reconcile_one ::
  "settings \<Rightarrow> 'r provider \<Rightarrow> ('r, 'c) accounts \<Rightarrow> bool \<Rightarrow> remote_subscription \<Rightarrow> string \<Rightarrow> ('r, 'c, bool) job" where
  "reconcile_one S PV AD dry rem cid =
     and_then (svc (find_by_customer cid False)) (\<lambda>local.
     if local = None \<and> \<not> belongs_to_this_service S (Some rem) then
       and_then (jot (\<lambda>rep. rep\<lparr>rr_ignored := rr_ignored rep + 1\<rparr>)) (\<lambda>_. ret False)
     else
     and_then (case local of Some l \<Rightarrow> ret (Some (user_id l)) | None \<Rightarrow> svc (user_id_of PV rem cid)) (\<lambda>uid.
     and_then (if truthy uid then svc (account_state AD (the uid)) else ret None) (\<lambda>gone.
     if gone = Some True then
       and_then (record_orphan PV dry rem cid (the uid)) (\<lambda>_. ret False)
     else
     and_then (only_if (gone = Some False \<and> orphan_marks rem \<noteq> [] \<and> \<not> dry)
       (svc (call (p_set_subscription_metadata PV (rs_id rem) [(ORPHANED_AT, ''''), (NOTIFIED_AT, '''')])))) (\<lambda>_.
     case local of
       None \<Rightarrow>
         and_then (jot (\<lambda>rep. rep\<lparr>rr_unknown := rr_unknown rep @ [cid]\<rparr>)) (\<lambda>_.
         if dry then ret False else
         and_then (svc (sync_subscription_from_stripe S PV cid None ''reconcile.unknown_customer'')) (\<lambda>_. ret True))
     | Some l \<Rightarrow>
         if \<not> drifted S l rem then ret False else
         and_then (jot (\<lambda>rep. rep\<lparr>rr_mismatched := rr_mismatched rep + 1,
           rr_details := rr_details rep @
             [\<lparr>dd_user = user_id l, dd_customer = cid, dd_local = (tier_col l, status_col l),
               dd_stripe = (tier_value (ms_tier (project S (Some rem))), rs_provider_status rem)\<rparr>]\<rparr>)) (\<lambda>_.
         if dry then ret False else
         and_then (svc (sync_subscription_from_stripe S PV cid None ''reconcile.drift'')) (\<lambda>_. ret True))))))"

section \<open>The walk\<close>

text \<open>One customer's transaction: check, repair, and commit, or end the read of a dry run.\<close>

definition repair_one ::
  "settings \<Rightarrow> 'r provider \<Rightarrow> ('c, document) cache_backend \<Rightarrow> ('r, 'c) accounts \<Rightarrow> bool \<Rightarrow>
   remote_subscription \<Rightarrow> string \<Rightarrow> ('r, 'c, bool) job" where
  "repair_one S PV B AD dry rem cid =
     and_then (reconcile_one S PV AD dry rem cid) (\<lambda>repaired.
     and_then (svc (if dry then rollback else commit_and_invalidate B)) (\<lambda>_. ret repaired))"

definition reconcile_item ::
  "settings \<Rightarrow> 'r provider \<Rightarrow> ('c, document) cache_backend \<Rightarrow> ('r, 'c) accounts \<Rightarrow> bool \<Rightarrow>
   remote_subscription \<Rightarrow> ('r, 'c, unit) job" where
  "reconcile_item S PV B AD dry rem =
     and_then (jot (\<lambda>rep. rep\<lparr>rr_checked := rr_checked rep + 1\<rparr>)) (\<lambda>_.
     if \<not> truthy (rs_customer_id rem) then ret () else
     let cid = the (rs_customer_id rem) in
     and_then (try_except (repair_one S PV B AD dry rem cid)
         (\<lambda>e. and_then (svc rollback) (\<lambda>_.
              and_then (jot (\<lambda>rep. rep\<lparr>rr_failed := rr_failed rep @ [cid]\<rparr>)) (\<lambda>_. ret False)))) (\<lambda>repaired.
     only_if repaired (jot (\<lambda>rep. rep\<lparr>rr_repaired := rr_repaired rep + 1\<rparr>))))"

fun reconcile_pages ::
  "settings \<Rightarrow> 'r provider \<Rightarrow> ('c, document) cache_backend \<Rightarrow> ('r, 'c) accounts \<Rightarrow> bool \<Rightarrow>
   nat \<Rightarrow> string option \<Rightarrow> ('r, 'c, bool) job" where
  "reconcile_pages S PV B AD dry 0 after = ret False"
| "reconcile_pages S PV B AD dry (Suc fuel) after =
     and_then (svc (call (p_list_subscriptions_page PV after))) (\<lambda>page.
     if page_items page = [] then ret True else
     and_then (for_each (reconcile_item S PV B AD dry) (page_items page)) (\<lambda>_.
     if \<not> page_has_more page then ret True
     else reconcile_pages S PV B AD dry fuel (Some (rs_id (last (page_items page))))))"

section \<open>Telling a person\<close>

definition newline :: string where "newline = [char_of (10::nat)]"

fun join_lines :: "string list \<Rightarrow> string" where
  "join_lines [] = ''''"
| "join_lines [l] = l"
| "join_lines (l # ls) = l @ newline @ join_lines ls"

definition shown :: "string option \<Rightarrow> string" where
  "shown v = (case v of Some s \<Rightarrow> s | None \<Rightarrow> ''None'')"

definition orphan_email :: "settings \<Rightarrow> orphan list \<Rightarrow> string \<times> string" where
  "orphan_email S orphans =
     (let n = length orphans;
          subject = ''[subscription-service/'' @ environment S @ ''] '' @ str_nat n @ '' subscription'' @
            (if n \<noteq> 1 then ''s are'' else '' is'') @ '' still charging a deleted account'';
          dashboard = ''https://dashboard.stripe.com/'' @
            (if starts_with ''sk_test_'' (stripe_secret_key S) then ''test/'' else '''');
          entry = (\<lambda>o'. [''- '' @ or_subscription o' @ '': '' @ or_status o' @ '', '' @
                (if or_cancel o' then ''cancels at period end'' else ''renews''),
              ''  customer '' @ or_customer o' @ '', user '' @ or_user o' @ '', found '' @ shown (or_orphaned_at o'),
              ''  '' @ dashboard @ ''subscriptions/'' @ or_subscription o',
              ''''])
      in (subject, join_lines
        ([''Stripe can still charge the subscriptions below, but the Supabase account'',
          ''each belongs to no longer exists, so nobody can sign in to use or cancel it.'',
          '''',
          ''Decide for each: cancel it, refund it, or restore the account.'',
          ''''] @
         concat (map entry orphans) @
         [''Each is marked in Stripe (metadata orphaned_at, orphan_notified_at), and'',
          ''this is the only email about it. The nightly reconcile log keeps listing'',
          ''it under ORPHANED until it ends.''])))"

text \<open>\<open>email_notifier()\<close>: email is configured, or nobody is told.\<close>

type_synonym ('r, 'c) notifier = "string \<Rightarrow> string \<Rightarrow> ('r, 'c, unit) service"

text \<open>What \<open>str.strip()\<close> strips.\<close>

definition is_space :: "char \<Rightarrow> bool" where
  "is_space c \<longleftrightarrow> (let n = of_char c :: nat in n = 32 \<or> (9 \<le> n \<and> n \<le> 13) \<or> (28 \<le> n \<and> n \<le> 31) \<or> n = 133 \<or> n = 160)"

definition all_space :: "string \<Rightarrow> bool" where
  "all_space s = list_all is_space s"

definition email_notifier :: "settings \<Rightarrow> ('r, 'c) notifier \<Rightarrow> ('r, 'c) notifier option" where
  "email_notifier S smtp =
     (if smtp_host S = [] \<or> all_space (alert_email_to S) \<or> alert_email_from S = [] then None else Some smtp)"

definition pending :: "orphan \<Rightarrow> bool" where
  "pending o' \<longleftrightarrow> \<not> truthy (or_notified_at o')"

definition mark_notified :: "'r provider \<Rightarrow> string \<Rightarrow> string \<Rightarrow> ('r, 'c, unit) service" where
  "mark_notified PV at sid =
     try_except (call (p_set_subscription_metadata PV sid [(NOTIFIED_AT, at)])) (\<lambda>_. ret ())"

definition notify ::
  "settings \<Rightarrow> 'r provider \<Rightarrow> ('r, 'c) notifier option \<Rightarrow> ('r, 'c, unit) job" where
  "notify S PV notifier =
     and_then (gets snd) (\<lambda>rep.
     let todo = filter pending (rr_orphaned rep); ids = map or_subscription todo in
     if todo = [] then ret () else
     case notifier of
       None \<Rightarrow> jot (\<lambda>rep. rep\<lparr>rr_unnotified := ids\<rparr>)
     | Some send \<Rightarrow>
         (let (subject, body) = orphan_email S todo in
          and_then (try_except (and_then (svc (send subject body)) (\<lambda>_. ret True)) (\<lambda>_. ret False)) (\<lambda>sent.
          if \<not> sent then jot (\<lambda>rep. rep\<lparr>rr_unnotified := ids\<rparr>) else
          and_then (svc clock) (\<lambda>t.
          let at = iso_seconds t in
          and_then (for_each (\<lambda>sid. svc (mark_notified PV at sid)) ids) (\<lambda>_.
          jot (\<lambda>rep. rep\<lparr>
            rr_orphaned := map (\<lambda>o'. if pending o' then o'\<lparr>or_notified_at := Some at\<rparr> else o') (rr_orphaned rep),
            rr_notified := rr_notified rep @ ids\<rparr>))))))"

definition reconcile ::
  "settings \<Rightarrow> 'r provider \<Rightarrow> ('c, document) cache_backend \<Rightarrow> ('r, 'c) accounts \<Rightarrow>
   ('r, 'c) notifier option \<Rightarrow> bool \<Rightarrow> nat \<Rightarrow> ('r, 'c, bool) job" where
  "reconcile S PV B AD notifier dry fuel =
     and_then (reconcile_pages S PV B AD dry fuel None) (\<lambda>finished.
     and_then (only_if (finished \<and> \<not> dry) (notify S PV notifier)) (\<lambda>_. ret finished))"

text \<open>The exit code of the job.\<close>

definition exit_code :: "report \<Rightarrow> nat" where
  "exit_code rep = (if rr_failed rep \<noteq> [] \<or> rr_unnotified rep \<noteq> [] then 1 else 0)"

section \<open>How the job's state moves\<close>

lemma svc_apply [simp]: "svc m (w, rep) = (fst (m w), (snd (m w), rep))"
  by (simp add: svc_def split: prod.split)

lemma jot_apply [simp]: "jot f (w, rep) = (Inr (), (w, f rep))"
  by (simp add: jot_def)

lemma item_Inl:
  assumes "rs_customer_id rem = Some cid" "cid \<noteq> []"
    and "repair_one S PV B AD dry rem cid (w, rep\<lparr>rr_checked := rr_checked rep + 1\<rparr>) = (Inl e, (w', rep'))"
  shows "reconcile_item S PV B AD dry rem (w, rep) =
    (Inr (), (w'\<lparr>view := durable w', marks := []\<rparr>, rep'\<lparr>rr_failed := rr_failed rep' @ [cid]\<rparr>))"
  using assms by (simp add: reconcile_item_def and_then_def try_except_def)

lemma item_Inr:
  assumes "rs_customer_id rem = Some cid" "cid \<noteq> []"
    and "repair_one S PV B AD dry rem cid (w, rep\<lparr>rr_checked := rr_checked rep + 1\<rparr>) = (Inr b, (w', rep'))"
  shows "reconcile_item S PV B AD dry rem (w, rep) =
    (Inr (), (w', if b then rep'\<lparr>rr_repaired := rr_repaired rep' + 1\<rparr> else rep'))"
  using assms by (simp add: reconcile_item_def and_then_def try_except_def)

lemma item_skip:
  assumes "\<not> truthy (rs_customer_id rem)"
  shows "reconcile_item S PV B AD dry rem (w, rep) = (Inr (), (w, rep\<lparr>rr_checked := rr_checked rep + 1\<rparr>))"
  using assms by (simp add: reconcile_item_def and_then_def)

text \<open>The walk goes on past every subscription: no item raises, whatever the provider does.\<close>

lemma item_returns: "fst (reconcile_item S PV B AD dry rem s) = Inr ()"
proof (cases "truthy (rs_customer_id rem)")
  case False
  then show ?thesis by (cases s) (simp add: item_skip)
next
  case True
  then obtain cid where c: "rs_customer_id rem = Some cid" "cid \<noteq> []"
    by (cases "rs_customer_id rem") auto
  obtain w rep where s: "s = (w, rep)" by fastforce
  obtain r w' rep' where run: "repair_one S PV B AD dry rem cid (w, rep\<lparr>rr_checked := rr_checked rep + 1\<rparr>) = (r, (w', rep'))"
    by (metis prod.exhaust)
  show ?thesis
    by (cases r) (use run in \<open>simp_all add: s item_Inl [OF c] item_Inr [OF c]\<close>)
qed

lemma items_return: "fst (for_each (reconcile_item S PV B AD dry) rems s) = Inr ()"
proof (induction rems arbitrary: s)
  case Nil
  show ?case by simp
next
  case (Cons rem rems)
  then show ?case using item_returns [of S PV B AD dry rem s]
    by (cases "reconcile_item S PV B AD dry rem s") (simp add: and_then_def)
qed

end
