(* ===== verification/Reconcile_Properties.thy ===== *)
theory Reconcile_Properties
  imports Reconcile Entitlement_Properties
begin

text \<open>
  What the nightly reconciliation promises: it ends, it sees every subscription once, a customer
  that cannot be repaired costs nobody else, a dry run writes nothing, and nobody is marked as
  told who was not.
\<close>

section \<open>The job's state\<close>

lemma keeps_svc: "keeps P m \<Longrightarrow> keeps (\<lambda>s. P (fst s)) (svc m)"
  by (auto simp: keeps_def)

lemma keeps_jot: "keeps (\<lambda>s. P (fst s)) (jot f)"
  by (auto simp: keeps_def)

text \<open>What is asked of an account directory: it answers or raises, and changes nothing.\<close>

definition reads_only :: "('r, 'c) accounts \<Rightarrow> bool" where
  "reads_only AD \<longleftrightarrow> (\<forall>ids w. snd (AD ids w) = w)"

lemma keeps_account_state: "reads_only AD \<Longrightarrow> keeps P (account_state AD uid)"
  unfolding account_state_def by (intro keeps_intro) (simp add: keeps_def reads_only_def)

lemma keeps_settled_one:
  assumes "reads_only AD"
  shows "keeps (\<lambda>s. settled d t (fst s)) (reconcile_one S PV AD dry rem cid)"
  unfolding reconcile_one_def record_orphan_def user_id_of_def Let_def
  by (intro keeps_intro keeps_svc keeps_jot keeps_settled keeps_settled_sync keeps_account_state assms
      keeps_frame find_by_customer_frame)

section \<open>The walk ends\<close>

text \<open>
  \<open>paged PV after ps\<close>: whatever the state of the account, the provider serves the pages \<open>ps\<close> one
  after the other, each starting after the last subscription of the one before.
\<close>

fun paged :: "'r provider \<Rightarrow> string option \<Rightarrow> subscription_page list \<Rightarrow> bool" where
  "paged PV after [] = False"
| "paged PV after [p] =
     ((\<forall>r. \<exists>r'. p_list_subscriptions_page PV after r = (Inr p, r')) \<and> (page_items p = [] \<or> \<not> page_has_more p))"
| "paged PV after (p # ps) =
     ((\<forall>r. \<exists>r'. p_list_subscriptions_page PV after r = (Inr p, r')) \<and> page_items p \<noteq> [] \<and> page_has_more p \<and>
      paged PV (Some (rs_id (last (page_items p)))) ps)"

lemma keeps_svc_rep: "keeps (\<lambda>s. Q (snd s)) (svc m)"
  by (auto simp: keeps_def)

lemma keeps_jot_rep: "(\<And>rep. Q rep \<Longrightarrow> Q (f rep)) \<Longrightarrow> keeps (\<lambda>s. Q (snd s)) (jot f)"
  by (auto simp: keeps_def)

lemma keeps_checked: "keeps (\<lambda>s. rr_checked (snd s) = n) (repair_one S PV B AD dry rem cid)"
  unfolding repair_one_def reconcile_one_def record_orphan_def Let_def
  by (intro keeps_intro keeps_svc_rep [of "\<lambda>rep. rr_checked rep = n"]
      keeps_jot_rep [of "\<lambda>rep. rr_checked rep = n"]) simp_all

lemma item_checked: "rr_checked (snd (snd (reconcile_item S PV B AD dry rem (w, rep)))) = rr_checked rep + 1"
proof (cases "truthy (rs_customer_id rem)")
  case False
  then show ?thesis by (simp add: item_skip)
next
  case True
  then obtain cid where c: "rs_customer_id rem = Some cid" "cid \<noteq> []"
    by (cases "rs_customer_id rem") auto
  obtain r w' rep' where run: "repair_one S PV B AD dry rem cid (w, rep\<lparr>rr_checked := rr_checked rep + 1\<rparr>) = (r, (w', rep'))"
    by (metis prod.exhaust)
  have "rr_checked rep' = rr_checked rep + 1"
    using keepsD [OF keeps_checked [of "rr_checked rep + 1"] _ run] by simp
  then show ?thesis
    by (cases r) (use run in \<open>simp_all add: item_Inl [OF c] item_Inr [OF c]\<close>)
qed

lemma items_checked:
  "rr_checked (snd (snd (for_each (reconcile_item S PV B AD dry) rems (w, rep)))) = rr_checked rep + length rems"
proof (induction rems arbitrary: w rep)
  case Nil
  show ?case by simp
next
  case (Cons rem rems)
  obtain w' rep' where "reconcile_item S PV B AD dry rem (w, rep) = (Inr (), (w', rep'))"
    using item_returns [of S PV B AD dry rem "(w, rep)"] by (metis prod.collapse)
  moreover from this have "rr_checked rep' = rr_checked rep + 1"
    using item_checked [of S PV B AD dry rem w rep] by simp
  ultimately show ?case using Cons.IH [of w' rep'] by (simp add: and_then_def)
qed

text \<open>
  C36: The walk ends and misses nobody. Where the provider serves finitely many pages, reading
  them takes one unit of fuel each: the walk returns, finished, without an error - whatever
  fails for single customers - and has checked every subscription of every page exactly once.
\<close>

theorem reconcile_walk_ends:
  assumes "paged PV after ps" "length ps \<le> fuel"
  shows "\<exists>w' rep'. reconcile_pages S PV B AD dry fuel after (w, rep) = (Inr True, (w', rep')) \<and>
    rr_checked rep' = rr_checked rep + sum_list (map (\<lambda>p. length (page_items p)) ps)"
  using assms
proof (induction ps arbitrary: after fuel w rep)
  case Nil
  then show ?case by simp
next
  case (Cons p ps)
  then obtain n where fuel: "fuel = Suc n" "length ps \<le> n" by (cases fuel) auto
  have "\<forall>r. \<exists>r'. p_list_subscriptions_page PV after r = (Inr p, r')"
    using Cons.prems(1) by (cases ps) auto
  then obtain r' where page: "p_list_subscriptions_page PV after (remote w) = (Inr p, r')" by blast
  obtain w1 rep1 where items: "for_each (reconcile_item S PV B AD dry) (page_items p) (w\<lparr>remote := r'\<rparr>, rep) =
      (Inr (), (w1, rep1))"
    using items_return [of S PV B AD dry "page_items p" "(w\<lparr>remote := r'\<rparr>, rep)"] by (metis prod.collapse)
  then have checked: "rr_checked rep1 = rr_checked rep + length (page_items p)"
    using items_checked [of S PV B AD dry "page_items p" "w\<lparr>remote := r'\<rparr>" rep] by simp
  show ?case
  proof (cases ps)
    case Nil
    with Cons.prems(1) have "page_items p = [] \<or> \<not> page_has_more p" by simp
    then show ?thesis using page items checked Nil fuel(1)
      by (auto simp: and_then_def call_apply)
  next
    case (Cons q qs)
    with Cons.prems(1) have p: "page_items p \<noteq> []" "page_has_more p"
      "paged PV (Some (rs_id (last (page_items p)))) ps" by simp_all
    from Cons.IH [OF p(3) fuel(2), of w1 rep1] show ?thesis
      using p page items checked fuel(1) by (auto simp: and_then_def call_apply)
  qed
qed


definition ex_two_pages :: "ex_state provider" where
  "ex_two_pages = ex_provider\<lparr>p_list_subscriptions_page := (\<lambda>after. ret (case after of
     None \<Rightarrow> \<lparr>page_items = [ex_remote, ex_foreign\<lparr>rs_id := ''sub_2''\<rparr>], page_has_more = True\<rparr>
   | Some _ \<Rightarrow> \<lparr>page_items = [ex_failing], page_has_more = False\<rparr>))\<rparr>"

theorem reconcile_walk_ends_witness:
  "\<exists>w' rep'. reconcile_pages ex_settings ex_two_pages InMemoryBackend (\<lambda>_. ret (Some [])) False 2 None
     (ex_world ex_db None, empty_report) = (Inr True, (w', rep')) \<and> rr_checked rep' = 3"
proof -
  have "paged ex_two_pages None [\<lparr>page_items = [ex_remote, ex_foreign\<lparr>rs_id := ''sub_2''\<rparr>], page_has_more = True\<rparr>,
      \<lparr>page_items = [ex_failing], page_has_more = False\<rparr>]"
    by (simp add: ex_two_pages_def)
  from reconcile_walk_ends [OF this, of 2 ex_settings InMemoryBackend "\<lambda>_. ret (Some [])" False "ex_world ex_db None" empty_report]
  show ?thesis by (simp add: empty_report_def numeral_3_eq_3)
qed

section \<open>A customer that cannot be repaired\<close>

text \<open>
  C10: A failure costs only its own customer. Where the check or the repair raises - the provider
  is down, the row is locked, the directory fails - what it had written is undone, the customer
  is listed as failed, the job exits with a non-zero code, and the next customer starts from
  an idle session over the rows as they were committed.
\<close>

theorem reconcile_failure_costs_one_customer:
  assumes "reads_only AD" "idle w" "rs_customer_id rem = Some cid" "cid \<noteq> []"
    and "reconcile_one S PV AD dry rem cid (w, rep\<lparr>rr_checked := rr_checked rep + 1\<rparr>) = (Inl e, (w2, rep2))"
  shows "\<exists>w'. reconcile_item S PV B AD dry rem (w, rep) = (Inr (), (w', rep2\<lparr>rr_failed := rr_failed rep2 @ [cid]\<rparr>)) \<and>
    durable w' = durable w \<and> idle w' \<and> cache w' = cache w2 \<and>
    exit_code (rep2\<lparr>rr_failed := rr_failed rep2 @ [cid]\<rparr>) = 1"
proof -
  have "settled (durable w) (now w) w" using assms(2) by (simp add: settled_def idle_def)
  then have "settled (durable w) (now w) w2"
    using keepsD [OF keeps_settled_one [OF assms(1)] _ assms(5)] by simp
  then have w2: "durable w2 = durable w" "now w2 = now w" "db_up w2" "rivals w2 = []"
    by (simp_all add: settled_def)
  have "repair_one S PV B AD dry rem cid (w, rep\<lparr>rr_checked := rr_checked rep + 1\<rparr>) = (Inl e, (w2, rep2))"
    using assms(5) by (simp add: repair_one_def and_then_Inl)
  from item_Inl [OF assms(3,4) this] show ?thesis
    by (intro exI [of _ "w2\<lparr>view := durable w2, marks := []\<rparr>"])
      (use w2 assms(2) in \<open>simp add: idle_def exit_code_def\<close>)
qed

theorem reconcile_failure_costs_one_customer_witness:
  "\<exists>w' rep'. reconcile_item ex_settings ex_outage InMemoryBackend (\<lambda>_. ret (Some [])) False ex_failing
     (ex_world ex_db (Some ex_failing), empty_report) = (Inr (), (w', rep')) \<and>
     durable w' = ex_db \<and> idle w' \<and> rr_failed rep' = [''cus_1''] \<and> exit_code rep' = 1"
proof -
  let ?w = "ex_world ex_db (Some ex_failing)" and ?AD = "\<lambda>_. ret (Some [])"
  let ?run = "reconcile_one ex_settings ex_outage ?AD False ex_failing ''cus_1'' (?w, empty_report\<lparr>rr_checked := 1\<rparr>)"
  obtain e w2 rep2 where run: "?run = (Inl e, (w2, rep2))"
  proof -
    have "case fst ?run of Inl _ \<Rightarrow> True | Inr _ \<Rightarrow> False" by code_simp
    then obtain e where "fst ?run = Inl e" by (auto split: sum.splits)
    then show thesis using that by (metis prod.exhaust_sel)
  qed
  have "rr_failed (snd (snd ?run)) = []" by code_simp
  with run have "rr_failed rep2 = []" by simp
  moreover have "reads_only (?AD :: (ex_state, document memory) accounts)" "idle ?w"
    by (simp_all add: reads_only_def idle_def)
  ultimately show ?thesis
    using reconcile_failure_costs_one_customer [of ?AD ?w ex_failing "''cus_1''" ex_settings ex_outage False empty_report e w2 rep2 InMemoryBackend]
      run by (auto simp: ex_failing_def ex_remote_def empty_report_def)
qed

section \<open>A dry run\<close>

text \<open>\<open>only_remote w0 w\<close>: nothing of \<open>w0\<close> has moved but what reading may move at the provider.\<close>

definition only_remote :: "('r, 'c) world \<Rightarrow> ('r, 'c) world \<Rightarrow> bool" where
  "only_remote w0 w \<longleftrightarrow> w = w0\<lparr>remote := remote w\<rparr>"

lemma only_remote_call: "only_remote w0 w \<Longrightarrow> only_remote w0 (snd (call f w))"
  by (cases w0; cases w) (simp add: only_remote_def call_apply)

lemma only_remote_rollback: "idle w0 \<Longrightarrow> only_remote w0 w \<Longrightarrow> only_remote w0 (snd (rollback w))"
  by (cases w0; cases w) (simp add: only_remote_def idle_def)

lemmas keeps_only_remote =
  keepsI [where P = "only_remote w0", OF only_remote_call]
  keepsI [where P = "only_remote w0", OF only_remote_rollback] for w0

lemma keeps_dry_one:
  "reads_only AD \<Longrightarrow> keeps (\<lambda>s. only_remote w0 (fst s)) (reconcile_one S PV AD True rem cid)"
  unfolding reconcile_one_def record_orphan_def user_id_of_def Let_def
  by (intro keeps_intro keeps_svc keeps_jot keeps_only_remote keeps_account_state
      keeps_frame find_by_customer_frame) simp_all

lemma keeps_dry_item:
  assumes "reads_only AD" "idle w0"
  shows "keeps (\<lambda>s. only_remote w0 (fst s)) (reconcile_item S PV B AD True rem)"
  unfolding reconcile_item_def repair_one_def Let_def
  by (intro keeps_intro keeps_svc keeps_jot keeps_only_remote keeps_dry_one assms) simp_all

lemma keeps_dry_pages:
  assumes "reads_only AD" "idle w0"
  shows "keeps (\<lambda>s. only_remote w0 (fst s)) (reconcile_pages S PV B AD True fuel after)"
proof (induction fuel arbitrary: after)
  case 0
  show ?case by (simp add: keeps_def)
next
  case (Suc n)
  show ?case
    by (subst reconcile_pages.simps)
      (intro keeps_intro keeps_svc keeps_only_remote keeps_dry_item assms Suc.IH)
qed

text \<open>The operations of the provider that write, replaced by others.\<close>

definition other_writes ::
  "(string \<Rightarrow> (string, string) dict \<Rightarrow> ('r, unit) call) \<Rightarrow> (string \<Rightarrow> bool \<Rightarrow> ('r, unit) call) \<Rightarrow>
   'r provider \<Rightarrow> 'r provider" where
  "other_writes f g PV = PV\<lparr>p_set_subscription_metadata := f, p_set_cancel_at_period_end := g\<rparr>"

lemma other_reads [simp]:
  "p_retrieve_customer (other_writes f g PV) = p_retrieve_customer PV"
  "p_list_subscriptions_page (other_writes f g PV) = p_list_subscriptions_page PV"
  by (simp_all add: other_writes_def)

lemma dry_item_writes: "reconcile_item S (other_writes f g PV) B' AD True = reconcile_item S PV B AD True"
proof -
  have "reconcile_one S (other_writes f g PV) AD True rem cid = reconcile_one S PV AD True rem cid"
    for rem cid
    by (simp add: reconcile_one_def record_orphan_def user_id_of_def Let_def cong: if_cong option.case_cong)
  then have "repair_one S (other_writes f g PV) B' AD True = repair_one S PV B AD True"
    by (intro ext) (simp add: repair_one_def)
  then show ?thesis by (intro ext) (simp add: reconcile_item_def)
qed

lemma dry_pages_writes:
  "reconcile_pages S (other_writes f g PV) B' AD True fuel after = reconcile_pages S PV B AD True fuel after"
proof (induction fuel arbitrary: after)
  case 0
  show ?case by simp
next
  case (Suc n)
  then show ?case by (simp add: dry_item_writes [of S f g PV B' AD B] cong: if_cong)
qed

text \<open>
  A dry run of the whole job changes nothing it could report on: database, cache, marks,
  metrics and clock are what they were; and it calls none of the provider's writing
  operations, sends no mail and drops no cached answer - replacing all of these by anything
  else gives the same run.
\<close>

theorem reconcile_dry_run_writes_nothing:
  assumes "reads_only AD" "idle w"
  shows "(\<exists>r rep'. snd (reconcile S PV B AD notifier True fuel (w, rep)) = (w\<lparr>remote := r\<rparr>, rep')) \<and>
    reconcile S (other_writes f g PV) B' AD notifier' True fuel = reconcile S PV B AD notifier True fuel"
proof -
  have "keeps (\<lambda>s. only_remote w (fst s)) (reconcile S PV B AD notifier True fuel)"
    unfolding reconcile_def by (intro keeps_intro keeps_dry_pages assms) simp_all
  moreover have "only_remote w w" by (simp add: only_remote_def)
  ultimately have "only_remote w (fst (snd (reconcile S PV B AD notifier True fuel (w, rep))))"
    by (simp add: keeps_def)
  then have "\<exists>r rep'. snd (reconcile S PV B AD notifier True fuel (w, rep)) = (w\<lparr>remote := r\<rparr>, rep')"
    unfolding only_remote_def by (metis prod.collapse)
  moreover have "reconcile S (other_writes f g PV) B' AD notifier' True fuel = reconcile S PV B AD notifier True fuel"
    by (simp add: reconcile_def dry_pages_writes [of S f g PV B' AD fuel _ B])
  ultimately show ?thesis by blast
qed

theorem reconcile_dry_run_writes_nothing_witness:
  "\<exists>r rep'. snd (reconcile ex_settings ex_two_pages InMemoryBackend (\<lambda>_. ret (Some [''alice''])) None True 5
     (ex_world ex_db None, empty_report)) = ((ex_world ex_db None)\<lparr>remote := r\<rparr>, rep')"
proof -
  have "reads_only ((\<lambda>_. ret (Some [''alice''])) :: (ex_state, document memory) accounts)" "idle (ex_world ex_db None)"
    by (simp_all add: reads_only_def idle_def)
  from reconcile_dry_run_writes_nothing [OF this] show ?thesis by blast
qed

section \<open>Drift\<close>

text \<open>A known customer with an account, an unmarked subscription, and a provider that answers.\<close>

definition checkable ::
  "'r provider \<Rightarrow> ('r, 'c) accounts \<Rightarrow> remote_subscription \<Rightarrow> string \<Rightarrow> subscription \<Rightarrow>
   remote_subscription option \<Rightarrow> 'r \<Rightarrow> ('r, 'c) world \<Rightarrow> bool" where
  "checkable PV AD rem cid sub ans r' w \<longleftrightarrow>
     idle w \<and> ready cid sub w \<and> cid \<noteq> [] \<and> user_id sub \<noteq> [] \<and> rs_customer_id rem = Some cid \<and>
     AD [user_id sub] w = (Inr (Some []), w) \<and> orphan_marks rem = [] \<and>
     p_fetch_current_subscription PV cid (remote w) = (Inr ans, r')"

lemma find_unlocked: "ready cid sub w \<Longrightarrow> find_by_customer cid False w = (Inr (Some sub), w)"
  by (rule find_by_customer_found) (simp_all add: ready_def)

lemma item_drift:
  assumes "checkable PV AD rem cid sub ans r' w" "drifted S sub rem"
    and "unique_rows (synced_db S (now w) None ''reconcile.drift'' sub ans (view w))"
  shows "\<exists>c m. reconcile_item S PV B AD False rem (w, rep) =
    (Inr (), (w\<lparr>remote := r', view := synced_db S (now w) None ''reconcile.drift'' sub ans (view w),
        durable := synced_db S (now w) None ''reconcile.drift'' sub ans (view w), cache := c, metrics := m\<rparr>,
      rep\<lparr>rr_checked := rr_checked rep + 1, rr_mismatched := rr_mismatched rep + 1,
        rr_details := rr_details rep @ [\<lparr>dd_user = user_id sub, dd_customer = cid,
          dd_local = (tier_col sub, status_col sub),
          dd_stripe = (tier_value (ms_tier (project S (Some rem))), rs_provider_status rem)\<rparr>],
        rr_repaired := rr_repaired rep + 1\<rparr>))"
proof -
  let ?db = "synced_db S (now w) None ''reconcile.drift'' sub ans (view w)"
  let ?w' = "sync_world S None ''reconcile.drift'' sub ans (w\<lparr>remote := r'\<rparr>)"
  have a: "idle w" "ready cid sub w" "cid \<noteq> []" "user_id sub \<noteq> []" "rs_customer_id rem = Some cid"
    "AD [user_id sub] w = (Inr (Some []), w)" "orphan_marks rem = []"
    "p_fetch_current_subscription PV cid (remote w) = (Inr ans, r')"
    using assms(1) by (simp_all add: checkable_def)
  have acc: "account_state AD (user_id sub) w = (Inr (Some False), w)"
    by (simp add: account_state_def and_then_def a(6))
  have sync: "sync_subscription_from_stripe S PV cid None ''reconcile.drift'' w = (Inr (Some (mirrored S (now w) ans sub)), ?w')"
    using sync_known_spec [OF a(2,8) assms(3)] by simp
  have "db_up ?w'" "rivals ?w' = []" "view ?w' = ?db"
    using a(1) by (simp_all add: sync_world_def Let_def idle_def)
  with commit_and_invalidate_apply [of ?w' B] assms(3)
  obtain c m where com: "commit_and_invalidate B ?w' = (Inr (), ?w'\<lparr>durable := ?db, marks := [], cache := c, metrics := m\<rparr>)"
    by auto
  have "repair_one S PV B AD False rem cid (w, rep0) =
    (Inr True, (?w'\<lparr>durable := ?db, marks := [], cache := c, metrics := m\<rparr>,
      rep0\<lparr>rr_mismatched := rr_mismatched rep0 + 1, rr_details := rr_details rep0 @ [\<lparr>dd_user = user_id sub, dd_customer = cid,
          dd_local = (tier_col sub, status_col sub),
          dd_stripe = (tier_value (ms_tier (project S (Some rem))), rs_provider_status rem)\<rparr>]\<rparr>))" for rep0
    by (simp add: repair_one_def reconcile_one_def and_then_def find_unlocked [OF a(2)] a(4,7) acc assms(2) sync com)
  from item_Inr [OF a(5,3) this]
  have "reconcile_item S PV B AD False rem (w, rep) = (Inr (), (?w'\<lparr>durable := ?db, marks := [], cache := c, metrics := m\<rparr>,
      rep\<lparr>rr_checked := rr_checked rep + 1, rr_mismatched := rr_mismatched rep + 1,
        rr_details := rr_details rep @ [\<lparr>dd_user = user_id sub, dd_customer = cid,
          dd_local = (tier_col sub, status_col sub),
          dd_stripe = (tier_value (ms_tier (project S (Some rem))), rs_provider_status rem)\<rparr>],
        rr_repaired := rr_repaired rep + 1\<rparr>))"
    by simp
  moreover have "?w'\<lparr>durable := ?db, marks := [], cache := c, metrics := m\<rparr> =
      w\<lparr>remote := r', view := ?db, durable := ?db, cache := c, metrics := m\<rparr>"
    using a(1) by (cases w) (simp add: sync_world_def Let_def idle_def)
  ultimately show ?thesis by metis
qed

text \<open>
  Drift is repaired. A row whose tier or status disagrees with the listed subscription, where
  the provider still answers with that subscription, is mirrored and committed, with an audit
  row naming the reconciliation; the report counts one mismatch and one repair, and looked at
  again, the row no longer disagrees.
\<close>

theorem reconcile_repairs_drift:
  assumes "checkable PV AD rem cid sub (Some rem) r' w" "drifted S sub rem"
    and "unique_rows (synced_db S (now w) None ''reconcile.drift'' sub (Some rem) (view w))"
  shows "\<exists>w' rep'. reconcile_item S PV B AD False rem (w, rep) = (Inr (), (w', rep')) \<and>
    rr_mismatched rep' = rr_mismatched rep + 1 \<and> rr_repaired rep' = rr_repaired rep + 1 \<and>
    durable w' = synced_db S (now w) None ''reconcile.drift'' sub (Some rem) (durable w) \<and> idle w' \<and>
    mirrored S (now w) (Some rem) sub \<in> set (subscriptions (durable w')) \<and>
    \<not> drifted S (mirrored S (now w) (Some rem) sub) rem"
proof -
  have i: "idle w" and sub: "sub \<in> set (subscriptions (view w))"
    using assms(1) by (simp_all add: checkable_def ready_def)
  have fixed: "\<not> drifted S (mirrored S (now w) (Some rem) sub) rem"
    by (simp add: drifted_def mirrored_def)
  show ?thesis
    using item_drift [OF assms, of B rep] synced_row_present [OF sub] i assms(3) fixed
    by (auto simp: idle_def)
qed

definition ex_knows :: "(ex_state, document memory) accounts" where
  "ex_knows = (\<lambda>ids. ret (Some []))"

lemma ex_checkable:
  "rs_customer_id rem = Some ''cus_1'' \<Longrightarrow> orphan_marks rem = [] \<Longrightarrow>
   checkable ex_provider ex_knows rem ''cus_1'' ex_row ans ans (ex_world ex_db ans)"
  by (simp add: checkable_def idle_def ex_knows_def)

theorem reconcile_repairs_drift_witness:
  "\<exists>w' rep'. reconcile_item ex_settings ex_provider InMemoryBackend ex_knows False ex_failing
     (ex_world ex_db (Some ex_failing), empty_report) = (Inr (), (w', rep')) \<and> rr_repaired rep' = 1 \<and>
     map status_col (subscriptions (durable w')) = [''past_due'']"
proof -
  have "rs_customer_id ex_failing = Some ''cus_1''" "orphan_marks ex_failing = []" "drifted ex_settings ex_row ex_failing"
    by (code_simp)+
  moreover have "map status_col (subscriptions (synced_db ex_settings 1000000 None ''reconcile.drift'' ex_row (Some ex_failing) ex_db)) =
      [''past_due'']"
    by code_simp
  ultimately show ?thesis
    using reconcile_repairs_drift [OF ex_checkable [of ex_failing "Some ex_failing"], of ex_settings InMemoryBackend empty_report]
    by (force simp: empty_report_def)
qed

text \<open>
  What the walk compares is each subscription Stripe lists, ended ones included, and not the
  one the row mirrors. A customer who subscribed again after an old subscription ended has a
  row that agrees with the provider and still disagrees with the ended entry: every run counts a
  mismatch, changes no subscription and appends one more \<open>reconcile.drift\<close> audit row, and
  leaves exactly the situation it found, so the next run does it again.
\<close>

theorem reconcile_reports_resubscribed_customer_every_night:
  assumes "checkable PV AD rem cid sub ans r' w" "drifted S sub rem"
    and "mirrored S (now w) ans sub = sub"
  shows "\<exists>w' rep'. reconcile_item S PV B AD False rem (w, rep) = (Inr (), (w', rep')) \<and>
    rr_mismatched rep' = rr_mismatched rep + 1 \<and>
    subscriptions (durable w') = subscriptions (durable w) \<and>
    subscription_audit (durable w') = subscription_audit (durable w) @
      [audit_entry (now w) (user_id sub) (some_pair (snapshot sub)) (some_pair (snapshot sub)) ''reconcile.drift''
        None (Some [(''stripe_subscription_id'', opt_str (stripe_subscription_id sub))])] \<and>
    idle w' \<and> ready cid sub w' \<and> drifted S sub rem"
proof -
  let ?db = "synced_db S (now w) None ''reconcile.drift'' sub ans (view w)"
  have a: "idle w" "ready cid sub w" using assms(1) by (simp_all add: checkable_def)
  have db: "?db = (view w)\<lparr>subscription_audit := subscription_audit (view w) @
      [audit_entry (now w) (user_id sub) (some_pair (snapshot sub)) (some_pair (snapshot sub)) ''reconcile.drift''
        None (Some [(''stripe_subscription_id'', opt_str (stripe_subscription_id sub))])]\<rparr>"
    using a(2) by (simp add: synced_db_def Let_def assms(3) put_self ready_def)
  then have u: "unique_rows ?db" using a by (simp add: idle_def)
  show ?thesis
    using item_drift [OF assms(1,2) u, of B rep] db a u assms(2) by (auto simp: idle_def ready_def)
qed

theorem reconcile_reports_resubscribed_customer_every_night_witness:
  "\<exists>w' rep'. reconcile_item ex_settings ex_provider InMemoryBackend ex_knows False ex_ended
     (ex_world (empty_db\<lparr>subscriptions := [ex_subscribed]\<rparr>) (Some ex_remote), empty_report) = (Inr (), (w', rep')) \<and>
     rr_mismatched rep' = 1 \<and> subscriptions (durable w') = [ex_subscribed] \<and> length (subscription_audit (durable w')) = 1"
proof -
  let ?w = "ex_world (empty_db\<lparr>subscriptions := [ex_subscribed]\<rparr>) (Some ex_remote)"
  have f: "rs_customer_id ex_ended = Some ''cus_1''" "orphan_marks ex_ended = []" "drifted ex_settings ex_subscribed ex_ended"
    "user_id ex_subscribed = ''alice''" "stripe_customer_id ex_subscribed = Some ''cus_1''"
    by (code_simp)+
  have m: "mirrored ex_settings (now ?w) (Some ex_remote) ex_subscribed = ex_subscribed"
    by (simp add: ex_subscribed_def mirrored_def)
  have "checkable ex_provider ex_knows ex_ended ''cus_1'' ex_subscribed (Some ex_remote) (Some ex_remote) ?w"
    by (simp add: checkable_def idle_def ex_knows_def ready_def f unique_one)
  from reconcile_reports_resubscribed_customer_every_night [OF this f(3) m, of InMemoryBackend empty_report]
  show ?thesis by (auto simp: empty_report_def empty_db_def)
qed

section \<open>Orphans\<close>

text \<open>
  Whose subscription it is: the user of the customer's row, whether marked before or not; without a
  row, the user in the subscription's metadata, or else the one on the customer, where the
  subscription is this service's at all. \<open>r\<close> is the account after that question.
\<close>

definition owner_is ::
  "settings \<Rightarrow> 'r provider \<Rightarrow> remote_subscription \<Rightarrow> string \<Rightarrow> ('r, 'c) world \<Rightarrow> string \<Rightarrow> 'r \<Rightarrow> bool" where
  "owner_is S PV rem cid w uid r \<longleftrightarrow>
     (case List.find (\<lambda>row. stripe_customer_id row = Some cid) (subscriptions (durable w)) of
        Some row \<Rightarrow> user_id row = uid \<and> r = remote w
      | None \<Rightarrow> belongs_to_this_service S (Some rem) \<and>
          (if truthy (map_of (rs_metadata rem) ''user_id'') then map_of (rs_metadata rem) ''user_id'' = Some uid \<and> r = remote w
           else (case p_retrieve_customer PV cid (remote w) of
             (Inr c, r') \<Rightarrow> rc_user_id c = Some uid \<and> r = r' | (Inl _, _) \<Rightarrow> False)))"

lemma owner_run:
  assumes "idle w" "owner_is S PV rem cid w uid r"
  obtains found where "find_by_customer cid False w = (Inr found, w)"
    "found = None \<Longrightarrow> belongs_to_this_service S (Some rem)"
    "(case found of Some l \<Rightarrow> ret (Some (user_id l)) | None \<Rightarrow> svc (user_id_of PV rem cid)) (w, rep) = (Inr (Some uid), (w\<lparr>remote := r\<rparr>, rep))"
proof (cases "List.find (\<lambda>row. stripe_customer_id row = Some cid) (subscriptions (durable w))")
  case None
  then have "find_by_customer cid False w = (Inr None, w)"
    using assms(1) by (intro find_by_customer_none) (auto simp: idle_def find_None_iff)
  moreover have "user_id_of PV rem cid w = (Inr (Some uid), w\<lparr>remote := r\<rparr>)"
    using assms(2) None
    by (auto simp: owner_is_def user_id_of_def Let_def and_then_def call_apply split: if_splits prod.splits sum.splits)
  moreover have "belongs_to_this_service S (Some rem)" using assms(2) None by (simp add: owner_is_def)
  ultimately show ?thesis using that [of None] by simp
next
  case (Some row)
  then have row: "row \<in> set (subscriptions (durable w))" "stripe_customer_id row = Some cid" by (auto dest: find_Some_D)
  then have "find_by_customer cid False w = (Inr (Some row), w)"
    using assms(1) by (intro find_by_customer_found) (simp_all add: idle_def)
  then show ?thesis using that [of "Some row"] assms(2) Some by (simp add: owner_is_def)
qed

text \<open>What the report says of an orphan, and what the provider is asked for it.\<close>

definition asked_to_mark ::
  "'r provider \<Rightarrow> bool \<Rightarrow> remote_subscription \<Rightarrow> int \<Rightarrow> 'r \<Rightarrow> (exc + unit) \<times> 'r" where
  "asked_to_mark PV dry rem t r =
     (if rs_ended rem \<or> dry \<or> map_of (orphan_marks rem) ORPHANED_AT \<noteq> None then (Inr (), r)
      else p_set_subscription_metadata PV (rs_id rem) [(ORPHANED_AT, iso_seconds t)] r)"

lemma record_orphan_run:
  assumes "asked_to_mark PV dry rem (now w) (remote w) = (res, r')"
  shows "record_orphan PV dry rem cid uid (w, rep) = (res, (w\<lparr>remote := r'\<rparr>, case res of
    Inl _ \<Rightarrow> rep
  | Inr _ \<Rightarrow> if rs_ended rem then rep\<lparr>rr_orphaned_closed := rr_orphaned_closed rep + 1\<rparr>
      else rep\<lparr>rr_orphaned := rr_orphaned rep @
        [\<lparr>or_user = uid, or_customer = cid, or_subscription = rs_id rem, or_status = rs_provider_status rem,
          or_cancel = rs_cancel_at_period_end rem,
          or_orphaned_at = (case map_of (orphan_marks rem) ORPHANED_AT of
            Some at \<Rightarrow> Some at | None \<Rightarrow> if dry then None else Some (iso_seconds (now w))),
          or_notified_at = map_of (orphan_marks rem) NOTIFIED_AT\<rparr>]\<rparr>))"
  using assms
  by (cases "rs_ended rem"; cases dry; cases "map_of (orphan_marks rem) ORPHANED_AT"; cases res)
    (simp_all add: record_orphan_def asked_to_mark_def and_then_def call_apply Let_def)

text \<open>
  C37: A subscription whose account is gone is reported, never mirrored: on the first night and on
  every later one, with a row of the customer's or without one, in a dry run too. No row of any
  table changes, no cache entry, and the provider is asked for nothing but the owner of a
  subscription without a row and, once, on the first night, to mark it with the time of the run:
  its subscription is not fetched, nothing is synchronised. The report lists it with the mark it
  has and whether it was notified; one that has ended is only counted. A mark the provider
  refuses to record is a failure of this customer, and changes no row either.
\<close>

theorem orphan_is_reported_not_mirrored:
  assumes "idle w" "rs_customer_id rem = Some cid" "cid \<noteq> []" "uid \<noteq> []"
    and "owner_is S PV rem cid w uid r"
    and "AD [uid] (w\<lparr>remote := r\<rparr>) = (Inr (Some gone), w\<lparr>remote := r\<rparr>)" "uid \<in> set gone"
    and "asked_to_mark PV dry rem (now w) r = (res, r')"
  shows "reconcile_item S PV B AD dry rem (w, rep) = (Inr (), (w\<lparr>remote := r'\<rparr>,
    case res of
      Inl _ \<Rightarrow> rep\<lparr>rr_checked := rr_checked rep + 1, rr_failed := rr_failed rep @ [cid]\<rparr>
    | Inr _ \<Rightarrow>
        if rs_ended rem then rep\<lparr>rr_checked := rr_checked rep + 1, rr_orphaned_closed := rr_orphaned_closed rep + 1\<rparr>
        else rep\<lparr>rr_checked := rr_checked rep + 1, rr_orphaned := rr_orphaned rep @
          [\<lparr>or_user = uid, or_customer = cid, or_subscription = rs_id rem, or_status = rs_provider_status rem,
            or_cancel = rs_cancel_at_period_end rem,
            or_orphaned_at = (case map_of (orphan_marks rem) ORPHANED_AT of
              Some at \<Rightarrow> Some at | None \<Rightarrow> if dry then None else Some (iso_seconds (now w))),
            or_notified_at = map_of (orphan_marks rem) NOTIFIED_AT\<rparr>]\<rparr>))"
proof -
  let ?w = "w\<lparr>remote := r\<rparr>" and ?w' = "w\<lparr>remote := r'\<rparr>" and ?rep = "rep\<lparr>rr_checked := rr_checked rep + 1\<rparr>"
  have i: "db_up w" "rivals w = []" "marks w = []" "view w = durable w" "unique_rows (durable w)"
    using assms(1) by (simp_all add: idle_def)
  have ends: "commit_and_invalidate B ?w' = (Inr (), ?w')" "rollback ?w' = (Inr (), ?w')"
    using i by (cases w, simp add: commit_and_invalidate_def and_then_def)+
  have same: "now ?w = now w" "?w\<lparr>remote := r'\<rparr> = ?w'" by simp_all
  have asked: "asked_to_mark PV dry rem (now ?w) (remote ?w) = (res, r')" using assms(8) by simp
  note marked = record_orphan_run [OF asked, of cid uid ?rep, unfolded same]
  have acc: "account_state AD uid ?w = (Inr (Some True), ?w)"
    by (simp add: account_state_def and_then_def assms(6,7))
  obtain found where f: "find_by_customer cid False w = (Inr found, w)" "found = None \<Longrightarrow> belongs_to_this_service S (Some rem)"
    "(case found of Some l \<Rightarrow> ret (Some (user_id l)) | None \<Rightarrow> svc (user_id_of PV rem cid)) (w, ?rep) = (Inr (Some uid), (?w, ?rep))"
    using owner_run [OF assms(1,5), of ?rep] by blast
  have one: "reconcile_one S PV AD dry rem cid (w, ?rep) =
      and_then (record_orphan PV dry rem cid uid) (\<lambda>_. ret False) (?w, ?rep)"
    using f assms(4) by (auto simp: reconcile_one_def and_then_Inr acc)
  show ?thesis
  proof (cases res)
    case (Inl e)
    then have "repair_one S PV B AD dry rem cid (w, ?rep) = (Inl e, (?w', ?rep))"
      using one marked by (simp add: repair_one_def and_then_def)
    from item_Inl [OF assms(2,3) this] show ?thesis using i Inl by (cases w) simp
  next
    case (Inr u)
    then have "\<exists>rep'. record_orphan PV dry rem cid uid (?w, ?rep) = (Inr (), (?w', rep'))"
      using marked by simp
    then obtain rep' where rec: "record_orphan PV dry rem cid uid (?w, ?rep) = (Inr (), (?w', rep'))" by blast
    then have "repair_one S PV B AD dry rem cid (w, ?rep) = (Inr False, (?w', rep'))"
      using one ends by (cases dry) (simp_all add: repair_one_def and_then_def)
    from item_Inr [OF assms(2,3) this] show ?thesis
      using rec marked Inr by (cases "rs_ended rem") simp_all
  qed
qed

text \<open>
  No row, and a mark of an earlier night: the owner is asked for, and nothing is written at the
  provider or here.
\<close>

definition ex_marked :: remote_subscription where
  "ex_marked = ex_remote\<lparr>rs_metadata := [(ORPHANED_AT, ''2026-01-01T00:00:00+00:00'')]\<rparr>"

theorem orphan_is_reported_not_mirrored_witness:
  "(let w = ex_world ex_db (Some ex_remote); w0 = ex_world empty_db (Some ex_marked) in
     (\<exists>rep'. reconcile_item ex_settings ex_provider InMemoryBackend (\<lambda>ids. ret (Some ids)) False ex_remote (w, empty_report) =
       (Inr (), (w\<lparr>remote := Some (ex_remote\<lparr>rs_metadata := [(ORPHANED_AT, ''1970-01-01T00:00:01+00:00'')]\<rparr>)\<rparr>, rep')) \<and>
       map or_orphaned_at (rr_orphaned rep') = [Some ''1970-01-01T00:00:01+00:00'']) \<and>
     (\<exists>rep'. reconcile_item ex_settings ex_provider InMemoryBackend (\<lambda>ids. ret (Some ids)) False ex_marked (w0, empty_report) =
       (Inr (), (w0, rep')) \<and> map or_orphaned_at (rr_orphaned rep') = [Some ''2026-01-01T00:00:00+00:00'']))"
proof -
  let ?w = "ex_world ex_db (Some ex_remote)" and ?v = "ex_world empty_db (Some ex_marked)"
  let ?r' = "Some (ex_remote\<lparr>rs_metadata := [(ORPHANED_AT, ''1970-01-01T00:00:01+00:00'')]\<rparr>)"
  have f: "idle ?w" "idle ?v" "rs_customer_id ex_remote = Some ''cus_1''" "rs_customer_id ex_marked = Some ''cus_1''"
    "\<not> rs_ended ex_remote" "\<not> rs_ended ex_marked" "orphan_marks ex_remote = []"
    "orphan_marks ex_marked = [(ORPHANED_AT, ''2026-01-01T00:00:00+00:00'')]"
    "iso_seconds 1000000 = ''1970-01-01T00:00:01+00:00''" "belongs_to_this_service ex_settings (Some ex_marked)"
    "map_of (rs_metadata ex_marked) ''user_id'' = None"
    by (simp add: idle_def, simp add: idle_def, code_simp+)
  have known: "owner_is ex_settings ex_provider ex_remote ''cus_1'' ?w ''alice'' (Some ex_remote)"
    by (simp add: owner_is_def)
  have unknown: "owner_is ex_settings ex_provider ex_marked ''cus_1'' ?v ''alice'' (Some ex_marked)"
    by (simp add: owner_is_def f)
  have mark: "asked_to_mark ex_provider False ex_remote (now ?w) (Some ex_remote) = (Inr (), ?r')"
    by (simp add: asked_to_mark_def f ex_provider_def)
  have unmarked: "asked_to_mark ex_provider False ex_marked (now ?v) (Some ex_marked) = (Inr (), Some ex_marked)"
    by (simp add: asked_to_mark_def f)
  have same: "?v\<lparr>remote := Some ex_marked\<rparr> = ?v" by (simp add: ex_world_def)
  show ?thesis
    using orphan_is_reported_not_mirrored [OF f(1,3) _ _ known _ _ mark, of "\<lambda>ids. ret (Some ids)" "[''alice'']" InMemoryBackend empty_report]
      orphan_is_reported_not_mirrored [OF f(2,4) _ _ unknown _ _ unmarked, of "\<lambda>ids. ret (Some ids)" "[''alice'']" InMemoryBackend empty_report]
    by (auto simp: f empty_report_def Let_def same ORPHANED_AT_def)
qed

section \<open>Who is told\<close>

definition mail_sent ::
  "settings \<Rightarrow> ('r, 'c) notifier option \<Rightarrow> ('r, 'c) world \<Rightarrow> orphan list \<Rightarrow> bool \<times> ('r, 'c) world" where
  "mail_sent S notifier w todo = (case notifier of
     None \<Rightarrow> (False, w)
   | Some send \<Rightarrow> (case send (fst (orphan_email S todo)) (snd (orphan_email S todo)) w of
       (Inl _, w') \<Rightarrow> (False, w') | (Inr _, w') \<Rightarrow> (True, w')))"

lemma marks_return:
  "\<exists>w'. for_each (\<lambda>sid. svc (mark_notified PV at sid)) ids (w, rep) = (Inr (), (w', rep))"
proof (induction ids arbitrary: w)
  case Nil
  show ?case by simp
next
  case (Cons i ids)
  have "\<exists>w'. svc (mark_notified PV at i) (w, rep) = (Inr (), (w', rep))"
    by (cases "p_set_subscription_metadata PV i [(NOTIFIED_AT, at)] (remote w)")
      (auto simp: mark_notified_def try_except_def call_apply split: sum.splits)
  then obtain w1 where "svc (mark_notified PV at i) (w, rep) = (Inr (), (w1, rep))" by blast
  with Cons.IH [of w1] show ?case by (auto simp: and_then_def)
qed

text \<open>
  Nobody is marked as told who was not. Where nobody can be told, or the mail fails, every
  pending orphan is left as unnotified, no mark is written at the provider, the list of orphans
  stays as it is and the job exits with a non-zero code, so a person looks and the next run
  tries again. Where the mail is sent, each pending orphan is listed as notified and none is
  pending any more, even where the provider refuses a mark.
\<close>

theorem only_the_told_are_marked:
  assumes "filter pending (rr_orphaned rep) = todo" "todo \<noteq> []" "mail_sent S notifier w todo = (sent, w1)"
  shows "\<exists>w' rep'. notify S PV notifier (w, rep) = (Inr (), (w', rep')) \<and>
    (\<not> sent \<longrightarrow> w' = w1 \<and> rep' = rep\<lparr>rr_unnotified := map or_subscription todo\<rparr> \<and> exit_code rep' = 1) \<and>
    (sent \<longrightarrow> rr_notified rep' = rr_notified rep @ map or_subscription todo \<and> filter pending (rr_orphaned rep') = [] \<and>
       rr_unnotified rep' = rr_unnotified rep \<and> rr_failed rep' = rr_failed rep)"
proof (cases sent)
  case True
  with assms(3) obtain send where n1: "notifier = Some send"
    by (cases notifier) (simp_all add: mail_sent_def)
  have n2: "send (fst (orphan_email S todo)) (snd (orphan_email S todo)) w = (Inr (), w1)"
    using assms(3) True
    by (cases "send (fst (orphan_email S todo)) (snd (orphan_email S todo)) w")
      (simp add: mail_sent_def n1 split: sum.splits)
  note n = n1 n2
  let ?at = "iso_seconds (now w1)"
  obtain w2 where m: "for_each (\<lambda>sid. svc (mark_notified PV ?at sid)) (map or_subscription todo) (w1, rep) = (Inr (), (w2, rep))"
    using marks_return by blast
  have at: "?at \<noteq> []" by (simp add: iso_seconds_def Let_def)
  let ?rep' = "rep\<lparr>rr_orphaned := map (\<lambda>o'. if pending o' then o'\<lparr>or_notified_at := Some ?at\<rparr> else o') (rr_orphaned rep),
      rr_notified := rr_notified rep @ map or_subscription todo\<rparr>"
  have none: "filter pending (rr_orphaned ?rep') = []"
    using at by (auto simp: filter_empty_conv pending_def)
  obtain subj body where e: "orphan_email S todo = (subj, body)" by fastforce
  have "notify S PV notifier (w, rep) = (Inr (), (w2, ?rep'))"
    using n(2) by (simp add: notify_def and_then_def try_except_def Let_def assms(1,2) n(1) e m)
  then show ?thesis using True none by (intro exI [of _ w2] exI [of _ ?rep']) simp
next
  case False
  then show ?thesis
    using assms
    by (auto simp: notify_def and_then_def try_except_def Let_def mail_sent_def exit_code_def
        split: option.splits prod.splits sum.splits)
qed

definition ex_orphan :: orphan where
  "ex_orphan = \<lparr>or_user = ''alice'', or_customer = ''cus_1'', or_subscription = ''sub_1'', or_status = ''active'',
     or_cancel = False, or_orphaned_at = Some ''2026-01-01'', or_notified_at = None\<rparr>"

theorem only_the_told_are_marked_witness:
  "\<exists>w' rep'. notify ex_settings ex_provider None (ex_world ex_db (Some ex_remote), empty_report\<lparr>rr_orphaned := [ex_orphan]\<rparr>) =
     (Inr (), (w', rep')) \<and> rr_unnotified rep' = [''sub_1''] \<and> exit_code rep' = 1"
proof -
  let ?rep = "empty_report\<lparr>rr_orphaned := [ex_orphan]\<rparr>" and ?w = "ex_world ex_db (Some ex_remote)"
  have f: "filter pending (rr_orphaned ?rep) = [ex_orphan]"
    by (simp add: pending_def ex_orphan_def)
  have "mail_sent ex_settings (None :: (ex_state, document memory) notifier option) ?w [ex_orphan] = (False, ?w)"
    by (simp add: mail_sent_def)
  from only_the_told_are_marked [OF f _ this, of ex_provider] show ?thesis
    by (auto simp: ex_orphan_def)
qed

end
