(* ===== verification/Auth.thy ===== *)
theory Auth
  imports Session Json
begin

text \<open>
  \<open>app/auth.py\<close>: who is calling, from a Supabase access token, and the gate in front of the
  support endpoints. The JWT library is a parameter: a function that finds the signing key of a
  token at a JWKS address, and one that checks and decodes a token. Both fail with one of the
  library's exceptions, of which the code tells an expired signature from all others.
\<close>

section \<open>The library\<close>

datatype jwt_error = ExpiredSignatureError | OtherJWTError

record 'k jwt_library =
  signing_key :: "string \<Rightarrow> string \<Rightarrow> jwt_error + 'k"
  jwt_decode :: "string \<Rightarrow> 'k \<Rightarrow> string list \<Rightarrow> string \<Rightarrow> string \<Rightarrow> string list \<Rightarrow> jwt_error + json"

definition ALLOWED_ALGORITHMS :: "string list" where
  "ALLOWED_ALGORITHMS = [''RS256'', ''ES256'']"

definition DEFAULT_ADMIN_KEY :: string where
  "DEFAULT_ADMIN_KEY = ''change-me-in-prod''"

record current_user =
  cu_id :: string
  cu_email :: "string option"

section \<open>Tokens\<close>

text \<open>\<open>s.partition(" ")\<close>, without the separator; \<open>url.rstrip("/")\<close>.\<close>

definition partition_space :: "string \<Rightarrow> string \<times> string" where
  "partition_space s = (takeWhile (\<lambda>c. c \<noteq> CHR '' '') s, drop 1 (dropWhile (\<lambda>c. c \<noteq> CHR '' '') s))"

definition rstrip_slash :: "string \<Rightarrow> string" where
  "rstrip_slash s = rev (dropWhile (\<lambda>c. c = CHR ''/'') (rev s))"

definition bearer_token :: "string option \<Rightarrow> exc + string" where
  "bearer_token authorization =
     (if \<not> truthy authorization then Inl (HTTPException 401 ''missing bearer token'') else
      let (scheme, token) = partition_space (the authorization) in
      if py_lower scheme \<noteq> ''bearer'' \<or> token = []
      then Inl (HTTPException 401 (''authorization header must be '' @ [CHR 0x27] @ ''Bearer <token>'' @ [CHR 0x27]))
      else Inr token)"

definition jwks_url :: "settings \<Rightarrow> exc + string" where
  "jwks_url S = (if supabase_url S = [] then Inl (HTTPException 500 ''SUPABASE_URL is not configured'')
     else Inr (rstrip_slash (supabase_url S) @ ''/auth/v1/.well-known/jwks.json''))"

definition jwt_failure :: "jwt_error \<Rightarrow> exc" where
  "jwt_failure e = (case e of
     ExpiredSignatureError \<Rightarrow> HTTPException 401 ''session expired''
   | OtherJWTError \<Rightarrow> HTTPException 401 ''invalid session'')"

definition verify_token :: "settings \<Rightarrow> 'k jwt_library \<Rightarrow> string \<Rightarrow> exc + json" where
  "verify_token S J token =
     bind_result (jwks_url S) (\<lambda>url.
     map_sum jwt_failure id
       (bind_result (signing_key J url token) (\<lambda>key.
        jwt_decode J token key ALLOWED_ALGORITHMS (supabase_jwt_audience S)
          (rstrip_slash (supabase_url S) @ ''/auth/v1'') [''exp'', ''sub'', ''aud'', ''iss''])))"

definition user_of_claims :: "json \<Rightarrow> exc + current_user" where
  "user_of_claims claims =
     bind_result (bind_result (jitem ''sub'' claims) as_string) (\<lambda>sub.
     bind_result (bind_result (jget ''email'' claims) as_opt_string) (\<lambda>email.
     Inr \<lparr>cu_id = sub, cu_email = email\<rparr>))"

definition get_current_user :: "settings \<Rightarrow> 'k jwt_library \<Rightarrow> string option \<Rightarrow> exc + current_user" where
  "get_current_user S J authorization =
     bind_result (bearer_token authorization) (\<lambda>token.
     bind_result (verify_token S J token) user_of_claims)"

definition get_current_user_optional ::
  "settings \<Rightarrow> 'k jwt_library \<Rightarrow> string option \<Rightarrow> current_user option" where
  "get_current_user_optional S J authorization =
     (if \<not> truthy authorization then None
      else case get_current_user S J authorization of Inr u \<Rightarrow> Some u | Inl _ \<Rightarrow> None)"

section \<open>The admin key\<close>

definition require_admin :: "settings \<Rightarrow> string option \<Rightarrow> exc + unit" where
  "require_admin S x_admin_key =
     (let expected = admin_api_key S in
      if expected = [] \<or> (is_production S \<and> expected = DEFAULT_ADMIN_KEY)
      then Inl (HTTPException 500 ''ADMIN_API_KEY is unset or still the default'')
      else if \<not> truthy x_admin_key \<or> the x_admin_key \<noteq> expected
      then Inl (HTTPException 403 ''admin key required'')
      else Inr ())"

text \<open>An endpoint behind a dependency: the endpoint runs only where the dependency returned.\<close>

definition admin :: "settings \<Rightarrow> string option \<Rightarrow> ('r, 'c, 'a) service \<Rightarrow> ('r, 'c, 'a) service" where
  "admin S key m = and_then (lift_result (require_admin S key)) (\<lambda>_. m)"

definition as_user ::
  "settings \<Rightarrow> 'k jwt_library \<Rightarrow> string option \<Rightarrow> (current_user \<Rightarrow> ('r, 'c, 'a) service) \<Rightarrow> ('r, 'c, 'a) service" where
  "as_user S J authorization m = and_then (lift_result (get_current_user S J authorization)) m"

section \<open>What passes\<close>

lemma require_admin_iff:
  "require_admin S key = Inr () \<longleftrightarrow>
     key = Some (admin_api_key S) \<and> admin_api_key S \<noteq> [] \<and>
     \<not> (is_production S \<and> admin_api_key S = DEFAULT_ADMIN_KEY)"
  by (cases key) (auto simp: require_admin_def Let_def)

lemma bearer_token_Inr:
  "bearer_token authorization = Inr token \<longleftrightarrow>
     token \<noteq> [] \<and> (\<exists>scheme. authorization = Some (scheme @ '' '' @ token) \<and> py_lower scheme = ''bearer'')"
proof
  assume "bearer_token authorization = Inr token"
  then obtain s where s: "authorization = Some s" "py_lower (fst (partition_space s)) = ''bearer''"
    "snd (partition_space s) = token" "token \<noteq> []"
    by (cases authorization) (auto simp: bearer_token_def Let_def split: if_splits prod.splits)
  then have "dropWhile (\<lambda>c. c \<noteq> CHR '' '') s \<noteq> []"
    by (metis drop_Nil partition_space_def snd_conv)
  then have "dropWhile (\<lambda>c. c \<noteq> CHR '' '') s = '' '' @ token"
    using s(3) hd_dropWhile [of "\<lambda>c. c \<noteq> CHR '' ''" s]
    by (cases "dropWhile (\<lambda>c. c \<noteq> CHR '' '') s") (auto simp: partition_space_def)
  then have "s = fst (partition_space s) @ '' '' @ token"
    using takeWhile_dropWhile_id [of "\<lambda>c. c \<noteq> CHR '' ''" s] by (simp add: partition_space_def)
  with s show "token \<noteq> [] \<and> (\<exists>scheme. authorization = Some (scheme @ '' '' @ token) \<and> py_lower scheme = ''bearer'')"
    by metis
next
  assume "token \<noteq> [] \<and> (\<exists>scheme. authorization = Some (scheme @ '' '' @ token) \<and> py_lower scheme = ''bearer'')"
  then obtain scheme where s: "token \<noteq> []" "authorization = Some (scheme @ '' '' @ token)" "py_lower scheme = ''bearer''"
    by blast
  have "CHR '' '' \<notin> set scheme"
  proof
    assume "CHR '' '' \<in> set scheme"
    then have "lower_char CHR '' '' \<in> set (py_lower scheme)" by (simp add: py_lower_def)
    moreover have "lower_char CHR '' '' = CHR '' ''" by (simp add: lower_char_def)
    ultimately show False using s(3) by simp
  qed
  then have "partition_space (scheme @ '' '' @ token) = (scheme, token)"
    by (auto simp: partition_space_def takeWhile_append dropWhile_append)
  with s show "bearer_token authorization = Inr token" by (simp add: bearer_token_def)
qed

end
