(* ===== verification/Admin.thy ===== *)
theory Admin
  imports Auth View Sync_Facts
begin

text \<open>
  \<open>app/routers/admin.py\<close>: the support endpoints, behind the admin key. Each is one request: the
  key is checked first, and what raises is rolled back. The text of a datetime in an audit
  detail is kept as the datetime.
\<close>

section \<open>Looking\<close>

definition require_subscription :: "string \<Rightarrow> ('r, 'c, subscription) service" where
  "require_subscription uid =
     and_then (get_subscription uid) (\<lambda>found. case found of
       None \<Rightarrow> raise (HTTPException 404 (''no subscription row for '' @ uid))
     | Some sub \<Rightarrow> ret sub)"

fun opt_stamp :: "stamp option \<Rightarrow> pyval" where
  "opt_stamp None = PNone"
| "opt_stamp (Some s) = PStamp s"

record audit_view =
  av_created_at :: stamp
  av_reason :: string
  av_from_tier :: "string option"
  av_to_tier :: "string option"
  av_from_status :: "string option"
  av_to_status :: "string option"
  av_event :: "string option"

record user_view =
  uv_entitlements :: entitlement_response
  uv_subscription :: payload
  uv_grants :: "payload list"
  uv_audit :: "audit_view list"

definition subscription_fields :: "subscription \<Rightarrow> payload" where
  "subscription_fields sub =
     [(''tier'', PStr (tier_col sub)),
      (''status'', PStr (status_col sub)),
      (''stripe_customer_id'', opt_str (stripe_customer_id sub)),
      (''stripe_subscription_id'', opt_str (stripe_subscription_id sub)),
      (''stripe_price_id'', opt_str (stripe_price_id sub)),
      (''current_period_end'', opt_stamp (current_period_end sub)),
      (''cancel_at_period_end'', PBool (cancel_at_period_end sub)),
      (''past_due_since'', opt_stamp (past_due_since sub)),
      (''disputed_at'', opt_stamp (disputed_at sub))]"

definition grant_fields :: "entitlement_grant \<Rightarrow> payload" where
  "grant_fields g =
     [(''id'', PStr (grant_id g)),
      (''tier'', PStr (grant_tier g)),
      (''reason'', PStr (grant_reason g)),
      (''expires_at'', opt_stamp (expires_at g)),
      (''revoked_at'', opt_stamp (revoked_at g)),
      (''created_by'', PStr (created_by g)),
      (''created_at'', PStamp (grant_created_at g))]"

definition audit_fields :: "audit_row \<Rightarrow> audit_view" where
  "audit_fields a =
     \<lparr>av_created_at = audit_created_at a, av_reason = audit_reason a, av_from_tier = from_tier a,
      av_to_tier = to_tier a, av_from_status = from_status a, av_to_status = to_status a,
      av_event = audit_event a\<rparr>"

definition newest_first :: "('a \<Rightarrow> stamp) \<Rightarrow> 'a list \<Rightarrow> 'a list" where
  "newest_first f xs = sort_key (\<lambda>x. - ticks (f x)) xs"

definition inspect_user ::
  "settings \<Rightarrow> ('c, document) cache_backend \<Rightarrow> string option \<Rightarrow> string \<Rightarrow> ('r, 'c, user_view) service" where
  "inspect_user S B key uid = admin S key (request
     (and_then (require_subscription uid) (\<lambda>sub.
      and_then (entitlement_view S B uid) (\<lambda>ev.
      and_then (query (\<lambda>db. take 50 (newest_first audit_created_at
        (filter (\<lambda>a. audit_user a = uid) (subscription_audit db))))) (\<lambda>audit_rows.
      and_then (query (\<lambda>db. newest_first grant_created_at
        (filter (\<lambda>g. grant_user g = uid) (entitlement_grants db)))) (\<lambda>grant_rows.
      ret \<lparr>uv_entitlements = ev, uv_subscription = subscription_fields sub,
           uv_grants = map grant_fields grant_rows, uv_audit = map audit_fields audit_rows\<rparr>))))))"

section \<open>Repairing\<close>

text \<open>
  \<open>sub\<close> is the session's object of the row, so what the synchronisation wrote to that row shows
  in it.
\<close>

definition resync ::
  "settings \<Rightarrow> 'r provider \<Rightarrow> ('c, document) cache_backend \<Rightarrow> string option \<Rightarrow> string \<Rightarrow>
   ('r, 'c, string \<times> string) service" where
  "resync S PV B key uid = admin S key (request
     (and_then (require_subscription uid) (\<lambda>sub.
      if \<not> truthy (stripe_customer_id sub) then raise (HTTPException 400 ''user has no Stripe customer'') else
      and_then (sync_subscription_from_stripe S PV (the (stripe_customer_id sub)) None ''admin.resync'') (\<lambda>synced.
      and_then (commit_and_invalidate B) (\<lambda>_.
      let sub = (case synced of Some s \<Rightarrow> if user_id s = user_id sub then s else sub | None \<Rightarrow> sub) in
      ret (tier_col sub, status_col sub))))))"

definition extended :: "int \<Rightarrow> subscription \<Rightarrow> subscription" where
  "extended days sub = sub\<lparr>past_due_since := map_option (\<lambda>s. add_delta s (days * day_us)) (past_due_since sub)\<rparr>"

definition extend_grace ::
  "settings \<Rightarrow> ('c, document) cache_backend \<Rightarrow> string option \<Rightarrow> string \<Rightarrow> int \<Rightarrow>
   ('r, 'c, stamp option) service" where
  "extend_grace S B key uid days = admin S key (request
     (and_then (require_subscription uid) (\<lambda>sub.
      if past_due_since sub = None then raise (HTTPException 400 ''user is not past_due'') else
      let before = snapshot sub; sub' = extended days sub in
      and_then (save sub') (\<lambda>_.
      and_then (record_audit uid (some_pair before) (some_pair (snapshot sub')) ''admin.extend_grace'' None
        (Some [(''days'', PInt days)])) (\<lambda>_.
      and_then (mark_entitlements_stale uid) (\<lambda>_.
      and_then (commit_and_invalidate B) (\<lambda>_.
      ret (past_due_since sub'))))))))"

section \<open>Grants\<close>

record grant_request =
  gr_user_id :: string
  gr_tier :: tier
  gr_reason :: string
  gr_expires_at :: "stamp option"

record grant_response =
  gs_id :: string
  gs_user_id :: string
  gs_tier :: tier
  gs_reason :: string
  gs_expires_at :: "stamp option"
  gs_created_by :: string
  gs_created_at :: stamp

definition grant_shown :: "tier \<Rightarrow> entitlement_grant \<Rightarrow> grant_response" where
  "grant_shown t g =
     \<lparr>gs_id = grant_id g, gs_user_id = grant_user g, gs_tier = t, gs_reason = grant_reason g,
      gs_expires_at = expires_at g, gs_created_by = created_by g, gs_created_at = grant_created_at g\<rparr>"

lemma grant_shown_tier [simp]: "gs_tier (grant_shown t g) = t"
  by (simp add: grant_shown_def)

definition grant_response_of :: "entitlement_grant \<Rightarrow> exc + grant_response" where
  "grant_response_of g = map_sum id (\<lambda>t. grant_shown t g) (Tier_of (grant_tier g))"

definition new_grant :: "string \<Rightarrow> int \<Rightarrow> string \<Rightarrow> grant_request \<Rightarrow> entitlement_grant" where
  "new_grant i t actor body =
     \<lparr>grant_id = i, grant_user = gr_user_id body, grant_tier = tier_value (gr_tier body),
      expires_at = gr_expires_at body, grant_reason = gr_reason body, created_by = actor,
      grant_created_at = Aware t, revoked_at = None\<rparr>"

definition create_grant ::
  "settings \<Rightarrow> ('c, document) cache_backend \<Rightarrow> string option \<Rightarrow> string option \<Rightarrow> grant_request \<Rightarrow>
   ('r, 'c, grant_response) service" where
  "create_grant S B key actor body = admin S key (request
     (if gr_tier body = FREE then raise (HTTPException 400 ''granting free is a no-op'') else
      and_then fresh_id (\<lambda>i.
      and_then clock (\<lambda>t.
      let grant = new_grant i t (case actor of Some a \<Rightarrow> a | None \<Rightarrow> ''unknown'') body in
      and_then (update_view (\<lambda>db. db\<lparr>entitlement_grants := entitlement_grants db @ [grant]\<rparr>)) (\<lambda>_.
      and_then flush (\<lambda>_.
      and_then (record_audit (gr_user_id body) (None, None) (Some (tier_value (gr_tier body)), None)
        ''admin.grant_created'' None
        (Some [(''grant_id'', PStr (grant_id grant)),
               (''expires_at'', case gr_expires_at body of None \<Rightarrow> PStr ''None'' | Some s \<Rightarrow> PStamp s)])) (\<lambda>_.
      and_then (mark_entitlements_stale (gr_user_id body)) (\<lambda>_.
      and_then (commit_and_invalidate B) (\<lambda>_.
      lift_result (grant_response_of grant))))))))))"

definition find_grant :: "string \<Rightarrow> database \<Rightarrow> entitlement_grant option" where
  "find_grant i db = List.find (\<lambda>g. grant_id g = i) (entitlement_grants db)"

definition change_grant :: "string \<Rightarrow> (entitlement_grant \<Rightarrow> entitlement_grant) \<Rightarrow> database \<Rightarrow> database" where
  "change_grant i f db = db\<lparr>entitlement_grants :=
     map (\<lambda>g. if grant_id g = i then f g else g) (entitlement_grants db)\<rparr>"

definition revoke_grant ::
  "settings \<Rightarrow> ('c, document) cache_backend \<Rightarrow> string option \<Rightarrow> string \<Rightarrow> ('r, 'c, unit) service" where
  "revoke_grant S B key i = admin S key (request
     (and_then (query (find_grant i)) (\<lambda>found. case found of
        None \<Rightarrow> raise (HTTPException 404 ''grant not found'')
      | Some grant \<Rightarrow>
          if revoked_at grant \<noteq> None then ret () else
          and_then clock (\<lambda>t.
          and_then (update_view (change_grant i (\<lambda>g. g\<lparr>revoked_at := Some (Aware t)\<rparr>))) (\<lambda>_.
          and_then (record_audit (grant_user grant) (Some (grant_tier grant), None) (None, None)
            ''admin.grant_revoked'' None (Some [(''grant_id'', PStr (grant_id grant))])) (\<lambda>_.
          and_then (mark_entitlements_stale (grant_user grant)) (\<lambda>_.
          commit_and_invalidate B)))))))"

section \<open>The lead queue\<close>

text \<open>\<open>SalesInquirySummary\<close> has the columns of the row.\<close>

type_synonym inquiry_summary = sales_inquiry

definition sales_inquiries_list ::
  "settings \<Rightarrow> string option \<Rightarrow> bool option \<Rightarrow> nat \<Rightarrow> ('r, 'c, inquiry_summary list) service" where
  "sales_inquiries_list S key handled limit = admin S key (request
     (if limit < 1 \<or> 500 < limit then raise (HTTPException 422 ''limit'') else
      query (\<lambda>db. take limit (newest_first inquiry_created_at
        (filter (\<lambda>q. case handled of None \<Rightarrow> True | Some h \<Rightarrow> (handled_at q \<noteq> None) = h) (sales_inquiries db))))))"

definition find_inquiry :: "string \<Rightarrow> database \<Rightarrow> sales_inquiry option" where
  "find_inquiry i db = List.find (\<lambda>q. inquiry_id q = i) (sales_inquiries db)"

definition mark_inquiry_handled ::
  "settings \<Rightarrow> string option \<Rightarrow> string \<Rightarrow> ('r, 'c, inquiry_summary) service" where
  "mark_inquiry_handled S key i = admin S key (request
     (and_then (query (find_inquiry i)) (\<lambda>found. case found of
        None \<Rightarrow> raise (HTTPException 404 ''no such inquiry'')
      | Some inquiry \<Rightarrow>
          if handled_at inquiry \<noteq> None then ret inquiry else
          and_then clock (\<lambda>t.
          let inquiry' = inquiry\<lparr>handled_at := Some (Aware t)\<rparr> in
          and_then (update_view (\<lambda>db. db\<lparr>sales_inquiries :=
            map (\<lambda>q. if inquiry_id q = i then inquiry' else q) (sales_inquiries db)\<rparr>)) (\<lambda>_.
          and_then commit (\<lambda>_. ret inquiry'))))))"

end
