(* ===== verification/Accounts.thy ===== *)
theory Accounts
  imports Reconcile
begin

text \<open>
  \<open>app/accounts.py\<close>: which Supabase accounts no longer exist. \<open>uuid.UUID(s)\<close> is modelled on
  ASCII text, as Python reads it: the prefixes and the dashes are dropped, the braces stripped,
  and what is left has to be 32 characters that \<open>int(..., 16)\<close> accepts. A UUID is its number.
  \<open>missing_accounts\<close> is the database function of migration 0006 over the ids of \<open>auth.users\<close>,
  a table of Supabase: \<open>None\<close> where there is none.
\<close>

section \<open>Reading a UUID\<close>

definition hex_value :: "char \<Rightarrow> nat option" where
  "hex_value c = (let n = of_char c :: nat in
     if 48 \<le> n \<and> n \<le> 57 then Some (n - 48)
     else if 97 \<le> n \<and> n \<le> 102 then Some (n - 87)
     else if 65 \<le> n \<and> n \<le> 70 then Some (n - 55)
     else None)"

text \<open>Digits with single underscores between them.\<close>

fun hex_digits :: "nat \<Rightarrow> string \<Rightarrow> nat option" where
  "hex_digits acc [] = Some acc"
| "hex_digits acc (c # cs) =
     (if c = CHR ''_'' then (case cs of
        [] \<Rightarrow> None
      | d # ds \<Rightarrow> (case hex_value d of None \<Rightarrow> None | Some v \<Rightarrow> hex_digits (16 * acc + v) ds))
      else (case hex_value c of None \<Rightarrow> None | Some v \<Rightarrow> hex_digits (16 * acc + v) cs))"

definition hex_number :: "string \<Rightarrow> nat option" where
  "hex_number s = (case s of
     [] \<Rightarrow> None
   | c # cs \<Rightarrow> (case hex_value c of None \<Rightarrow> None | Some v \<Rightarrow> hex_digits v cs))"

definition is_blank :: "char \<Rightarrow> bool" where
  "is_blank c = (let n = of_char c :: nat in n = 32 \<or> (9 \<le> n \<and> n \<le> 13) \<or> (28 \<le> n \<and> n \<le> 31))"

text \<open>\<open>int(s, 16)\<close>.\<close>

definition int16 :: "string \<Rightarrow> int option" where
  "int16 s =
     (let bare = rev (dropWhile is_blank (rev (dropWhile is_blank s)));
          (negative, rest) = (case bare of
             c # cs \<Rightarrow> if c = CHR ''-'' then (True, cs) else if c = CHR ''+'' then (False, cs) else (False, bare)
           | [] \<Rightarrow> (False, []));
          number = (if take 2 rest \<in> {''0x'', ''0X''}
            then (case drop 2 rest of c # cs \<Rightarrow> hex_number (if c = CHR ''_'' then cs else c # cs) | [] \<Rightarrow> None)
            else hex_number rest)
      in map_option (\<lambda>n. if negative then - int n else int n) number)"

text \<open>\<open>s.replace(p, "")\<close>, and \<open>s.strip("{}")\<close>.\<close>

fun remove_all :: "nat \<Rightarrow> string \<Rightarrow> string \<Rightarrow> string" where
  "remove_all 0 p s = s"
| "remove_all (Suc fuel) p s = (case s of
     [] \<Rightarrow> []
   | c # cs \<Rightarrow> if p \<noteq> [] \<and> starts_with p s then remove_all fuel p (drop (length p) s)
       else c # remove_all fuel p cs)"

definition replace_empty :: "string \<Rightarrow> string \<Rightarrow> string" where
  "replace_empty p s = remove_all (length s) p s"

definition strip_braces :: "string \<Rightarrow> string" where
  "strip_braces s = (let brace = (\<lambda>c. c \<in> set ''{}'') in rev (dropWhile brace (rev (dropWhile brace s))))"

definition canonical_uuid :: "string \<Rightarrow> nat option" where
  "canonical_uuid s =
     (let hex = replace_empty ''-'' (strip_braces (replace_empty ''uuid:'' (replace_empty ''urn:'' s))) in
      if length hex \<noteq> 32 then None else
      case int16 hex of
        None \<Rightarrow> None
      | Some i \<Rightarrow> if 0 \<le> i \<and> i < 2 ^ 128 then Some (nat i) else None)"

section \<open>Asking the database\<close>

definition missing_accounts :: "nat list option \<Rightarrow> nat list \<Rightarrow> nat list option" where
  "missing_accounts auth_users ids = map_option (\<lambda>users. filter (\<lambda>i. i \<notin> set users) ids) auth_users"

fun sort_ids :: "string list \<Rightarrow> (nat, string) dict \<Rightarrow> string list \<Rightarrow> (nat, string) dict \<times> string list" where
  "sort_ids [] by_uuid missing = (by_uuid, missing)"
| "sort_ids (i # ids) by_uuid missing = (case canonical_uuid i of
     None \<Rightarrow> sort_ids ids by_uuid (List.insert i missing)
   | Some u \<Rightarrow> sort_ids ids (dict_set u i by_uuid) missing)"

text \<open>\<open>postgres\<close>: the dialect of the session's engine.\<close>

definition supabase_accounts :: "bool \<Rightarrow> nat list option \<Rightarrow> ('r, 'c) accounts" where
  "supabase_accounts postgres auth_users = (\<lambda>user_ids.
     if \<not> postgres then ret None else
     let (by_uuid, missing) = sort_ids user_ids [] [] in
     and_then (query (\<lambda>_. missing_accounts auth_users (map fst by_uuid))) (\<lambda>found.
     ret (map_option (\<lambda>us. missing @ map (\<lambda>u. the (dict_get by_uuid u)) us) found)))"

lemma sort_ids_keys:
  "sort_ids ids d m = (d', m') \<Longrightarrow> \<forall>(u, i) \<in> set d. canonical_uuid i = Some u \<Longrightarrow>
   (\<forall>(u, i) \<in> set d'. canonical_uuid i = Some u) \<and>
   (\<forall>i. i \<in> set m' \<longleftrightarrow> i \<in> set m \<or> (i \<in> set ids \<and> canonical_uuid i = None)) \<and>
   (\<forall>u. u \<in> fst ` set d' \<longleftrightarrow> u \<in> fst ` set d \<or> (\<exists>i \<in> set ids. canonical_uuid i = Some u))"
proof (induction ids arbitrary: d m)
  case Nil
  then show ?case by auto
next
  case (Cons i ids)
  show ?case
  proof (cases "canonical_uuid i")
    case None
    with Cons.prems(1) have "sort_ids ids d (List.insert i m) = (d', m')" by simp
    from Cons.IH [OF this Cons.prems(2)] None show ?thesis by auto
  next
    case (Some u)
    with Cons.prems(1) have run: "sort_ids ids (dict_set u i d) m = (d', m')" by simp
    have sub: "set (dict_set u i d) \<subseteq> insert (u, i) (set d)"
      by (induction d) auto
    have "\<forall>(v, j) \<in> set (dict_set u i d). canonical_uuid j = Some v"
      using sub Cons.prems(2) Some by blast
    moreover have "fst ` set (dict_set u i d) = insert u (fst ` set d)"
      by (simp add: AList.dom_update)
    ultimately show ?thesis using Cons.IH [OF run] Some by auto
  qed
qed

end
