(* ===== verification/Flags.thy ===== *)
theory Flags
  imports Session Json
begin

text \<open>
  \<open>app/flags.py\<close>: feature flags that fall back to compiled-in defaults. GrowthBook's client is a
  parameter: a function that evaluates a flag for a user, and may raise. \<open>None\<close> is the state in
  which no client is connected.
\<close>

definition DEFAULTS :: "(string, json) dict" where
  "DEFAULTS = [(''checkout-enabled'', JBool True)]"

type_synonym flag_client = "string \<Rightarrow> json \<Rightarrow> string \<Rightarrow> exc + json"

text \<open>
  Startup: \<open>installed\<close> is whether the SDK could be imported, \<open>connect\<close> builds a client and
  initialises it (\<open>False\<close> where it has no features to serve).
\<close>

definition init_flags ::
  "settings \<Rightarrow> bool \<Rightarrow> (string \<Rightarrow> exc + (flag_client \<times> bool)) \<Rightarrow> flag_client option \<Rightarrow> bool \<times> flag_client option" where
  "init_flags S installed connect client =
     (if growthbook_client_key S = [] then (False, client)
      else if \<not> installed then (False, client)
      else case connect (growthbook_client_key S) of
        Inl _ \<Rightarrow> (False, None)
      | Inr (c, ok) \<Rightarrow> if \<not> ok then (False, None) else (True, Some c))"

definition flag_value :: "flag_client option \<Rightarrow> string \<Rightarrow> string option \<Rightarrow> ('r, 'c, json) service" where
  "flag_value client name uid = (case dict_get DEFAULTS name of
     None \<Rightarrow> and_then (inc ''feature_flag_evaluations_total'' [name, ''unknown'']) (\<lambda>_. ret JNull)
   | Some fallback \<Rightarrow>
       (case client of
          None \<Rightarrow> and_then (inc ''feature_flag_evaluations_total'' [name, ''default'']) (\<lambda>_. ret fallback)
        | Some evaluate \<Rightarrow>
            (case evaluate name fallback (or_else uid ''anonymous'') of
               Inr v \<Rightarrow> and_then (inc ''feature_flag_evaluations_total'' [name, ''remote'']) (\<lambda>_. ret v)
             | Inl _ \<Rightarrow> and_then (inc ''feature_flag_evaluations_total'' [name, ''error'']) (\<lambda>_. ret fallback))))"

definition is_enabled :: "flag_client option \<Rightarrow> string \<Rightarrow> string option \<Rightarrow> ('r, 'c, bool) service" where
  "is_enabled client name uid = and_then (flag_value client name uid) (\<lambda>v. ret (jtruthy v))"

text \<open>What the kill switch says to one user; asking never raises.\<close>

definition checkout_on :: "flag_client option \<Rightarrow> string \<Rightarrow> bool" where
  "checkout_on client uid = (case client of
     None \<Rightarrow> True
   | Some evaluate \<Rightarrow> (case evaluate ''checkout-enabled'' (JBool True) (or_else (Some uid) ''anonymous'') of
       Inr v \<Rightarrow> jtruthy v | Inl _ \<Rightarrow> True))"

lemma checkout_flag:
  "\<exists>m. is_enabled client ''checkout-enabled'' (Some uid) w = (Inr (checkout_on client uid), w\<lparr>metrics := m\<rparr>)"
  by (cases client)
    (auto simp: is_enabled_def flag_value_def DEFAULTS_def and_then_def checkout_on_def split: sum.split)

end
