(* ===== verification/Health.thy ===== *)
theory Health
  imports Session Json
begin

text \<open>
  \<open>app/health.py\<close>: the readiness probe. Each check runs under its own deadline and ends in one of
  three ways; the latency it measures is not modelled. The deadlines as Python prints them and
  \<open>f"{type(exc).__name__}: {exc}"\<close> are parameters (\<open>probe\<close>).
\<close>

datatype check_end = Passed | TimedOut | Raised exc

record probe =
  pb_database_limit :: string
  pb_cache_limit :: string
  pb_shown :: "exc \<Rightarrow> string"

record check_result =
  ck_name :: string
  ck_ok :: bool
  ck_error :: "string option"

definition timed :: "(exc \<Rightarrow> string) \<Rightarrow> string \<Rightarrow> string \<Rightarrow> check_end \<Rightarrow> check_result" where
  "timed shown name timeout how = (case how of
     Passed \<Rightarrow> \<lparr>ck_name = name, ck_ok = True, ck_error = None\<rparr>
   | TimedOut \<Rightarrow> \<lparr>ck_name = name, ck_ok = False, ck_error = Some (''timed out after '' @ timeout @ ''s'')\<rparr>
   | Raised e \<Rightarrow> \<lparr>ck_name = name, ck_ok = False, ck_error = Some (take 200 (shown e))\<rparr>)"

text \<open>How a check ends: its deadline passes (\<open>slow\<close>), or it returns or raises.\<close>

definition ended :: "bool \<Rightarrow> ('r, 'c, unit) service \<Rightarrow> ('r, 'c, check_end) service" where
  "ended slow m = (if slow then ret TimedOut
     else try_except (and_then m (\<lambda>_. ret Passed)) (\<lambda>e. ret (Raised e)))"

definition check_database :: "('r, 'c, unit) service" where
  "check_database = query (\<lambda>_. ())"

definition check_cache :: "('c, 'v) cache_backend \<Rightarrow> ('r, 'c, unit) service" where
  "check_cache B =
     and_then (cached (cb_set B ''healthz:probe'' (Num 1) 10)) (\<lambda>_.
     and_then (cached (cb_get B ''healthz:probe'')) (\<lambda>v.
     if v \<noteq> Some (Num 1) then raise (RuntimeError ''value did not survive a set/get round trip'') else ret ()))"

record readiness_reply =
  rd_http :: nat
  rd_status :: string
  rd_environment :: string
  rd_checks :: "check_result list"

definition readiness ::
  "settings \<Rightarrow> probe \<Rightarrow> ('c, 'v) cache_backend \<Rightarrow> bool \<Rightarrow> bool \<Rightarrow> ('r, 'c, readiness_reply) service" where
  "readiness S P B db_slow cache_slow =
     and_then (ended db_slow check_database) (\<lambda>d.
     and_then (ended cache_slow (check_cache B)) (\<lambda>c.
     let database = timed (pb_shown P) ''database'' (pb_database_limit P) d;
         cache_check = timed (pb_shown P) ''cache'' (pb_cache_limit P) c;
         answer = (\<lambda>http status. \<lparr>rd_http = http, rd_status = status, rd_environment = environment S,
           rd_checks = [database, cache_check]\<rparr>) in
     ret (if \<not> ck_ok database then answer 503 ''unready''
          else if \<not> ck_ok cache_check then answer 200 ''degraded''
          else answer 200 ''ok'')))"

text \<open>The payload as JSON, less the latency of a check that passed.\<close>

definition check_payload :: "check_result \<Rightarrow> json" where
  "check_payload c = JObj ([(''name'', JStr (ck_name c)), (''ok'', JBool (ck_ok c))] @
     (case ck_error c of None \<Rightarrow> [] | Some e \<Rightarrow> [(''error'', JStr e)]))"

definition readiness_payload :: "readiness_reply \<Rightarrow> json" where
  "readiness_payload r = JObj
     [(''status'', JStr (rd_status r)), (''environment'', JStr (rd_environment r)),
      (''checks'', JList (map check_payload (rd_checks r)))]"

lemma ended_returns: "\<exists>h w'. ended slow m w = (Inr h, w')"
  by (cases "m w") (auto simp: ended_def try_except_def and_then_def split: sum.splits)

lemma ended_database:
  "ended slow check_database w =
     (Inr (if slow then TimedOut else if db_up w then Passed else Raised (DatabaseError ''unreachable'')), w)"
  by (simp add: ended_def check_database_def try_except_def and_then_def)

end
