(* ===== verification/Admin_Properties.thy ===== *)
theory Admin_Properties
  imports Admin Entitlement_Properties Expire_Grace Accounts Flags Health
begin

text \<open>
  What the support endpoints promise: only the admin key opens them, an extension moves the
  cut-off and lasts, a grant lifts and never lowers, and revoking undoes exactly one grant.
\<close>

section \<open>The key\<close>

lemma admin_open: "require_admin S key = Inr () \<Longrightarrow> admin S key m = m"
  by (simp add: admin_def fun_eq_iff and_then_def)

lemma admin_closed: "require_admin S key = Inl e \<Longrightarrow> admin S key m = raise e"
  by (simp add: admin_def fun_eq_iff and_then_def)

text \<open>
  The admin key is the only way in. Behind the gate an endpoint behaves as it is written
  exactly for a request that carries the configured key, which is set and, in production, is
  not the published default; every other request ends with a 403, or with a 500 where the
  key is not properly configured, before anything is read or written.
\<close>

theorem admin_gate:
  "(if key = Some (admin_api_key S) \<and> admin_api_key S \<noteq> [] \<and>
       \<not> (is_production S \<and> admin_api_key S = DEFAULT_ADMIN_KEY)
    then admin S key m w = m w
    else \<exists>code detail. admin S key m w = (Inl (HTTPException code detail), w) \<and> code \<in> {403, 500})"
proof (cases "require_admin S key")
  case (Inl e)
  then have "\<not> (key = Some (admin_api_key S) \<and> admin_api_key S \<noteq> [] \<and>
      \<not> (is_production S \<and> admin_api_key S = DEFAULT_ADMIN_KEY))"
    using require_admin_iff [of S key] by simp
  moreover have "\<exists>code detail. e = HTTPException code detail \<and> code \<in> {403, 500}"
    using Inl by (auto simp: require_admin_def Let_def split: if_splits)
  ultimately show ?thesis by (auto simp: admin_closed [OF Inl])
next
  case (Inr u)
  then show ?thesis using require_admin_iff [of S key] by (simp add: admin_open)
qed

section \<open>Extending a grace window\<close>

text \<open>A request with the key, on an idle session.\<close>

definition opened :: "settings \<Rightarrow> string option \<Rightarrow> bool" where
  "opened S key \<longleftrightarrow> require_admin S key = Inr ()"

lemma filter_one:
  "distinct (map f xs) \<Longrightarrow> x \<in> set xs \<Longrightarrow> filter (\<lambda>y. f y = f x) xs = [x]"
  by (induction xs) (auto simp: filter_empty_conv image_iff)

lemma require_subscription_found:
  assumes "idle w" "sub \<in> set (subscriptions (durable w))" "user_id sub = uid"
  shows "require_subscription uid w = (Inr sub, w)"
proof -
  have "filter (\<lambda>r. user_id r = uid) (subscriptions (view w)) = [sub]"
    using assms filter_one [of user_id "subscriptions (durable w)" sub]
    by (simp add: idle_def unique_rows_def unique_subscriptions_def)
  then show ?thesis using assms(1)
    by (simp add: require_subscription_def get_subscription_def and_then_def idle_def)
qed

lemma extended_fields [simp]:
  "user_id (extended days sub) = user_id sub" "tier_col (extended days sub) = tier_col sub"
  "status_col (extended days sub) = status_col sub"
  "stripe_customer_id (extended days sub) = stripe_customer_id sub"
  "stripe_subscription_id (extended days sub) = stripe_subscription_id sub"
  by (simp_all add: extended_def)

lemma unique_put:
  assumes "unique_rows db" "sub \<in> set (subscriptions db)" "user_id sub' = user_id sub"
    and "stripe_customer_id sub' = stripe_customer_id sub" "stripe_subscription_id sub' = stripe_subscription_id sub"
  shows "unique_rows (db\<lparr>subscriptions := put_subscription sub' (subscriptions db)\<rparr>)"
proof -
  have same: "user_id r = user_id sub \<Longrightarrow> r \<in> set (subscriptions db) \<Longrightarrow> r = sub" for r
    using assms(1,2) by (auto simp: unique_rows_def unique_subscriptions_def distinct_map inj_on_def)
  have keep: "List.map_filter f (map g rows) = List.map_filter f rows"
    if "\<And>r. r \<in> set rows \<Longrightarrow> f (g r) = f r" for f :: "subscription \<Rightarrow> string option" and g rows
    using that by (induction rows) (auto simp: map_filter_simps split: option.split)
  have "List.map_filter f (put_subscription sub' (subscriptions db)) = List.map_filter f (subscriptions db)"
    if "f sub' = f sub" for f :: "subscription \<Rightarrow> string option"
    unfolding put_subscription_def using same assms(3) that by (intro keep) auto
  then show ?thesis
    using assms by (simp add: unique_rows_def unique_subscriptions_def)
qed

lemma find_put:
  assumes "user_id sub' = uid" "uid \<in> user_id ` set rows"
  shows "List.find (\<lambda>r. user_id r = uid) (put_subscription sub' rows) = Some sub'"
  using assms by (induction rows) (auto simp: put_subscription_def)

lemma subscription_of_put:
  "sub \<in> set (subscriptions db) \<Longrightarrow> user_id sub' = user_id sub \<Longrightarrow>
   subscription_of (user_id sub) (db\<lparr>subscriptions := put_subscription sub' (subscriptions db)\<rparr>) = Some sub'"
  by (simp add: subscription_of_def find_put)

lemma subscription_of_row:
  assumes "unique_rows db" "sub \<in> set (subscriptions db)"
  shows "subscription_of (user_id sub) db = Some sub"
  using subscription_of_put [OF assms(2), of sub] put_self [OF assms] by simp

lemma extend_grace_moves_cutoff_run:
  assumes "opened S key" "idle w" "sub \<in> set (subscriptions (durable w))"
    and "past_due_since sub = Some since"
  shows "\<exists>w'. extend_grace S B key (user_id sub) days w = (Inr (Some (add_delta since (days * day_us))), w') \<and>
    durable w' = (durable w)\<lparr>
      subscriptions := put_subscription (extended days sub) (subscriptions (durable w)),
      subscription_audit := subscription_audit (durable w) @
        [audit_entry (now w) (user_id sub) (some_pair (snapshot sub)) (some_pair (snapshot sub)) ''admin.extend_grace''
          None (Some [(''days'', PInt days)])]\<rparr>"
proof -
  let ?sub = "extended days sub"
  let ?db = "(durable w)\<lparr>subscriptions := put_subscription ?sub (subscriptions (durable w)),
      subscription_audit := subscription_audit (durable w) @
        [audit_entry (now w) (user_id sub) (some_pair (snapshot sub)) (some_pair (snapshot sub)) ''admin.extend_grace''
          None (Some [(''days'', PInt days)])]\<rparr>"
  let ?w = "w\<lparr>view := ?db, marks := [user_id sub]\<rparr>"
  have i: "db_up w" "rivals w = []" "marks w = []" "view w = durable w" "unique_rows (durable w)"
    using assms(2) by (simp_all add: idle_def)
  have "unique_rows ((durable w)\<lparr>subscriptions := put_subscription ?sub (subscriptions (durable w))\<rparr>)"
    using i(5) assms(3) by (intro unique_put) simp_all
  then have u: "unique_rows ?db"
    by (metis unique_rows_audit)
  obtain c m where com: "commit_and_invalidate B ?w = (Inr (), ?w\<lparr>durable := ?db, marks := [], cache := c, metrics := m\<rparr>)"
    using commit_and_invalidate_apply [of ?w B] i u by auto
  have run: "extend_grace S B key (user_id sub) days w =
      (Inr (Some (add_delta since (days * day_us))), ?w\<lparr>durable := ?db, marks := [], cache := c, metrics := m\<rparr>)"
    unfolding extend_grace_def using assms(1) unfolding opened_def
    by (simp add: admin_open, intro request_Inr)
      (use i assms(4) com in \<open>simp add: and_then_def require_subscription_found [OF assms(2,3)] Let_def save_def
        mark_entitlements_stale_def snapshot_def extended_def\<close>)
  show ?thesis by (rule exI, rule conjI, rule run) simp
qed

text \<open>
  C39: An extension moves the cut-off by exactly the days asked for, of this row and no other, with
  an audit row that says so, committed; and it lasts: while the provider goes on saying past
  due, every later synchronisation keeps the moved clock.
\<close>

theorem extend_grace_moves_cutoff:
  assumes "opened S key" "idle w" "sub \<in> set (subscriptions (durable w))"
    and "past_due_since sub = Some since"
  shows "\<exists>w'. extend_grace S B key (user_id sub) days w = (Inr (Some (add_delta since (days * day_us))), w') \<and>
    durable w' = (durable w)\<lparr>
      subscriptions := put_subscription (extended days sub) (subscriptions (durable w)),
      subscription_audit := subscription_audit (durable w) @
        [audit_entry (now w) (user_id sub) (some_pair (snapshot sub)) (some_pair (snapshot sub)) ''admin.extend_grace''
          None (Some [(''days'', PInt days)])]\<rparr> \<and>
    map_option ticks (grace_ends_at S (extended days sub)) =
      map_option (\<lambda>e. ticks e + days * day_us) (grace_ends_at S sub) \<and>
    (\<forall>rem t. rs_status rem = PAST_DUE \<longrightarrow>
       past_due_since (mirrored S t (Some rem) (extended days sub)) = past_due_since (extended days sub))"
  using extend_grace_moves_cutoff_run [OF assms, of B days] assms(4)
  by (auto simp: grace_ends_at_def extended_def mirrored_def)

text \<open>The support key of the example deployment.\<close>

definition ex_key :: "string option" where
  "ex_key = Some ''change-me-in-prod''"

lemma ex_opened [simp]: "opened ex_settings ex_key"
  by (simp add: opened_def require_admin_iff ex_key_def ex_settings_def default_settings_def is_production_def)

theorem extend_grace_moves_cutoff_witness:
  "\<exists>w' since. extend_grace ex_settings InMemoryBackend ex_key ''alice'' 7 (ex_world ex_overdue None) = (Inr (Some since), w') \<and>
     length (subscription_audit (durable w')) = 1"
proof -
  let ?sub = "mirrored ex_settings 0 (Some ex_failing) ex_row"
  have s: "subscriptions ex_overdue = [?sub]" "user_id ?sub = ''alice''" "past_due_since ?sub = Some (Aware 0)"
    by (simp add: ex_overdue_def, code_simp, code_simp)
  have audit: "subscription_audit ex_overdue = []" by code_simp
  have idle: "idle (ex_world ex_overdue None)" by (simp add: idle_def)
  have "?sub \<in> set (subscriptions (durable (ex_world ex_overdue None)))" by (simp add: s)
  from extend_grace_moves_cutoff [OF ex_opened idle this s(3), of InMemoryBackend 7] show ?thesis
    by (auto simp: s audit)
qed

section \<open>Grants\<close>

definition add_grant :: "entitlement_grant \<Rightarrow> database \<Rightarrow> database" where
  "add_grant g db = db\<lparr>entitlement_grants := entitlement_grants db @ [g]\<rparr>"

lemma effective_tier_add_grant:
  assumes "revoked_at g = None" "grant_tier g = tier_value tr"
  shows "effective_tier S t uid (add_grant g db) =
    (if grant_user g = uid \<and> grant_applies t g then max (effective_tier S t uid db) tr else effective_tier S t uid db)"
proof -
  have paid: "paid_tier S t uid (add_grant g db) = paid_tier S t uid db"
    by (simp add: paid_tier_def subscription_of_def add_grant_def)
  have "active_grants t uid (add_grant g db) =
      active_grants t uid db @ (if grant_user g = uid \<and> grant_applies t g then [tr] else [])"
    using assms by (simp add: active_grants_def add_grant_def)
  moreover have "Max (insert p (set gs \<union> {tr})) = max (Max (insert p (set gs))) tr" for p gs
    by (metis List.finite_set Max_insert Un_insert_left finite_insert insert_is_Un insert_not_empty max.commute sup_bot.right_neutral sup_commute)
  ultimately show ?thesis by (auto simp: effective_tier_def paid)
qed

lemma create_grant_run:
  assumes "opened S key" "idle w" "gr_tier body \<noteq> FREE"
    and "fresh_ids w (next_id w) \<notin> grant_id ` set (entitlement_grants (durable w))"
  shows "\<exists>w' g entry. create_grant S B key actor body w = (Inr (grant_shown (gr_tier body) g), w') \<and>
    g = new_grant (fresh_ids w (next_id w)) (now w) (case actor of Some a \<Rightarrow> a | None \<Rightarrow> ''unknown'') body \<and>
    durable w' = (add_grant g (durable w))\<lparr>subscription_audit := subscription_audit (durable w) @ [entry]\<rparr> \<and>
    audit_reason entry = ''admin.grant_created'' \<and> audit_user entry = gr_user_id body \<and> idle w'"
proof -
  define g where "g = new_grant (fresh_ids w (next_id w)) (now w) (case actor of Some a \<Rightarrow> a | None \<Rightarrow> ''unknown'') body"
  define entry where "entry = audit_entry (now w) (gr_user_id body) (None, None) (Some (tier_value (gr_tier body)), None)
        ''admin.grant_created'' None (Some [(''grant_id'', PStr (grant_id g)),
               (''expires_at'', case gr_expires_at body of None \<Rightarrow> PStr ''None'' | Some s \<Rightarrow> PStamp s)])"
  define db where "db = (add_grant g (durable w))\<lparr>subscription_audit := subscription_audit (durable w) @ [entry]\<rparr>"
  let ?w1 = "w\<lparr>next_id := Suc (next_id w)\<rparr>"
  let ?w2 = "?w1\<lparr>view := add_grant g (view w)\<rparr>"
  let ?w4 = "?w1\<lparr>view := db, marks := [gr_user_id body]\<rparr>"
  have i: "db_up w" "rivals w = []" "marks w = []" "view w = durable w" "unique_rows (durable w)"
    using assms(2) by (simp_all add: idle_def)
  have u: "unique_rows (add_grant g (durable w))"
    using i(5) assms(4) by (simp add: unique_rows_def add_grant_def g_def new_grant_def)
  obtain c m where com: "commit_and_invalidate B ?w4 = (Inr (), ?w4\<lparr>durable := db, marks := [], cache := c, metrics := m\<rparr>)"
    using commit_and_invalidate_apply [of ?w4 B] i u by (auto simp: db_def)
  have now1: "now ?w1 = now w" by simp
  have add: "update_view (\<lambda>db. db\<lparr>entitlement_grants := entitlement_grants db @ [g]\<rparr>) ?w1 = (Inr (), ?w2)"
    by (simp add: add_grant_def)
  have fl: "flush ?w2 = (Inr (), ?w2)" using i u by simp
  have au: "record_audit (gr_user_id body) (None, None) (Some (tier_value (gr_tier body)), None)
        ''admin.grant_created'' None (Some [(''grant_id'', PStr (grant_id g)),
               (''expires_at'', case gr_expires_at body of None \<Rightarrow> PStr ''None'' | Some s \<Rightarrow> PStamp s)]) ?w2 =
      (Inr (), ?w1\<lparr>view := db\<rparr>)"
    using i(4) by (simp add: entry_def db_def add_grant_def)
  have ma: "mark_entitlements_stale (gr_user_id body) (?w1\<lparr>view := db\<rparr>) = (Inr (), ?w4)"
    using i(3) by (simp add: mark_entitlements_stale_def)
  have shown: "grant_response_of g = Inr (grant_shown (gr_tier body) g)"
    by (simp add: grant_response_of_def g_def new_grant_def)
  have run: "create_grant S B key actor body w = (Inr (grant_shown (gr_tier body) g), ?w4\<lparr>durable := db, marks := [], cache := c, metrics := m\<rparr>)"
    unfolding create_grant_def using assms(1) unfolding opened_def
    by (simp only: admin_open, intro request_Inr)
      (simp only: assms(3) if_False, simp only: and_then_def fresh_id_apply clock_apply prod.case sum.case Let_def
        now1 flip: g_def, simp only: add fl au ma com prod.case sum.case shown lift_result_apply)
  show ?thesis
    by (rule exI, rule exI [of _ g], rule exI [of _ entry], rule conjI, rule run)
      (use i u in \<open>simp add: idle_def g_def [symmetric] db_def, simp add: entry_def audit_entry_def\<close>)
qed

lemma effective_tier_audit [simp]:
  "effective_tier S t uid (db\<lparr>subscription_audit := a\<rparr>) = effective_tier S t uid db"
  by (simp add: effective_tier_def paid_tier_def active_grants_def subscription_of_def)

text \<open>
  C17: A grant lifts and never lowers. Once it is committed, at every later moment the user it
  names is on the higher of the tier they had and the tier granted, until the grant expires
  and on the tier they had from then on; nobody else's tier moves.
\<close>

theorem grant_lifts_never_lowers:
  assumes "opened S key" "idle w" "gr_tier body \<noteq> FREE"
    and "fresh_ids w (next_id w) \<notin> grant_id ` set (entitlement_grants (durable w))"
  shows "\<exists>w' g. create_grant S B key actor body w = (Inr (grant_shown (gr_tier body) g), w') \<and> expires_at g = gr_expires_at body \<and>
    (\<forall>t uid. effective_tier S t uid (durable w') =
      (if uid = gr_user_id body \<and> grant_applies t g then max (effective_tier S t uid (durable w)) (gr_tier body)
       else effective_tier S t uid (durable w)))"
proof -
  obtain w' g entry where run: "create_grant S B key actor body w = (Inr (grant_shown (gr_tier body) g), w')"
    and g: "g = new_grant (fresh_ids w (next_id w)) (now w) (case actor of Some a \<Rightarrow> a | None \<Rightarrow> ''unknown'') body"
    and db: "durable w' = (add_grant g (durable w))\<lparr>subscription_audit := subscription_audit (durable w) @ [entry]\<rparr>"
    using create_grant_run [OF assms, of B actor] by blast
  have f: "revoked_at g = None" "grant_tier g = tier_value (gr_tier body)" "grant_user g = gr_user_id body"
    "expires_at g = gr_expires_at body"
    by (simp_all add: g new_grant_def)
  show ?thesis
    by (rule exI, rule exI, rule conjI, rule run) (auto simp: db f(3,4) effective_tier_add_grant [OF f(1,2)])
qed

definition ex_body :: grant_request where
  "ex_body = \<lparr>gr_user_id = ''alice'', gr_tier = PRO, gr_reason = ''comp'', gr_expires_at = Some (Aware 2000000)\<rparr>"

theorem grant_lifts_never_lowers_witness:
  "\<exists>w' g. create_grant ex_settings InMemoryBackend ex_key None ex_body (ex_world ex_db None) = (Inr g, w') \<and> gs_tier g = PRO \<and>
     effective_tier ex_settings 1500000 ''alice'' (durable w') = PRO \<and>
     effective_tier ex_settings 2000000 ''alice'' (durable w') = FREE"
proof -
  have idle: "idle (ex_world ex_db None)" by (simp add: idle_def)
  have before: "effective_tier ex_settings 1500000 ''alice'' ex_db = FREE" "effective_tier ex_settings 2000000 ''alice'' ex_db = FREE"
    by (code_simp)+
  have paying: "gr_tier ex_body \<noteq> FREE" "gr_user_id ex_body = ''alice''" "gr_tier ex_body = PRO"
    "gr_expires_at ex_body = Some (Aware 2000000)"
    by (simp_all add: ex_body_def)
  have "max FREE PRO = PRO" by code_simp
  with grant_lifts_never_lowers [OF ex_opened idle paying(1), of InMemoryBackend None] before paying(2,3,4)
  show ?thesis by (force simp: grant_applies_def)
qed

definition without_grant :: "string \<Rightarrow> database \<Rightarrow> database" where
  "without_grant i db = db\<lparr>entitlement_grants := filter (\<lambda>g. grant_id g \<noteq> i) (entitlement_grants db)\<rparr>"

lemma effective_tier_without:
  "effective_tier S t uid (change_grant i (\<lambda>g. g\<lparr>revoked_at := Some s\<rparr>) db) = effective_tier S t uid (without_grant i db)"
proof -
  have "map (\<lambda>g. decode_tier (grant_tier g)) (filter (\<lambda>g. grant_user g = uid \<and> revoked_at g = None \<and> grant_applies t g)
      (map (\<lambda>g. if grant_id g = i then g\<lparr>revoked_at := Some s\<rparr> else g) gs)) =
    map (\<lambda>g. decode_tier (grant_tier g)) (filter (\<lambda>g. grant_user g = uid \<and> revoked_at g = None \<and> grant_applies t g)
      (filter (\<lambda>g. grant_id g \<noteq> i) gs))" for gs
    by (induction gs) auto
  then show ?thesis
    by (simp add: effective_tier_def paid_tier_def active_grants_def subscription_of_def change_grant_def without_grant_def)
qed

lemma effective_tier_without_le: "effective_tier S t uid (without_grant i db) \<le> effective_tier S t uid db"
proof -
  have "set (active_grants t uid (without_grant i db)) \<subseteq> set (active_grants t uid db)"
    by (auto simp: active_grants_def without_grant_def)
  moreover have "paid_tier S t uid (without_grant i db) = paid_tier S t uid db"
    by (simp add: paid_tier_def subscription_of_def without_grant_def)
  ultimately show ?thesis unfolding effective_tier_def by (intro Max_mono) auto
qed

lemma effective_tier_revoked:
  assumes "find_grant i db = Some g" "revoked_at g \<noteq> None" "unique_rows db"
  shows "effective_tier S t uid (without_grant i db) = effective_tier S t uid db"
proof -
  have one: "g' = g" if "g' \<in> set (entitlement_grants db)" "grant_id g' = i" for g'
    using assms that by (auto simp: find_grant_def unique_rows_def distinct_map inj_on_def dest!: find_Some_D)
  have "filter (\<lambda>g. grant_user g = uid \<and> revoked_at g = None \<and> grant_applies t g) (filter (\<lambda>g. grant_id g \<noteq> i) (entitlement_grants db)) =
      filter (\<lambda>g. grant_user g = uid \<and> revoked_at g = None \<and> grant_applies t g) (entitlement_grants db)"
    using one assms(2) by (auto simp: filter_filter intro!: filter_cong)
  then show ?thesis
    by (simp add: effective_tier_def paid_tier_def active_grants_def subscription_of_def without_grant_def)
qed

lemma find_change_grant: "find_grant i (change_grant i f db) = map_option f (find_grant i db)"
  if "\<And>g. grant_id (f g) = grant_id g"
proof -
  have "List.find (\<lambda>g. grant_id g = i) (map (\<lambda>g. if grant_id g = i then f g else g) gs) =
      map_option f (List.find (\<lambda>g. grant_id g = i) gs)" for gs
    by (induction gs) (auto simp: that)
  then show ?thesis by (simp add: find_grant_def change_grant_def)
qed

lemma unique_change_grant: "unique_rows (change_grant i f db) = unique_rows db"
  if "\<And>g. grant_id (f g) = grant_id g"
proof -
  have "grant_id \<circ> (\<lambda>g. if grant_id g = i then f g else g) = grant_id"
    by (auto simp: fun_eq_iff that)
  then show ?thesis by (simp add: unique_rows_def change_grant_def)
qed

lemma revoke_grant_run:
  assumes "opened S key" "idle w" "find_grant i (durable w) = Some g" "revoked_at g = None"
  shows "\<exists>w' entry. revoke_grant S B key i w = (Inr (), w') \<and> idle w' \<and>
    durable w' = (change_grant i (\<lambda>g. g\<lparr>revoked_at := Some (Aware (now w))\<rparr>) (durable w))\<lparr>
      subscription_audit := subscription_audit (durable w) @ [entry]\<rparr> \<and> audit_reason entry = ''admin.grant_revoked''"
proof -
  define entry where "entry = audit_entry (now w) (grant_user g) (Some (grant_tier g), None) (None, None)
        ''admin.grant_revoked'' None (Some [(''grant_id'', PStr (grant_id g))])"
  define db1 where "db1 = change_grant i (\<lambda>g. g\<lparr>revoked_at := Some (Aware (now w))\<rparr>) (durable w)"
  define db where "db = db1\<lparr>subscription_audit := subscription_audit (durable w) @ [entry]\<rparr>"
  let ?w4 = "w\<lparr>view := db, marks := [grant_user g]\<rparr>"
  have i: "db_up w" "rivals w = []" "marks w = []" "view w = durable w" "unique_rows (durable w)"
    using assms(2) by (simp_all add: idle_def)
  have u: "unique_rows db" using i(5) by (simp add: db_def db1_def unique_change_grant)
  obtain c m where com: "commit_and_invalidate B ?w4 = (Inr (), ?w4\<lparr>durable := db, marks := [], cache := c, metrics := m\<rparr>)"
    using commit_and_invalidate_apply [of ?w4 B] i u by auto
  have q: "query (find_grant i) w = (Inr (Some g), w)" using i assms(3) by simp
  have up: "update_view (change_grant i (\<lambda>g. g\<lparr>revoked_at := Some (Aware (now w))\<rparr>)) w = (Inr (), w\<lparr>view := db1\<rparr>)"
    using i(4) by (simp add: db1_def)
  have "subscription_audit db1 = subscription_audit (durable w)" by (simp add: db1_def change_grant_def)
  then have au: "record_audit (grant_user g) (Some (grant_tier g), None) (None, None)
        ''admin.grant_revoked'' None (Some [(''grant_id'', PStr (grant_id g))]) (w\<lparr>view := db1\<rparr>) = (Inr (), w\<lparr>view := db\<rparr>)"
    by (simp add: entry_def db_def)
  have ma: "mark_entitlements_stale (grant_user g) (w\<lparr>view := db\<rparr>) = (Inr (), ?w4)"
    using i(3) by (simp add: mark_entitlements_stale_def)
  have run: "revoke_grant S B key i w = (Inr (), ?w4\<lparr>durable := db, marks := [], cache := c, metrics := m\<rparr>)"
    unfolding revoke_grant_def using assms(1) unfolding opened_def
    by (simp only: admin_open, intro request_Inr)
      (simp only: and_then_def q clock_apply prod.case sum.case option.case assms(4) up au ma com if_False simp_thms)
  show ?thesis
    by (rule exI, rule exI [of _ entry], rule conjI, rule run)
      (use i u in \<open>simp add: idle_def db_def db1_def, simp add: entry_def audit_entry_def\<close>)
qed

text \<open>
  C16: Revoking a grant undoes that grant and nothing else: at every moment every user is on the
  tier they would be on without it, so no tier rises and other grants and the subscription stay.
  Asked again, it changes nothing: no second audit row, no second date.
\<close>

theorem revoke_grant_undoes_one_grant:
  assumes "opened S key" "idle w" "find_grant i (durable w) = Some g"
  shows "\<exists>w' w''. revoke_grant S B key i w = (Inr (), w') \<and> revoke_grant S B key i w' = (Inr (), w'') \<and>
    (\<forall>t uid. effective_tier S t uid (durable w') = effective_tier S t uid (without_grant i (durable w)) \<and>
       effective_tier S t uid (durable w') \<le> effective_tier S t uid (durable w)) \<and>
    subscriptions (durable w') = subscriptions (durable w) \<and> durable w'' = durable w'"
proof -
  have again: "revoke_grant S B key i u = (Inr (), u)"
    if "idle u" "find_grant i (durable u) = Some h" "revoked_at h \<noteq> None" for u :: "('a, 'b) world" and h
  proof -
    have "query (find_grant i) u = (Inr (Some h), u)" using that by (simp add: idle_def)
    then show ?thesis
      unfolding revoke_grant_def using assms(1) that(3) unfolding opened_def
      by (simp only: admin_open, intro request_Inr) (simp add: and_then_def)
  qed
  show ?thesis
  proof (cases "revoked_at g")
    case (Some s)
    have "unique_rows (durable w)" using assms(2) by (simp add: idle_def)
    then show ?thesis
      using again [OF assms(2,3)] Some effective_tier_revoked [OF assms(3)] by auto
  next
    case None
    obtain w' entry where run: "revoke_grant S B key i w = (Inr (), w')" "idle w'"
      and db: "durable w' = (change_grant i (\<lambda>g. g\<lparr>revoked_at := Some (Aware (now w))\<rparr>) (durable w))\<lparr>
        subscription_audit := subscription_audit (durable w) @ [entry]\<rparr>"
      using revoke_grant_run [OF assms None, of B] by blast
    have "find_grant i (durable w') = find_grant i (change_grant i (\<lambda>g. g\<lparr>revoked_at := Some (Aware (now w))\<rparr>) (durable w))"
      by (simp add: db find_grant_def)
    also have "\<dots> = Some (g\<lparr>revoked_at := Some (Aware (now w))\<rparr>)"
      using assms(3) by (subst find_change_grant) simp_all
    finally have "revoke_grant S B key i w' = (Inr (), w')"
      by (rule again [OF run(2)]) simp
    moreover have "subscriptions (durable w') = subscriptions (durable w)"
      by (simp add: db change_grant_def)
    moreover have "effective_tier S t uid (durable w') = effective_tier S t uid (without_grant i (durable w)) \<and>
       effective_tier S t uid (durable w') \<le> effective_tier S t uid (durable w)" for t uid
      by (simp add: db effective_tier_without effective_tier_without_le)
    ultimately show ?thesis using run(1) by blast
  qed
qed

theorem revoke_grant_undoes_one_grant_witness:
  "\<exists>w'. revoke_grant ex_settings InMemoryBackend ex_key (grant_id ex_grant) (ex_world ex_granted None) = (Inr (), w') \<and>
     effective_tier ex_settings 0 ''alice'' ex_granted \<noteq> FREE \<and> effective_tier ex_settings 0 ''alice'' (durable w') = FREE"
proof -
  have g: "entitlement_grants ex_granted = [ex_grant]" by code_simp
  have "unique_rows ex_granted" by code_simp
  then have idle: "idle (ex_world ex_granted None)" by (simp add: idle_def)
  have "find_grant (grant_id ex_grant) (durable (ex_world ex_granted None)) = Some ex_grant"
    by (simp add: find_grant_def g)
  from revoke_grant_undoes_one_grant [OF ex_opened idle this, of InMemoryBackend]
  obtain w' where run: "revoke_grant ex_settings InMemoryBackend ex_key (grant_id ex_grant) (ex_world ex_granted None) = (Inr (), w')"
    and eq: "effective_tier ex_settings 0 ''alice'' (durable w') =
      effective_tier ex_settings 0 ''alice'' (without_grant (grant_id ex_grant) ex_granted)"
    by auto
  have "effective_tier ex_settings 0 ''alice'' (without_grant (grant_id ex_grant) ex_granted) = FREE"
    "effective_tier ex_settings 0 ''alice'' ex_granted \<noteq> FREE"
    by code_simp+
  with run eq show ?thesis by auto
qed

section \<open>An extension after a report\<close>

text \<open>
  A window that was reported closed and then extended is not reported when it closes again.
  The report of the first closing is dated after the moved start of the cycle as long as the
  extension does not reach past that report, so the job takes the second closing for one it
  has already reported: access ends, and no audit row says so.
\<close>

theorem extended_window_closes_unreported:
  assumes "opened S key" "idle w" "sub \<in> set (subscriptions (durable w))" "dunning_row sub"
    and "past_due_since sub = Some since" "a \<in> set (subscription_audit (durable w))"
    and "audit_user a = user_id sub" "audit_reason a = REASON"
    and "ticks since + days * day_us < ticks (audit_created_at a)"
  shows "\<exists>w' row. extend_grace S B key (user_id sub) days w = (Inr (past_due_since row), w') \<and>
    row \<in> set (subscriptions (durable w')) \<and> user_id row = user_id sub \<and>
    (\<forall>t \<ge> ticks since + days * day_us + dunning_grace S. grace_expired S t row \<and> \<not> due S t (durable w') row)"
proof -
  obtain w' where run: "extend_grace S B key (user_id sub) days w = (Inr (Some (add_delta since (days * day_us))), w')"
    and db: "durable w' = (durable w)\<lparr>
      subscriptions := put_subscription (extended days sub) (subscriptions (durable w)),
      subscription_audit := subscription_audit (durable w) @
        [audit_entry (now w) (user_id sub) (some_pair (snapshot sub)) (some_pair (snapshot sub)) ''admin.extend_grace''
          None (Some [(''days'', PInt days)])]\<rparr>"
    using extend_grace_moves_cutoff_run [OF assms(1-3,5)] by blast
  have since: "past_due_since (extended days sub) = Some (add_delta since (days * day_us))"
    by (simp add: extended_def assms(5))
  have row: "extended days sub \<in> set (subscriptions (durable w'))"
    using assms(3) by (auto simp: db set_put_subscription)
  have "reported (durable w') (extended days sub)"
    using assms(6-9) by (auto simp: reported_def since db list_ex_iff)
  then have "\<not> due S t (durable w') (extended days sub)" for t by (simp add: due_def)
  moreover have "grace_expired S t (extended days sub)" if "ticks since + days * day_us + dunning_grace S \<le> t" for t
    using that assms(4) by (simp add: grace_expired_iff since dunning_row_def)
  ultimately show ?thesis using run row since
    by (intro exI [of _ w'] exI [of _ "extended days sub"]) simp
qed

theorem extended_window_closes_unreported_witness:
  "\<exists>w' row. extend_grace ex_settings InMemoryBackend ex_key ''alice'' 7
      (ex_world (with_reports 700000000000 (subscriptions ex_overdue) ex_overdue) None) = (Inr (past_due_since row), w') \<and>
     grace_expired ex_settings 2000000000000 row \<and> \<not> due ex_settings 2000000000000 (durable w') row"
proof -
  let ?sub = "mirrored ex_settings 0 (Some ex_failing) ex_row"
  let ?db = "with_reports 700000000000 (subscriptions ex_overdue) ex_overdue"
  have s: "subscriptions ex_overdue = [?sub]" "user_id ?sub = ''alice''" "past_due_since ?sub = Some (Aware 0)" "dunning_row ?sub"
    by (simp add: ex_overdue_def, code_simp+)
  have idle: "idle (ex_world ?db None)" by (simp add: idle_def)
  have row: "?sub \<in> set (subscriptions (durable (ex_world ?db None)))" by (simp add: s)
  have a: "grace_entry 700000000000 ?sub \<in> set (subscription_audit (durable (ex_world ?db None)))"
    by (simp add: with_reports_def s)
  have "ticks (Aware 0) + 7 * day_us < ticks (audit_created_at (grace_entry 700000000000 ?sub))"
    by (simp add: day_us_def)
  from extended_window_closes_unreported [OF ex_opened idle row s(4,3) a _ _ this, of InMemoryBackend]
  obtain w' r where "extend_grace ex_settings InMemoryBackend ex_key ''alice'' 7 (ex_world ?db None) = (Inr (past_due_since r), w')"
    and late: "\<forall>t \<ge> 7 * day_us + dunning_grace ex_settings. grace_expired ex_settings t r \<and> \<not> due ex_settings t (durable w') r"
    by (auto simp: s(2))
  moreover have "7 * day_us + dunning_grace ex_settings \<le> 2000000000000" by code_simp
  ultimately show ?thesis by blast
qed

end
