(* ===== verification/Checkout.thy ===== *)
theory Checkout
  imports Subscriptions
begin

text \<open>
  The customer-facing half of \<open>app/services/subscriptions.py\<close>: checkout, cancellation, its
  undoing, and the portal. \<open>sha256\<close> is a parameter, the hexadecimal digest of a text;
  \<open>json.dumps\<close> with sorted keys is modelled, on strings of the first 256 code points.
\<close>

section \<open>The text of a JSON value\<close>

definition hex_digit :: "nat \<Rightarrow> char" where
  "hex_digit n = (if n < 10 then char_of (48 + n) else char_of (87 + n))"

definition json_escape :: "char \<Rightarrow> string" where
  "json_escape c = (let n = of_char c :: nat in
     if n = 34 then [char_of (92::nat), char_of (34::nat)]
     else if n = 92 then [char_of (92::nat), char_of (92::nat)]
     else if n = 8 then [char_of (92::nat), CHR ''b'']
     else if n = 12 then [char_of (92::nat), CHR ''f'']
     else if n = 10 then [char_of (92::nat), CHR ''n'']
     else if n = 13 then [char_of (92::nat), CHR ''r'']
     else if n = 9 then [char_of (92::nat), CHR ''t'']
     else if 32 \<le> n \<and> n \<le> 126 then [c]
     else [char_of (92::nat), CHR ''u'', CHR ''0'', CHR ''0'', hex_digit (n div 16), hex_digit (n mod 16)])"

definition json_quote :: "string \<Rightarrow> string" where
  "json_quote s = char_of (34::nat) # concat (map json_escape s) @ [char_of (34::nat)]"

fun comma_join :: "string list \<Rightarrow> string" where
  "comma_join [] = ''''"
| "comma_join [x] = x"
| "comma_join (x # xs) = x @ '', '' @ comma_join xs"

fun json_dumps :: "json \<Rightarrow> string" where
  "json_dumps JNull = ''null''"
| "json_dumps (JBool b) = (if b then ''true'' else ''false'')"
| "json_dumps (JInt n) = str_int n"
| "json_dumps (JDec s) = s"
| "json_dumps (JStr s) = json_quote s"
| "json_dumps (JList xs) = ''['' @ comma_join (map json_dumps xs) @ '']''"
| "json_dumps (JObj kvs) = ''{'' @ comma_join
     (map (\<lambda>(k, v). json_quote k @ '': '' @ v)
       (sort_key fst (map (\<lambda>(k, v). (k, json_dumps v)) kvs))) @ ''}''"

section \<open>The idempotency key\<close>

record checkout_key =
  ck_user_id :: string
  ck_price_id :: string
  ck_success_url :: string
  ck_cancel_url :: string
  ck_promo_code :: "string option"
  ck_trial_period_days :: int
  ck_automatic_tax :: bool

definition checkout_key_json :: "checkout_key \<Rightarrow> json" where
  "checkout_key_json k = JObj
     [(''user_id'', JStr (ck_user_id k)),
      (''price_id'', JStr (ck_price_id k)),
      (''success_url'', JStr (ck_success_url k)),
      (''cancel_url'', JStr (ck_cancel_url k)),
      (''promo_code'', case ck_promo_code k of None \<Rightarrow> JNull | Some c \<Rightarrow> JStr c),
      (''trial_period_days'', JInt (ck_trial_period_days k)),
      (''automatic_tax'', JBool (ck_automatic_tax k))]"

definition checkout_idempotency_key :: "(string \<Rightarrow> string) \<Rightarrow> int \<Rightarrow> checkout_key \<Rightarrow> string" where
  "checkout_idempotency_key sha256 t k =
     (let digest = take 16 (sha256 (json_dumps (checkout_key_json k)))
      in ''checkout:'' @ ck_user_id k @ '':'' @ utc_date t @ '':'' @ digest)"

section \<open>Checkout\<close>

text \<open>What a customer asks for; a missing URL falls back to the configured one.\<close>

record checkout_request =
  cr_tier :: tier
  cr_interval :: billing_interval
  cr_success_url :: "string option"
  cr_cancel_url :: "string option"
  cr_promo_code :: "string option"

definition start_checkout ::
  "settings \<Rightarrow> 'r provider \<Rightarrow> (string \<Rightarrow> string) \<Rightarrow> string \<Rightarrow> string option \<Rightarrow> checkout_request \<Rightarrow>
   ('r, 'c, json) service" where
  "start_checkout S PV sha256 uid email body =
     (let t = cr_tier body; i = cr_interval body in
      if \<not> td_purchasable (limits_for t)
      then raise (BillingError 400 (tier_value t @ '' is not a purchasable tier'')) else
      let price_id = price_id_for S t i in
      if \<not> truthy price_id
      then raise (BillingError 400 (''no price configured for '' @ tier_value t @ ''/'' @ interval_value i)) else
      and_then (get_or_create_subscription uid) (\<lambda>sub.
      if grants_access sub
      then raise (BillingError 409 ''already subscribed -- use the billing portal to change plan'') else
      and_then (if truthy (stripe_customer_id sub)
        then and_then (call (p_fetch_current_subscription PV (the (stripe_customer_id sub)))) (\<lambda>answer.
          if (case answer of None \<Rightarrow> False | Some rem \<Rightarrow> rs_grants_access rem)
          then raise (BillingError 409 ''You already have a subscription; it can take a minute to appear here. Refresh this page, or use Manage billing to change plan.'')
          else ret ())
        else ret ()) (\<lambda>_.
      and_then (call (p_ensure_customer PV uid email (stripe_customer_id sub))) (\<lambda>customer_id.
      and_then (only_if (stripe_customer_id sub \<noteq> Some customer_id)
        (and_then (save (sub\<lparr>stripe_customer_id := Some customer_id\<rparr>)) (\<lambda>_. flush))) (\<lambda>_.
      let success = or_else (cr_success_url body) (checkout_success_url S);
          cancel = or_else (cr_cancel_url body) (checkout_cancel_url S)
      in and_then clock (\<lambda>now.
      call (p_create_checkout_session PV
        \<lparr>cp_customer_id = customer_id,
         cp_price_id = the price_id,
         cp_user_id = uid,
         cp_success_url = success,
         cp_cancel_url = cancel,
         cp_idempotency_key = checkout_idempotency_key sha256 now
           \<lparr>ck_user_id = uid, ck_price_id = the price_id, ck_success_url = success,
            ck_cancel_url = cancel, ck_promo_code = cr_promo_code body,
            ck_trial_period_days = trial_period_days S, ck_automatic_tax = automatic_tax S\<rparr>,
         cp_trial_period_days = trial_period_days S,
         cp_promo_code = cr_promo_code body\<rparr>)))))))"

section \<open>Cancellation\<close>

text \<open>
  \<open>sub.stripe_customer_id\<close> is passed on as it is; a row with a subscription id has one.
\<close>

definition customer_column :: "subscription \<Rightarrow> string" where
  "customer_column sub = (case stripe_customer_id sub of Some c \<Rightarrow> c | None \<Rightarrow> '''')"

definition set_and_sync ::
  "settings \<Rightarrow> 'r provider \<Rightarrow> subscription \<Rightarrow> bool \<Rightarrow> string \<Rightarrow> ('r, 'c, subscription) service" where
  "set_and_sync S PV sub flag reason =
     and_then (call (p_set_cancel_at_period_end PV (the (stripe_subscription_id sub)) flag)) (\<lambda>_.
     and_then (sync_subscription_from_stripe S PV (customer_column sub) None reason) (\<lambda>synced.
     ret (case synced of Some s \<Rightarrow> s | None \<Rightarrow> sub)))"

definition schedule_cancellation ::
  "settings \<Rightarrow> 'r provider \<Rightarrow> string \<Rightarrow> ('r, 'c, subscription) service" where
  "schedule_cancellation S PV uid =
     and_then (get_subscription uid) (\<lambda>found.
     if \<not> (case found of None \<Rightarrow> False | Some sub \<Rightarrow> truthy (stripe_subscription_id sub))
     then raise (BillingError 404 ''no subscription to cancel'') else
     let sub = the found in
     if \<not> grants_access sub
     then raise (BillingError 409 (''a '' @ status_col sub @ '' subscription cannot be cancelled'')) else
     if cancel_at_period_end sub then ret sub
     else set_and_sync S PV sub True ''customer.cancel_at_period_end'')"

definition resume_subscription ::
  "settings \<Rightarrow> 'r provider \<Rightarrow> string \<Rightarrow> ('r, 'c, subscription) service" where
  "resume_subscription S PV uid =
     and_then (get_subscription uid) (\<lambda>found.
     if \<not> (case found of None \<Rightarrow> False | Some sub \<Rightarrow> truthy (stripe_subscription_id sub))
     then raise (BillingError 404 ''no subscription to resume -- subscribe again'') else
     let sub = the found in
     if \<not> cancel_at_period_end sub then ret sub
     else set_and_sync S PV sub False ''customer.resumed'')"

section \<open>The portal\<close>

definition plan_change_flow ::
  "settings \<Rightarrow> 'r provider \<Rightarrow> subscription \<Rightarrow> tier \<times> billing_interval \<Rightarrow>
   ('r, 'c, portal_flow option) service" where
  "plan_change_flow S PV sub target =
     (let t = fst target; i = snd target in
      if \<not> td_purchasable (limits_for t) then ret None else
      let price_id = price_id_for S t i in
      if \<not> truthy price_id \<or> \<not> truthy (stripe_subscription_id sub) then ret None else
      if price_id = stripe_price_id sub then ret None else
      and_then (call (p_fetch_current_subscription PV (customer_column sub))) (\<lambda>answer.
      let items = (case answer of Some rem \<Rightarrow> rs_item_ids rem | None \<Rightarrow> []) in
      if length items \<noteq> 1 then ret None
      else ret (Some \<lparr>pf_subscription = the (stripe_subscription_id sub), pf_item = items ! 0,
                      pf_price = the price_id\<rparr>)))"

definition open_portal ::
  "settings \<Rightarrow> 'r provider \<Rightarrow> string \<Rightarrow> string option \<Rightarrow> (tier \<times> billing_interval) option \<Rightarrow>
   ('r, 'c, string) service" where
  "open_portal S PV uid return_url target =
     and_then (get_subscription uid) (\<lambda>found.
     if \<not> (case found of None \<Rightarrow> False | Some sub \<Rightarrow> truthy (stripe_customer_id sub))
     then raise (BillingError 404 ''no billing account yet -- subscribe first'') else
     let sub = the found in
     and_then (case target of Some tg \<Rightarrow> plan_change_flow S PV sub tg | None \<Rightarrow> ret None) (\<lambda>flow.
     and_then (call (p_create_portal_session PV (the (stripe_customer_id sub))
       (or_else return_url (portal_return_url S)) flow)) (\<lambda>portal.
     lift_result (bind_result (jitem ''url'' portal) as_string))))"

end
