(* ===== verification/Billing.thy ===== *)
theory Billing
  imports Auth Flags Ratelimit Checkout
begin

text \<open>
  \<open>app/routers/billing.py\<close>: the pricing page, checkout and its kill switch, the portal, the
  customer's own subscription, cancelling and resuming, and the public lead form. Every endpoint
  is one request; what a handler raises is rolled back. Amounts and
  discounts are Stripe's values, checked where the response is built (\<open>Schemas\<close>).
\<close>

section \<open>The pricing page\<close>

definition PLANS_CACHE_KEY :: string where
  "PLANS_CACHE_KEY = ''plans:v2''"

definition PLANS_CACHE_TTL :: int where
  "PLANS_CACHE_TTL = 300"

definition price_amount :: "'r provider \<Rightarrow> string \<Rightarrow> ('r, 'c, json \<times> json) service" where
  "price_amount PV pid =
     and_then (try_except (and_then (call (p_retrieve_price PV pid)) (\<lambda>p. ret (Some p))) (\<lambda>_. ret None)) (\<lambda>answer.
     case answer of
       None \<Rightarrow> ret (JNull, JNull)
     | Some price \<Rightarrow>
         and_then (lift_result (jget ''unit_amount'' price)) (\<lambda>amount.
         and_then (lift_result (jget ''currency'' price)) (\<lambda>currency. ret (amount, currency))))"

fun plan_prices ::
  "settings \<Rightarrow> pydantic \<Rightarrow> 'r provider \<Rightarrow> tier \<Rightarrow> billing_interval list \<Rightarrow>
   ('r, 'c, (billing_interval, plan_price) dict) service" where
  "plan_prices S V PV t [] = ret []"
| "plan_prices S V PV t (i # is) =
     (case price_id_for S t i of
        None \<Rightarrow> plan_prices S V PV t is
      | Some pid \<Rightarrow>
          if pid = [] then plan_prices S V PV t is else
          and_then (price_amount PV pid) (\<lambda>(amount, currency).
          and_then (lift_result (PlanPrice V pid amount currency)) (\<lambda>p.
          and_then (plan_prices S V PV t is) (\<lambda>rest. ret ((i, p) # rest)))))"

definition plan_of :: "settings \<Rightarrow> pydantic \<Rightarrow> 'r provider \<Rightarrow> tier \<Rightarrow> ('r, 'c, plan_response) service" where
  "plan_of S V PV t =
     (let row = limits_for t in
      and_then (plan_prices S V PV t all_intervals) (\<lambda>prices.
      and_then (lift_result (features_of (td_features row))) (\<lambda>fs.
      ret \<lparr>pr_tier = t, pr_display_name = td_display_name row, pr_purchasable = td_purchasable row,
           pr_sales_led = td_sales_led row, pr_features = fs,
           pr_quotas = map (\<lambda>(k, q). QuotaLimit_of q) (td_quotas row), pr_prices = prices\<rparr>)))"

text \<open>The response model checks what a handler returns, a cached list included.\<close>

fun validate_plans :: "document + int \<Rightarrow> exc + plan_response list" where
  "validate_plans (Inl (Doc_plans ps)) = Inr ps"
| "validate_plans _ = Inl ValidationError"

definition plans ::
  "settings \<Rightarrow> pydantic \<Rightarrow> 'r provider \<Rightarrow> ('c, document) cache_backend \<Rightarrow> ('r, 'c, plan_response list) service" where
  "plans S V PV B =
     and_then (cached (get_json B PLANS_CACHE_KEY)) (\<lambda>hit. case hit of
       Some doc \<Rightarrow> lift_result (validate_plans doc)
     | None \<Rightarrow>
         and_then (map_prog (plan_of S V PV) tiers_by_rank) (\<lambda>out.
         and_then (cached (set_json B PLANS_CACHE_KEY (Doc_plans out) PLANS_CACHE_TTL)) (\<lambda>_. ret out)))"

section \<open>Buying\<close>

record checkout_reply =
  co_url :: string
  co_session_id :: string

definition CHECKOUT_OFF :: string where
  "CHECKOUT_OFF = ''Checkout is temporarily unavailable. Your plan and access are unaffected.''"

definition checkout ::
  "settings \<Rightarrow> 'r provider \<Rightarrow> 'k jwt_library \<Rightarrow> flag_client option \<Rightarrow> (string \<Rightarrow> string) \<Rightarrow>
   string option \<Rightarrow> checkout_request \<Rightarrow> ('r, 'c, checkout_reply) service" where
  "checkout S PV J flags sha256 authorization body = as_user S J authorization (\<lambda>user. request
     (and_then (is_enabled flags ''checkout-enabled'' (Some (cu_id user))) (\<lambda>on.
      if \<not> on then raise (BillingError 503 CHECKOUT_OFF) else
      and_then (start_checkout S PV sha256 (cu_id user) (cu_email user) body) (\<lambda>stripe_session.
      and_then commit (\<lambda>_.
      and_then (lift_result (bind_result (jitem ''url'' stripe_session) as_string)) (\<lambda>url.
      and_then (lift_result (bind_result (jitem ''id'' stripe_session) as_string)) (\<lambda>sid.
      ret \<lparr>co_url = url, co_session_id = sid\<rparr>)))))))"

text \<open>The body of a portal request: which plan the customer asked for, if any.\<close>

type_synonym portal_request = "tier option \<times> billing_interval"

definition portal_target :: "portal_request option \<Rightarrow> (tier \<times> billing_interval) option" where
  "portal_target body = (case body of
     Some (Some t, i) \<Rightarrow> Some (t, i)
   | _ \<Rightarrow> None)"

record portal_reply =
  po_url :: string

definition portal ::
  "settings \<Rightarrow> 'r provider \<Rightarrow> 'k jwt_library \<Rightarrow> string option \<Rightarrow>
   portal_request option \<Rightarrow> ('r, 'c, portal_reply) service" where
  "portal S PV J authorization body = as_user S J authorization (\<lambda>user. request
     (and_then (open_portal S PV (cu_id user) None (portal_target body)) (\<lambda>url. ret \<lparr>po_url = url\<rparr>)))"

section \<open>The customer's own row\<close>

record subscription_summary =
  su_tier :: tier
  su_row :: subscription
  su_discount :: "discount_view option"

text \<open>Of the row, the summary shows every column but its own id and its times.\<close>

definition summary :: "pydantic \<Rightarrow> subscription \<Rightarrow> exc + subscription_summary" where
  "summary V sub =
     bind_result (Tier_of (tier_col sub)) (\<lambda>t.
     bind_result (discount_field V (discount sub)) (\<lambda>d.
     Inr \<lparr>su_tier = t, su_row = sub, su_discount = d\<rparr>))"

definition my_subscription ::
  "settings \<Rightarrow> pydantic \<Rightarrow> 'k jwt_library \<Rightarrow> string option \<Rightarrow> ('r, 'c, subscription_summary) service" where
  "my_subscription S V J authorization = as_user S J authorization (\<lambda>user. request
     (and_then (get_or_create_subscription (cu_id user)) (\<lambda>sub.
      and_then commit (\<lambda>_. lift_result (summary V sub)))))"

definition resume ::
  "settings \<Rightarrow> pydantic \<Rightarrow> 'r provider \<Rightarrow> ('c, document) cache_backend \<Rightarrow> 'k jwt_library \<Rightarrow> string option \<Rightarrow>
   ('r, 'c, subscription_summary) service" where
  "resume S V PV B J authorization = as_user S J authorization (\<lambda>user. request
     (and_then (resume_subscription S PV (cu_id user)) (\<lambda>sub.
      and_then (commit_and_invalidate B) (\<lambda>_. lift_result (summary V sub)))))"

definition cancel ::
  "settings \<Rightarrow> pydantic \<Rightarrow> 'r provider \<Rightarrow> ('c, document) cache_backend \<Rightarrow> 'k jwt_library \<Rightarrow> string option \<Rightarrow>
   ('r, 'c, subscription_summary) service" where
  "cancel S V PV B J authorization = as_user S J authorization (\<lambda>user. request
     (and_then (schedule_cancellation S PV (cu_id user)) (\<lambda>sub.
      and_then (commit_and_invalidate B) (\<lambda>_. lift_result (summary V sub)))))"

section \<open>Configuration\<close>

definition unconfigured_prices :: "settings \<Rightarrow> string list" where
  "unconfigured_prices S = concat (map (\<lambda>t. concat (map (\<lambda>i.
     if truthy (price_id_for S t i) then [] else [tier_value t @ ''/'' @ interval_value i]) all_intervals)) PURCHASABLE_TIERS)"

definition billing_health :: "settings \<Rightarrow> exc + string list" where
  "billing_health S =
     (if price_catalog S = [] then Inl (BillingError 503 ''no Stripe prices configured; run scripts/seed_stripe.py'')
      else Inr (unconfigured_prices S))"

section \<open>The lead form\<close>

record contact_request =
  cs_email :: string
  cs_company :: "string option"
  cs_seats :: "int option"
  cs_message :: "string option"
  cs_source :: string

record contact_reply =
  cy_id :: string
  cy_status :: string

definition blank_char :: "char \<Rightarrow> bool" where
  "blank_char c = (let n = of_char c :: nat in n = 32 \<or> (9 \<le> n \<and> n \<le> 13) \<or> n = 133 \<or> n = 160)"

text \<open>\<open>^[^@\s]+@[^@\s]+\.[^@\s]+$\<close>.\<close>

definition email_pattern :: "string \<Rightarrow> bool" where
  "email_pattern s =
     (let at = CHR 0x40; name = takeWhile (\<lambda>c. c \<noteq> at) s; domain = drop (length name + 1) s in
      list_all (\<lambda>c. \<not> blank_char c) s \<and> at \<in> set s \<and> name \<noteq> [] \<and> at \<notin> set domain \<and>
      CHR ''.'' \<in> set (butlast (drop 1 domain)))"

definition at_most :: "nat \<Rightarrow> string option \<Rightarrow> bool" where
  "at_most n v = (case v of None \<Rightarrow> True | Some s \<Rightarrow> length s \<le> n)"

definition SOURCES :: "string list" where
  "SOURCES = [''pricing_page'', ''paywall'', ''billing_page'']"

definition valid_contact :: "contact_request \<Rightarrow> bool" where
  "valid_contact b \<longleftrightarrow>
     3 \<le> length (cs_email b) \<and> length (cs_email b) \<le> 320 \<and> email_pattern (cs_email b) \<and>
     at_most 200 (cs_company b) \<and>
     (case cs_seats b of None \<Rightarrow> True | Some n \<Rightarrow> 1 \<le> n \<and> n \<le> 1000000) \<and>
     at_most 2000 (cs_message b) \<and> cs_source b \<in> set SOURCES"

definition new_inquiry ::
  "string \<Rightarrow> int \<Rightarrow> current_user option \<Rightarrow> contact_request \<Rightarrow> string option \<Rightarrow> sales_inquiry" where
  "new_inquiry i t user body current_tier =
     \<lparr>inquiry_id = i, inquiry_user = map_option cu_id user, inquiry_email = cs_email body,
      inquiry_company = cs_company body, inquiry_seats = cs_seats body, inquiry_message = cs_message body,
      inquiry_source = cs_source body, inquiry_current_tier = current_tier, handled_at = None,
      inquiry_created_at = Aware t\<rparr>"

text \<open>
  The dependencies run first: the rate limit, then who is asking. Only then is the body checked.
\<close>

definition contact_sales ::
  "settings \<Rightarrow> ('c, document) cache_backend \<Rightarrow> 'k jwt_library \<Rightarrow> string option \<Rightarrow> string option \<Rightarrow>
   string option \<Rightarrow> contact_request \<Rightarrow> ('r, 'c, contact_reply) service" where
  "contact_sales S B J forwarded peer authorization body =
     and_then (contact_sales_rate_limit S B forwarded peer) (\<lambda>_. request
     (let user = get_current_user_optional S J authorization in
      if \<not> valid_contact body then raise (HTTPException 422 ''body'') else
      and_then (case user of
          None \<Rightarrow> ret None
        | Some u \<Rightarrow> and_then (resolve_entitlements S B (cu_id u)) (\<lambda>e. ret (Some (tier_value (ent_tier e))))) (\<lambda>current_tier.
      and_then fresh_id (\<lambda>i.
      and_then clock (\<lambda>t.
      and_then (update_view (\<lambda>db. db\<lparr>sales_inquiries := sales_inquiries db @ [new_inquiry i t user body current_tier]\<rparr>)) (\<lambda>_.
      and_then commit (\<lambda>_.
      and_then (inc ''sales_inquiries_total'' [cs_source body, or_else current_tier ''anonymous'']) (\<lambda>_.
      ret \<lparr>cy_id = i, cy_status = ''received''\<rparr>))))))))"

end
