(* ===== verification/Metrics.thy ===== *)
theory Metrics
  imports Session
begin

text \<open>
  The metrics of \<open>app/observability.py\<close>: what is registered, and which counts the registry takes.
  \<open>prometheus_client\<close> raises where a metric is counted with other labels than it was registered
  with; \<open>inc\<close> does not, because \<open>registered\<close> is shown of every count the service makes
  (\<open>System_Properties\<close>). The values a label can take are those the registration's comment lists.
\<close>

section \<open>The registry\<close>

datatype metric_kind = Counter | Histogram | Gauge

text \<open>Bounds of buckets are in thousandths.\<close>

record metric =
  m_name :: string
  m_kind :: metric_kind
  m_labels :: "string list"
  m_buckets :: "int list"

definition counter_of :: "string \<Rightarrow> string list \<Rightarrow> metric" where
  "counter_of n ls = \<lparr>m_name = n, m_kind = Counter, m_labels = ls, m_buckets = []\<rparr>"

definition REGISTRY :: "metric list" where
  "REGISTRY =
     [counter_of ''webhook_events_total'' [''event_type'', ''outcome''],
      \<lparr>m_name = ''webhook_processing_seconds'', m_kind = Histogram, m_labels = [],
       m_buckets = [50, 100, 250, 500, 1000, 2500, 5000, 10000]\<rparr>,
      \<lparr>m_name = ''webhook_lag_seconds'', m_kind = Histogram, m_labels = [],
       m_buckets = [1000, 5000, 15000, 30000, 60000, 300000, 900000, 3600000]\<rparr>,
      counter_of ''payment_failures_total'' [],
      counter_of ''entitlement_cache_total'' [''result''],
      counter_of ''entitlement_invalidations_total'' [''outcome''],
      counter_of ''quota_rejections_total'' [''quota'', ''tier''],
      counter_of ''quota_errors_total'' [''quota''],
      counter_of ''subscription_transitions_total'' [''from_tier'', ''to_tier''],
      counter_of ''sales_inquiries_total'' [''source'', ''current_tier''],
      counter_of ''rate_limit_rejections_total'' [''scope'', ''window''],
      counter_of ''rate_limit_errors_total'' [''scope''],
      counter_of ''feature_flag_evaluations_total'' [''flag'', ''source''],
      \<lparr>m_name = ''reconciliation_drift'', m_kind = Gauge, m_labels = [], m_buckets = []\<rparr>]"

text \<open>The values the comments give for a label of a metric.\<close>

definition LABEL_VALUES :: "(string \<times> string, string list) dict" where
  "LABEL_VALUES =
     [((''webhook_events_total'', ''outcome''), [''processed'', ''duplicate'', ''ignored'', ''failed'']),
      ((''entitlement_cache_total'', ''result''), [''hit'', ''miss'', ''stale'']),
      ((''entitlement_invalidations_total'', ''outcome''), [''ok'', ''failed'', ''undrained'']),
      ((''feature_flag_evaluations_total'', ''source''), [''remote'', ''default'', ''error'', ''unknown''])]"

definition registered :: "string \<times> string list \<Rightarrow> bool" where
  "registered = (\<lambda>(n, vs). case List.find (\<lambda>m. m_name m = n) REGISTRY of
     None \<Rightarrow> False
   | Some m \<Rightarrow> m_kind m = Counter \<and>
       list_all2 (\<lambda>l v. case dict_get LABEL_VALUES (n, l) of None \<Rightarrow> True | Some known \<Rightarrow> v \<in> set known) (m_labels m) vs)"

lemma names_are_distinct: "distinct (map m_name REGISTRY)"
  by (simp add: REGISTRY_def counter_of_def)

lemma buckets_ascend: "list_all (\<lambda>m. sorted (m_buckets m)) REGISTRY"
  by (simp add: REGISTRY_def counter_of_def)

section \<open>What the service counts\<close>

lemma registered_counts [intro]:
  "registered (''webhook_events_total'', [e, ''failed''])"
  "registered (''webhook_events_total'', [e, ''duplicate''])"
  "registered (''webhook_events_total'', [e, if h then ''processed'' else ''ignored''])"
  "registered (''payment_failures_total'', [])"
  "registered (''entitlement_cache_total'', [''hit''])"
  "registered (''entitlement_cache_total'', [''miss''])"
  "registered (''entitlement_cache_total'', [''stale''])"
  "registered (''entitlement_invalidations_total'', [''ok''])"
  "registered (''entitlement_invalidations_total'', [''failed''])"
  "registered (''entitlement_invalidations_total'', [''undrained''])"
  "registered (''quota_rejections_total'', [k, t])"
  "registered (''quota_errors_total'', [k])"
  "registered (''subscription_transitions_total'', [a, b])"
  "registered (''sales_inquiries_total'', [a, b])"
  "registered (''rate_limit_rejections_total'', [s, n])"
  "registered (''rate_limit_errors_total'', [s])"
  "registered (''feature_flag_evaluations_total'', [f, ''unknown''])"
  "registered (''feature_flag_evaluations_total'', [f, ''default''])"
  "registered (''feature_flag_evaluations_total'', [f, ''remote''])"
  "registered (''feature_flag_evaluations_total'', [f, ''error''])"
  by (simp_all add: registered_def REGISTRY_def LABEL_VALUES_def counter_of_def)

end
