(* ===== verification/Frames.thy ===== *)
theory Frames
  imports View Ratelimit Billing Metrics
begin

text \<open>
  What reading leaves alone. A read resolves, peeks and counts: it may fill the cache and count
  metrics, and nothing else of the world moves, on any branch.
\<close>

definition only_cache :: "('r, 'c) world \<Rightarrow> ('r, 'c) world \<Rightarrow> bool" where
  "only_cache w0 w \<longleftrightarrow> w = w0\<lparr>cache := cache w, metrics := metrics w\<rparr> \<and>
     (\<exists>ms. metrics w = metrics w0 @ ms \<and> list_all registered ms)"

lemma only_cache_refl [simp]: "only_cache w w"
  by (simp add: only_cache_def)

lemma only_cache_fields:
  "only_cache w0 w \<Longrightarrow> durable w = durable w0 \<and> view w = view w0 \<and> marks w = marks w0 \<and> now w = now w0 \<and>
     remote w = remote w0 \<and> db_up w = db_up w0 \<and> locked w = locked w0 \<and> rivals w = rivals w0 \<and>
     fresh_ids w = fresh_ids w0 \<and> next_id w = next_id w0"
  unfolding only_cache_def by (elim conjE, erule ssubst) simp

lemma keeps_only_cache:
  "keeps (only_cache w0) (cached f)" "registered (n, ls) \<Longrightarrow> keeps (only_cache w0) (inc n ls)"
proof -
  show "keeps (only_cache w0) (cached f)"
    unfolding keeps_def
  proof (intro allI impI)
    fix s assume "only_cache w0 s"
    then show "only_cache w0 (snd (cached f s))"
      by (cases w0; cases s) (simp add: only_cache_def cached_apply)
  qed
  show "registered (n, ls) \<Longrightarrow> keeps (only_cache w0) (inc n ls)"
    unfolding keeps_def
  proof (intro allI impI)
    fix s assume "only_cache w0 s"
    then show "only_cache w0 (snd (inc n ls s))"
      if "registered (n, ls)"
      using that by (cases w0; cases s) (auto simp: only_cache_def)
  qed
qed

lemma keeps_only_cache_resolve: "keeps (only_cache w0) (resolve_entitlements S B uid)"
  unfolding resolve_entitlements_def cache_get_def cache_set_def serve_stale_def store_answer_def
    resolve_from_db_def active_grant_tier_def Let_def
  by (intro keeps_intro keeps_only_cache registered_counts)

lemma keeps_only_cache_peek: "keeps (only_cache w0) (peek_quota B uid key e)"
  unfolding peek_quota_def Let_def
  by (intro keeps_intro keeps_only_cache registered_counts)

lemma keeps_only_cache_states: "keeps (only_cache w0) (quota_states B uid e)"
proof -
  have "keeps (only_cache w0) (states_of B uid e qs)" for qs
  proof (induction qs)
    case Nil
    show ?case by (simp add: keeps_def)
  next
    case (Cons q qs)
    show ?case unfolding states_of.simps by (intro keeps_intro keeps_only_cache_peek Cons.IH)
  qed
  then show ?thesis by (simp add: quota_states_def)
qed

lemma keeps_only_cache_view: "keeps (only_cache w0) (entitlement_view S B uid)"
  unfolding entitlement_view_def
  by (intro keeps_intro keeps_only_cache_resolve keeps_only_cache_states)

lemma keeps_only_cache_enforce: "keeps (only_cache w0) (enforce B scope identity ws)"
proof (induction ws)
  case Nil
  show ?case by (simp add: keeps_def)
next
  case (Cons x xs)
  show ?case unfolding enforce.simps by (intro keeps_intro keeps_only_cache registered_counts Cons.IH)
qed

lemma keeps_only_cache_limit: "keeps (only_cache w0) (contact_sales_rate_limit S B f p)"
  by (simp add: contact_sales_rate_limit_def keeps_only_cache_enforce)

lemma only_cache_trans: "only_cache a b \<Longrightarrow> only_cache b c \<Longrightarrow> only_cache a c"
  by (cases a; cases b; cases c) (auto simp: only_cache_def)

lemma only_cacheD: "keeps (only_cache w) m \<Longrightarrow> m w = (r, w') \<Longrightarrow> only_cache w w'"
  using keepsD [of "only_cache w" m w r w'] by simp

end
