(* ===== verification/Billing_Properties.thy ===== *)
theory Billing_Properties
  imports Frames Admin_Properties
begin

text \<open>
  What the billing endpoints promise: nobody is charged twice, checkout grants nothing by itself,
  one switch turns it off, leaving is one call that mirrors the provider, and the public form
  stores only what it may.
\<close>

section \<open>Who is asking\<close>

lemma as_user_in: "get_current_user S J a = Inr u \<Longrightarrow> as_user S J a m = m u"
  by (simp add: as_user_def fun_eq_iff and_then_def)

lemma as_user_out: "get_current_user S J a = Inl e \<Longrightarrow> as_user S J a m = raise e"
  by (simp add: as_user_def fun_eq_iff and_then_def)

text \<open>
  Nobody acts for a user without that user's token. A caller is only ever identified by a
  bearer token that the library has checked: its signature against a key of the project's own
  JWKS, with one of the two pinned asymmetric algorithms, for the configured audience and
  issuer, with an expiry and a subject; the user is its subject. Whatever else the header
  holds, the endpoint raises before anything is read.
\<close>

theorem only_verified_tokens_identify:
  "(case get_current_user S J authorization of
      Inr u \<Rightarrow> \<exists>scheme token key claims.
        authorization = Some (scheme @ '' '' @ token) \<and> py_lower scheme = ''bearer'' \<and> supabase_url S \<noteq> [] \<and>
        signing_key J (rstrip_slash (supabase_url S) @ ''/auth/v1/.well-known/jwks.json'') token = Inr key \<and>
        jwt_decode J token key [''RS256'', ''ES256''] (supabase_jwt_audience S)
          (rstrip_slash (supabase_url S) @ ''/auth/v1'') [''exp'', ''sub'', ''aud'', ''iss''] = Inr claims \<and>
        jitem ''sub'' claims = Inr (JStr (cu_id u)) \<and> as_user S J authorization m w = m u w
    | Inl e \<Rightarrow> as_user S J authorization m w = (Inl e, w) \<and> get_current_user_optional S J authorization = None)"
proof (cases "get_current_user S J authorization")
  case (Inl e)
  then show ?thesis by (simp add: as_user_out get_current_user_optional_def)
next
  case (Inr u)
  then obtain token claims where t: "bearer_token authorization = Inr token" "verify_token S J token = Inr claims"
    "user_of_claims claims = Inr u"
    by (auto simp: get_current_user_def bind_result_Inr)
  from t(1) obtain scheme where a: "authorization = Some (scheme @ '' '' @ token)" "py_lower scheme = ''bearer''"
    by (auto simp: bearer_token_Inr)
  have url: "supabase_url S \<noteq> []" using t(2) by (auto simp: verify_token_def jwks_url_def)
  obtain key where k: "signing_key J (rstrip_slash (supabase_url S) @ ''/auth/v1/.well-known/jwks.json'') token = Inr key"
    using t(2) url by (cases "signing_key J (rstrip_slash (supabase_url S) @ ''/auth/v1/.well-known/jwks.json'') token")
      (auto simp: verify_token_def jwks_url_def)
  have d: "jwt_decode J token key [''RS256'', ''ES256''] (supabase_jwt_audience S)
          (rstrip_slash (supabase_url S) @ ''/auth/v1'') [''exp'', ''sub'', ''aud'', ''iss''] = Inr claims"
    using t(2) url k
    by (cases "jwt_decode J token key [''RS256'', ''ES256''] (supabase_jwt_audience S)
          (rstrip_slash (supabase_url S) @ ''/auth/v1'') [''exp'', ''sub'', ''aud'', ''iss'']")
      (auto simp: verify_token_def jwks_url_def ALLOWED_ALGORITHMS_def)
  have s: "jitem ''sub'' claims = Inr (JStr (cu_id u))"
    using t(3) by (auto simp: user_of_claims_def bind_result_Inr elim: as_string.elims)
  show ?thesis unfolding Inr sum.case as_user_in [OF Inr] using a url k d s by blast
qed

section \<open>Buying\<close>

lemma subscription_of_none:
  "subscription_of uid db = None \<longleftrightarrow> uid \<notin> user_id ` set (subscriptions db)"
  by (auto simp: subscription_of_def find_None_iff)

text \<open>\<open>same_access\<close>: two databases give every user the same tier at every moment.\<close>

definition same_access :: "settings \<Rightarrow> database \<Rightarrow> database \<Rightarrow> bool" where
  "same_access S db db' \<longleftrightarrow> (\<forall>t uid. effective_tier S t uid db' = effective_tier S t uid db)"

lemma same_access_rows:
  assumes "entitlement_grants db' = entitlement_grants db"
    and "\<And>uid t. paid_tier S t uid db' = paid_tier S t uid db"
  shows "same_access S db db'"
  using assms by (simp add: same_access_def effective_tier_def active_grants_def)

lemma paid_tier_new_row:
  "uid \<notin> user_id ` set (subscriptions db) \<Longrightarrow>
   paid_tier S t u (db\<lparr>subscriptions := subscriptions db @ [new_subscription uid]\<rparr>) = paid_tier S t u db"
proof -
  assume new: "uid \<notin> user_id ` set (subscriptions db)"
  have app: "List.find P (xs @ [x]) = (case List.find P xs of Some y \<Rightarrow> Some y | None \<Rightarrow> if P x then Some x else None)"
    for P :: "subscription \<Rightarrow> bool" and xs x
    by (induction xs) auto
  have "\<not> grants_access (new_subscription uid)"
    by (simp add: new_subscription_def grants_access_iff status_value.simps)
  then show ?thesis
    using new by (cases "List.find (\<lambda>r. user_id r = u) (subscriptions db)")
      (auto simp: paid_tier_def subscription_of_def app)
qed

lemma paid_tier_put:
  assumes "unique_rows db" "sub \<in> set (subscriptions db)" "user_id sub' = user_id sub"
    and "tier_col sub' = tier_col sub" "status_col sub' = status_col sub" "past_due_since sub' = past_due_since sub"
  shows "paid_tier S t uid (db\<lparr>subscriptions := put_subscription sub' (subscriptions db)\<rparr>) = paid_tier S t uid db"
proof -
  have access: "grants_access sub' = grants_access sub" "grace_expired S t sub' = grace_expired S t sub"
    using assms by (simp_all add: grants_access_def grace_expired_iff)
  show ?thesis
  proof (cases "uid = user_id sub")
    case True
    then show ?thesis
      using subscription_of_put [OF assms(2,3)] subscription_of_row [OF assms(1,2)] assms(4) access
      by (simp add: paid_tier_def)
  next
    case False
    have "List.find (\<lambda>r. user_id r = uid) (put_subscription sub' rows) = List.find (\<lambda>r. user_id r = uid) rows" for rows
      using False assms(3) by (induction rows) (auto simp: put_subscription_def)
    then show ?thesis by (simp add: paid_tier_def subscription_of_def)
  qed
qed

text \<open>The row a customer starts from: theirs, or a new one on the free tier.\<close>

lemma get_or_create_idle:
  fixes w :: "('r, 'c) world"
  assumes "db_up w" "rivals w = []" "unique_rows (view w)"
  obtains sub db where "get_or_create_subscription uid w = (Inr sub, w\<lparr>view := db\<rparr>)" "unique_rows db"
    "sub \<in> set (subscriptions db)" "user_id sub = uid" "same_access S (view w) db"
    "subscription_of uid (view w) = Some sub \<or> (subscription_of uid (view w) = None \<and> sub = new_subscription uid)"
proof (cases "subscription_of uid (view w)")
  case None
  let ?db = "(view w)\<lparr>subscriptions := subscriptions (view w) @ [new_subscription uid]\<rparr>"
  have new: "uid \<notin> user_id ` set (subscriptions (view w))" using None by (simp add: subscription_of_none)
  have "unique_rows (add_row (new_subscription uid) (view w))"
    using assms new by (intro unique_rows_add) auto
  then have u: "unique_rows ?db" by (simp add: add_row_def)
  have "get_or_create_subscription uid w = (Inr (new_subscription uid), w\<lparr>view := ?db\<rparr>)"
    using assms(1,2) u get_subscription_absent [OF assms(1) new]
    by (simp add: get_or_create_subscription_def and_then_def Let_def)
  moreover have "same_access S (view w) ?db"
    by (rule same_access_rows) (simp_all add: paid_tier_new_row [OF new])
  ultimately show thesis using u None by (intro that) simp_all
next
  case (Some sub)
  then have s: "sub \<in> set (subscriptions (view w))" "user_id sub = uid"
    using subscription_of_in by fastforce+
  have "filter (\<lambda>r. user_id r = uid) (subscriptions (view w)) = [sub]"
    using assms(3) s filter_one [of user_id "subscriptions (view w)" sub]
    by (simp add: unique_rows_def unique_subscriptions_def)
  then have "get_or_create_subscription uid w = (Inr sub, w\<lparr>view := view w\<rparr>)"
    using assms(1) by (simp add: get_or_create_subscription_def get_subscription_def and_then_def)
  moreover have "same_access S (view w) (view w)" by (simp add: same_access_def)
  ultimately show thesis using assms(3) s Some by (intro that [of sub "view w"]) simp_all
qed

text \<open>What a checkout that reached the provider's session has been through.\<close>

definition not_subscribed :: "'r provider \<Rightarrow> 'r \<Rightarrow> subscription option \<Rightarrow> bool" where
  "not_subscribed PV r found \<longleftrightarrow> (\<forall>sub. found = Some sub \<longrightarrow> \<not> grants_access sub \<and>
     (\<forall>cid. stripe_customer_id sub = Some cid \<and> cid \<noteq> [] \<longrightarrow>
       (\<exists>ans r'. p_fetch_current_subscription PV cid r = (Inr ans, r') \<and> (\<forall>rem. ans = Some rem \<longrightarrow> \<not> rs_grants_access rem))))"

text \<open>
  From the customer's row on, a checkout leaves the session's rows as they are, but for the
  customer id of that row.
\<close>

definition customer_only :: "database \<Rightarrow> database \<Rightarrow> subscription \<Rightarrow> ('r, 'c) world \<Rightarrow> bool" where
  "customer_only d db sub w \<longleftrightarrow> durable w = d \<and> db_up w \<and> rivals w = [] \<and> marks w = [] \<and>
     (view w = db \<or> (\<exists>c. view w =
        db\<lparr>subscriptions := put_subscription (sub\<lparr>stripe_customer_id := c\<rparr>) (subscriptions db)\<rparr>))"

lemma keeps_customer_only:
  "keeps (customer_only d db sub) flush" "keeps (customer_only d db sub) (call f)"
  "keeps (customer_only d db sub) (save (sub\<lparr>stripe_customer_id := c\<rparr>))"
  by (auto simp: keeps_def customer_only_def call_apply save_def)

lemma customer_only_access:
  assumes "customer_only d db sub w" "unique_rows db" "sub \<in> set (subscriptions db)"
  shows "same_access S db (view w)"
proof -
  have "same_access S db (db\<lparr>subscriptions := put_subscription (sub\<lparr>stripe_customer_id := c\<rparr>) (subscriptions db)\<rparr>)" for c
    by (rule same_access_rows) (simp_all add: paid_tier_put [OF assms(2,3)])
  moreover have "same_access S db db" by (simp add: same_access_def)
  ultimately show ?thesis using assms(1) by (auto simp: customer_only_def)
qed

text \<open>A price that is configured for a tier that is sold.\<close>

definition on_sale :: "settings \<Rightarrow> checkout_request \<Rightarrow> bool" where
  "on_sale S body \<longleftrightarrow> cr_tier body \<in> {PLUS, PRO} \<and> truthy (price_id_for S (cr_tier body) (cr_interval body))"

lemma start_checkout_not_sold:
  assumes "\<not> on_sale S body"
  shows "\<exists>detail. start_checkout S PV sha uid email body w = (Inl (HTTPException 400 detail), w)"
proof (cases "cr_tier body \<in> {PLUS, PRO}")
  case True
  with assms have "\<not> truthy (price_id_for S (cr_tier body) (cr_interval body))" by (auto simp: on_sale_def)
  with True show ?thesis by (auto simp: start_checkout_def Let_def BillingError_def limits_for_rows)
next
  case False
  then show ?thesis by (auto simp: start_checkout_def Let_def BillingError_def limits_for_rows)
qed

lemma start_checkout_kept:
  fixes w :: "('r, 'c) world"
  assumes "get_or_create_subscription uid w = (Inr sub, w\<lparr>view := db\<rparr>)" "on_sale S body"
    and "customer_only d db sub (w\<lparr>view := db\<rparr>)"
  shows "customer_only d db sub (snd (start_checkout S PV sha uid email body w))"
proof -
  have sold: "td_purchasable (limits_for (cr_tier body)) = True"
    "truthy (price_id_for S (cr_tier body) (cr_interval body)) = True"
    using assms(2) by (auto simp: on_sale_def limits_for_rows)
  have "\<exists>f :: subscription \<Rightarrow> ('r, 'c, json) service. start_checkout S PV sha uid email body = and_then (get_or_create_subscription uid) f \<and>
      keeps (customer_only d db sub) (f sub)"
    unfolding start_checkout_def Let_def sold not_True_eq_False if_False
    by (intro exI conjI, rule refl, intro keeps_intro keeps_customer_only)
  then obtain f :: "subscription \<Rightarrow> ('r, 'c, json) service" where
    f: "start_checkout S PV sha uid email body = and_then (get_or_create_subscription uid) f"
    "keeps (customer_only d db sub) (f sub)" by blast
  have "start_checkout S PV sha uid email body w = f sub (w\<lparr>view := db\<rparr>)"
    unfolding f(1) using assms(1) by (rule and_then_Inr)
  then show ?thesis using f(2) assms(3) by (simp add: keeps_def)
qed

lemma start_checkout_asks:
  assumes "get_or_create_subscription uid w = (Inr sub, w\<lparr>view := db\<rparr>)"
    and "start_checkout S PV sha uid email body w = (Inr s, w')"
  shows "not_subscribed PV (remote w) (Some sub)"
proof -
  have sold: "td_purchasable (limits_for (cr_tier body)) = True"
    "truthy (price_id_for S (cr_tier body) (cr_interval body)) = True"
    using start_checkout_not_sold [of S body PV sha uid email w] assms(2)
    by (auto simp: on_sale_def limits_for_rows)
  have no: "\<not> grants_access sub"
    using assms unfolding start_checkout_def Let_def sold not_True_eq_False if_False
    by (auto simp: and_then_returns split: if_splits)
  have "\<exists>ans r'. p_fetch_current_subscription PV cid (remote w) = (Inr ans, r') \<and> (\<forall>rem. ans = Some rem \<longrightarrow> \<not> rs_grants_access rem)"
    if c: "stripe_customer_id sub = Some cid" "cid \<noteq> []" for cid
  proof -
    obtain v w1 where "(and_then (call (p_fetch_current_subscription PV cid)) (\<lambda>answer.
          if (case answer of None \<Rightarrow> False | Some rem \<Rightarrow> rs_grants_access rem)
          then raise (BillingError 409 ''You already have a subscription; it can take a minute to appear here. Refresh this page, or use Manage billing to change plan.'')
          else ret ())) (w\<lparr>view := db\<rparr>) = (Inr (v :: unit), w1)"
      using assms no c unfolding start_checkout_def Let_def sold not_True_eq_False if_False
      by (simp add: and_then_returns) blast
    then show ?thesis
      by (cases "p_fetch_current_subscription PV cid (remote w)")
        (auto simp: and_then_returns call_apply split: if_splits option.splits)
  qed
  with no show ?thesis by (auto simp: not_subscribed_def)
qed

lemma start_checkout_run:
  assumes "idle w" "start_checkout S PV sha uid email body w = (res, w')"
  shows "durable w' = durable w" "db_up w'" "rivals w' = []" "marks w' = []" "same_access S (durable w) (view w')"
    and "\<And>s. res = Inr s \<Longrightarrow> on_sale S body \<and> not_subscribed PV (remote w) (subscription_of uid (durable w))"
proof -
  have i: "db_up w" "rivals w = []" "marks w = []" "view w = durable w" "unique_rows (durable w)"
    using assms(1) by (simp_all add: idle_def)
  have same: "same_access S (durable w) (durable w)" by (simp add: same_access_def)
  obtain sub db where row: "get_or_create_subscription uid w = (Inr sub, w\<lparr>view := db\<rparr>)" "unique_rows db"
      "sub \<in> set (subscriptions db)" "same_access S (durable w) db"
    and from_row: "subscription_of uid (durable w) = Some sub \<or> (subscription_of uid (durable w) = None \<and> sub = new_subscription uid)"
    using get_or_create_idle [of w uid S] i by metis
  have all: "durable w' = durable w \<and> db_up w' \<and> rivals w' = [] \<and> marks w' = [] \<and> same_access S (durable w) (view w')"
  proof (cases "on_sale S body")
    case False
    then have "w' = w" using start_checkout_not_sold [OF False, of PV sha uid email w] assms(2) by auto
    then show ?thesis using i same by simp
  next
    case True
    have "customer_only (durable w) db sub (w\<lparr>view := db\<rparr>)" using i by (simp add: customer_only_def)
    from start_checkout_kept [OF row(1) True this, of PV sha email] assms(2)
    have k: "customer_only (durable w) db sub w'" by simp
    from customer_only_access [OF k row(2,3), of S] row(4) have "same_access S (durable w) (view w')"
      by (simp add: same_access_def)
    with k show ?thesis by (simp add: customer_only_def)
  qed
  then show "durable w' = durable w" "db_up w'" "rivals w' = []" "marks w' = []" "same_access S (durable w) (view w')"
    by simp_all
  show "on_sale S body \<and> not_subscribed PV (remote w) (subscription_of uid (durable w))" if "res = Inr s" for s
  proof -
    have "on_sale S body" using start_checkout_not_sold [of S body PV sha uid email w] assms(2) that by auto
    moreover have "not_subscribed PV (remote w) (Some sub)"
      using start_checkout_asks [OF row(1)] assms(2) that by blast
    ultimately show ?thesis using from_row by (auto simp: not_subscribed_def)
  qed
qed

lemma same_access_refl [simp]: "same_access S db db"
  by (simp add: same_access_def)

lemma commit_durable:
  assumes "db_up w" "rivals w = []" "commit w = (res, w')"
  shows "durable w' = (if res = Inr () then view w else durable w)"
  using assms by (cases "unique_rows (view w)") auto

text \<open>What a request behind a token leaves in the database, where its handler is known.\<close>

lemma request_durable:
  assumes "request m w = (res, w')" "m w = (res, u)"
  shows "durable w' = durable u"
  using assms by (cases res) (auto simp: request_Inr request_Inl)

definition checkout_handler ::
  "settings \<Rightarrow> 'r provider \<Rightarrow> flag_client option \<Rightarrow> (string \<Rightarrow> string) \<Rightarrow> current_user \<Rightarrow> checkout_request \<Rightarrow>
   ('r, 'c, checkout_reply) service" where
  "checkout_handler S PV flags sha256 user body =
     and_then (is_enabled flags ''checkout-enabled'' (Some (cu_id user))) (\<lambda>on.
      if \<not> on then raise (BillingError 503 CHECKOUT_OFF) else
      and_then (start_checkout S PV sha256 (cu_id user) (cu_email user) body) (\<lambda>stripe_session.
      and_then commit (\<lambda>_.
      and_then (lift_result (bind_result (jitem ''url'' stripe_session) as_string)) (\<lambda>url.
      and_then (lift_result (bind_result (jitem ''id'' stripe_session) as_string)) (\<lambda>sid.
      ret \<lparr>co_url = url, co_session_id = sid\<rparr>)))))"

lemma checkout_unfold:
  "checkout S PV J flags sha256 a body = as_user S J a (\<lambda>user. request (checkout_handler S PV flags sha256 user body))"
  by (simp add: checkout_def checkout_handler_def)

lemma checkout_handler_run:
  assumes "idle w" "checkout_handler S PV flags sha256 user body w = (res, u)"
  shows "same_access S (durable w) (durable u) \<and>
    (\<forall>reply. res = Inr reply \<longrightarrow> checkout_on flags (cu_id user) \<and> on_sale S body \<and>
       not_subscribed PV (remote w) (subscription_of (cu_id user) (durable w)))"
proof -
  obtain m where flag: "is_enabled flags ''checkout-enabled'' (Some (cu_id user)) w =
      (Inr (checkout_on flags (cu_id user)), w\<lparr>metrics := m\<rparr>)"
    using checkout_flag by blast
  show ?thesis
  proof (cases "checkout_on flags (cu_id user)")
    case False
    then show ?thesis using assms(2) flag by (auto simp: checkout_handler_def and_then_def)
  next
    case True
    obtain r1 w1 where start: "start_checkout S PV sha256 (cu_id user) (cu_email user) body (w\<lparr>metrics := m\<rparr>) = (r1, w1)"
      by fastforce
    have "idle (w\<lparr>metrics := m\<rparr>)" using assms(1) by (simp add: idle_def)
    note s = start_checkout_run [OF this start]
    show ?thesis
    proof (cases r1)
      case (Inl e)
      then have "u = w1" "res = Inl e"
        using assms(2) flag True start by (simp_all add: checkout_handler_def and_then_def)
      then show ?thesis using s(1) by simp
    next
      case (Inr doc)
      obtain r2 w2 where com: "commit w1 = (r2, w2)" by fastforce
      have d: "durable w2 = durable w1 \<or> durable w2 = view w1"
        using commit_durable [OF s(2,3) com] by presburger
      have "u = w2"
        using assms(2) flag True start Inr com
        by (cases r2) (auto simp: checkout_handler_def and_then_def split: sum.splits)
      then have "same_access S (durable w) (durable u)" using d s(1,5) by auto
      then show ?thesis using s(6) [OF Inr] True by simp
    qed
  qed
qed

section \<open>What the provider is asked to sell\<close>

text \<open>
  A provider that is watched: it does what \<open>PV\<close> does, and keeps a log of the checkout sessions it was
  asked to create, created or not. Nothing in the service can see the log.
\<close>

definition unlogged :: "('r, 'a) call \<Rightarrow> ('r \<times> checkout_params list, 'a) call" where
  "unlogged f = (\<lambda>(r, asked). case f r of (res, r') \<Rightarrow> (res, (r', asked)))"

definition watched :: "'r provider \<Rightarrow> ('r \<times> checkout_params list) provider" where
  "watched PV =
     \<lparr>p_ensure_customer = (\<lambda>uid email old. unlogged (p_ensure_customer PV uid email old)),
      p_retrieve_customer = (\<lambda>cid. unlogged (p_retrieve_customer PV cid)),
      p_fetch_current_subscription = (\<lambda>cid. unlogged (p_fetch_current_subscription PV cid)),
      p_list_subscriptions_page = (\<lambda>after. unlogged (p_list_subscriptions_page PV after)),
      p_set_cancel_at_period_end = (\<lambda>sid flag. unlogged (p_set_cancel_at_period_end PV sid flag)),
      p_set_subscription_metadata = (\<lambda>sid m. unlogged (p_set_subscription_metadata PV sid m)),
      p_create_checkout_session = (\<lambda>cp (r, asked). case p_create_checkout_session PV cp r of
        (res, r') \<Rightarrow> (res, (r', asked @ [cp]))),
      p_create_portal_session = (\<lambda>cid url flow. unlogged (p_create_portal_session PV cid url flow)),
      p_retrieve_price = (\<lambda>pid. unlogged (p_retrieve_price PV pid)),
      p_retrieve_charge = (\<lambda>cid. unlogged (p_retrieve_charge PV cid)),
      p_construct_event = (\<lambda>payload sig. unlogged (p_construct_event PV payload sig))\<rparr>"

lemma call_unlogged:
  "call (unlogged f) w = (fst (f (fst (remote w))), w\<lparr>remote := (snd (f (fst (remote w))), snd (remote w))\<rparr>)"
  by (simp add: call_apply unlogged_def split: prod.split)

text \<open>
  A run asks for no session and raises, or asks for exactly one, which is as \<open>P\<close> says.
\<close>

definition asks_once ::
  "(checkout_params \<Rightarrow> bool) \<Rightarrow> ('r \<times> checkout_params list, 'c, 'a) service \<Rightarrow> ('r \<times> checkout_params list, 'c) world \<Rightarrow> bool" where
  "asks_once P m w \<longleftrightarrow> (\<exists>e w'. m w = (Inl e, w') \<and> snd (remote w') = snd (remote w)) \<or>
     (\<exists>cp. P cp \<and> snd (remote (snd (m w))) = snd (remote w) @ [cp])"

lemma asks_once_raise: "asks_once P (raise e) w"
  by (simp add: asks_once_def)

lemma asks_once_bind:
  assumes "m w = (r, w1)" "snd (remote w1) = snd (remote w)" "\<And>a. r = Inr a \<Longrightarrow> asks_once P (f a) w1"
  shows "asks_once P (and_then m f) w"
  using assms by (cases r) (simp_all add: asks_once_def and_then_def)

lemma asks_once_weaken: "asks_once P m w \<Longrightarrow> (\<And>cp. P cp \<Longrightarrow> Q cp) \<Longrightarrow> asks_once Q m w"
  by (auto simp: asks_once_def)

text \<open>The session a checkout asks for, but for its idempotency key.\<close>

definition session_for :: "settings \<Rightarrow> string \<Rightarrow> checkout_request \<Rightarrow> string \<Rightarrow> checkout_params \<Rightarrow> bool" where
  "session_for S uid body price cp \<longleftrightarrow> cp_price_id cp = price \<and> cp_user_id cp = uid \<and>
     cp_success_url cp = or_else (cr_success_url body) (checkout_success_url S) \<and>
     cp_cancel_url cp = or_else (cr_cancel_url body) (checkout_cancel_url S) \<and>
     cp_trial_period_days cp = trial_period_days S \<and> cp_promo_code cp = cr_promo_code body"

lemma save_flush_remote:
  "\<exists>r w1. only_if b (and_then (save sub) (\<lambda>_. flush)) w = (r, w1) \<and> remote w1 = remote w"
  by (simp add: save_def and_then_def flush_apply rival_lands_def split: list.split)

text \<open>The two halves of a checkout of a price on sale: is the customer subscribed, and the session.\<close>

definition check_provider :: "'r provider \<Rightarrow> subscription \<Rightarrow> ('r, 'c, unit) service" where
  "check_provider PV sub = (if truthy (stripe_customer_id sub)
     then and_then (call (p_fetch_current_subscription PV (the (stripe_customer_id sub)))) (\<lambda>answer.
       if (case answer of None \<Rightarrow> False | Some rem \<Rightarrow> rs_grants_access rem)
       then raise (BillingError 409 ''You already have a subscription; it can take a minute to appear here. Refresh this page, or use Manage billing to change plan.'')
       else ret ())
     else ret ())"

definition ask_session ::
  "settings \<Rightarrow> 'r provider \<Rightarrow> (string \<Rightarrow> string) \<Rightarrow> string \<Rightarrow> string option \<Rightarrow> checkout_request \<Rightarrow> subscription \<Rightarrow> ('r, 'c, json) service" where
  "ask_session S PV sha uid email body sub =
     and_then (call (p_ensure_customer PV uid email (stripe_customer_id sub))) (\<lambda>customer_id.
     and_then (only_if (stripe_customer_id sub \<noteq> Some customer_id)
       (and_then (save (sub\<lparr>stripe_customer_id := Some customer_id\<rparr>)) (\<lambda>_. flush))) (\<lambda>_.
     and_then clock (\<lambda>now.
     call (p_create_checkout_session PV
       \<lparr>cp_customer_id = customer_id,
        cp_price_id = the (price_id_for S (cr_tier body) (cr_interval body)),
        cp_user_id = uid,
        cp_success_url = or_else (cr_success_url body) (checkout_success_url S),
        cp_cancel_url = or_else (cr_cancel_url body) (checkout_cancel_url S),
        cp_idempotency_key = checkout_idempotency_key sha now
          \<lparr>ck_user_id = uid, ck_price_id = the (price_id_for S (cr_tier body) (cr_interval body)),
           ck_success_url = or_else (cr_success_url body) (checkout_success_url S),
           ck_cancel_url = or_else (cr_cancel_url body) (checkout_cancel_url S), ck_promo_code = cr_promo_code body,
           ck_trial_period_days = trial_period_days S, ck_automatic_tax = automatic_tax S\<rparr>,
        cp_trial_period_days = trial_period_days S,
        cp_promo_code = cr_promo_code body\<rparr>))))"

lemma start_checkout_sold:
  assumes "on_sale S body"
  shows "start_checkout S PV sha uid email body = and_then (get_or_create_subscription uid) (\<lambda>sub.
    if grants_access sub
    then raise (BillingError 409 ''already subscribed -- use the billing portal to change plan'')
    else and_then (check_provider PV sub) (\<lambda>_. ask_session S PV sha uid email body sub))"
proof -
  have sold: "td_purchasable (limits_for (cr_tier body)) = True"
    "truthy (price_id_for S (cr_tier body) (cr_interval body)) = True"
    using assms by (auto simp: on_sale_def limits_for_rows)
  show ?thesis
    unfolding start_checkout_def check_provider_def ask_session_def Let_def sold not_True_eq_False if_False by (rule refl)
qed

lemma check_provider_watched:
  fixes w :: "('r \<times> checkout_params list, 'c) world"
  assumes "check_provider (watched PV) sub w = (r, w1)"
  shows "snd (remote w1) = snd (remote w)" "r = Inr () \<Longrightarrow> \<not> grants_access sub \<Longrightarrow> not_subscribed PV (fst (remote w)) (Some sub)"
proof -
  have fetch: "p_fetch_current_subscription (watched PV) cid = unlogged (p_fetch_current_subscription PV cid)" for cid
    by (simp add: watched_def)
  show "snd (remote w1) = snd (remote w)"
    using assms by (auto simp: check_provider_def fetch and_then_def call_unlogged split: sum.splits if_splits option.splits)
  show "not_subscribed PV (fst (remote w)) (Some sub)" if "r = Inr ()" "\<not> grants_access sub"
    using assms that
    by (cases "p_fetch_current_subscription PV (the (stripe_customer_id sub)) (fst (remote w))")
      (auto simp: check_provider_def not_subscribed_def fetch and_then_returns call_unlogged split: if_splits option.splits)
qed

lemma ask_session_once:
  fixes w :: "('r \<times> checkout_params list, 'c) world"
  shows "asks_once (\<lambda>cp. session_for S uid body (the (price_id_for S (cr_tier body) (cr_interval body))) cp \<and>
      (\<exists>r r'. p_ensure_customer PV uid email (stripe_customer_id sub) r = (Inr (cp_customer_id cp), r')))
    (ask_session S (watched PV) sha uid email body sub) w"
proof -
  obtain r w1 where ensure: "call (p_ensure_customer (watched PV) uid email (stripe_customer_id sub)) w = (r, w1)" by fastforce
  have e: "snd (remote w1) = snd (remote w)"
    "r = Inr c \<Longrightarrow> \<exists>r r'. p_ensure_customer PV uid email (stripe_customer_id sub) r = (Inr c, r')" for c
    using ensure by (auto simp: watched_def call_unlogged) (metis prod.collapse)
  show ?thesis
    unfolding ask_session_def
  proof (rule asks_once_bind, rule ensure, rule e(1))
    fix c assume "r = Inr c"
    note c = e(2) [OF this]
    obtain r2 w2 where saved: "only_if (stripe_customer_id sub \<noteq> Some c)
        (and_then (save (sub\<lparr>stripe_customer_id := Some c\<rparr>)) (\<lambda>_. flush)) w1 = (r2, w2)" "remote w2 = remote w1"
      using save_flush_remote by blast
    show "asks_once (\<lambda>cp. session_for S uid body (the (price_id_for S (cr_tier body) (cr_interval body))) cp \<and>
        (\<exists>r r'. p_ensure_customer PV uid email (stripe_customer_id sub) r = (Inr (cp_customer_id cp), r')))
      (and_then (only_if (stripe_customer_id sub \<noteq> Some c)
         (and_then (save (sub\<lparr>stripe_customer_id := Some c\<rparr>)) (\<lambda>_. flush))) (\<lambda>_.
       and_then clock (\<lambda>now. call (p_create_checkout_session (watched PV)
         \<lparr>cp_customer_id = c, cp_price_id = the (price_id_for S (cr_tier body) (cr_interval body)), cp_user_id = uid,
          cp_success_url = or_else (cr_success_url body) (checkout_success_url S),
          cp_cancel_url = or_else (cr_cancel_url body) (checkout_cancel_url S),
          cp_idempotency_key = checkout_idempotency_key sha now
            \<lparr>ck_user_id = uid, ck_price_id = the (price_id_for S (cr_tier body) (cr_interval body)),
             ck_success_url = or_else (cr_success_url body) (checkout_success_url S),
             ck_cancel_url = or_else (cr_cancel_url body) (checkout_cancel_url S), ck_promo_code = cr_promo_code body,
             ck_trial_period_days = trial_period_days S, ck_automatic_tax = automatic_tax S\<rparr>,
          cp_trial_period_days = trial_period_days S, cp_promo_code = cr_promo_code body\<rparr>)))) w1"
    proof (rule asks_once_bind, rule saved(1))
      show "snd (remote w2) = snd (remote w1)" using saved(2) by simp
    qed (use c in \<open>auto simp: asks_once_def and_then_def watched_def call_apply session_for_def split: prod.split\<close>)
  qed
qed

lemma start_checkout_session:
  fixes w :: "('r \<times> checkout_params list, 'c) world"
  assumes "idle w"
  shows "asks_once (\<lambda>cp. on_sale S body \<and> not_subscribed PV (fst (remote w)) (subscription_of uid (durable w)) \<and>
      session_for S uid body (the (price_id_for S (cr_tier body) (cr_interval body))) cp \<and>
      (\<exists>old r r'. p_ensure_customer PV uid email old r = (Inr (cp_customer_id cp), r')))
    (start_checkout S (watched PV) sha uid email body) w"
proof (cases "on_sale S body")
  case False
  then show ?thesis
    using start_checkout_not_sold [OF False, of "watched PV" sha uid email w] by (auto simp: asks_once_def)
next
  case True
  have i: "db_up w" "rivals w = []" "view w = durable w" "unique_rows (durable w)"
    using assms by (simp_all add: idle_def)
  obtain sub db where row: "get_or_create_subscription uid w = (Inr sub, w\<lparr>view := db\<rparr>)"
    and from_row: "subscription_of uid (durable w) = Some sub \<or> (subscription_of uid (durable w) = None \<and> sub = new_subscription uid)"
    using get_or_create_idle [of w uid S] i by metis
  obtain r w1 where check: "check_provider (watched PV) sub (w\<lparr>view := db\<rparr>) = (r, w1)" by fastforce
  note checked = check_provider_watched [OF check]
  show ?thesis
    unfolding start_checkout_sold [OF True]
  proof (rule asks_once_bind, rule row, simp, split if_split,
      intro conjI impI asks_once_raise, rule asks_once_bind)
    fix s assume "Inr sub = (Inr s :: exc + subscription)" and no: "\<not> grants_access s"
    then have s: "s = sub" by simp
    show "check_provider (watched PV) s (w\<lparr>view := db\<rparr>) = (r, w1)" using check s by simp
    show "snd (remote w1) = snd (remote (w\<lparr>view := db\<rparr>))" using checked(1) .
    fix a assume "r = Inr a"
    then have "not_subscribed PV (fst (remote w)) (subscription_of uid (durable w))"
      using checked(2) no s from_row by (auto simp: not_subscribed_def)
    then show "asks_once (\<lambda>cp. on_sale S body \<and> not_subscribed PV (fst (remote w)) (subscription_of uid (durable w)) \<and>
        session_for S uid body (the (price_id_for S (cr_tier body) (cr_interval body))) cp \<and>
        (\<exists>old r r'. p_ensure_customer PV uid email old r = (Inr (cp_customer_id cp), r')))
      (ask_session S (watched PV) sha uid email body s) w1"
      by (intro asks_once_weaken [OF ask_session_once]) (use True in blast)
  qed
qed

lemma commit_remote: "remote (snd (commit w)) = remote w"
  by (simp add: commit_def and_then_def flush_apply rival_lands_def split: list.split)

lemma checkout_handler_session:
  fixes w :: "('r \<times> checkout_params list, 'c) world"
  assumes "idle w" "checkout_handler S (watched PV) flags sha user body w = (res, u)" "snd (remote w) = []"
  shows "(snd (remote u) \<noteq> [] \<longrightarrow> (\<exists>cp. snd (remote u) = [cp] \<and> checkout_on flags (cu_id user) \<and> on_sale S body \<and>
      not_subscribed PV (fst (remote w)) (subscription_of (cu_id user) (durable w)) \<and>
      session_for S (cu_id user) body (the (price_id_for S (cr_tier body) (cr_interval body))) cp \<and>
      (\<exists>old r r'. p_ensure_customer PV (cu_id user) (cu_email user) old r = (Inr (cp_customer_id cp), r')))) \<and>
    (\<forall>reply. res = Inr reply \<longrightarrow> snd (remote u) \<noteq> [])"
proof -
  obtain m where flag: "is_enabled flags ''checkout-enabled'' (Some (cu_id user)) w =
      (Inr (checkout_on flags (cu_id user)), w\<lparr>metrics := m\<rparr>)"
    using checkout_flag by blast
  show ?thesis
  proof (cases "checkout_on flags (cu_id user)")
    case False
    then show ?thesis using assms(2,3) flag by (auto simp: checkout_handler_def and_then_def)
  next
    case True
    obtain r1 w1 where start: "start_checkout S (watched PV) sha (cu_id user) (cu_email user) body (w\<lparr>metrics := m\<rparr>) = (r1, w1)"
      by fastforce
    have "idle (w\<lparr>metrics := m\<rparr>)" using assms(1) by (simp add: idle_def)
    from start_checkout_session [OF this, of S body PV "cu_id user" "cu_email user" sha] start assms(3)
    have asked: "(\<exists>e. r1 = Inl e) \<and> snd (remote w1) = [] \<or> (\<exists>cp. snd (remote w1) = [cp] \<and> on_sale S body \<and>
        not_subscribed PV (fst (remote w)) (subscription_of (cu_id user) (durable w)) \<and>
        session_for S (cu_id user) body (the (price_id_for S (cr_tier body) (cr_interval body))) cp \<and>
        (\<exists>old r r'. p_ensure_customer PV (cu_id user) (cu_email user) old r = (Inr (cp_customer_id cp), r')))"
      by (auto simp: asks_once_def)
    have later: "remote u = remote w1"
      using assms(2) flag True start commit_remote [of w1]
      by (cases r1; cases "commit w1") (auto simp: checkout_handler_def and_then_def split: sum.splits)
    have "\<exists>s. r1 = Inr s" if "res = Inr reply" for reply
      using assms(2) flag True start that by (auto simp: checkout_handler_def and_then_returns)
    then show ?thesis using asked True unfolding later by fastforce
  qed
qed

text \<open>
  C5: Checkout sells once and grants nothing. Whatever a call ends in, a failed commit included, the
  provider has been asked for at most one checkout session; and it has been asked for one only
  where the caller's token is good, the kill switch is on, and neither the caller's row nor the
  provider, asked at that moment, says that they already subscribe. That session is for the price
  configured for the tier and interval asked for, one of a tier on sale, for the caller's own id
  and the customer the provider gave for it, with the caller's or the configured URLs, the
  configured trial and the caller's promotion code. A reply means that it was asked for; and in any
  case every user's tier at every moment is what it was: paying is for the webhook to hear of.
\<close>

theorem checkout_sells_once_and_grants_nothing:
  fixes w :: "('r \<times> checkout_params list, 'c) world"
  assumes "idle w" "snd (remote w) = []" "checkout S (watched PV) J flags sha256 a body w = (res, w')"
  shows "same_access S (durable w) (durable w') \<and>
    (snd (remote w') \<noteq> [] \<longrightarrow> (\<exists>user price cp. snd (remote w') = [cp] \<and>
       get_current_user S J a = Inr user \<and> checkout_on flags (cu_id user) \<and>
       price_id_for S (cr_tier body) (cr_interval body) = Some price \<and>
       map_of (price_catalog S) price = Some (cr_tier body, cr_interval body) \<and> cr_tier body \<in> {PLUS, PRO} \<and>
       not_subscribed PV (fst (remote w)) (subscription_of (cu_id user) (durable w)) \<and>
       session_for S (cu_id user) body price cp \<and>
       (\<exists>old r r'. p_ensure_customer PV (cu_id user) (cu_email user) old r = (Inr (cp_customer_id cp), r')))) \<and>
    (\<forall>reply. res = Inr reply \<longrightarrow> snd (remote w') \<noteq> [])"
proof (cases "get_current_user S J a")
  case (Inl e)
  then show ?thesis using assms(2,3) by (auto simp: checkout_unfold as_user_out)
next
  case (Inr user)
  obtain u where u: "checkout_handler S (watched PV) flags sha256 user body w = (res, u)"
    using assms(3) by (cases "checkout_handler S (watched PV) flags sha256 user body w")
      (auto simp: checkout_unfold as_user_in [OF Inr] request_def try_except_def and_then_def split: sum.splits)
  have req: "request (checkout_handler S (watched PV) flags sha256 user body) w = (res, w')"
    using assms(3) by (simp add: checkout_unfold as_user_in [OF Inr])
  from request_durable [OF this u] have d: "durable w' = durable u" .
  have r: "remote w' = remote u"
    using req u by (cases res) (auto simp: request_Inr request_Inl)
  have "\<exists>price. price_id_for S (cr_tier body) (cr_interval body) = Some price \<and>
      map_of (price_catalog S) price = Some (cr_tier body, cr_interval body) \<and> cr_tier body \<in> {PLUS, PRO}"
    if "on_sale S body"
    using that find_price_in_catalog by (auto simp: on_sale_def truthy_iff)
  then show ?thesis
    using checkout_handler_run [OF assms(1) u] checkout_handler_session [OF assms(1) u assms(2)] Inr
    unfolding d r by fastforce
qed

text \<open>A library that accepts one token, and the request of the examples.\<close>

definition ex_jwt :: "nat jwt_library" where
  "ex_jwt = \<lparr>signing_key = (\<lambda>url token. Inr 0),
     jwt_decode = (\<lambda>token key algs aud iss req. if token = ''good'' then Inr (JObj [(''sub'', JStr ''alice'')]) else Inl OtherJWTError)\<rparr>"

definition ex_online :: settings where
  "ex_online = ex_settings\<lparr>supabase_url := ''https://project.supabase.co''\<rparr>"

definition ex_buy :: checkout_request where
  "ex_buy = \<lparr>cr_tier = PLUS, cr_interval = MONTHLY, cr_success_url = None, cr_cancel_url = None, cr_promo_code = None\<rparr>"

text \<open>The examples' provider, watched; nothing asked yet.\<close>

definition ex_counter :: "(ex_state \<times> checkout_params list, document memory) world" where
  "ex_counter = \<lparr>now = 1000000, remote = (None, []), cache = (\<lambda>_. None), durable = ex_db, view = ex_db, marks = [],
     db_up = True, locked = [], rivals = [], fresh_ids = (\<lambda>n. ''id_'' @ str_nat n), next_id = 0, metrics = []\<rparr>"

theorem checkout_sells_once_and_grants_nothing_witness:
  "\<exists>w' cp. checkout ex_online (watched ex_provider) ex_jwt None (\<lambda>t. t) (Some ''Bearer good'') ex_buy ex_counter =
     (Inr \<lparr>co_url = ''https://pay'', co_session_id = ''cs_1''\<rparr>, w') \<and> snd (remote w') = [cp] \<and>
     cp_price_id cp = ''price_plus'' \<and> cp_user_id cp = ''alice'' \<and> same_access ex_online ex_db (durable w')"
proof -
  let ?run = "checkout ex_online (watched ex_provider) ex_jwt None (\<lambda>t. t) (Some ''Bearer good'') ex_buy ex_counter"
  have "case fst ?run of Inr reply \<Rightarrow> co_url reply = ''https://pay'' \<and> co_session_id reply = ''cs_1'' | Inl _ \<Rightarrow> False"
    by code_simp
  then obtain reply w' where run: "?run = (Inr reply, w')" "reply = \<lparr>co_url = ''https://pay'', co_session_id = ''cs_1''\<rparr>"
    by (cases ?run) (auto split: sum.splits)
  have idle: "idle ex_counter" "snd (remote ex_counter) = []" "durable ex_counter = ex_db"
    by (simp_all add: idle_def ex_counter_def)
  have price: "price_id_for ex_online (cr_tier ex_buy) (cr_interval ex_buy) = Some ''price_plus''"
    "get_current_user ex_online ex_jwt (Some ''Bearer good'') = Inr \<lparr>cu_id = ''alice'', cu_email = None\<rparr>"
    by code_simp+
  from checkout_sells_once_and_grants_nothing [OF idle(1,2) run(1)] price idle(3)
  show ?thesis using run by (auto simp: session_for_def)
qed

text \<open>
  The kill switch works and never works by accident. Switched off for a user, checkout answers
  503 and the provider is not asked anything, nothing is written, no mark is left; and a flag
  service that is not configured, or fails to evaluate, leaves checkout on.
\<close>

theorem kill_switch_stops_checkout:
  assumes "get_current_user S J a = Inr user" "idle w"
  shows "(\<not> checkout_on flags (cu_id user) \<longrightarrow>
      (\<exists>m. checkout S PV J flags sha256 a body w = (Inl (HTTPException 503 CHECKOUT_OFF), w\<lparr>metrics := m\<rparr>))) \<and>
    (flags = None \<or> (\<exists>evaluate e. flags = Some evaluate \<and>
       evaluate ''checkout-enabled'' (JBool True) (or_else (Some (cu_id user)) ''anonymous'') = Inl e) \<longrightarrow>
     checkout_on flags (cu_id user))"
proof -
  obtain m where flag: "is_enabled flags ''checkout-enabled'' (Some (cu_id user)) w =
      (Inr (checkout_on flags (cu_id user)), w\<lparr>metrics := m\<rparr>)"
    using checkout_flag by blast
  have "checkout_handler S PV flags sha256 user body w = (Inl (HTTPException 503 CHECKOUT_OFF), w\<lparr>metrics := m\<rparr>)"
    if "\<not> checkout_on flags (cu_id user)"
    using that flag by (simp add: checkout_handler_def and_then_def BillingError_def)
  moreover have "w\<lparr>metrics := m, view := durable w, marks := []\<rparr> = w\<lparr>metrics := m\<rparr>"
    using assms(2) by (cases w) (simp add: idle_def)
  ultimately show ?thesis
    using request_Inl [of "checkout_handler S PV flags sha256 user body" w] assms(1)
    by (auto simp: checkout_unfold as_user_in checkout_on_def)
qed

theorem kill_switch_stops_checkout_witness:
  "\<exists>m. checkout ex_online ex_provider ex_jwt (Some (\<lambda>name d uid. Inr (JBool False))) (\<lambda>t. t) (Some ''Bearer good'') ex_buy (ex_world ex_db None) =
     (Inl (HTTPException 503 CHECKOUT_OFF), (ex_world ex_db None)\<lparr>metrics := m\<rparr>)"
proof -
  have u: "get_current_user ex_online ex_jwt (Some ''Bearer good'') = Inr \<lparr>cu_id = ''alice'', cu_email = None\<rparr>"
    by code_simp
  have idle: "idle (ex_world ex_db None)" by (simp add: idle_def)
  show ?thesis
    using kill_switch_stops_checkout [OF u idle, of "Some (\<lambda>name d uid. Inr (JBool False))" ex_provider "\<lambda>t. t" ex_buy]
    by (simp add: checkout_on_def)
qed

section \<open>The pricing page\<close>

text \<open>
  The pricing page needs its cache. The read of the cached list is not guarded, so with a cache
  that raises the page fails, whatever Stripe and the database would answer - unlike every
  other reader of the cache.
\<close>

theorem plans_fail_without_cache:
  "plans S V PV dead_cache w = (Inl CacheError, w) \<and> handle_exception CacheError =
     \<lparr>status_code = 500, content = [(''detail'', PStr ''Internal Server Error'')], retry_after_header = None\<rparr>"
  by (simp add: plans_def dead_cache_def get_json_def and_then_def cached_apply)

text \<open>
  What is asked of a price from Stripe: it is an object whose amount is whole or null (as of a
  price in fractions of a cent) and whose currency is a code, or the call fails.
\<close>

fun documented_price :: "json \<Rightarrow> bool" where
  "documented_price (JObj kvs) \<longleftrightarrow>
     whole_or_null (jlookup ''unit_amount'' kvs) \<and> text_or_null (jlookup ''currency'' kvs)"
| "documented_price _ \<longleftrightarrow> False"

definition prices_are_documented :: "'r provider \<Rightarrow> bool" where
  "prices_are_documented PV \<longleftrightarrow>
     (\<forall>pid r. case fst (p_retrieve_price PV pid r) of Inr j \<Rightarrow> documented_price j | Inl _ \<Rightarrow> True)"

lemma price_amount_returns:
  assumes "prices_are_documented PV"
  shows "\<exists>amount currency r. price_amount PV pid w = (Inr (amount, currency), w\<lparr>remote := r\<rparr>) \<and>
    whole_or_null amount \<and> text_or_null currency"
proof -
  obtain res r where run: "p_retrieve_price PV pid (remote w) = (res, r)" by fastforce
  have obj: "case res of Inr j \<Rightarrow> documented_price j | Inl _ \<Rightarrow> True"
    using assms run unfolding prices_are_documented_def by (metis fst_conv)
  show ?thesis
  proof (cases res)
    case (Inl e)
    then show ?thesis using run by (auto simp: price_amount_def and_then_def try_except_def call_apply)
  next
    case (Inr j)
    then obtain kvs where "j = JObj kvs" using obj by (auto elim: documented_price.elims)
    then show ?thesis using run Inr obj by (auto simp: price_amount_def and_then_def try_except_def call_apply)
  qed
qed

lemma plan_prices_returns:
  assumes "reads_own_types V" "prices_are_documented PV"
  shows "\<exists>ps r. plan_prices S V PV t is w = (Inr ps, w\<lparr>remote := r\<rparr>) \<and>
    (\<forall>(i, p) \<in> set ps. price_id_for S t i = Some (pp_price_id p))"
proof (induction "is" arbitrary: w)
  case Nil
  show ?case by (intro exI [of _ "[]"] exI [of _ "remote w"]) simp
next
  case (Cons i "is")
  show ?case
  proof (cases "truthy (price_id_for S t i)")
    case False
    then have "plan_prices S V PV t (i # is) w = plan_prices S V PV t is w"
      by (cases "price_id_for S t i") auto
    then show ?thesis using Cons.IH [of w] by simp
  next
    case True
    then obtain pid where pid: "price_id_for S t i = Some pid" "pid \<noteq> []"
      by (cases "price_id_for S t i") auto
    obtain am cu r where "price_amount PV pid w = (Inr (am, cu), w\<lparr>remote := r\<rparr>)"
      and price: "PlanPrice V pid am cu = Inr \<lparr>pp_price_id = pid, pp_unit_amount = whole_of am, pp_currency = text_of cu\<rparr>"
      using price_amount_returns [OF assms(2), of pid w] typed_price_is_read [OF assms(1)] by blast
    moreover obtain ps r' where "plan_prices S V PV t is (w\<lparr>remote := r\<rparr>) = (Inr ps, w\<lparr>remote := r, remote := r'\<rparr>)"
      "\<forall>(i, p) \<in> set ps. price_id_for S t i = Some (pp_price_id p)"
      using Cons.IH [of "w\<lparr>remote := r\<rparr>"] by auto
    ultimately show ?thesis using pid price by (auto simp: and_then_def)
  qed
qed

definition priced :: "settings \<Rightarrow> plan_response \<Rightarrow> bool" where
  "priced S p \<longleftrightarrow> (\<forall>(i, pp) \<in> set (pr_prices p). price_id_for S (pr_tier p) i = Some (pp_price_id pp))"

lemma plan_of_returns:
  assumes "reads_own_types V" "prices_are_documented PV"
  shows "\<exists>p r. plan_of S V PV t w = (Inr p, w\<lparr>remote := r\<rparr>) \<and> pr_tier p = t \<and> priced S p"
proof -
  obtain ps r where "plan_prices S V PV t all_intervals w = (Inr ps, w\<lparr>remote := r\<rparr>)"
    "\<forall>(i, p) \<in> set ps. price_id_for S t i = Some (pp_price_id p)"
    using plan_prices_returns [OF assms] by blast
  then show ?thesis
    by (auto simp: plan_of_def Let_def and_then_def catalog_features_ok priced_def)
qed

lemma plan_list_returns:
  assumes "reads_own_types V" "prices_are_documented PV"
  shows "\<exists>ps r. map_prog (plan_of S V PV) tiers w = (Inr ps, w\<lparr>remote := r\<rparr>) \<and> map pr_tier ps = tiers \<and> (\<forall>p \<in> set ps. priced S p)"
proof (induction tiers arbitrary: w)
  case Nil
  show ?case by (intro exI [of _ "[]"] exI [of _ "remote w"]) simp
next
  case (Cons t tiers)
  obtain p r where "plan_of S V PV t w = (Inr p, w\<lparr>remote := r\<rparr>)" "pr_tier p = t" "priced S p"
    using plan_of_returns [OF assms] by blast
  moreover obtain ps r' where "map_prog (plan_of S V PV) tiers (w\<lparr>remote := r\<rparr>) = (Inr ps, w\<lparr>remote := r, remote := r'\<rparr>)"
    "map pr_tier ps = tiers" "\<forall>p \<in> set ps. priced S p"
    using Cons.IH [of "w\<lparr>remote := r\<rparr>"] by auto
  ultimately show ?case by (auto simp: and_then_def)
qed

text \<open>
  With a cache that answers, the pricing page always renders: every tier once, in order of rank,
  each price shown being the one checkout would charge for that plan - also while Stripe fails
  on every call, when the amounts are null. No row is read or written.
\<close>

theorem pricing_page_renders_without_stripe:
  assumes "reads_own_types V" "prices_are_documented PV" "get_json B PLANS_CACHE_KEY (now w) (cache w) = (Inr None, c)"
    and "\<And>c doc. fst (set_json B PLANS_CACHE_KEY doc PLANS_CACHE_TTL (now w) c) = Inr ()"
  shows "\<exists>out r c'. plans S V PV B w = (Inr out, w\<lparr>remote := r, cache := c'\<rparr>) \<and>
    map pr_tier out = [FREE, PLUS, PRO, ENTERPRISE] \<and> (\<forall>p \<in> set out. priced S p)"
proof -
  obtain out r where out: "map_prog (plan_of S V PV) tiers_by_rank (w\<lparr>cache := c\<rparr>) = (Inr out, w\<lparr>cache := c, remote := r\<rparr>)"
    "map pr_tier out = tiers_by_rank" "\<forall>p \<in> set out. priced S p"
    using plan_list_returns [OF assms(1,2), of S tiers_by_rank "w\<lparr>cache := c\<rparr>"] by auto
  obtain c' where "set_json B PLANS_CACHE_KEY (Doc_plans out) PLANS_CACHE_TTL (now w) c = (Inr (), c')"
    using assms(4) [of "Doc_plans out" c] by (metis prod.collapse)
  then have "plans S V PV B w = (Inr out, w\<lparr>cache := c, remote := r, cache := c'\<rparr>)"
    using out(1) by (simp add: plans_def and_then_def cached_apply assms(3))
  moreover have "w\<lparr>cache := c, remote := r, cache := c'\<rparr> = w\<lparr>remote := r, cache := c'\<rparr>" by simp
  ultimately show ?thesis using out(2,3) by (metis tiers_by_rank_eq)
qed

theorem pricing_page_renders_without_stripe_witness:
  "\<exists>out w'. plans ex_settings strict_pydantic (ex_provider\<lparr>p_retrieve_price := (\<lambda>pid. raise (StripeError APIConnectionError ''down''))\<rparr>)
     InMemoryBackend (ex_world ex_db None) = (Inr out, w') \<and> map pr_tier out = [FREE, PLUS, PRO, ENTERPRISE]"
proof -
  let ?PV = "ex_provider\<lparr>p_retrieve_price := (\<lambda>pid. raise (StripeError APIConnectionError ''down''))\<rparr>" and ?w = "ex_world ex_db None"
  have objects: "prices_are_documented ?PV" by (simp add: prices_are_documented_def)
  have miss: "get_json InMemoryBackend PLANS_CACHE_KEY (now ?w) (cache ?w) = (Inr None, \<lambda>_. None)"
    by (simp add: get_json_def InMemoryBackend_def mem_get_def mem_live_def and_then_def)
  have "fst (set_json InMemoryBackend PLANS_CACHE_KEY doc PLANS_CACHE_TTL (now ?w) c) = Inr ()" for c :: "document memory" and doc
    by (simp add: set_json_def InMemoryBackend_def mem_set_def)
  from pricing_page_renders_without_stripe [OF strict_reads_own_types objects miss this, of ex_settings]
  show ?thesis by (elim exE conjE, intro exI conjI)
qed

section \<open>Leaving\<close>

lemma get_subscription_found:
  assumes "idle w" "sub \<in> set (subscriptions (durable w))" "user_id sub = uid"
  shows "get_subscription uid w = (Inr (Some sub), w)"
proof -
  have "filter (\<lambda>r. user_id r = uid) (subscriptions (view w)) = [sub]"
    using assms filter_one [of user_id "subscriptions (durable w)" sub]
    by (simp add: idle_def unique_rows_def unique_subscriptions_def)
  then show ?thesis using assms(1) by (simp add: get_subscription_def and_then_def idle_def)
qed

lemma summary_found:
  assumes "Tier_of (tier_col sub) = Inr t" "discount_field V (discount sub) = Inr d"
  shows "summary V sub = Inr \<lparr>su_tier = t, su_row = sub, su_discount = d\<rparr>"
  using assms by (simp add: summary_def)

lemma summary_mirrored:
  assumes "discount_field V (discount (mirrored S t ans sub)) = Inr d"
  shows "\<exists>su. summary V (mirrored S t ans sub) = Inr su \<and> su_row su = mirrored S t ans sub \<and> su_discount su = d"
  by (simp add: summary_def assms) (simp add: mirrored_def)

text \<open>
  Cancelling ends the renewal, not the access. For a subscriber whose subscription is running,
  Stripe is told to end it with the period, the row is then what Stripe says - marked as
  cancelling, still granting access while Stripe's subscription does - and is committed with
  an audit row that names the customer as the cause.
\<close>

theorem cancel_ends_renewal_not_access:
  assumes "get_current_user S J a = Inr user" "idle w" "sub \<in> set (subscriptions (durable w))"
    and "user_id sub = cu_id user" "stripe_subscription_id sub = Some sid" "sid \<noteq> []"
    and "stripe_customer_id sub = Some cid" "cid \<notin> set (locked w)" "grants_access sub" "\<not> cancel_at_period_end sub"
    and "p_set_cancel_at_period_end PV sid True (remote w) = (Inr (), r1)"
    and "p_fetch_current_subscription PV cid r1 = (Inr (Some rem), r2)"
    and "rs_cancel_at_period_end rem" "rs_grants_access rem"
    and "unique_rows (synced_db S (now w) None ''customer.cancel_at_period_end'' sub (Some rem) (durable w))"
    and "discount_field V (discount (mirrored S (now w) (Some rem) sub)) = Inr d"
  shows "\<exists>su w'. cancel S V PV B J a w = (Inr su, w') \<and> su_row su = mirrored S (now w) (Some rem) sub \<and>
    cancel_at_period_end (su_row su) \<and> grants_access (su_row su) \<and> remote w' = r2 \<and>
    durable w' = synced_db S (now w) None ''customer.cancel_at_period_end'' sub (Some rem) (durable w)"
proof -
  let ?reason = "''customer.cancel_at_period_end''" and ?sub = "mirrored S (now w) (Some rem) sub"
  let ?db = "synced_db S (now w) None ?reason sub (Some rem) (durable w)"
  let ?w2 = "sync_world S None ?reason sub (Some rem) (w\<lparr>remote := r2\<rparr>)"
  have i: "db_up w" "rivals w = []" "view w = durable w" "unique_rows (durable w)"
    using assms(2) by (simp_all add: idle_def)
  have "ready cid sub (w\<lparr>remote := r1\<rparr>)"
    using i assms(3,7,8) by (simp add: ready_def)
  moreover have "p_fetch_current_subscription PV cid (remote (w\<lparr>remote := r1\<rparr>)) = (Inr (Some rem), r2)"
    using assms(12) by simp
  moreover have "unique_rows (synced_db S (now (w\<lparr>remote := r1\<rparr>)) None ?reason sub (Some rem) (view (w\<lparr>remote := r1\<rparr>)))"
    using assms(15) i by simp
  ultimately have sync: "sync_subscription_from_stripe S PV cid None ?reason (w\<lparr>remote := r1\<rparr>) = (Inr (Some ?sub), ?w2)"
    using sync_known_spec [of cid sub "w\<lparr>remote := r1\<rparr>" PV "Some rem" r2 S None ?reason] by simp
  have view2: "db_up ?w2" "rivals ?w2 = []" "view ?w2 = ?db" "remote ?w2 = r2"
    using i by (simp_all add: sync_world_def Let_def)
  obtain c m where com: "commit_and_invalidate B ?w2 = (Inr (), ?w2\<lparr>durable := ?db, marks := [], cache := c, metrics := m\<rparr>)"
    using commit_and_invalidate_apply [of ?w2 B] view2 assms(15) by auto
  have sched: "schedule_cancellation S PV (cu_id user) w = (Inr ?sub, ?w2)"
    using assms(5,6,7,9,10,11) sync
    by (simp add: schedule_cancellation_def and_then_def get_subscription_found [OF assms(2-4)] set_and_sync_def
        call_apply customer_column_def)
  obtain su where su: "summary V ?sub = Inr su" "su_row su = ?sub" using summary_mirrored [OF assms(16)] by blast
  have run: "cancel S V PV B J a w = (Inr su, ?w2\<lparr>durable := ?db, marks := [], cache := c, metrics := m\<rparr>)"
    unfolding cancel_def as_user_in [OF assms(1)]
    by (rule request_Inr) (simp add: and_then_def sched com su(1))
  have still: "cancel_at_period_end ?sub" "grants_access ?sub"
  proof -
    have st: "rs_status rem \<noteq> S_FREE" using assms(14) by (auto simp: rs_grants_access_def)
    then show "cancel_at_period_end ?sub"
      using assms(13) by (simp add: mirrored_def write_state_def project_def split: prod.split)
    have "status_col ?sub = status_value (rs_status rem)" by (simp add: mirrored_def)
    then show "grants_access ?sub" using assms(14) by (simp add: rs_grants_access_def)
  qed
  show ?thesis by (rule exI, rule exI, rule conjI, rule run) (use su(2) view2(4) still in simp)
qed

definition ex_cancelled :: remote_subscription where
  "ex_cancelled = ex_remote\<lparr>rs_cancel_at_period_end := True\<rparr>"

theorem cancel_ends_renewal_not_access_witness:
  "\<exists>su w'. cancel ex_online strict_pydantic ex_provider InMemoryBackend ex_jwt (Some ''Bearer good'')
     (ex_world (empty_db\<lparr>subscriptions := [ex_subscribed]\<rparr>) (Some ex_remote)) = (Inr su, w') \<and>
     cancel_at_period_end (su_row su) \<and> grants_access (su_row su)"
proof -
  let ?w = "ex_world (empty_db\<lparr>subscriptions := [ex_subscribed]\<rparr>) (Some ex_remote)"
  have u: "get_current_user ex_online ex_jwt (Some ''Bearer good'') = Inr \<lparr>cu_id = ''alice'', cu_email = None\<rparr>"
    by code_simp
  have idle: "idle ?w" by (simp add: idle_def unique_one)
  have f: "user_id ex_subscribed = ''alice''" "stripe_subscription_id ex_subscribed = Some ''sub_1''"
    "stripe_customer_id ex_subscribed = Some ''cus_1''" "grants_access ex_subscribed" "\<not> cancel_at_period_end ex_subscribed"
    "rs_cancel_at_period_end ex_cancelled" "rs_grants_access ex_cancelled"
    by code_simp+
  have told: "p_set_cancel_at_period_end ex_provider ''sub_1'' True (remote ?w) = (Inr (), Some ex_cancelled)"
    by (simp add: ex_provider_def ex_cancelled_def)
  have "unique_rows (synced_db ex_online (now ?w) None ''customer.cancel_at_period_end'' ex_subscribed (Some ex_cancelled) (durable ?w))"
    by code_simp
  note unique = this
  have d: "discount_field strict_pydantic (discount (mirrored ex_online (now ?w) (Some ex_cancelled) ex_subscribed)) = Inr None"
    by code_simp
  from cancel_ends_renewal_not_access [OF u idle _ _ f(2) _ f(3) _ f(4,5) told _ f(6,7) unique d, where B = InMemoryBackend] show ?thesis
    by (auto simp: f(1))
qed

section \<open>The lead form\<close>

lemma limit_passes:
  assumes "contact_sales_rate_limit S B f p w = (r, w1)"
  shows "only_cache w w1"
  using only_cacheD [OF keeps_only_cache_limit assms] .

lemma contact_tier:
  assumes "(case user of None \<Rightarrow> ret None
        | Some u \<Rightarrow> and_then (resolve_entitlements S B (cu_id u)) (\<lambda>e. ret (Some (tier_value (ent_tier e))))) w = (r, w')"
  shows "only_cache w w'"
proof -
  have "keeps (only_cache w) (case user of None \<Rightarrow> ret None
        | Some u \<Rightarrow> and_then (resolve_entitlements S B (cu_id u)) (\<lambda>e. ret (Some (tier_value (ent_tier e)))))"
    by (intro keeps_intro keeps_only_cache_resolve)
  from only_cacheD [OF this assms] show ?thesis .
qed

text \<open>
  C35: The public form stores one bounded row or nothing. Whoever calls it, however often, with
  whatever header and body: a call that is accepted adds exactly one inquiry, built from a body
  within every length bound, attributed to a user only where a token was verified; a call that
  is refused or fails leaves the database as it was. No other table is ever touched.
\<close>

theorem contact_sales_stores_one_bounded_row:
  assumes "idle w" "contact_sales S B J f p a body w = (res, w')"
  shows "case res of
      Inr reply \<Rightarrow> valid_contact body \<and> reply = \<lparr>cy_id = fresh_ids w (next_id w), cy_status = ''received''\<rparr> \<and>
        (\<exists>current_tier. durable w' = (durable w)\<lparr>sales_inquiries := sales_inquiries (durable w) @
          [new_inquiry (cy_id reply) (now w) (get_current_user_optional S J a) body current_tier]\<rparr>)
    | Inl _ \<Rightarrow> durable w' = durable w"
proof -
  obtain r1 w1 where limit: "contact_sales_rate_limit S B f p w = (r1, w1)" by fastforce
  note w1 = only_cache_fields [OF limit_passes [OF limit]]
  show ?thesis
  proof (cases r1)
    case (Inl e)
    then show ?thesis using assms(2) limit w1 by (auto simp: contact_sales_def and_then_def)
  next
    case r1: (Inr u)
    let ?user = "get_current_user_optional S J a"
    show ?thesis
    proof (cases "valid_contact body")
      case False
      then show ?thesis using assms(2) limit r1 w1
        by (auto simp: contact_sales_def and_then_def request_def try_except_def Let_def)
    next
      case True
      let ?who = "case ?user of None \<Rightarrow> ret None
        | Some u \<Rightarrow> and_then (resolve_entitlements S B (cu_id u)) (\<lambda>e. ret (Some (tier_value (ent_tier e))))"
      obtain r2 w2 where who: "?who w1 = (r2, w2)" by fastforce
      note w2 = only_cache_fields [OF contact_tier [OF who]]
      show ?thesis
      proof (cases r2)
        case (Inl e)
        then show ?thesis using assms(2) limit r1 True who w1 w2
          by (auto simp: contact_sales_def and_then_def request_def try_except_def Let_def)
      next
        case (Inr ct)
        let ?i = "fresh_ids w (next_id w)"
        define db where "db = (durable w)\<lparr>sales_inquiries := sales_inquiries (durable w) @ [new_inquiry ?i (now w) ?user body ct]\<rparr>"
        define w3 where "w3 = w2\<lparr>next_id := Suc (next_id w2), view := db\<rparr>"
        have i: "db_up w3" "rivals w3 = []" "view w3 = db" "durable w3 = durable w"
          using assms(1) w1 w2 by (simp_all add: w3_def idle_def)
        obtain r4 w4 where com: "commit w3 = (r4, w4)" by fastforce
        have d: "durable w4 = (if r4 = Inr () then db else durable w)"
          using commit_durable [OF i(1,2) com] i by simp
        have step: "and_then fresh_id (\<lambda>i. and_then clock (\<lambda>t.
            and_then (update_view (\<lambda>db. db\<lparr>sales_inquiries := sales_inquiries db @ [new_inquiry i t ?user body ct]\<rparr>)) (\<lambda>_.
            and_then commit (\<lambda>_. and_then (inc n ls) (\<lambda>_. ret \<lparr>cy_id = i, cy_status = ''received''\<rparr>))))) w2 =
          (case r4 of Inl e \<Rightarrow> (Inl e, w4) | Inr _ \<Rightarrow> (Inr \<lparr>cy_id = ?i, cy_status = ''received''\<rparr>, w4\<lparr>metrics := metrics w4 @ [(n, ls)]\<rparr>))" for n ls
          using com assms(1) w1 w2 by (simp add: and_then_def w3_def db_def idle_def split: sum.split)
        show ?thesis
          using assms(2) limit r1 True who Inr step d
          by (cases r4) (auto simp: contact_sales_def and_then_Inr and_then_def request_def try_except_def Let_def db_def)
      qed
    qed
  qed
qed

definition ex_lead :: contact_request where
  "ex_lead = \<lparr>cs_email = ''cto'' @ [CHR 0x40] @ ''acme.example'', cs_company = Some ''Acme'', cs_seats = Some 40, cs_message = None,
     cs_source = ''pricing_page''\<rparr>"

theorem contact_sales_stores_one_bounded_row_witness:
  "\<exists>w'. contact_sales ex_online InMemoryBackend ex_jwt None (Some ''10.0.0.1'') (Some ''Bearer forged'') ex_lead
      (ex_world ex_db None) = (Inr \<lparr>cy_id = ''id_0'', cy_status = ''received''\<rparr>, w') \<and> map inquiry_user (sales_inquiries (durable w')) = [None]"
proof -
  let ?run = "contact_sales ex_online InMemoryBackend ex_jwt None (Some ''10.0.0.1'') (Some ''Bearer forged'') ex_lead (ex_world ex_db None)"
  have "case fst ?run of Inr reply \<Rightarrow> cy_id reply = ''id_0'' \<and> cy_status reply = ''received'' | Inl _ \<Rightarrow> False" by code_simp
  then obtain w' where run: "?run = (Inr \<lparr>cy_id = ''id_0'', cy_status = ''received''\<rparr>, w')"
    by (cases ?run) (auto split: sum.splits)
  have anonymous: "get_current_user_optional ex_online ex_jwt (Some ''Bearer forged'') = None" by code_simp
  have idle: "idle (ex_world ex_db None)" by (simp add: idle_def)
  from contact_sales_stores_one_bounded_row [OF idle run] show ?thesis
    using run by (auto simp: anonymous new_inquiry_def)
qed

end
