(* ===== verification/Operations_Properties.thy ===== *)
theory Operations_Properties
  imports Accounts Health Reconcile_Properties
begin

text \<open>What operating the service rests on: who still has an account, and the readiness probe.\<close>

section \<open>Accounts\<close>

lemma supabase_reads_only: "reads_only (supabase_accounts postgres auth_users)"
  by (auto simp: reads_only_def supabase_accounts_def and_then_def split: prod.split)

lemma sort_one:
  "sort_ids [uid] [] [] = (case canonical_uuid uid of None \<Rightarrow> ([], [uid]) | Some u \<Rightarrow> ([(u, uid)], []))"
  by (simp split: option.split)

text \<open>
  The job takes an account for deleted only where it is. On a database without Supabase's
  table, or not on Postgres, the answer is that it cannot tell, for every id; elsewhere an id
  counts as deleted exactly if it is no UUID or names none of the rows, however it is spelt.
  Asking changes nothing.
\<close>

theorem account_state_is_exact:
  assumes "db_up w"
  shows "account_state (supabase_accounts postgres auth_users) uid w =
    (Inr (if \<not> postgres then None else case auth_users of
        None \<Rightarrow> None
      | Some users \<Rightarrow> Some (case canonical_uuid uid of None \<Rightarrow> True | Some u \<Rightarrow> u \<notin> set users)), w)"
  using assms
  by (cases auth_users; cases "canonical_uuid uid")
    (auto simp: account_state_def supabase_accounts_def and_then_def sort_one missing_accounts_def
      simp del: sort_ids.simps)

theorem account_state_is_exact_witness:
  "account_state (supabase_accounts True (Some [5])) ''{00000000-0000-0000-0000-00000000000A}'' (ex_world ex_db None) =
     (Inr (Some True), ex_world ex_db None) \<and>
   account_state (supabase_accounts True (Some [10])) ''urn:uuid:00000000-0000-0000-0000-00000000000a'' (ex_world ex_db None) =
     (Inr (Some False), ex_world ex_db None)"
proof -
  have "canonical_uuid ''{00000000-0000-0000-0000-00000000000A}'' = Some 10"
    "canonical_uuid ''urn:uuid:00000000-0000-0000-0000-00000000000a'' = Some 10"
    by code_simp+
  then show ?thesis
    using account_state_is_exact [of "ex_world ex_db None" True "Some [5]" "''{00000000-0000-0000-0000-00000000000A}''"]
      account_state_is_exact [of "ex_world ex_db None" True "Some [10]" "''urn:uuid:00000000-0000-0000-0000-00000000000a''"]
    by simp
qed

section \<open>Readiness\<close>

text \<open>
  Readiness follows the database. The probe never raises; it answers 503 exactly where the
  database does not answer in time, and a cache that is slow, down or loses what it was given
  only turns the status into \<open>degraded\<close>, with a 200 that keeps the instance in service.
\<close>

theorem readiness_follows_database:
  "\<exists>reply w'. readiness S P B db_slow cache_slow w = (Inr reply, w') \<and> durable w' = durable w \<and> view w' = view w \<and>
     (rd_http reply = (if db_slow \<or> \<not> db_up w then 503 else 200)) \<and>
     (rd_http reply = 200 \<longrightarrow>
        (rd_status reply = ''ok'' \<longleftrightarrow> (\<exists>w1. \<not> cache_slow \<and> check_cache B w = (Inr (), w1))) \<and>
        rd_status reply \<in> {''ok'', ''degraded''})"
proof -
  obtain h w' where c: "ended cache_slow (check_cache B) w = (Inr h, w')"
    using ended_returns by blast
  have kept: "keeps (\<lambda>u. durable u = durable w \<and> view u = view w) (ended cache_slow (check_cache B))"
    unfolding ended_def check_cache_def
    by (intro keeps_intro keeps_cached) simp_all
  have frame: "durable w' = durable w \<and> view w' = view w"
    using keepsD [OF kept _ c] by simp
  have passed: "h = Passed \<longleftrightarrow> (\<exists>w1. \<not> cache_slow \<and> check_cache B w = (Inr (), w1))"
    using c by (cases "check_cache B w") (auto simp: ended_def try_except_def and_then_def split: if_splits sum.splits)
  show ?thesis
    unfolding passed [symmetric]
    using c frame
    by (cases h) (auto simp: readiness_def and_then_def ended_database timed_def Let_def)
qed

definition ex_probe :: probe where
  "ex_probe = \<lparr>pb_database_limit = ''15.0'', pb_cache_limit = ''3.0'', pb_shown = (\<lambda>e. '''')\<rparr>"

theorem readiness_follows_database_witness:
  "\<exists>reply w'. readiness ex_settings ex_probe dead_cache False False (ex_world ex_db None) = (Inr reply, w') \<and>
     rd_http reply = 200 \<and> rd_status reply = ''degraded''"
proof -
  let ?w = "ex_world ex_db None"
  have "\<not> (\<exists>w1. check_cache dead_cache ?w = (Inr (), w1))"
    by (simp add: check_cache_def and_then_def cached_apply dead_cache_def)
  then show ?thesis
    using readiness_follows_database [of ex_settings ex_probe dead_cache False False ?w] by auto
qed

end
