(* ===== verification/Workers.thy ===== *)
theory Workers
  imports Sync_Properties
begin

text \<open>
  Several workers synchronising the row of one customer. Each step of a worker runs the code's own
  operation on a session of its own: \<open>find_by_customer\<close> with the lock, the call of the
  provider, and \<open>write_mirror\<close> with the commit. Between two steps anything may happen that is not
  that worker's: Stripe's answer changes, time passes, others commit rows of other customers,
  other workers step. A step that raises ends its worker's transaction.

  A session sees what is committed when a statement runs (PostgreSQL's READ COMMITTED), has no
  row loaded before it locks, as a webhook's session has not, and finds the row held where
  another worker has locked it. The provider's state is the version of Stripe's answer, which
  asking does not change. The other writers of the row, a dispute's mark and an operator's
  extension of the grace window, are not among the steps.
\<close>

section \<open>Workers over the code's operations\<close>

datatype stage =
    Idle
  | Locks subscription
  | Heard subscription "remote_subscription option" nat
  | Synced nat

record workplace =
  stored :: database
  stripe_version :: nat
  clock_now :: int
  row_holder :: "nat option"
  stage :: "nat \<Rightarrow> stage"

definition session_of :: "(nat, 'c) world \<Rightarrow> string \<Rightarrow> workplace \<Rightarrow> nat \<Rightarrow> (nat, 'c) world" where
  "session_of W cid s i = W\<lparr>now := clock_now s, remote := stripe_version s, durable := stored s, view := stored s,
     marks := [], db_up := True, rivals := [],
     locked := (if row_holder s = None \<or> row_holder s = Some i then [] else [cid])\<rparr>"

definition customer_rows_of :: "string \<Rightarrow> database \<Rightarrow> subscription list" where
  "customer_rows_of cid db = filter (\<lambda>r. stripe_customer_id r = Some cid) (subscriptions db)"

inductive worker_step :: "settings \<Rightarrow> nat provider \<Rightarrow> (nat, 'c) world \<Rightarrow> string \<Rightarrow> workplace \<Rightarrow> workplace \<Rightarrow> bool"
  for S PV W cid where
  stripe_moves: "worker_step S PV W cid s (s\<lparr>stripe_version := Suc (stripe_version s)\<rparr>)"
| time_passes: "clock_now s \<le> t \<Longrightarrow> worker_step S PV W cid s (s\<lparr>clock_now := t\<rparr>)"
| others_commit: "unique_rows db \<Longrightarrow> customer_rows_of cid db = customer_rows_of cid (stored s) \<Longrightarrow>
    worker_step S PV W cid s (s\<lparr>stored := db\<rparr>)"
| locks: "stage s i = Idle \<Longrightarrow> find_by_customer cid True (session_of W cid s i) = (Inr (Some sub), w) \<Longrightarrow>
    worker_step S PV W cid s (s\<lparr>stage := (stage s)(i := Locks sub), row_holder := Some i\<rparr>)"
| asks: "stage s i = Locks sub \<Longrightarrow>
    call (p_fetch_current_subscription PV cid) (session_of W cid s i) = (Inr ans, w) \<Longrightarrow>
    worker_step S PV W cid s (s\<lparr>stage := (stage s)(i := Heard sub ans (stripe_version s))\<rparr>)"
| writes: "stage s i = Heard sub ans v \<Longrightarrow>
    and_then (write_mirror S event reason sub ans) (\<lambda>_. commit) (session_of W cid s i) = (Inr (), w) \<Longrightarrow>
    worker_step S PV W cid s (s\<lparr>stored := durable w, stage := (stage s)(i := Synced v), row_holder := None\<rparr>)"
| ends: "worker_step S PV W cid s (s\<lparr>stage := (stage s)(i := Idle),
    row_holder := (if row_holder s = Some i then None else row_holder s)\<rparr>)"

inductive worker_reach :: "settings \<Rightarrow> nat provider \<Rightarrow> (nat, 'c) world \<Rightarrow> string \<Rightarrow> workplace \<Rightarrow> bool"
  for S PV W cid where
  opens: "unique_rows (stored s) \<Longrightarrow> row_holder s = None \<Longrightarrow> \<forall>i. stage s i = Idle \<Longrightarrow> worker_reach S PV W cid s"
| steps: "worker_reach S PV W cid s \<Longrightarrow> worker_step S PV W cid s t \<Longrightarrow> worker_reach S PV W cid t"

lemma session_of_fields [simp]:
  "now (session_of W cid s i) = clock_now s" "remote (session_of W cid s i) = stripe_version s"
  "durable (session_of W cid s i) = stored s" "view (session_of W cid s i) = stored s"
  "marks (session_of W cid s i) = []" "db_up (session_of W cid s i)" "rivals (session_of W cid s i) = []"
  "cid \<in> set (locked (session_of W cid s i)) \<longleftrightarrow> row_holder s \<noteq> None \<and> row_holder s \<noteq> Some i"
  by (simp_all add: session_of_def)

section \<open>What each step does\<close>

lemma customer_row:
  "customer_rows_of cid db = [sub] \<Longrightarrow> sub \<in> set (subscriptions db) \<and> stripe_customer_id sub = Some cid"
  by (auto simp: customer_rows_of_def filter_eq_Cons_iff)

lemma lock_taken:
  assumes "find_by_customer cid True (session_of W cid s i) = (Inr (Some sub), w)"
  shows "customer_rows_of cid (stored s) = [sub] \<and> (row_holder s = None \<or> row_holder s = Some i)"
  using assms
  by (auto simp: find_by_customer_def and_then_def scalar_one_or_none_def customer_rows_of_def
      split: if_splits list.splits)

lemma lock_refused:
  assumes "customer_rows_of cid (stored s) = [sub]" "row_holder s = Some k" "k \<noteq> j"
  shows "sync_subscription_from_stripe S PV cid event reason (session_of W cid s j) =
    (Inl (DatabaseError ''lock timeout''), session_of W cid s j)"
  using customer_row [OF assms(1)] assms(2,3)
  by (intro sync_held [of _ sub]) auto

lemma synced_customer_rows:
  assumes "unique_rows (synced_db S t event reason sub ans db)" "customer_rows_of cid db = [sub]"
  shows "customer_rows_of cid (synced_db S t event reason sub ans db) = [answered_row S t ans sub]"
proof -
  have "mirrored S t ans sub \<in> set (subscriptions (synced_db S t event reason sub ans db))"
    using customer_row [OF assms(2)] by (intro synced_row_present) blast
  moreover have "stripe_customer_id (mirrored S t ans sub) = Some cid"
    using customer_row [OF assms(2)] by (simp add: mirrored_def)
  ultimately show ?thesis
    using customer_rows [OF assms(1)] by (simp add: customer_rows_of_def mirrored_answered)
qed

lemma write_committed:
  assumes "and_then (write_mirror S event reason sub ans) (\<lambda>_. commit) w = (Inr (), w')" "db_up w" "rivals w = []"
  shows "durable w' = synced_db S (now w) event reason sub ans (view w)" "unique_rows (synced_db S (now w) event reason sub ans (view w))"
proof -
  have u: "unique_rows (synced_db S (now w) event reason sub ans (view w))"
  proof (rule ccontr)
    assume "\<not> unique_rows (synced_db S (now w) event reason sub ans (view w))"
    then obtain v where "write_mirror S event reason sub ans w = (Inl IntegrityError, v)"
      using write_mirror_conflict [OF assms(2,3)] by (metis prod.collapse)
    with assms(1) show False by (simp add: and_then_def)
  qed
  then show "durable w' = synced_db S (now w) event reason sub ans (view w)" "unique_rows (synced_db S (now w) event reason sub ans (view w))"
    using assms(1) write_mirror_alone [OF assms(2,3) u] assms(2,3)
    by (auto simp: and_then_def sync_world_def Let_def)
qed

lemma write_commits:
  assumes "unique_rows (synced_db S (now w) event reason sub ans (view w))" "db_up w" "rivals w = []"
  shows "\<exists>w'. and_then (write_mirror S event reason sub ans) (\<lambda>_. commit) w = (Inr (), w')"
  using write_mirror_alone [OF assms(2,3,1)] assms by (simp add: and_then_def sync_world_def Let_def)

section \<open>The invariant\<close>

definition agrees :: "settings \<Rightarrow> nat provider \<Rightarrow> string \<Rightarrow> database \<Rightarrow> nat \<Rightarrow> bool" where
  "agrees S PV cid db u \<longleftrightarrow> (\<exists>ans r. fst (p_fetch_current_subscription PV cid u) = Inr ans \<and>
     customer_rows_of cid db = [r] \<and> (\<forall>t. answered_row S t ans r = r))"

text \<open>\<open>m\<close> is the version the row was last written from.\<close>

primrec stage_ok :: "nat provider \<Rightarrow> string \<Rightarrow> nat option \<Rightarrow> workplace \<Rightarrow> nat \<Rightarrow> stage \<Rightarrow> bool" where
  "stage_ok PV cid m s i Idle \<longleftrightarrow> row_holder s \<noteq> Some i"
| "stage_ok PV cid m s i (Locks sub) \<longleftrightarrow> row_holder s = Some i \<and> customer_rows_of cid (stored s) = [sub]"
| "stage_ok PV cid m s i (Heard sub ans v) \<longleftrightarrow>
     row_holder s = Some i \<and> customer_rows_of cid (stored s) = [sub] \<and> v \<le> stripe_version s \<and>
     fst (p_fetch_current_subscription PV cid v) = Inr ans \<and> (\<forall>u. m = Some u \<longrightarrow> u \<le> v)"
| "stage_ok PV cid m s i (Synced v) \<longleftrightarrow> row_holder s \<noteq> Some i \<and> (\<exists>u. m = Some u \<and> v \<le> u)"

definition worker_inv :: "settings \<Rightarrow> nat provider \<Rightarrow> string \<Rightarrow> nat option \<Rightarrow> workplace \<Rightarrow> bool" where
  "worker_inv S PV cid m s \<longleftrightarrow>
     unique_rows (stored s) \<and>
     (\<forall>u. m = Some u \<longrightarrow> u \<le> stripe_version s \<and> agrees S PV cid (stored s) u) \<and>
     (\<forall>i. stage_ok PV cid m s i (stage s i))"

lemma worker_invD:
  assumes "worker_inv S PV cid m s"
  shows "unique_rows (stored s)" "m = Some u \<Longrightarrow> u \<le> stripe_version s \<and> agrees S PV cid (stored s) u"
    "stage_ok PV cid m s i (stage s i)"
  using assms by (simp_all add: worker_inv_def)

text \<open>Without the lock a worker is at rest or done, and what it claims does not depend on the row.\<close>

lemma without_lock:
  assumes "stage_ok PV cid m s i p" "row_holder s \<noteq> Some i" "row_holder s' \<noteq> Some i"
    and "\<And>v u. m = Some u \<Longrightarrow> v \<le> u \<Longrightarrow> \<exists>u'. m' = Some u' \<and> v \<le> u'"
  shows "stage_ok PV cid m' s' i p"
  using assms by (cases p) auto

lemma answered_again: "answered_row S t ans (answered_row S t' ans sub) = answered_row S t' ans sub"
  by (simp add: flip: mirrored_answered) (simp add: mirrored_def)

lemma worker_inv_step:
  assumes "worker_step S PV W cid s s'" "worker_inv S PV cid m s"
  shows "\<exists>m'. worker_inv S PV cid m' s'"
  using assms
proof (induction rule: worker_step.induct)
  case (stripe_moves s)
  have "stage_ok PV cid m (s\<lparr>stripe_version := Suc (stripe_version s)\<rparr>) i (stage s i)" for i
    using worker_invD(3) [OF stripe_moves, of i] by (cases "stage s i") auto
  then have "worker_inv S PV cid m (s\<lparr>stripe_version := Suc (stripe_version s)\<rparr>)"
    using worker_invD(1,2) [OF stripe_moves] by (auto simp: worker_inv_def le_SucI)
  then show ?case ..
next
  case (time_passes s t)
  have "stage_ok PV cid m (s\<lparr>clock_now := t\<rparr>) i (stage s i)" for i
    using worker_invD(3) [OF time_passes(2), of i] by (cases "stage s i") auto
  then have "worker_inv S PV cid m (s\<lparr>clock_now := t\<rparr>)"
    using worker_invD(1,2) [OF time_passes(2)] by (auto simp: worker_inv_def)
  then show ?case ..
next
  case (others_commit db s)
  have "stage_ok PV cid m (s\<lparr>stored := db\<rparr>) i (stage s i)" for i
    using worker_invD(3) [OF others_commit.prems, of i] others_commit.hyps(2) by (cases "stage s i") auto
  then have "worker_inv S PV cid m (s\<lparr>stored := db\<rparr>)"
    using worker_invD(2) [OF others_commit.prems] others_commit.hyps by (auto simp: worker_inv_def agrees_def)
  then show ?case ..
next
  case (locks s i sub w)
  let ?t = "s\<lparr>stage := (stage s)(i := Locks sub), row_holder := Some i\<rparr>"
  have free: "customer_rows_of cid (stored s) = [sub]" "row_holder s = None"
    using lock_taken [OF locks.hyps(2)] worker_invD(3) [OF locks.prems, of i] locks.hyps(1) by auto
  have "stage_ok PV cid m ?t j (stage ?t j)" for j
    using free without_lock [OF worker_invD(3) [OF locks.prems, of j], of ?t m] by (cases "j = i") auto
  then have "worker_inv S PV cid m ?t"
    using worker_invD(1,2) [OF locks.prems] by (auto simp: worker_inv_def)
  then show ?case ..
next
  case (asks s i sub ans w)
  let ?t = "s\<lparr>stage := (stage s)(i := Heard sub ans (stripe_version s))\<rparr>"
  have heard: "fst (p_fetch_current_subscription PV cid (stripe_version s)) = Inr ans"
    using asks.hyps(2) by (simp add: call_apply split: prod.splits)
  have i: "row_holder s = Some i" "customer_rows_of cid (stored s) = [sub]"
    using worker_invD(3) [OF asks.prems, of i] asks.hyps(1) by simp_all
  have "stage_ok PV cid m ?t j (stage ?t j)" for j
    using i heard worker_invD(2) [OF asks.prems] without_lock [OF worker_invD(3) [OF asks.prems, of j], of ?t m]
    by (cases "j = i") auto
  then have "worker_inv S PV cid m ?t"
    using worker_invD(1,2) [OF asks.prems] by (auto simp: worker_inv_def)
  then show ?case ..
next
  case (writes s i sub ans v event reason w)
  let ?t = "s\<lparr>stored := durable w, stage := (stage s)(i := Synced v), row_holder := None\<rparr>"
  have p: "customer_rows_of cid (stored s) = [sub]" "v \<le> stripe_version s" "row_holder s = Some i"
    "fst (p_fetch_current_subscription PV cid v) = Inr ans" "\<And>u. m = Some u \<Longrightarrow> u \<le> v"
    using worker_invD(3) [OF writes.prems, of i] writes.hyps(1) by simp_all
  have db: "durable w = synced_db S (clock_now s) event reason sub ans (stored s)" "unique_rows (durable w)"
    using write_committed [OF writes.hyps(2)] by auto
  then have "customer_rows_of cid (durable w) = [answered_row S (clock_now s) ans sub]"
    using synced_customer_rows p(1) by metis
  then have "agrees S PV cid (durable w) v"
    using p(4) by (auto simp: agrees_def answered_again)
  moreover
  have below: "x \<le> v" if "m = Some u" "x \<le> u" for x u using p(5) [OF that(1)] that(2) by simp
  have "stage_ok PV cid (Some v) ?t j (stage ?t j)" for j
    using p(3) below without_lock [OF worker_invD(3) [OF writes.prems, of j], of ?t "Some v"]
    by (cases "j = i") simp_all
  ultimately have "worker_inv S PV cid (Some v) ?t"
    using db(2) p(2) by (auto simp: worker_inv_def)
  then show ?case ..
next
  case (ends s i)
  let ?t = "s\<lparr>stage := (stage s)(i := Idle), row_holder := (if row_holder s = Some i then None else row_holder s)\<rparr>"
  have "stage_ok PV cid m ?t j (stage ?t j)" for j
    using worker_invD(3) [OF ends, of j] by (cases "stage s j") auto
  then have "worker_inv S PV cid m ?t"
    using worker_invD(1,2) [OF ends] by (auto simp: worker_inv_def)
  then show ?case ..
qed

lemma worker_inv_reach: "worker_reach S PV W cid s \<Longrightarrow> \<exists>m. worker_inv S PV cid m s"
proof (induction rule: worker_reach.induct)
  case (opens s)
  then have "worker_inv S PV cid None s" by (simp add: worker_inv_def)
  then show ?case ..
qed (use worker_inv_step in blast)

section \<open>The steps are the function\<close>

lemma uninterrupted_run:
  assumes "unique_rows (stored s)" "customer_rows_of cid (stored s) = [sub]" "row_holder s = None" "stage s i = Idle"
    and run: "and_then (sync_subscription_from_stripe S PV cid event reason) (\<lambda>_. commit) (session_of W cid s i) = (Inr (), w)"
  shows "\<exists>s1 s2. worker_step S PV W cid s s1 \<and> worker_step S PV W cid s1 s2 \<and>
    worker_step S PV W cid s2 (s\<lparr>stored := durable w, stage := (stage s)(i := Synced (stripe_version s))\<rparr>)"
proof -
  let ?x = "session_of W cid s i"
  let ?s1 = "s\<lparr>stage := (stage s)(i := Locks sub), row_holder := Some i\<rparr>"
  note row = customer_row [OF assms(2)]
  have same: "session_of W cid ?s1 i = ?x" using assms(3) by (simp add: session_of_def)
  have found: "find_by_customer cid True ?x = (Inr (Some sub), ?x)"
    using assms(1,3) row by (intro find_by_customer_found) simp_all
  obtain a r where fetch: "p_fetch_current_subscription PV cid (stripe_version s) = (a, r)" by fastforce
  have sync: "and_then (sync_subscription_from_stripe S PV cid event reason) (\<lambda>_. commit) ?x =
      (case a of Inl e \<Rightarrow> (Inl e, ?x\<lparr>remote := r\<rparr>)
       | Inr ans \<Rightarrow> and_then (write_mirror S event reason sub ans) (\<lambda>_. commit) (?x\<lparr>remote := r\<rparr>))"
    by (simp add: sync_subscription_from_stripe_def and_then_def found call_apply fetch split: sum.split)
  then obtain ans where a: "a = Inr ans" using run by (auto split: sum.splits)
  let ?s2 = "?s1\<lparr>stage := (stage ?s1)(i := Heard sub ans (stripe_version s))\<rparr>"
  have wr: "and_then (write_mirror S event reason sub ans) (\<lambda>_. commit) (?x\<lparr>remote := r\<rparr>) = (Inr (), w)"
    using run sync a by simp
  note db = write_committed [OF this]
  then have d: "durable w = synced_db S (clock_now s) event reason sub ans (stored s)" "unique_rows (durable w)"
    by simp_all
  obtain w' where w': "and_then (write_mirror S event reason sub ans) (\<lambda>_. commit) ?x = (Inr (), w')"
    using write_commits [of S ?x event reason sub ans] d by auto
  then have same_db: "durable w' = durable w"
    using write_committed [OF w'] d by (simp only: session_of_fields)
  have "worker_step S PV W cid s ?s1" by (rule worker_step.locks [OF assms(4) found])
  moreover have "worker_step S PV W cid ?s1 ?s2"
    using worker_step.asks [of ?s1 i sub PV cid W ans "?x\<lparr>remote := r\<rparr>" S] same fetch a
    by (simp add: call_apply)
  moreover have "session_of W cid ?s2 i = ?x" using assms(3) by (simp add: session_of_def)
  then have "worker_step S PV W cid ?s2
      (?s2\<lparr>stored := durable w, stage := (stage ?s2)(i := Synced (stripe_version s)), row_holder := None\<rparr>)"
    using worker_step.writes [where s = ?s2 and i = i and S = S and PV = PV and W = W and w = w'] w' same_db by simp
  moreover have "?s2\<lparr>stored := durable w, stage := (stage ?s2)(i := Synced (stripe_version s)), row_holder := None\<rparr> =
      s\<lparr>stored := durable w, stage := (stage s)(i := Synced (stripe_version s))\<rparr>"
    using assms(3) by simp
  ultimately show ?thesis by metis
qed


text \<open>
  A deployment whose subscription starts failing at version 1: a worker takes the row and is held up
  before it asks, another is refused the lock, the payment fails, and the first mirrors
  the failure.
\<close>

definition ex_versions :: "nat provider" where
  "ex_versions =
     \<lparr>p_ensure_customer = (\<lambda>uid email old. ret ''cus_1''),
      p_retrieve_customer = (\<lambda>cid. ret \<lparr>rc_id = cid, rc_user_id = Some ''alice''\<rparr>),
      p_fetch_current_subscription = (\<lambda>cid. gets (\<lambda>v. Some (if v = 1 then ex_failing else ex_remote))),
      p_list_subscriptions_page = (\<lambda>after. ret \<lparr>page_items = [], page_has_more = False\<rparr>),
      p_set_cancel_at_period_end = (\<lambda>sid flag. ret ()),
      p_set_subscription_metadata = (\<lambda>sid m. ret ()),
      p_create_checkout_session = (\<lambda>cp. ret JNull),
      p_create_portal_session = (\<lambda>cid url flow. ret JNull),
      p_retrieve_price = (\<lambda>pid. ret JNull),
      p_retrieve_charge = (\<lambda>cid. ret JNull),
      p_construct_event = (\<lambda>payload sig. raise SignatureVerificationError)\<rparr>"

definition ex_base :: "(nat, unit) world" where
  "ex_base = \<lparr>now = 0, remote = 0, cache = (), durable = ex_db, view = ex_db, marks = [], db_up = True, locked = [],
     rivals = [], fresh_ids = (\<lambda>_. []), next_id = 0, metrics = []\<rparr>"

definition ex_place :: "nat \<Rightarrow> workplace" where
  "ex_place v = \<lparr>stored = ex_db, stripe_version = v, clock_now = 1000000, row_holder = None, stage = (\<lambda>_. Idle)\<rparr>"

definition ex_locked :: "nat \<Rightarrow> workplace" where
  "ex_locked v = (ex_place v)\<lparr>stage := (\<lambda>_. Idle)(0 := Locks ex_row), row_holder := Some 0\<rparr>"

abbreviation "ex_reach \<equiv> worker_reach ex_settings ex_versions ex_base ''cus_1''"

lemma ex_locked_reach: "ex_reach (ex_locked 0)" "ex_reach (ex_locked 1)"
proof -
  have start: "ex_reach (ex_place 0)" by (rule worker_reach.opens) (simp_all add: ex_place_def)
  have "find_by_customer ''cus_1'' True (session_of ex_base ''cus_1'' (ex_place 0) 0) =
      (Inr (Some ex_row), session_of ex_base ''cus_1'' (ex_place 0) 0)"
    by (rule find_by_customer_found) (simp_all add: ex_place_def ex_row_def first_row_def)
  with worker_reach.steps [OF start worker_step.locks] show locked: "ex_reach (ex_locked 0)"
    by (fastforce simp: ex_place_def ex_locked_def)
  show "ex_reach (ex_locked 1)"
    using worker_reach.steps [OF locked worker_step.stripe_moves] by (simp add: ex_locked_def ex_place_def)
qed

definition ex_heard :: workplace where
  "ex_heard = (ex_locked 1)\<lparr>stage := (\<lambda>_. Idle)(0 := Heard ex_row (Some ex_failing) 1)\<rparr>"

lemma ex_heard_reach: "ex_reach ex_heard"
proof -
  have "call (p_fetch_current_subscription ex_versions ''cus_1'') (session_of ex_base ''cus_1'' (ex_locked 1) 0) =
      (Inr (Some ex_failing), session_of ex_base ''cus_1'' (ex_locked 1) 0)"
    by (simp add: call_apply ex_versions_def ex_locked_def ex_place_def session_of_def)
  with worker_reach.steps [OF ex_locked_reach(2) worker_step.asks [of "ex_locked 1" 0 ex_row]]
  show ?thesis by (simp add: ex_locked_def ex_place_def ex_heard_def)
qed

definition ex_done :: workplace where
  "ex_done = \<lparr>stored = synced_db ex_settings 1000000 None ''stripe.webhook'' ex_row (Some ex_failing) ex_db,
     stripe_version = 1, clock_now = 1000000, row_holder = None, stage = (\<lambda>_. Idle)(0 := Synced 1)\<rparr>"

lemma ex_done_reach: "ex_reach ex_done"
proof -
  let ?x = "session_of ex_base ''cus_1'' ex_heard 0"
  have x: "clock_now ex_heard = 1000000" "stored ex_heard = ex_db" by (simp_all add: ex_heard_def ex_locked_def ex_place_def)
  have "\<exists>w. and_then (write_mirror ex_settings None ''stripe.webhook'' ex_row (Some ex_failing)) (\<lambda>_. commit) ?x = (Inr (), w)"
    by (rule write_commits) (simp_all add: x)
  then obtain w where w: "and_then (write_mirror ex_settings None ''stripe.webhook'' ex_row (Some ex_failing)) (\<lambda>_. commit) ?x = (Inr (), w)" ..
  have d: "durable w = synced_db ex_settings 1000000 None ''stripe.webhook'' ex_row (Some ex_failing) ex_db"
    using write_committed(1) [OF w] x by simp
  show ?thesis
    using worker_reach.steps [OF ex_heard_reach worker_step.writes [OF _ w, of 1]]
    by (simp add: d ex_done_def ex_heard_def ex_locked_def ex_place_def)
qed


end
