(* ===== verification/Concurrency.thy ===== *)
theory Concurrency
  imports Examples
begin

text \<open>
  What a row loaded before its lock does to a synchronisation. This is an abstract machine over
  SQLAlchemy's session, whose source is not the service's: it keeps the columns an object was
  loaded with, which \<open>Workers\<close>, where the steps run the code's own operations, has no need of.
  A worker takes the row lock, asks Stripe, writes the mirror and commits; meanwhile Stripe's
  answer may change and other workers run. Two things are parameters here:

  \<^item> \<open>preloads\<close>: whether a worker may have loaded the row in the same session before it takes the
    lock, as \<open>resync\<close>, \<open>cancel\<close>, \<open>resume\<close> and the reconciliation do and a webhook does not;
  \<^item> \<open>refresh\<close>: whether a locking \<open>SELECT\<close> overwrites the attributes of an object the session
    already holds. SQLAlchemy documents that it does so only with \<open>populate_existing\<close>, which
    the query of \<open>_find_by_customer\<close> does not ask for.

  A flush updates the columns whose value differs from the loaded one, and no others.
\<close>

section \<open>Flushing an object\<close>

definition changed :: "(subscription \<Rightarrow> 'a) \<Rightarrow> subscription \<Rightarrow> subscription \<Rightarrow> subscription \<Rightarrow> 'a" where
  "changed f loaded new stored = (if f new = f loaded then f stored else f new)"

definition flush_row :: "subscription \<Rightarrow> subscription \<Rightarrow> subscription \<Rightarrow> subscription" where
  "flush_row loaded new stored = stored\<lparr>
     tier_col := changed tier_col loaded new stored,
     status_col := changed status_col loaded new stored,
     stripe_subscription_id := changed stripe_subscription_id loaded new stored,
     stripe_price_id := changed stripe_price_id loaded new stored,
     billing_interval_col := changed billing_interval_col loaded new stored,
     current_period_start := changed current_period_start loaded new stored,
     current_period_end := changed current_period_end loaded new stored,
     cancel_at_period_end := changed cancel_at_period_end loaded new stored,
     trial_end := changed trial_end loaded new stored,
     past_due_since := changed past_due_since loaded new stored,
     discount := changed discount loaded new stored\<rparr>"

text \<open>Where the loaded object is the stored row, a flush stores what was written to it.\<close>

lemma flush_fresh: "flush_row a (mirrored S t ans a) a = mirrored S t ans a"
  by (simp add: flush_row_def changed_def mirrored_def write_state_def)

lemma flush_unchanged: "flush_row a a stored = stored"
  by (simp add: flush_row_def changed_def)

section \<open>Workers\<close>

datatype phase =
    Resting
  | Holding subscription
  | Locked subscription
  | Answered subscription nat
  | Finished nat

text \<open>
  \<open>answers v\<close> is what Stripe says at its version \<open>v\<close>. \<open>mirrored_version\<close> is a ghost: the version
  last written to the row.
\<close>

record sync_system =
  answers :: "nat \<Rightarrow> remote_subscription option"
  version :: nat
  moment :: int
  row :: subscription
  mirrored_version :: "nat option"
  holder :: "nat option"
  phase :: "nat \<Rightarrow> phase"

definition initial :: "sync_system \<Rightarrow> bool" where
  "initial s \<longleftrightarrow> holder s = None \<and> mirrored_version s = None \<and> (\<forall>i. phase s i = Resting)"

definition write_row :: "settings \<Rightarrow> nat \<Rightarrow> subscription \<Rightarrow> nat \<Rightarrow> sync_system \<Rightarrow> sync_system" where
  "write_row S i a v s = s\<lparr>
     row := flush_row a (mirrored S (moment s) (answers s v) a) (row s),
     mirrored_version := Some v, holder := None, phase := (phase s)(i := Finished v)\<rparr>"

inductive sync_step :: "settings \<Rightarrow> bool \<Rightarrow> bool \<Rightarrow> sync_system \<Rightarrow> sync_system \<Rightarrow> bool"
  for S preloads refresh where
  stripe_moves: "sync_step S preloads refresh s (s\<lparr>version := Suc (version s)\<rparr>)"
| time_passes: "moment s \<le> t \<Longrightarrow> sync_step S preloads refresh s (s\<lparr>moment := t\<rparr>)"
| preload: "preloads \<Longrightarrow> phase s i = Resting \<Longrightarrow>
    sync_step S preloads refresh s (s\<lparr>phase := (phase s)(i := Holding (row s))\<rparr>)"
| lock_fresh: "phase s i = Resting \<Longrightarrow> holder s = None \<Longrightarrow>
    sync_step S preloads refresh s (s\<lparr>phase := (phase s)(i := Locked (row s)), holder := Some i\<rparr>)"
| lock_held: "phase s i = Holding a \<Longrightarrow> holder s = None \<Longrightarrow>
    sync_step S preloads refresh s
      (s\<lparr>phase := (phase s)(i := Locked (if refresh then row s else a)), holder := Some i\<rparr>)"
| ask: "phase s i = Locked a \<Longrightarrow>
    sync_step S preloads refresh s (s\<lparr>phase := (phase s)(i := Answered a (version s))\<rparr>)"
| fail: "holder s = Some i \<Longrightarrow>
    sync_step S preloads refresh s (s\<lparr>phase := (phase s)(i := Resting), holder := None\<rparr>)"
| write_and_commit: "phase s i = Answered a v \<Longrightarrow>
    sync_step S preloads refresh s (write_row S i a v s)"
| start_again: "phase s i = Finished v \<Longrightarrow>
    sync_step S preloads refresh s (s\<lparr>phase := (phase s)(i := Resting)\<rparr>)"

inductive sync_reach :: "settings \<Rightarrow> bool \<Rightarrow> bool \<Rightarrow> sync_system \<Rightarrow> bool" for S preloads refresh where
  start: "initial s \<Longrightarrow> sync_reach S preloads refresh s"
| step: "sync_reach S preloads refresh s \<Longrightarrow> sync_step S preloads refresh s t \<Longrightarrow> sync_reach S preloads refresh t"

section \<open>The invariant\<close>

text \<open>A row reflects an answer when mirroring that answer again would change nothing, at any time.\<close>

definition reflects :: "settings \<Rightarrow> remote_subscription option \<Rightarrow> subscription \<Rightarrow> bool" where
  "reflects S ans r \<longleftrightarrow> (\<forall>t. mirrored S t ans r = r)"

lemma mirrored_reflects: "reflects S ans (mirrored S t ans a)"
  by (simp add: reflects_def mirrored_def)

definition working :: "phase \<Rightarrow> bool" where
  "working p \<longleftrightarrow> (case p of Locked _ \<Rightarrow> True | Answered _ _ \<Rightarrow> True | _ \<Rightarrow> False)"

lemma working_simps [simp]:
  "\<not> working Resting" "\<not> working (Holding a)" "working (Locked a)" "working (Answered a v)" "\<not> working (Finished v)"
  by (simp_all add: working_def)

definition sync_inv :: "settings \<Rightarrow> sync_system \<Rightarrow> bool" where
  "sync_inv S s \<longleftrightarrow>
     (\<forall>i. working (phase s i) \<longleftrightarrow> holder s = Some i) \<and>
     (\<forall>i a. phase s i = Locked a \<longrightarrow> a = row s) \<and>
     (\<forall>i a v. phase s i = Answered a v \<longrightarrow> a = row s \<and> v \<le> version s \<and> (\<forall>u. mirrored_version s = Some u \<longrightarrow> u \<le> v)) \<and>
     (\<forall>u. mirrored_version s = Some u \<longrightarrow> u \<le> version s \<and> reflects S (answers s u) (row s)) \<and>
     (\<forall>i v. phase s i = Finished v \<longrightarrow> (\<exists>u. mirrored_version s = Some u \<and> v \<le> u))"

definition no_holding :: "sync_system \<Rightarrow> bool" where
  "no_holding s \<longleftrightarrow> (\<forall>i a. phase s i \<noteq> Holding a)"

lemma initial_inv: "initial s \<Longrightarrow> sync_inv S s \<and> no_holding s"
  by (simp add: initial_def sync_inv_def no_holding_def)

lemma no_holding_step: "sync_step S False refresh s t \<Longrightarrow> no_holding s \<Longrightarrow> no_holding t"
  by (induction rule: sync_step.induct) (auto simp: no_holding_def write_row_def)

lemma only_worker: "sync_inv S s \<Longrightarrow> working (phase s i) \<Longrightarrow> working (phase s j) \<Longrightarrow> j = i"
  by (simp add: sync_inv_def)

lemma sync_inv_write:
  assumes inv: "sync_inv S s" and p: "phase s i = Answered a v"
  shows "sync_inv S (write_row S i a v s)"
proof -
  let ?t = "write_row S i a v s"
  have a: "a = row s" "v \<le> version s" "\<And>u. mirrored_version s = Some u \<Longrightarrow> u \<le> v"
    using inv p by (auto simp: sync_inv_def)
  have idle: "\<not> working (phase ?t j)" for j
    using only_worker [OF inv, of i j] p by (cases "j = i") (auto simp: write_row_def)
  have "row ?t = mirrored S (moment s) (answers s v) (row s)"
    by (simp add: write_row_def a(1) flush_fresh)
  then have refl: "reflects S (answers s v) (row ?t)" by (simp add: mirrored_reflects)
  have finished: "\<exists>u. mirrored_version ?t = Some u \<and> w \<le> u" if "phase ?t j = Finished w" for j w
  proof (cases "j = i")
    case True
    with that show ?thesis by (simp add: write_row_def)
  next
    case False
    with that have "phase s j = Finished w" by (simp add: write_row_def)
    then obtain u where "mirrored_version s = Some u" "w \<le> u" using inv unfolding sync_inv_def by blast
    with a(3) [of u] show ?thesis by (simp add: write_row_def)
  qed
  have "phase ?t j \<noteq> Locked b" "phase ?t j \<noteq> Answered b w" for j b w
    using idle [of j] by auto
  then show ?thesis
    unfolding sync_inv_def using idle refl finished a(2) by (auto simp: write_row_def)
qed

lemma nobody_works: "sync_inv S s \<Longrightarrow> holder s = None \<Longrightarrow> \<not> working (phase s j)"
  by (simp add: sync_inv_def)

lemma holder_works: "sync_inv S s \<Longrightarrow> holder s = Some i \<Longrightarrow> working (phase s j) \<longleftrightarrow> j = i"
  by (auto simp: sync_inv_def)

lemma sync_inv_locks:
  assumes inv: "sync_inv S s" and "holder s = None"
  shows "sync_inv S (s\<lparr>phase := (phase s)(i := Locked (row s)), holder := Some i\<rparr>)"
proof -
  have "\<not> working (phase s j)" for j using nobody_works [OF assms] .
  then have "phase s j \<noteq> Locked b" "phase s j \<noteq> Answered b v" "\<not> working (phase s j)" for j b v
    by (metis working_simps(3,4))+
  then show ?thesis using inv by (simp add: sync_inv_def)
qed

lemma sync_inv_rests:
  assumes inv: "sync_inv S s" and "holder s = Some i"
  shows "sync_inv S (s\<lparr>phase := (phase s)(i := Resting), holder := None\<rparr>)"
proof -
  have w: "working (phase s j) \<longleftrightarrow> j = i" for j using holder_works [OF assms] .
  then have "j = i" if "phase s j = Locked b \<or> phase s j = Answered b v" for j b v
    using that by (metis working_simps(3,4))
  then show ?thesis using inv w by (auto simp: sync_inv_def)
qed

lemma sync_inv_idles:
  assumes inv: "sync_inv S s" and p: "\<not> working (phase s i)" and q: "q = Resting \<or> q = Holding a"
  shows "sync_inv S (s\<lparr>phase := (phase s)(i := q)\<rparr>)"
proof -
  have "\<not> working q" "q \<noteq> Locked b" "q \<noteq> Answered b v" "q \<noteq> Finished v" for b v using q by auto
  then show ?thesis using inv p by (auto simp: sync_inv_def)
qed

lemma sync_inv_asks:
  assumes inv: "sync_inv S s" and p: "phase s i = Locked a"
  shows "sync_inv S (s\<lparr>phase := (phase s)(i := Answered a (version s))\<rparr>)"
proof -
  have h: "holder s = Some i" using inv p unfolding sync_inv_def by (metis working_simps(3))
  have w: "working (phase s j) \<longleftrightarrow> j = i" for j using holder_works [OF inv h] .
  then have "j = i" if "phase s j = Locked b \<or> phase s j = Answered b v" for j b v
    using that by (metis working_simps(3,4))
  moreover have "a = row s" "\<forall>u. mirrored_version s = Some u \<longrightarrow> u \<le> version s"
    using inv p unfolding sync_inv_def by blast+
  moreover have "\<forall>u. mirrored_version s = Some u \<longrightarrow> reflects S (answers s u) (row s)"
    "\<forall>j v. phase s j = Finished v \<longrightarrow> (\<exists>u. mirrored_version s = Some u \<and> v \<le> u)"
    using inv unfolding sync_inv_def by blast+
  ultimately show ?thesis using w h unfolding sync_inv_def by auto
qed

lemma sync_inv_step:
  assumes "sync_step S preloads refresh s t" "sync_inv S s" "refresh \<or> no_holding s"
  shows "sync_inv S t"
  using assms
proof (induction rule: sync_step.induct)
  case (write_and_commit s i a v)
  then show ?case by (simp add: sync_inv_write)
next
  case (stripe_moves s)
  then show ?case by (fastforce simp: sync_inv_def intro: le_SucI)
next
  case (lock_fresh s i)
  then show ?case using sync_inv_locks by simp
next
  case (lock_held s i a)
  then have "refresh" by (auto simp: no_holding_def)
  with lock_held show ?case using sync_inv_locks by simp
next
  case (fail s i)
  then show ?case using sync_inv_rests by simp
next
  case (time_passes s u)
  then show ?case by (simp add: sync_inv_def)
next
  case (ask s i a)
  then show ?case using sync_inv_asks by simp
next
  case (preload s i)
  then show ?case by (intro sync_inv_idles [where a = "row s"]) simp_all
next
  case (start_again s i v)
  then show ?case by (intro sync_inv_idles [where a = "row s"]) simp_all
qed

lemma sync_inv_reach:
  assumes "sync_reach S preloads refresh s" "refresh \<or> \<not> preloads"
  shows "sync_inv S s \<and> (\<not> preloads \<longrightarrow> no_holding s)"
  using assms
proof (induction rule: sync_reach.induct)
  case (start s)
  then show ?case using initial_inv by blast
next
  case (step s t)
  then have inv: "sync_inv S s" and idle: "\<not> preloads \<Longrightarrow> no_holding s" by auto
  have "no_holding t" if "\<not> preloads"
    using step.hyps(2) idle [OF that] that by (simp add: no_holding_step)
  moreover have "sync_inv S t"
    using sync_inv_step [OF step.hyps(2) inv] idle step.prems by blast
  ultimately show ?case by blast
qed

section \<open>What the lock gives, and what an earlier load takes away\<close>

text \<open>
  Where no worker loaded the row before taking its lock, or where the locking read refreshes what
  was loaded, newer state is never overwritten with older. \<open>Workers\<close> shows this of the code's
  own operations for the first case; here is what the second would give.
\<close>

theorem refreshing_lock_keeps_newest:
  assumes "sync_reach S preloads refresh s" "refresh \<or> \<not> preloads" "phase s i = Finished v"
  shows "\<exists>u. v \<le> u \<and> u \<le> version s \<and> reflects S (answers s u) (row s)"
  using sync_inv_reach [OF assms(1,2)] assms(3) unfolding sync_inv_def by blast

definition ex_answers :: "nat \<Rightarrow> remote_subscription option" where
  "ex_answers v = (if v = 1 then Some ex_failing else Some ex_remote)"

definition two_workers ::
  "nat \<Rightarrow> subscription \<Rightarrow> nat option \<Rightarrow> nat option \<Rightarrow> phase \<Rightarrow> phase \<Rightarrow> sync_system" where
  "two_workers v r m h p q =
     \<lparr>answers = ex_answers, version = v, moment = 1000000, row = r, mirrored_version = m,
      holder = h, phase = (\<lambda>_. Resting)(0 := p, 1 := q)\<rparr>"

lemma two_workers_moves:
  "sync_step S x y (two_workers v r m h p q) (two_workers (Suc v) r m h p q)"
  using sync_step.stripe_moves [of S x y "two_workers v r m h p q"] by (simp add: two_workers_def)

lemma two_workers_preload:
  "sync_step S True y (two_workers v r m h Resting q) (two_workers v r m h (Holding r) q)"
  using sync_step.preload [of True "two_workers v r m h Resting q" 0]
  by (simp add: two_workers_def fun_upd_twist)

lemma two_workers_second:
  "sync_step S x y (two_workers v r m None p Resting) (two_workers v r m (Some 1) p (Locked r))"
  "sync_step S x y (two_workers v r m h p (Locked a)) (two_workers v r m h p (Answered a v))"
  "sync_step S x y (two_workers v r m h p (Answered a u))
     (two_workers v (flush_row a (mirrored S 1000000 (ex_answers u) a) r) (Some u) None p (Finished u))"
  using sync_step.lock_fresh [of "two_workers v r m None p Resting" 1]
    sync_step.ask [of "two_workers v r m h p (Locked a)" 1]
    sync_step.write_and_commit [of "two_workers v r m h p (Answered a u)" 1]
  by (simp_all add: two_workers_def write_row_def)

lemma two_workers_first:
  "sync_step S x False (two_workers v r m None (Holding a) q) (two_workers v r m (Some 0) (Locked a) q)"
  "sync_step S x y (two_workers v r m h (Locked a) q) (two_workers v r m h (Answered a v) q)"
  "sync_step S x y (two_workers v r m h (Answered a u) q)
     (two_workers v (flush_row a (mirrored S 1000000 (ex_answers u) a) r) (Some u) None (Finished u) q)"
  using sync_step.lock_held [of "two_workers v r m None (Holding a) q" 0 a S x False]
    sync_step.ask [of "two_workers v r m h (Locked a) q" 0]
    sync_step.write_and_commit [of "two_workers v r m h (Answered a u) q" 0]
  by (simp_all add: two_workers_def write_row_def fun_upd_twist)

lemma two_workers_start:
  "sync_reach S x y (two_workers v r None None Resting Resting)"
  by (rule sync_reach.start) (simp add: two_workers_def initial_def)

text \<open>A webhook's synchronisation while the subscription fails.\<close>

lemma second_worker_finishes:
  assumes "sync_reach S x y (two_workers v r m None p Resting)"
  shows "sync_reach S x y (two_workers v (mirrored S 1000000 (ex_answers v) r) (Some v) None p (Finished v))"
proof -
  note a = sync_reach.step [OF assms two_workers_second(1)]
  note b = sync_reach.step [OF a two_workers_second(2)]
  note c = sync_reach.step [OF b two_workers_second(3)]
  then show ?thesis by (simp add: flush_fresh)
qed

text \<open>
  A row loaded before the lock hides newer state. With SQLAlchemy's documented behaviour (a
  locking read leaves the attributes of an object the session already holds) there is a run in
  which the customer's own resync reads Stripe last, finds the subscription active, finishes
  without an error, and leaves the row past due as another worker had written it: the object
  still carries the columns of before, so the flush finds nothing to update.
\<close>

theorem preloaded_row_hides_newer_state:
  "\<exists>s. sync_reach ex_settings True False s \<and> phase s 0 = Finished (version s) \<and>
     answers s (version s) = Some ex_remote \<and> rs_status ex_remote = ACTIVE \<and>
     status_col (row s) = status_value PAST_DUE \<and> \<not> reflects ex_settings (answers s (version s)) (row s)"
proof -
  let ?failing = "mirrored ex_settings 1000000 (Some ex_failing) ex_subscribed"
  have again: "mirrored ex_settings 1000000 (Some ex_remote) ex_subscribed = ex_subscribed"
    by (simp add: ex_subscribed_def mirrored_def)
  have "sync_reach ex_settings True False (two_workers 1 ex_subscribed None None (Holding ex_subscribed) Resting)"
    using sync_reach.step [OF sync_reach.step [OF two_workers_start two_workers_preload] two_workers_moves]
    by simp
  from second_worker_finishes [OF this]
  have "sync_reach ex_settings True False
      (two_workers 1 ?failing (Some 1) None (Holding ex_subscribed) (Finished 1))"
    by (simp add: ex_answers_def)
  note a = sync_reach.step [OF this two_workers_moves]
  note b = sync_reach.step [OF a two_workers_first(1)]
  note c = sync_reach.step [OF b two_workers_first(2)]
  note d = sync_reach.step [OF c two_workers_first(3)]
  let ?s = "two_workers 2 ?failing (Some 2) None (Finished 2) (Finished 1)"
  have run: "sync_reach ex_settings True False ?s"
    using d by (simp add: ex_answers_def again flush_unchanged numeral_2_eq_2)
  have row: "status_col ?failing = status_value PAST_DUE"
    by (simp add: mirrored_def ex_failing_def)
  have "status_col (mirrored ex_settings 1000000 (Some ex_remote) ?failing) = status_value ACTIVE"
    by (simp add: mirrored_def ex_remote_def)
  then have "\<not> reflects ex_settings (Some ex_remote) ?failing"
    using row unfolding reflects_def by (metis status_value_inj subscription_status.distinct)
  with run row show ?thesis
    by (intro exI [of _ ?s]) (simp add: two_workers_def ex_answers_def ex_remote_def)
qed

end
