(* ===== verification/World_Law.thy ===== *)
theory World_Law
  imports Accounts Frames Admin Webhooks Expire_Grace Health
begin

text \<open>
  What every endpoint and job keeps. \<open>world_law\<close> is the interface: a predicate on worlds that
  survives the writes the service makes to its tables, and a predicate on subscription rows that
  holds of every row it writes. Inside it each operation is shown, once, to keep the predicate
  on every branch and at every interference of other workers. \<open>table_law\<close> gives that interface
  from a predicate on the tables alone.
\<close>

text \<open>What the provider can answer when asked for a customer's current subscription.\<close>

definition answered :: "'r provider \<Rightarrow> remote_subscription option \<Rightarrow> bool" where
  "answered PV ans \<longleftrightarrow> (\<exists>cid s s'. p_fetch_current_subscription PV cid s = (Inr ans, s'))"

definition row_of_user :: "string \<Rightarrow> (subscription \<Rightarrow> subscription) \<Rightarrow> database \<Rightarrow> database" where
  "row_of_user uid f db = db\<lparr>subscriptions := map (\<lambda>r. if user_id r = uid then f r else r) (subscriptions db)\<rparr>"

locale row_law =
  fixes P :: "subscription \<Rightarrow> bool" and S :: settings and PV :: "'r provider"
  assumes row_new: "P (new_subscription uid)"
    and row_mirror: "answered PV ans \<Longrightarrow> P (write_state t (project S ans) sub)"
    and row_customer: "P sub \<Longrightarrow> P (sub\<lparr>stripe_customer_id := Some c\<rparr>)"
    and row_disputed: "P sub \<Longrightarrow> P (sub\<lparr>disputed_at := Some s\<rparr>)"
    and row_extended: "P sub \<Longrightarrow> P (extended days sub)"

locale world_law = row_law P S PV for P and S and PV :: "'r provider" +
  fixes K :: "('r, 'c) world \<Rightarrow> bool"
  assumes K_marks: "K w \<Longrightarrow> K (w\<lparr>marks := ms\<rparr>)"
    and K_remote: "K w \<Longrightarrow> K (w\<lparr>remote := x\<rparr>)"
    and K_cache: "K w \<Longrightarrow> K (w\<lparr>cache := c\<rparr>)"
    and K_metrics: "K w \<Longrightarrow> registered (name, ls) \<Longrightarrow> K (w\<lparr>metrics := metrics w @ [(name, ls)]\<rparr>)"
    and K_ids: "K w \<Longrightarrow> K (w\<lparr>next_id := n\<rparr>)"
    and K_rival: "K w \<Longrightarrow> K (rival_lands w)"
    and K_commit: "K w \<Longrightarrow> unique_rows (view w) \<Longrightarrow> K (w\<lparr>durable := view w\<rparr>)"
    and K_rollback: "K w \<Longrightarrow> K (w\<lparr>view := durable w\<rparr>)"
    and K_nested: "K w \<Longrightarrow> K w' \<Longrightarrow> K (w'\<lparr>view := fold (\<lambda>f db. f db) (landed_since w w') (view w)\<rparr>)"
    and K_rows: "K w \<Longrightarrow> sub \<in> set (subscriptions (view w)) \<Longrightarrow> P sub"
    and K_put: "K w \<Longrightarrow> P sub \<Longrightarrow>
        K (w\<lparr>view := (view w)\<lparr>subscriptions := put_subscription sub (subscriptions (view w))\<rparr>\<rparr>)"
    and K_add: "K w \<Longrightarrow> P sub \<Longrightarrow> K (w\<lparr>view := (view w)\<lparr>subscriptions := subscriptions (view w) @ [sub]\<rparr>\<rparr>)"
    and K_audit: "K w \<Longrightarrow> K (w\<lparr>view := (view w)\<lparr>subscription_audit := subscription_audit (view w) @ [a]\<rparr>\<rparr>)"
    and K_events: "K w \<Longrightarrow> K (w\<lparr>view := (view w)\<lparr>processed_events := es\<rparr>\<rparr>)"
    and K_inquiries: "K w \<Longrightarrow> K (w\<lparr>view := (view w)\<lparr>sales_inquiries := qs\<rparr>\<rparr>)"
    and K_grant: "K w \<Longrightarrow> K (w\<lparr>view := (view w)\<lparr>entitlement_grants :=
        entitlement_grants (view w) @ [new_grant i t actor body]\<rparr>\<rparr>)"
    and K_revoke: "K w \<Longrightarrow> K (w\<lparr>view := change_grant i (\<lambda>g. g\<lparr>revoked_at := Some u\<rparr>) (view w)\<rparr>)"
    and K_usage: "K w \<Longrightarrow> K (snd (mirror_usage uid key start finish w))"
begin

subsection \<open>The session\<close>

lemma law_basic:
  "registered (n, ls) \<Longrightarrow> keeps K (inc n ls)" "keeps K (call g)" "keeps K (cached h)" "keeps K fresh_id"
  "keeps K (mark_entitlements_stale uid)" "keeps K rollback" "keeps K (mirror_usage uid key start finish)"
  by (simp_all add: keeps_def call_apply cached_apply mark_entitlements_stale_def
      K_marks K_remote K_cache K_metrics K_ids K_usage K_rollback)

lemma law_flush: "keeps K flush"
  by (auto simp: keeps_def flush_apply K_rival)

lemma law_commit: "keeps K commit"
proof (rule keepsI)
  fix w assume K: "K w"
  show "K (snd (commit w))"
  proof (cases "db_up w \<and> unique_rows (view (rival_lands w))")
    case True
    have K1: "K ((rival_lands w)\<lparr>durable := view (rival_lands w)\<rparr>)"
      using True K_commit [OF K_rival [OF K]] by blast
    moreover have "keeps K after_commit"
      unfolding after_commit_def by (intro keeps_intro keeps_modify law_basic registered_counts K_marks)
    then have "K (snd (after_commit v))" if "K v" for v
      using that by (simp only: keeps_def)
    moreover have "commit w = after_commit ((rival_lands w)\<lparr>durable := view (rival_lands w)\<rparr>)"
      using True by (simp add: commit_def and_then_def flush_apply)
    ultimately show ?thesis by (simp only:)
  next
    case False
    then have "snd (commit w) = w \<or> snd (commit w) = rival_lands w"
      by (auto simp: commit_def and_then_def flush_apply)
    then show ?thesis using K K_rival by metis
  qed
qed

lemma law_nested: "keeps K m \<Longrightarrow> keeps K (begin_nested m)"
  by (intro keeps_begin_nested K_nested)

lemma law_save: "P sub \<Longrightarrow> keeps K (save sub)"
  unfolding save_def by (intro keeps_update_view K_put)

lemma law_audit: "keeps K (record_audit uid b a r e d)"
  unfolding record_audit_def by (intro keeps_intro keeps_update_view K_audit)

lemma law_request: "keeps K m \<Longrightarrow> keeps K (request m)"
  unfolding request_def by (intro keeps_intro law_basic)

lemma law_admin: "keeps K m \<Longrightarrow> keeps K (admin S' key m)"
  unfolding admin_def by (intro keeps_intro)

lemma law_user: "(\<And>u. keeps K (m u)) \<Longrightarrow> keeps K (as_user S' J authorization m)"
  unfolding as_user_def by (intro keeps_intro)

lemmas law = law_basic registered_counts law_flush law_commit law_nested law_audit law_request law_admin law_user

lemma law_commit_and_invalidate: "keeps K (commit_and_invalidate B)"
  unfolding commit_and_invalidate_def invalidate_one_def invalidate_entitlements_def
  by (intro keeps_intro keeps_modify law K_marks)

subsection \<open>Loaded rows\<close>

lemma law_rows:
  "yields K (get_subscription uid) (\<lambda>r. \<forall>s. r = Some s \<longrightarrow> P s)"
  "yields K (find_by_customer cid lock) (\<lambda>r. \<forall>s. r = Some s \<longrightarrow> P s)"
  unfolding yields_def get_subscription_def find_by_customer_def
  by (auto simp: and_then_returns split: list.splits if_splits dest!: filter_Cons_D dest: K_rows)

lemma law_found:
  assumes "\<And>r. \<forall>s. r = Some s \<longrightarrow> P s \<Longrightarrow> keeps K (f r)"
  shows "keeps K (and_then (get_subscription uid) f)" "keeps K (and_then (find_by_customer cid lock) f)"
  by (rule keeps_and_then_yields [OF keeps_frame [OF get_subscription_frame] law_rows(1)], erule assms)
    (rule keeps_and_then_yields [OF keeps_frame [OF find_by_customer_frame] law_rows(2)], erule assms)

lemma law_asked:
  assumes "\<And>ans. answered PV ans \<Longrightarrow> keeps K (f ans)"
  shows "keeps K (and_then (call (p_fetch_current_subscription PV cid)) f)"
proof (rule keeps_and_then_yields [OF law_basic(2)])
  show "yields K (call (p_fetch_current_subscription PV cid)) (answered PV)"
    unfolding yields_def call_def answered_def by (auto split: prod.splits)
qed (rule assms)

lemma law_get_or_create:
  "keeps K (get_or_create_subscription uid)" "yields K (get_or_create_subscription uid) P"
proof -
  show "keeps K (get_or_create_subscription uid)"
    unfolding get_or_create_subscription_def Let_def
    by (intro keeps_intro law keeps_update_view K_add row_new keeps_frame get_subscription_frame)
  show "yields K (get_or_create_subscription uid) P"
    unfolding get_or_create_subscription_def Let_def
  proof (rule yields_and_then [OF _ law_rows(1)])
    fix a assume "\<forall>s. a = Some s \<longrightarrow> P s"
    then show "yields K (case a of None \<Rightarrow> and_then (update_view (\<lambda>db. db\<lparr>subscriptions :=
        subscriptions db @ [new_subscription uid]\<rparr>)) (\<lambda>_. and_then flush (\<lambda>_. ret (new_subscription uid)))
        | Some sub \<Rightarrow> ret sub) P"
      by (cases a) (auto simp: yields_def and_then_returns row_new)
  qed (simp add: keeps_frame get_subscription_frame)
qed

subsection \<open>The write path\<close>

lemma law_create: "keeps K (create_or_take cid uid)"
proof -
  have found: "yields K (case found of Some sub \<Rightarrow> ret (Some sub) | None \<Rightarrow> get_subscription uid)
      (\<lambda>r. \<forall>s. r = Some s \<longrightarrow> P s)"
    if "\<forall>s. found = Some s \<longrightarrow> P s" for found
    using that by (cases found) (auto simp: law_rows)
  have k: "keeps K (case found of Some sub \<Rightarrow> ret (Some sub) | None \<Rightarrow> get_subscription uid)" for found
    by (cases found) (auto simp: keeps_frame get_subscription_frame keeps_ret)
  show ?thesis
    unfolding create_or_take_def Let_def
    by (intro keeps_try_except law_nested keeps_if keeps_raise
        keeps_and_then_yields [OF law_get_or_create] law_found(2)
        keeps_and_then_yields [OF k found] keeps_case_option keeps_and_then
        law_save row_customer law keeps_ret; simp)
qed

lemma law_write_mirror: "answered PV ans \<Longrightarrow> keeps K (write_mirror S event reason sub ans)"
  unfolding write_mirror_def Let_def
  by (intro keeps_intro law law_save row_mirror)

lemma law_adopted:
  "keeps K (adopt_customer S PV cid)"
  "yields K (adopt_customer S PV cid) (\<lambda>r. \<forall>sub rem. r = Some (sub, rem) \<longrightarrow> answered PV (Some rem))"
proof -
  show "keeps K (adopt_customer S PV cid)"
    unfolding adopt_customer_def Let_def by (intro keeps_intro law law_create)
  show "yields K (adopt_customer S PV cid) (\<lambda>r. \<forall>sub rem. r = Some (sub, rem) \<longrightarrow> answered PV (Some rem))"
    unfolding yields_def
  proof (intro allI impI)
    fix w :: "('r, 'c) world" and r t sub rem
    assume "adopt_customer S PV cid w = (Inr r, t)" "r = Some (sub, rem)"
    then obtain ans r1 where "p_fetch_current_subscription PV cid (remote w) = (Inr ans, r1)"
      "belongs_to_this_service S ans" "rem = the ans"
      using adopt_customer_returns by blast
    then show "answered PV (Some rem)"
      unfolding answered_def by (cases ans) (auto simp: belongs_to_this_service_def)
  qed
qed

lemma law_sync: "keeps K (sync_subscription_from_stripe S PV cid event reason)"
proof -
  have adopted: "keeps K (and_then (adopt_customer S PV cid) (\<lambda>adopted. case adopted of
      None \<Rightarrow> ret None | Some (sub, rem) \<Rightarrow> write_mirror S event reason sub (Some rem)))"
    by (rule keeps_and_then_yields [OF law_adopted])
      (auto intro!: keeps_intro law_write_mirror split: option.split)
  show ?thesis
    unfolding sync_subscription_from_stripe_def
    by (intro law_found(2) keeps_case_option law_asked law_write_mirror adopted)
qed

lemma law_disputed: "keeps K (mark_disputed cid event)"
  unfolding mark_disputed_def Let_def
  by (intro law_found(2) keeps_intro law law_save row_disputed) simp

lemma law_start_checkout: "keeps K (start_checkout S PV sha256 uid email body)"
  unfolding start_checkout_def Let_def
  by (intro keeps_intro keeps_and_then_yields [OF law_get_or_create] law law_save row_customer)

lemma law_cancel_resume:
  "keeps K (schedule_cancellation S PV uid)" "keeps K (resume_subscription S PV uid)"
  unfolding schedule_cancellation_def resume_subscription_def set_and_sync_def Let_def
  by (intro keeps_intro law law_sync keeps_frame get_subscription_frame)+

lemma law_open_portal: "keeps K (open_portal S PV uid return_url target)"
  unfolding open_portal_def plan_change_flow_def Let_def
  by (intro keeps_intro law keeps_frame get_subscription_frame)

subsection \<open>The read path\<close>

lemma only_cache_law: "(\<And>w0. keeps (only_cache w0) m) \<Longrightarrow> keeps K m"
proof (rule keepsI)
  fix w assume m: "\<And>w0. keeps (only_cache w0) m" and K: "K w"
  have "only_cache w (snd (m w))" using m [of w] by (simp add: keeps_def)
  then have "snd (m w) = w\<lparr>cache := cache (snd (m w)), metrics := metrics (snd (m w))\<rparr>"
    by (simp add: only_cache_def)
  moreover obtain ms where "metrics (snd (m w)) = metrics w @ ms" "list_all registered ms"
    using \<open>only_cache w (snd (m w))\<close> by (auto simp: only_cache_def)
  moreover have "list_all registered ms \<Longrightarrow> K (w\<lparr>cache := c, metrics := metrics w @ ms\<rparr>)" for c ms
  proof (induction ms rule: rev_induct)
    case Nil
    then show ?case using K_cache [OF K] by simp
  next
    case (snoc x xs)
    then show ?case
      using K_metrics [of "w\<lparr>cache := c, metrics := metrics w @ xs\<rparr>" "fst x" "snd x"] by simp
  qed
  ultimately show "K (snd (m w))" by metis
qed

lemma law_reads:
  "keeps K (resolve_entitlements S' B uid)" "keeps K (entitlement_view S' B uid)"
  "keeps K (contact_sales_rate_limit S' B f p)"
  by (intro only_cache_law keeps_only_cache_resolve keeps_only_cache_view keeps_only_cache_limit)+

lemma law_consume: "keeps K (consume B uid key e)"
  unfolding consume_def Let_def
  by (intro keeps_intro law)

lemma law_chat: "keeps K (chat S' B uid model message)"
  unfolding chat_def by (intro keeps_intro law law_reads law_consume)

lemma law_flags: "keeps K (is_enabled client name uid)"
  unfolding is_enabled_def flag_value_def
  by (auto intro!: keeps_intro law split: option.split sum.split)

end

end
