(* ===== verification/Serve.thy ===== *)
theory Serve
  imports World_Law
begin

text \<open>
  The service as one machine. \<open>serve\<close> runs one request or one job of the deployment; between
  requests a fresh session is opened on the durable rows. While a request runs, other workers
  commit (\<open>rivals\<close>): what they write is \<open>worker_write\<close>, any composition of the updates the
  service makes to its tables, and a commit that breaks a unique constraint does not happen.
  \<open>system_reach\<close> are the worlds a deployment can get into from empty tables.
\<close>

section \<open>Requests\<close>

record ('r, 'c, 'k) deployment =
  dp_settings :: settings
  dp_provider :: "'r provider"
  dp_cache :: "('c, document) cache_backend"
  dp_jwt :: "'k jwt_library"
  dp_flags :: "flag_client option"
  dp_sha256 :: "string \<Rightarrow> string"
  dp_trace :: "exc \<Rightarrow> string"
  dp_postgres :: bool
  dp_probe :: probe
  dp_pydantic :: pydantic
  dp_smtp :: "string \<Rightarrow> string \<Rightarrow> ('r, unit) call"

datatype api_call =
    Get_plans
  | Post_checkout "string option" checkout_request
  | Post_portal "string option" "(tier option \<times> billing_interval) option"
  | Get_subscription "string option"
  | Post_resume "string option"
  | Post_cancel "string option"
  | Post_contact_sales "string option" "string option" "string option" contact_request
  | Get_entitlements "string option"
  | Post_chat "string option" string string
  | Stripe_delivery string "string option"
  | Admin_inspect "string option" string
  | Admin_resync "string option" string
  | Admin_extend_grace "string option" string int
  | Admin_create_grant "string option" "string option" grant_request
  | Admin_revoke_grant "string option" string
  | Admin_inquiries "string option" "bool option" nat
  | Admin_mark_handled "string option" string
  | Readyz bool bool
  | Job_expire_grace
  | Job_reconcile bool nat "nat list option"

definition ending :: "('r, 'c, 'a) service \<Rightarrow> ('r, 'c, unit) service" where
  "ending m = and_then m (\<lambda>_. ret ())"

definition run_job :: "('r, 'c, bool) job \<Rightarrow> ('r, 'c, unit) service" where
  "run_job m = (\<lambda>w. case m (w, empty_report) of (r, s) \<Rightarrow> (map_sum id (\<lambda>_. ()) r, fst s))"

fun serve :: "('r, 'c, 'k) deployment \<Rightarrow> api_call \<Rightarrow> ('r, 'c, unit) service" where
  "serve D Get_plans = ending (plans (dp_settings D) (dp_pydantic D) (dp_provider D) (dp_cache D))"
| "serve D (Post_checkout a b) =
     ending (checkout (dp_settings D) (dp_provider D) (dp_jwt D) (dp_flags D) (dp_sha256 D) a b)"
| "serve D (Post_portal a b) = ending (portal (dp_settings D) (dp_provider D) (dp_jwt D) a b)"
| "serve D (Get_subscription a) = ending (my_subscription (dp_settings D) (dp_pydantic D) (dp_jwt D) a)"
| "serve D (Post_resume a) = ending (resume (dp_settings D) (dp_pydantic D) (dp_provider D) (dp_cache D) (dp_jwt D) a)"
| "serve D (Post_cancel a) = ending (cancel (dp_settings D) (dp_pydantic D) (dp_provider D) (dp_cache D) (dp_jwt D) a)"
| "serve D (Post_contact_sales f p a b) = ending (contact_sales (dp_settings D) (dp_cache D) (dp_jwt D) f p a b)"
| "serve D (Get_entitlements a) =
     ending (as_user (dp_settings D) (dp_jwt D) a (\<lambda>u. my_entitlements (dp_settings D) (dp_cache D) (cu_id u)))"
| "serve D (Post_chat a model message) =
     ending (as_user (dp_settings D) (dp_jwt D) a (\<lambda>u. chat (dp_settings D) (dp_cache D) (cu_id u) model message))"
| "serve D (Stripe_delivery payload signature) =
     ending (stripe_webhook (dp_settings D) (dp_provider D) (dp_cache D) (dp_trace D) payload signature)"
| "serve D (Admin_inspect k u) = ending (inspect_user (dp_settings D) (dp_cache D) k u)"
| "serve D (Admin_resync k u) = ending (resync (dp_settings D) (dp_provider D) (dp_cache D) k u)"
| "serve D (Admin_extend_grace k u days) = ending (extend_grace (dp_settings D) (dp_cache D) k u days)"
| "serve D (Admin_create_grant k actor body) = ending (create_grant (dp_settings D) (dp_cache D) k actor body)"
| "serve D (Admin_revoke_grant k i) = ending (revoke_grant (dp_settings D) (dp_cache D) k i)"
| "serve D (Admin_inquiries k h n) = ending (sales_inquiries_list (dp_settings D) k h n)"
| "serve D (Admin_mark_handled k i) = ending (mark_inquiry_handled (dp_settings D) k i)"
| "serve D (Readyz d c) = ending (readiness (dp_settings D) (dp_probe D) (dp_cache D) d c)"
| "serve D Job_expire_grace = ending (expire_grace_windows (dp_settings D) (dp_cache D))"
| "serve D (Job_reconcile dry fuel auth_users) =
     run_job (reconcile (dp_settings D) (dp_provider D) (dp_cache D)
       (supabase_accounts (dp_postgres D) auth_users)
       (email_notifier (dp_settings D) (\<lambda>subject body. call (dp_smtp D subject body))) dry fuel)"

section \<open>Other workers\<close>

inductive worker_write :: "settings \<Rightarrow> 'r provider \<Rightarrow> (database \<Rightarrow> database) \<Rightarrow> bool" for S PV where
  nothing: "worker_write S PV (\<lambda>db. db)"
| in_turn: "worker_write S PV f \<Longrightarrow> worker_write S PV g \<Longrightarrow> worker_write S PV (\<lambda>db. g (f db))"
| depending: "(\<And>d. worker_write S PV (F d)) \<Longrightarrow> worker_write S PV (\<lambda>db. F db db)"
| inserts: "worker_write S PV (\<lambda>db. db\<lparr>subscriptions := subscriptions db @ [new_subscription uid]\<rparr>)"
| mirrors: "answered PV ans \<Longrightarrow>
    worker_write S PV (row_of_user uid (\<lambda>r. write_state t (project S ans) r))"
| sets_customer: "worker_write S PV (row_of_user uid (\<lambda>r. r\<lparr>stripe_customer_id := Some c\<rparr>))"
| disputes: "worker_write S PV (row_of_user uid (\<lambda>r. r\<lparr>disputed_at := Some s\<rparr>))"
| extends: "worker_write S PV (row_of_user uid (extended days))"
| audits: "worker_write S PV (\<lambda>db. db\<lparr>subscription_audit := subscription_audit db @ [a]\<rparr>)"
| events: "worker_write S PV (\<lambda>db. db\<lparr>processed_events := es\<rparr>)"
| inquiries: "worker_write S PV (\<lambda>db. db\<lparr>sales_inquiries := qs\<rparr>)"
| counters: "worker_write S PV (\<lambda>db. db\<lparr>usage_counters := cs\<rparr>)"
| grants: "worker_write S PV (\<lambda>db. db\<lparr>entitlement_grants := entitlement_grants db @ [new_grant i t actor body]\<rparr>)"
| revokes: "worker_write S PV (change_grant i (\<lambda>g. g\<lparr>revoked_at := Some u\<rparr>))"

definition guarded :: "(database \<Rightarrow> database) \<Rightarrow> database \<Rightarrow> database" where
  "guarded f db = (if unique_rows (f db) then f db else db)"

section \<open>The machine\<close>

definition opened :: "(database \<Rightarrow> database) list \<Rightarrow> ('r, 'c) world \<Rightarrow> ('r, 'c) world" where
  "opened fs w = w\<lparr>view := durable w, marks := [], rivals := map guarded fs\<rparr>"

inductive system_step :: "('r, 'c, 'k) deployment \<Rightarrow> ('r, 'c) world \<Rightarrow> ('r, 'c) world \<Rightarrow> bool" for D where
  served: "\<forall>f \<in> set fs. worker_write (dp_settings D) (dp_provider D) f \<Longrightarrow>
    system_step D w (snd (serve D c (opened fs w)))"
| elsewhere: "now w \<le> t \<Longrightarrow>
    system_step D w (w\<lparr>now := t, remote := r, cache := ca, db_up := up, locked := ls\<rparr>)"

inductive system_runs :: "('r, 'c, 'k) deployment \<Rightarrow> ('r, 'c) world \<Rightarrow> ('r, 'c) world \<Rightarrow> bool" for D where
  at_rest: "system_runs D w w"
| goes_on: "system_runs D w v \<Longrightarrow> system_step D v u \<Longrightarrow> system_runs D w u"

definition system_reach :: "('r, 'c, 'k) deployment \<Rightarrow> ('r, 'c) world \<Rightarrow> bool" where
  "system_reach D w \<longleftrightarrow> (\<exists>w0. durable w0 = empty_db \<and> system_runs D w0 w)"

section \<open>What every request keeps\<close>

context world_law begin

lemma law_extended: "P sub \<Longrightarrow> keeps K (save (extended days sub))"
  by (intro law_save row_extended)

lemma law_billing:
  "keeps K (plans S V PV B)" "keeps K (checkout S PV J flags sha256 a b)" "keeps K (portal S PV J a pb)"
  "keeps K (my_subscription S V J a)" "keeps K (resume S V PV B J a)" "keeps K (cancel S V PV B J a)"
proof -
  have prices: "keeps K (plan_prices S V PV t is)" for t "is"
  proof (induction "is")
    case Nil
    show ?case by (simp add: keeps_def)
  next
    case (Cons i "is")
    then show ?case
      unfolding plan_prices.simps price_amount_def by (intro keeps_intro law Cons.IH)
  qed
  show "keeps K (plans S V PV B)"
    unfolding plans_def plan_of_def Let_def by (intro keeps_intro law prices)
  show "keeps K (checkout S PV J flags sha256 a b)"
    unfolding checkout_def by (intro law_user law_request keeps_intro law law_flags law_start_checkout)
  show "keeps K (portal S PV J a pb)"
    unfolding portal_def by (intro law_user law_request keeps_intro law_open_portal)
  show "keeps K (my_subscription S V J a)"
    unfolding my_subscription_def by (intro law_user law_request keeps_intro law law_get_or_create)
  show "keeps K (resume S V PV B J a)" "keeps K (cancel S V PV B J a)"
    unfolding resume_def cancel_def
    by (intro law_user law_request keeps_intro law_cancel_resume law_commit_and_invalidate)+
qed

lemma law_contact_sales: "keeps K (contact_sales S B J f p a b)"
  unfolding contact_sales_def Let_def
  by (intro keeps_intro law law_reads keeps_update_view K_inquiries)

lemma law_admin_endpoints:
  "keeps K (inspect_user S B k u)" "keeps K (resync S PV B k u)" "keeps K (extend_grace S B k u days)"
  "keeps K (create_grant S B k actor body)" "keeps K (revoke_grant S B k i)"
  "keeps K (sales_inquiries_list S k h n)" "keeps K (mark_inquiry_handled S k i)"
proof -
  have sub: "keeps K (require_subscription uid)" "yields K (require_subscription uid) P" for uid
  proof -
    show "keeps K (require_subscription uid)"
      unfolding require_subscription_def by (intro keeps_intro keeps_frame get_subscription_frame)
    show "yields K (require_subscription uid) P"
      unfolding require_subscription_def
      by (rule yields_and_then [OF keeps_frame [OF get_subscription_frame] law_rows(1)])
        (auto simp: yields_def split: option.splits)
  qed
  show "keeps K (inspect_user S B k u)"
    unfolding inspect_user_def by (intro law_admin law_request keeps_intro sub(1) law_reads)
  show "keeps K (resync S PV B k u)"
    unfolding resync_def Let_def
    by (intro law_admin law_request keeps_intro sub(1) law_sync law_commit_and_invalidate)
  show "keeps K (extend_grace S B k u days)"
    unfolding extend_grace_def Let_def
    by (intro law_admin law_request keeps_and_then_yields [OF sub] keeps_intro law law_extended
        law_commit_and_invalidate)
  show "keeps K (create_grant S B k actor body)"
    unfolding create_grant_def Let_def
    by (intro law_admin law_request keeps_intro law keeps_update_view K_grant law_commit_and_invalidate)
  show "keeps K (revoke_grant S B k i)"
    unfolding revoke_grant_def
    by (intro law_admin law_request keeps_intro law keeps_update_view K_revoke law_commit_and_invalidate)
  show "keeps K (sales_inquiries_list S k h n)"
    unfolding sales_inquiries_list_def by (intro law_admin law_request keeps_intro)
  show "keeps K (mark_inquiry_handled S k i)"
    unfolding mark_inquiry_handled_def Let_def
    by (intro law_admin law_request keeps_intro law keeps_update_view K_inquiries)
qed

lemma law_webhook: "keeps K (stripe_webhook S PV B trace payload signature)"
proof -
  have claim: "keeps K (claim_event eid etype)" for eid etype
    unfolding claim_event_def change_event_def add_event_def
    by (intro keeps_intro law keeps_update_view K_events)
  have mark: "keeps K (mark_event eid st e)" for eid st e
    unfolding mark_event_def change_event_def by (intro keeps_intro keeps_update_view K_events)
  have handle: "keeps K (handle_event S PV eid etype event)" for eid etype event
    unfolding handle_event_def by (intro keeps_intro law law_sync law_disputed)
  show ?thesis
    unfolding stripe_webhook_def process_event_def
    by (intro law_request keeps_intro law claim mark handle law_commit_and_invalidate)
qed

lemma law_expire_grace: "keeps K (expire_grace_windows S B)"
proof -
  have "keeps K (expire_rows S subs)" for subs
  proof (induction subs)
    case Nil
    show ?case by (simp add: keeps_def)
  next
    case (Cons a subs)
    then show ?case
      unfolding expire_rows.simps already_reported_def by (intro keeps_intro law Cons.IH)
  qed
  then show ?thesis
    unfolding expire_grace_windows_def by (intro keeps_intro law law_commit_and_invalidate)
qed

lemma law_readiness: "keeps K (readiness S' P' B d c)"
  unfolding readiness_def ended_def check_database_def check_cache_def Let_def
  by (intro keeps_intro law)

subsection \<open>The reconciliation, over the job's own report\<close>

definition job_law :: "('r, 'c) world \<times> report \<Rightarrow> bool" where
  "job_law s \<longleftrightarrow> K (fst s)"

lemma job_basic: "keeps K m \<Longrightarrow> keeps job_law (svc m)" "keeps job_law (jot f)"
  by (auto simp: keeps_def job_law_def svc_def jot_def split: prod.splits)

lemma law_reconcile_item:
  assumes "\<And>ids. keeps K (AD ids)"
  shows "keeps job_law (reconcile_item S PV B AD dry rem)"
  unfolding reconcile_item_def repair_one_def reconcile_one_def record_orphan_def user_id_of_def account_state_def Let_def
  by (intro keeps_intro job_basic law law_sync law_commit_and_invalidate assms keeps_frame find_by_customer_frame)

lemma law_reconcile:
  assumes "\<And>ids. keeps K (AD ids)" "\<And>send s b. notifier = Some send \<Longrightarrow> keeps K (send s b)"
  shows "keeps job_law (reconcile S PV B AD notifier dry fuel)"
proof -
  have pages: "keeps job_law (reconcile_pages S PV B AD dry n after)" for n after
  proof (induction n arbitrary: after)
    case 0
    show ?case by (simp add: keeps_def)
  next
    case (Suc n)
    show ?case unfolding reconcile_pages.simps
      by (intro keeps_intro job_basic law law_reconcile_item assms(1) Suc.IH)
  qed
  have "keeps job_law (notify S PV notifier)"
    unfolding notify_def mark_notified_def Let_def
    by (intro keeps_intro job_basic law assms(2))
  then show ?thesis
    unfolding reconcile_def by (intro keeps_intro pages)
qed

lemma law_serve:
  assumes "dp_settings D = S" "dp_provider D = PV"
  shows "keeps K (serve D c)"
proof (cases c)
  case (Job_reconcile dry fuel auth_users)
  have accounts: "keeps K (supabase_accounts p us ids)" for p us ids
    unfolding supabase_accounts_def Let_def by (intro keeps_intro)
  have smtp: "keeps K (send s b)"
    if "email_notifier S (\<lambda>s b. call (f s b)) = Some send" for f send s b
    using that law_basic(2) by (auto simp: email_notifier_def split: if_splits)
  have job: "keeps job_law (reconcile S PV (dp_cache D) (supabase_accounts (dp_postgres D) auth_users)
      (email_notifier S (\<lambda>subject body. call (dp_smtp D subject body))) dry fuel)"
    by (rule law_reconcile [OF accounts]) (rule smtp)
  show ?thesis
  proof (rule keepsI)
    fix w assume "K w"
    then have "job_law (snd (reconcile S PV (dp_cache D) (supabase_accounts (dp_postgres D) auth_users)
        (email_notifier S (\<lambda>subject body. call (dp_smtp D subject body))) dry fuel (w, empty_report)))"
      using job by (simp add: keeps_def job_law_def)
    then show "K (snd (serve D c w))"
      by (simp add: Job_reconcile run_job_def assms job_law_def case_prod_beta)
  qed
qed (auto simp: ending_def assms my_entitlements_def intro!: keeps_intro law_billing law_contact_sales law_admin_endpoints
    law_webhook law_expire_grace law_readiness law_user law_request law_reads law_chat)

end

end
