(* ===== verification/Table_Law.thy ===== *)
theory Table_Law
  imports Serve
begin

text \<open>
  Invariants of the whole service, over every request, job, provider, cache failure and
  interleaving of commits. \<open>table_law\<close> asks for an invariant of the tables and gives the
  interface of \<open>world_law\<close>; its three interpretations are the coherence of the rows, the origin
  of every paid tier, and the growth of the audit trail. The unique indexes are a fourth
  \<open>world_law\<close>.
\<close>

section \<open>From tables to worlds\<close>

locale table_law = row_law P S PV for P and S and PV :: "'r provider" +
  fixes I :: "database \<Rightarrow> bool"
  assumes I_rows: "I db \<Longrightarrow> sub \<in> set (subscriptions db) \<Longrightarrow> P sub"
    and I_subscriptions: "I db \<Longrightarrow> \<forall>r \<in> set rs. P r \<Longrightarrow> I (db\<lparr>subscriptions := rs\<rparr>)"
    and I_audit: "I db \<Longrightarrow> I (db\<lparr>subscription_audit := subscription_audit db @ [a]\<rparr>)"
    and I_events: "I db \<Longrightarrow> I (db\<lparr>processed_events := es\<rparr>)"
    and I_inquiries: "I db \<Longrightarrow> I (db\<lparr>sales_inquiries := qs\<rparr>)"
    and I_counters: "I db \<Longrightarrow> I (db\<lparr>usage_counters := cs\<rparr>)"
    and I_grant: "I db \<Longrightarrow> I (db\<lparr>entitlement_grants := entitlement_grants db @ [new_grant i t actor body]\<rparr>)"
    and I_revoke: "I db \<Longrightarrow> I (change_grant i (\<lambda>g. g\<lparr>revoked_at := Some u\<rparr>) db)"
begin

definition holds :: "('r, 'c) world \<Rightarrow> bool" where
  "holds w \<longleftrightarrow> I (view w) \<and> I (durable w) \<and> (\<forall>f \<in> set (rivals w). \<forall>db. I db \<longrightarrow> I (f db))"

lemma holds_view: "holds w \<Longrightarrow> (I (view w) \<Longrightarrow> I db) \<Longrightarrow> holds (w\<lparr>view := db\<rparr>)"
  by (simp add: holds_def)

lemma I_landed: "\<forall>f \<in> set fs. \<forall>db. I db \<longrightarrow> I (f db) \<Longrightarrow> I db \<Longrightarrow> I (fold (\<lambda>f db. f db) fs db)"
  by (induction fs arbitrary: db) auto

lemma holds_rival: "holds w \<Longrightarrow> holds (rival_lands w)"
  by (auto simp: holds_def rival_lands_def split: list.split)

lemma holds_usage: "keeps holds (mirror_usage uid key start finish)"
proof -
  have own: "holds (w\<lparr>durable := increment_counter u k t (durable w), view := increment_counter u k t (view w)\<rparr>)"
    "holds (w\<lparr>durable := insert_counter u k t e (durable w), view := insert_counter u k t e (view w)\<rparr>)"
    if "holds w" for u k t e and w :: "('r, 'y) world"
    using that by (simp_all add: holds_def increment_counter_def insert_counter_def I_counters)
  show ?thesis
    unfolding mirror_usage_def own_commit_def by (intro keeps_intro keeps_modify holds_rival own)
qed

lemma I_put:
  "I db \<Longrightarrow> P sub \<Longrightarrow> I (db\<lparr>subscriptions := put_subscription sub (subscriptions db)\<rparr>)"
  by (rule I_subscriptions) (auto simp: put_subscription_def dest: I_rows)

lemma I_add: "I db \<Longrightarrow> P sub \<Longrightarrow> I (db\<lparr>subscriptions := subscriptions db @ [sub]\<rparr>)"
  by (rule I_subscriptions) (auto dest: I_rows)

lemma I_row: "I db \<Longrightarrow> (\<And>r. P r \<Longrightarrow> P (f r)) \<Longrightarrow> I (row_of_user uid f db)"
  unfolding row_of_user_def by (rule I_subscriptions) (auto dest: I_rows)

lemma worker_write_keeps: "worker_write S PV f \<Longrightarrow> I db \<Longrightarrow> I (f db)"
  by (induction arbitrary: db rule: worker_write.induct)
    (auto intro: I_add row_new I_row row_mirror row_customer row_disputed row_extended I_audit I_events
      I_inquiries I_counters I_grant I_revoke)

end

sublocale table_law \<subseteq> world_law P S PV holds
proof
  fix w w' :: "('r, 'b) world" and uid key start finish
  show "holds w \<Longrightarrow> holds (rival_lands w)" by (rule holds_rival)
  show "holds w \<Longrightarrow> holds (snd (mirror_usage uid key start finish w))"
    using holds_usage unfolding keeps_def by blast
  show "holds w \<Longrightarrow> holds w' \<Longrightarrow> holds (w'\<lparr>view := fold (\<lambda>f db. f db) (landed_since w w') (view w)\<rparr>)"
    by (intro holds_view I_landed) (auto simp: holds_def landed_since_def dest: in_set_takeD)
qed (auto simp: holds_def intro: I_rows I_put I_add I_audit I_events I_inquiries I_grant I_revoke)

context table_law begin

lemma I_guarded: "worker_write S PV f \<Longrightarrow> I db \<Longrightarrow> I (guarded f db)"
  by (simp add: guarded_def worker_write_keeps)

lemma holds_opened:
  "I (durable w) \<Longrightarrow> \<forall>f \<in> set fs. worker_write S PV f \<Longrightarrow> holds (opened fs w)"
  by (auto simp: holds_def opened_def I_guarded)

lemma step_keeps:
  assumes "system_step D w v" "dp_settings D = S" "dp_provider D = PV" "I (durable w)"
  shows "I (durable v)"
  using assms(1)
proof cases
  case (served fs c)
  then have "holds (opened fs w)" using assms by (intro holds_opened) auto
  then have "holds (snd (serve D c (opened fs w)))"
    using law_serve [OF assms(2,3)] unfolding keeps_def by blast
  with served show ?thesis by (simp add: holds_def)
next
  case (elsewhere t r ca up ls)
  then show ?thesis using assms by simp
qed

lemma runs_keep:
  assumes "system_runs D w v" "dp_settings D = S" "dp_provider D = PV" "I (durable w)"
  shows "I (durable v)"
  using assms by (induction rule: system_runs.induct) (auto dest: step_keeps)

end

section \<open>Coherent rows\<close>

interpretation rows: table_law row_coherent S PV coherent_db for S and PV :: "'r provider"
proof
  fix sub days and db u i
  show "row_coherent sub \<Longrightarrow> row_coherent (extended days sub)"
    by (simp add: row_coherent_def extended_def grants_access_def)
  show "row_coherent sub \<Longrightarrow> row_coherent (sub\<lparr>disputed_at := Some s\<rparr>)" for s
    by (simp add: row_coherent_def grants_access_def)
  show "coherent_db db \<Longrightarrow> coherent_db (change_grant i (\<lambda>g. g\<lparr>revoked_at := Some u\<rparr>) db)"
    by (auto simp: coherent_db_def change_grant_def list_all_iff)
qed (auto simp: coherent_db_def list_all_iff new_grant_def)

section \<open>Unique rows\<close>

definition constrained :: "('r, 'c) world \<Rightarrow> bool" where
  "constrained w \<longleftrightarrow> unique_rows (durable w) \<and> (\<forall>f \<in> set (rivals w). \<forall>db. unique_rows db \<longrightarrow> unique_rows (f db))"

lemma unique_counters:
  "unique_rows db \<Longrightarrow> unique_rows (increment_counter uid key start db)"
  "unique_rows db \<Longrightarrow> \<not> has_counter uid key start db \<Longrightarrow> unique_rows (insert_counter uid key start finish db)"
proof -
  have "(\<lambda>c. (counter_user c, counter_name c, window_start c)) \<circ>
      (\<lambda>c. if is_counter uid key start c then c\<lparr>counter_count := counter_count c + 1\<rparr> else c) =
    (\<lambda>c. (counter_user c, counter_name c, window_start c))"
    by (auto simp: fun_eq_iff)
  then show "unique_rows db \<Longrightarrow> unique_rows (increment_counter uid key start db)"
    by (simp add: unique_rows_def increment_counter_def)
  show "unique_rows db \<Longrightarrow> \<not> has_counter uid key start db \<Longrightarrow> unique_rows (insert_counter uid key start finish db)"
    by (auto simp: unique_rows_def insert_counter_def has_counter_def is_counter_def list_ex_iff)
qed

lemma constrained_usage: "constrained w \<Longrightarrow> constrained (snd (mirror_usage uid key start finish w))"
  by (auto simp: mirror_usage_def try_except_def and_then_def own_commit_def constrained_def rival_lands_def
      unique_counters split: list.split)

interpretation indexes: world_law "\<lambda>_. True" S PV constrained for S and PV :: "'r provider"
proof
  fix w :: "('r, 'b) world"
  show "constrained w \<Longrightarrow> constrained (snd (mirror_usage uid key start finish w))" for uid key start finish
    by (rule constrained_usage)
qed (auto simp: constrained_def rival_lands_def split: list.split)

lemma runs_unique:
  assumes "system_runs D w v" "unique_rows (durable w)"
  shows "unique_rows (durable v)"
  using assms
proof (induction rule: system_runs.induct)
  case (goes_on w v u)
  from goes_on.hyps(2) show ?case
  proof cases
    case (served fs c)
    have "constrained (opened fs v)"
      using goes_on by (auto simp: constrained_def opened_def guarded_def)
    then have "constrained (snd (serve D c (opened fs v)))"
      using indexes.law_serve [OF refl refl] unfolding keeps_def by blast
    with served show ?thesis by (simp add: constrained_def)
  next
    case (elsewhere t r ca up ls)
    then show ?thesis using goes_on by simp
  qed
qed

end
