(* ===== verification/System_Properties.thy ===== *)
theory System_Properties
  imports Table_Law Webhook_Properties
begin

text \<open>
  What holds of the whole service in every state it can get into: by any sequence of requests,
  webhooks, admin calls and jobs, with other workers committing at any point, and with the
  provider, the cache and the database's availability changing freely in between.
\<close>

section \<open>Well-formed tables\<close>

lemma reachable_tables:
  assumes "system_reach D w"
  shows "coherent_db (durable w)" "unique_rows (durable w)"
proof -
  obtain w0 where w0: "durable w0 = empty_db" "system_runs D w0 w"
    using assms by (auto simp: system_reach_def)
  have "coherent_db (durable w0)" "unique_rows (durable w0)"
    by (simp_all add: w0(1))
  then show "coherent_db (durable w)" "unique_rows (durable w)"
    using rows.runs_keep [OF w0(2) refl refl] runs_unique [OF w0(2)] by blast+
qed

text \<open>
  C3: In every reachable state the tables are well formed: every status and tier column names
  one, a paid tier goes with a status that grants access and with a subscription, the grace
  clock runs exactly while the row is past due, every grant names a tier, and no two rows share
  a user, a customer, a subscription, an event id or a counter.
\<close>

theorem every_reachable_state_is_coherent:
  assumes "system_reach D w"
  shows "coherent_db (durable w) \<and> unique_rows (durable w)"
  using reachable_tables [OF assms] by (rule conjI)

section \<open>Where a paid tier comes from\<close>

definition earned :: "settings \<Rightarrow> 'r provider \<Rightarrow> subscription \<Rightarrow> bool" where
  "earned S PV r \<longleftrightarrow> tier_col r = tier_value FREE \<or>
     (\<exists>rem t. answered PV (Some rem) \<and> rs_grants_access rem \<and>
        fst (resolve_tier S (rs_price rem)) = Some t \<and> tier_col r = tier_value t \<and>
        stripe_subscription_id r = Some (rs_id rem))"

lemma earned_mirror:
  assumes "answered PV ans"
  shows "earned S PV (write_state t (project S ans) sub)"
proof (cases ans)
  case None
  then show ?thesis by (simp add: earned_def project_def NO_SUBSCRIPTION_def)
next
  case (Some rem)
  show ?thesis
  proof (cases "rs_grants_access rem \<and> fst (resolve_tier S (rs_price rem)) \<noteq> None")
    case True
    then obtain u where u: "fst (resolve_tier S (rs_price rem)) = Some u" by auto
    have "rs_status rem \<noteq> S_FREE" using True by (auto simp: rs_grants_access_def)
    then have "ms_subscription_id (project S ans) = Some (rs_id rem)"
      by (simp add: Some project_def split: prod.split)
    moreover have "ms_tier (project S ans) = u" using True u by (simp add: Some project_tier)
    ultimately show ?thesis using assms True u by (auto simp: earned_def Some)
  next
    case False
    then have "ms_tier (project S ans) = FREE" by (auto simp: Some project_tier)
    then show ?thesis by (simp add: earned_def)
  qed
qed

interpretation tiers: table_law "earned S PV" S PV "\<lambda>db. list_all (earned S PV) (subscriptions db)"
  for S and PV :: "'r provider"
proof
  show "earned S PV (new_subscription uid)" for uid
    by (simp add: earned_def new_subscription_def)
  show "answered PV ans \<Longrightarrow> earned S PV (write_state t (project S ans) sub)" for ans t sub
    by (rule earned_mirror)
qed (auto simp: earned_def extended_def list_all_iff change_grant_def)

text \<open>
  C1: Nobody gets a paid tier except by an answer of the provider. In every reachable state, a
  row whose tier is above free carries the tier and the id of a subscription the provider has
  answered with, whose status grants access and whose price resolves to that tier; no request,
  admin call, job, race or failure writes one on any other ground.
\<close>

theorem paid_tier_comes_from_provider:
  assumes "system_reach D w" "r \<in> set (subscriptions (durable w))" "tier_col r \<noteq> tier_value FREE"
  shows "\<exists>cid s s' rem t. p_fetch_current_subscription (dp_provider D) cid s = (Inr (Some rem), s') \<and>
    rs_grants_access rem \<and> fst (resolve_tier (dp_settings D) (rs_price rem)) = Some t \<and>
    tier_col r = tier_value t \<and> stripe_subscription_id r = Some (rs_id rem)"
proof -
  obtain w0 where w0: "durable w0 = empty_db" "system_runs D w0 w"
    using assms(1) by (auto simp: system_reach_def)
  have "list_all (earned (dp_settings D) (dp_provider D)) (subscriptions (durable w))"
    using tiers.runs_keep [OF w0(2) refl refl] by (simp add: w0(1))
  then have "earned (dp_settings D) (dp_provider D) r" using assms(2) by (simp add: list_all_iff)
  then show ?thesis using assms(3) unfolding earned_def answered_def by blast
qed

section \<open>What is never taken back\<close>

definition recorded :: "audit_row list \<Rightarrow> entitlement_grant list \<Rightarrow> database \<Rightarrow> bool" where
  "recorded as gs db \<longleftrightarrow> (\<exists>xs. subscription_audit db = as @ xs) \<and>
     (\<exists>ys. map (\<lambda>g. g\<lparr>revoked_at := None\<rparr>) (entitlement_grants db) = gs @ ys)"

interpretation history: table_law "\<lambda>_. True" S PV "recorded as gs"
  for S and PV :: "'r provider" and as gs
proof
  fix db i u
  have same: "map (\<lambda>g. g\<lparr>revoked_at := None\<rparr>) (entitlement_grants (change_grant i (\<lambda>g. g\<lparr>revoked_at := Some u\<rparr>) db)) =
      map (\<lambda>g. g\<lparr>revoked_at := None\<rparr>) (entitlement_grants db)"
    by (auto simp: change_grant_def)
  show "recorded as gs db \<Longrightarrow> recorded as gs (change_grant i (\<lambda>g. g\<lparr>revoked_at := Some u\<rparr>) db)"
    unfolding recorded_def same by (simp add: change_grant_def)
qed (auto simp: recorded_def)

text \<open>
  C30: The history is append-only. Whatever is served between two states, the audit trail of the
  earlier one is the beginning of the later one's, and every grant is still there, unaltered but
  for its revocation.
\<close>

theorem audit_trail_only_grows:
  assumes "system_runs D v w"
  shows "\<exists>xs gs. subscription_audit (durable w) = subscription_audit (durable v) @ xs \<and>
    map (\<lambda>g. g\<lparr>revoked_at := None\<rparr>) (entitlement_grants (durable w)) =
      map (\<lambda>g. g\<lparr>revoked_at := None\<rparr>) (entitlement_grants (durable v)) @ gs"
  using history.runs_keep [OF assms refl refl, of "subscription_audit (durable v)"
      "map (\<lambda>g. g\<lparr>revoked_at := None\<rparr>) (entitlement_grants (durable v))"]
  by (auto simp: recorded_def)

section \<open>What is counted\<close>

definition counted_from :: "(string \<times> string list) list \<Rightarrow> ('r, 'c) world \<Rightarrow> bool" where
  "counted_from start w \<longleftrightarrow> (\<exists>ms. metrics w = start @ ms \<and> list_all registered ms)"

interpretation counts: world_law "\<lambda>_. True" S PV "counted_from start" for S and PV :: "'r provider" and start
proof
  fix w :: "('r, 'b) world"
  show "counted_from start w \<Longrightarrow> counted_from start (snd (mirror_usage uid key begins ends w))" for uid key begins ends
    by (auto simp: mirror_usage_def try_except_def and_then_def own_commit_def counted_from_def rival_lands_def
        split: list.split)
qed (auto simp: counted_from_def rival_lands_def split: list.split)

text \<open>
  Metrics only count up, and every count is one the registry takes. Whatever is served between
  two states - failures, outages and other workers' commits included - each count added is of a
  registered counter, with as many label values as it has labels, and with one of the values the
  registration lists where it lists them. So no request fails for counting, and no outcome goes
  uncounted under a name nobody alerts on.
\<close>

theorem every_count_is_registered:
  assumes "system_runs D v w"
  shows "\<exists>ms. metrics w = metrics v @ ms \<and> list_all registered ms"
proof -
  have "counted_from (metrics v) w"
    using assms
  proof (induction rule: system_runs.induct)
    case (at_rest w)
    show ?case by (simp add: counted_from_def)
  next
    case (goes_on w v u)
    from goes_on.hyps(2) show ?case
    proof cases
      case (served fs c)
      have "counted_from (metrics w) (opened fs v)"
        using goes_on.IH by (simp add: counted_from_def opened_def)
      then show ?thesis
        using counts.law_serve [OF refl refl] served unfolding keeps_def by blast
    next
      case (elsewhere t r ca up ls)
      then show ?thesis using goes_on.IH by (simp add: counted_from_def)
    qed
  qed
  then show ?thesis by (simp add: counted_from_def)
qed

section \<open>Reads\<close>

text \<open>
  In every reachable state an entitlement read answers. With the database up and nothing
  cached, it returns what the specification says of the durable rows - no column fails to parse,
  no user has two rows - whatever was served before.
\<close>

theorem reachable_reads_answer:
  assumes "system_reach D w" "db_up w" "missed (dp_cache D) uid w"
  shows "\<exists>w'. resolve_entitlements (dp_settings D) (dp_cache D) uid (opened [] w) =
    (Inr (entitlements_of (dp_settings D) (now w) uid (durable w)), w')"
proof -
  have "coherent_db (durable w)" "unique_rows (durable w)"
    using reachable_tables [OF assms(1)] by blast+
  moreover have "missed (dp_cache D) uid (opened [] w)"
    using assms(3) by (simp add: missed_def opened_def)
  ultimately show ?thesis
    using resolve_miss [of "dp_cache D" uid "opened [] w" "dp_settings D"] assms(2) coherent_columns
    by (simp add: opened_def)
qed

section \<open>A run\<close>

text \<open>A new customer's first webhook, at a service with empty tables.\<close>

definition ex_deployment :: "(ex_state, document memory, unit) deployment" where
  "ex_deployment =
     \<lparr>dp_settings = ex_settings, dp_provider = ex_hook ex_provider, dp_cache = InMemoryBackend,
      dp_jwt = \<lparr>signing_key = (\<lambda>u t. Inr ()), jwt_decode = (\<lambda>t k a u i r. Inl OtherJWTError)\<rparr>,
      dp_flags = None, dp_sha256 = (\<lambda>s. s), dp_trace = (\<lambda>e. ''''), dp_postgres = True,
      dp_probe = \<lparr>pb_database_limit = ''15.0'', pb_cache_limit = ''3.0'', pb_shown = (\<lambda>e. '''')\<rparr>, dp_pydantic = strict_pydantic, dp_smtp = (\<lambda>s b. ret ())\<rparr>"

definition ex_before :: "(ex_state, document memory) world" where
  "ex_before = ex_world empty_db (Some ex_remote)"

definition ex_after :: "(ex_state, document memory) world" where
  "ex_after = snd (serve ex_deployment (Stripe_delivery ''{}'' (Some ''sig'')) (opened [] ex_before))"

lemma ex_run: "system_runs ex_deployment ex_before ex_after"
  unfolding ex_after_def
  by (rule system_runs.goes_on [OF system_runs.at_rest system_step.served]) simp

lemma ex_reach: "system_reach ex_deployment ex_after"
  unfolding system_reach_def
  by (rule exI [of _ ex_before]) (simp add: ex_run, simp add: ex_before_def)

lemma ex_before_simps [simp]:
  "view ex_before = empty_db" "durable ex_before = empty_db" "remote ex_before = Some ex_remote"
  "rivals ex_before = []" "db_up ex_before" "now ex_before = 1000000" "marks ex_before = []"
  "opened [] ex_before = ex_before" "ex_before\<lparr>remote := Some ex_remote\<rparr> = ex_before"
  by (simp_all add: ex_before_def opened_def ex_world_def)

lemma no_event_yet [simp]: "find_event eid empty_db = None"
  by (simp add: find_event_def empty_db_def)

lemma ex_first_sync:
  assumes "unknown ''cus_1'' w" "rivals w = []" "unique_rows (view w)" "subscriptions (view w) = []"
    and "remote w = Some ex_remote"
  shows "sync_subscription_from_stripe ex_settings (ex_hook ex_provider) ''cus_1'' event reason w =
    (Inr (Some (mirrored ex_settings (now w) (Some ex_remote) ex_row)),
     sync_world ex_settings event reason ex_row (Some ex_remote) (w\<lparr>view := add_row ex_row (view w)\<rparr>))"
    and "unique_rows (view (sync_world ex_settings event reason ex_row (Some ex_remote) (w\<lparr>view := add_row ex_row (view w)\<rparr>)))"
proof -
  let ?w = "w\<lparr>view := add_row ex_row (view w)\<rparr>"
  have same: "w\<lparr>remote := Some ex_remote\<rparr> = w"
    using assms(5) by (cases w) simp
  have taken: "create_or_take ''cus_1'' ''alice'' (w\<lparr>remote := Some ex_remote\<rparr>) = (Inr ex_row, ?w)"
    using create_or_take_new [OF assms(1-3), of "''alice''"] assms(4) by (simp add: ex_row_def same)
  have fetch: "p_fetch_current_subscription (ex_hook ex_provider) ''cus_1'' (remote w) = (Inr (Some ex_remote), Some ex_remote)"
    and who: "p_retrieve_customer (ex_hook ex_provider) ''cus_1'' (Some ex_remote) =
      (Inr \<lparr>rc_id = ''cus_1'', rc_user_id = Some ''alice''\<rparr>, Some ex_remote)"
    by (simp_all add: assms(5) ex_hook_def)
  have mine: "belongs_to_this_service ex_settings (Some ex_remote)"
    and unmarked: "\<not> truthy (map_of (rs_metadata ex_remote) ORPHANED_AT)"
    by (simp_all add: belongs_to_this_service_def resolve_tier_def ex_remote_def)
  have ours: "sync_subscription_from_stripe ex_settings (ex_hook ex_provider) ''cus_1'' event reason w =
      write_mirror ex_settings event reason ex_row (Some ex_remote) ?w"
    by (rule adopt_customer_ours [OF assms(1) fetch who _ mine unmarked taken]) simp
  have db: "synced_db ex_settings (now w) event reason ex_row (Some ex_remote) (add_row ex_row (view w)) =
      (view w)\<lparr>subscriptions := [mirrored ex_settings (now w) (Some ex_remote) ex_row],
        subscription_audit := subscription_audit (synced_db ex_settings (now w) event reason ex_row (Some ex_remote) (add_row ex_row (view w)))\<rparr>"
    using assms(4) by (simp add: synced_db_def Let_def add_row_def put_subscription_def mirrored_def)
  have u: "unique_rows (synced_db ex_settings (now w) event reason ex_row (Some ex_remote) (add_row ex_row (view w)))"
    by (subst db) (simp add: unique_one [OF assms(3)])
  show "sync_subscription_from_stripe ex_settings (ex_hook ex_provider) ''cus_1'' event reason w =
    (Inr (Some (mirrored ex_settings (now w) (Some ex_remote) ex_row)),
     sync_world ex_settings event reason ex_row (Some ex_remote) ?w)"
    unfolding ours using write_mirror_alone [of ?w ex_settings event reason ex_row "Some ex_remote"] u assms(1,2)
    by (simp add: unknown_def)
  show "unique_rows (view (sync_world ex_settings event reason ex_row (Some ex_remote) ?w))"
    using u by (simp add: sync_world_def Let_def)
qed

lemma ex_after_facts:
  "subscriptions (durable ex_after) = [mirrored ex_settings 1000000 (Some ex_remote) ex_row] \<and>
    db_up ex_after \<and> now ex_after = 1000000 \<and> missed InMemoryBackend uid ex_after"
proof -
  let ?ty = "''customer.subscription.updated''"
  let ?c = "claimed_db ''evt_1'' ?ty 1000000 empty_db"
  let ?w1 = "ex_before\<lparr>view := ?c, durable := ?c\<rparr>"
  let ?w2 = "sync_world ex_settings (Some ''evt_1'') ?ty ex_row (Some ex_remote) (?w1\<lparr>view := add_row ex_row ?c\<rparr>)"
  have claim: "claim_event ''evt_1'' ?ty (ex_before\<lparr>remote := Some ex_remote\<rparr>) = (Inr True, ?w1)"
    using claim_granted [of ex_before "''evt_1''" ?ty] by (simp add: idle_def)
  have w1: "unknown ''cus_1'' ?w1" "unique_rows ?c"
    using unique_claimed [of empty_db] by (simp_all add: unknown_def)
  note sync = ex_first_sync [of ?w1 "Some ''evt_1''" ?ty, simplified, OF w1]
  have handle: "handle_event ex_settings (ex_hook ex_provider) ''evt_1'' ?ty ex_event ?w1 = (Inr True, ?w2)"
    using sync(1) by (simp add: handle_event_def and_then_def ex_event_def truthy_string_def SUBSCRIPTION_EVENTS_def)
  obtain ms where run: "stripe_webhook ex_settings (ex_hook ex_provider) InMemoryBackend (\<lambda>e. '''') ''{}'' (Some ''sig'') ex_before =
    (Inr \<lparr>wr_status = ''ok'', wr_event_id = ''evt_1''\<rparr>,
     ?w2\<lparr>view := marked_db ''evt_1'' ''processed'' None (now ?w2) (view ?w2),
        durable := marked_db ''evt_1'' ''processed'' None (now ?w2) (view ?w2), marks := [],
        cache := fold (\<lambda>uid c. snd (cb_delete InMemoryBackend (ent_key uid) (now ?w2) c)) (marks ?w2) (cache ?w2), metrics := ms\<rparr>)"
    using webhook_success [of "ex_hook ex_provider" "''{}''" "Some ''sig''" ex_event "''evt_1''" ?ty ex_before "Some ex_remote",
        OF _ claim handle, of InMemoryBackend "\<lambda>e. ''''"] sync(2) by (auto simp: sync_world_def Let_def)
  have after: "ex_after = ?w2\<lparr>view := marked_db ''evt_1'' ''processed'' None (now ?w2) (view ?w2),
        durable := marked_db ''evt_1'' ''processed'' None (now ?w2) (view ?w2), marks := [],
        cache := fold (\<lambda>uid c. snd (cb_delete InMemoryBackend (ent_key uid) (now ?w2) c)) (marks ?w2) (cache ?w2), metrics := ms\<rparr>"
    by (simp add: ex_after_def ex_deployment_def ending_def and_then_def run)
  have none: "mem_kv.decoded (fold (\<lambda>uid c. snd (cb_delete InMemoryBackend (ent_key uid) n c)) us (\<lambda>_. None)) t k = None"
    for us n t k
  proof -
    have "mem_kv.decoded (fold (\<lambda>uid c. snd (cb_delete InMemoryBackend (ent_key uid) n c)) us c) t k = None"
      if "mem_kv.decoded c t k = None" for c
      using that by (induction us arbitrary: c) (auto simp: mem_kv.decoded_delete)
    moreover have "mem_kv.decoded (\<lambda>_. None) t k = None"
      by (simp add: mem_kv.decoded_def mem_peek_eq)
    ultimately show ?thesis by blast
  qed
  have "cache ?w2 = (\<lambda>_. None)" by (simp add: sync_world_def Let_def ex_before_def)
  then have miss: "missed InMemoryBackend uid ex_after"
    unfolding after by (simp add: missed_def mem_kv.get_json_value none)
  have "subscriptions (durable ex_after) = [mirrored ex_settings 1000000 (Some ex_remote) ex_row]"
    unfolding after by (simp add: sync_world_def synced_db_def Let_def add_row_def put_subscription_def mirrored_def)
  moreover have "db_up ex_after" "now ex_after = 1000000"
    unfolding after by (simp_all add: sync_world_def Let_def)
  ultimately show ?thesis using miss by blast
qed

lemma ex_after_paid: "tier_col (mirrored ex_settings 1000000 (Some ex_remote) ex_row) = tier_value PLUS"
  by (simp add: mirrored_def project_tier ex_remote_def rs_grants_access_def resolve_tier_def
      status_grants_access_def PAID_STATUSES_def)

section \<open>The properties at that run\<close>

theorem every_reachable_state_is_coherent_witness:
  "coherent_db (durable ex_after) \<and> unique_rows (durable ex_after)"
  by (rule every_reachable_state_is_coherent [OF ex_reach])

theorem paid_tier_comes_from_provider_witness:
  "\<exists>r \<in> set (subscriptions (durable ex_after)). tier_col r = tier_value PLUS \<and>
     (\<exists>cid s s' rem t. p_fetch_current_subscription (dp_provider ex_deployment) cid s = (Inr (Some rem), s') \<and>
        rs_grants_access rem \<and> tier_col r = tier_value t)"
proof -
  let ?r = "mirrored ex_settings 1000000 (Some ex_remote) ex_row"
  have "?r \<in> set (subscriptions (durable ex_after))" using ex_after_facts by simp
  moreover have "tier_col ?r \<noteq> tier_value FREE" by (simp only: ex_after_paid tier_value_inj tier.distinct) simp
  from paid_tier_comes_from_provider [OF ex_reach calculation this] have "\<exists>cid s s' rem t.
      p_fetch_current_subscription (dp_provider ex_deployment) cid s = (Inr (Some rem), s') \<and>
      rs_grants_access rem \<and> tier_col ?r = tier_value t"
    by blast
  ultimately show ?thesis using ex_after_paid by blast
qed

theorem audit_trail_only_grows_witness:
  "\<exists>xs. subscription_audit (durable ex_after) = subscription_audit (durable ex_before) @ xs"
  using audit_trail_only_grows [OF ex_run] by blast

theorem every_count_is_registered_witness:
  "\<exists>ms. metrics ex_after = metrics ex_before @ ms \<and> list_all registered ms"
  by (rule every_count_is_registered [OF ex_run])

theorem reachable_reads_answer_witness:
  "\<exists>w'. resolve_entitlements ex_settings InMemoryBackend ''alice'' (opened [] ex_after) =
    (Inr (entitlements_of ex_settings 1000000 ''alice'' (durable ex_after)), w')"
  using reachable_reads_answer [OF ex_reach, of "''alice''"] ex_after_facts
  by (simp add: ex_deployment_def)

end
