(* ===== verification/Seed.thy ===== *)
theory Seed
  imports Examples
begin

text \<open>
  \<open>scripts/seed_stripe.py\<close>: the products and prices the service expects, created in a Stripe account
  where they are missing. Stripe's SDK is a parameter. What is printed is not modelled but for
  the environment lines, which are the result.
\<close>

section \<open>The script\<close>

definition AMOUNTS :: "(tier \<times> billing_interval, int) dict" where
  "AMOUNTS =
     [((PLUS, MONTHLY), 2000),
      ((PLUS, ANNUAL), 20000),
      ((PRO, MONTHLY), 10000),
      ((PRO, ANNUAL), 100000)]"

definition CURRENCY :: string where
  "CURRENCY = ''usd''"

fun seed_interval :: "billing_interval \<Rightarrow> string" where
  "seed_interval MONTHLY = ''month''"
| "seed_interval ANNUAL = ''year''"

record seed_price =
  sp_product :: string
  sp_currency :: string
  sp_unit_amount :: int
  sp_interval :: string
  sp_lookup_key :: string
  sp_metadata :: "(string, string) dict"

record 'r seed_sdk =
  sd_product_retrieve :: "string \<Rightarrow> ('r, json) call"
  sd_product_create :: "string \<Rightarrow> string \<Rightarrow> (string, string) dict \<Rightarrow> ('r, json) call"
  sd_price_list :: "string \<Rightarrow> ('r, json) call"
  sd_price_create :: "seed_price \<Rightarrow> ('r, json) call"

definition product_id_for :: "tier \<Rightarrow> string" where
  "product_id_for t = ''tier_'' @ tier_value t"

fun invalid_request :: "exc \<Rightarrow> bool" where
  "invalid_request (StripeError InvalidRequestError _) = True"
| "invalid_request _ = False"

definition id_of :: "json \<Rightarrow> exc + string" where
  "id_of obj = bind_result (jitem ''id'' obj) as_string"

definition ensure_product :: "'r seed_sdk \<Rightarrow> tier \<Rightarrow> bool \<Rightarrow> ('r, string) call" where
  "ensure_product SD t dry =
     and_then (try_except
         (and_then (sd_product_retrieve SD (product_id_for t)) (\<lambda>product.
          and_then (lift_result (id_of product)) (\<lambda>i. ret (Some i))))
         (\<lambda>e. if invalid_request e then ret None else raise e)) (\<lambda>found. case found of
       Some i \<Rightarrow> ret i
     | None \<Rightarrow>
         if dry then ret (product_id_for t) else
         and_then (sd_product_create SD (product_id_for t) (td_display_name (limits_for t)) [(''tier'', tier_value t)]) (\<lambda>product.
         lift_result (id_of product)))"

definition new_price :: "tier \<Rightarrow> billing_interval \<Rightarrow> string \<Rightarrow> exc + seed_price" where
  "new_price t i product_id = (case dict_get AMOUNTS (t, i) of
     None \<Rightarrow> Inl (KeyError ''AMOUNTS'')
   | Some amount \<Rightarrow> Inr
       \<lparr>sp_product = product_id, sp_currency = CURRENCY, sp_unit_amount = amount,
        sp_interval = seed_interval i, sp_lookup_key = price_key t i,
        sp_metadata = [(''tier'', tier_value t), (''interval'', interval_value i)]\<rparr>)"

definition ensure_price ::
  "'r seed_sdk \<Rightarrow> tier \<Rightarrow> billing_interval \<Rightarrow> string \<Rightarrow> bool \<Rightarrow> ('r, string) call" where
  "ensure_price SD t i product_id dry =
     and_then (sd_price_list SD (price_key t i)) (\<lambda>existing.
     and_then (lift_result (bind_result (jitem ''data'' existing) as_list)) (\<lambda>data.
     case data of
       price # _ \<Rightarrow> lift_result (id_of price)
     | [] \<Rightarrow>
         if dry then ret ''price_would_be_created'' else
         and_then (lift_result (new_price t i product_id)) (\<lambda>np.
         and_then (sd_price_create SD np) (\<lambda>price. lift_result (id_of price)))))"

definition seed_tier :: "'r seed_sdk \<Rightarrow> bool \<Rightarrow> tier \<Rightarrow> ('r, (string, string) dict) call" where
  "seed_tier SD dry t =
     and_then (ensure_product SD t dry) (\<lambda>product_id.
     map_prog (\<lambda>i. and_then (ensure_price SD t i product_id dry) (\<lambda>pid. ret (price_env_name t i, pid))) all_intervals)"

definition seed_all :: "'r seed_sdk \<Rightarrow> bool \<Rightarrow> ('r, (string, string) dict) call" where
  "seed_all SD dry = and_then (map_prog (seed_tier SD dry) PURCHASABLE_TIERS) (\<lambda>lines. ret (concat lines))"

definition ends_with :: "string \<Rightarrow> string \<Rightarrow> bool" where
  "ends_with p s \<longleftrightarrow> drop (length s - length p) s = p"

definition unpriced :: "(tier \<times> billing_interval) list" where
  "unpriced = filter (\<lambda>ti. dict_get AMOUNTS ti = None) sellable"

text \<open>\<open>main\<close>: its exit code and the lines it prints; \<open>confirm\<close> is what the operator types.\<close>

definition seed_main :: "settings \<Rightarrow> 'r seed_sdk \<Rightarrow> string \<Rightarrow> bool \<Rightarrow> ('r, nat \<times> (string, string) dict) call" where
  "seed_main S SD confirm dry =
     (if stripe_secret_key S = [] \<or> ends_with ''_xxx'' (stripe_secret_key S) then ret (1, [])
      else if starts_with ''sk_live'' (stripe_secret_key S) \<and> confirm \<noteq> ''live'' then ret (1, [])
      else if unpriced \<noteq> [] then ret (1, [])
      else and_then (seed_all SD dry) (\<lambda>lines. ret (0, lines)))"

section \<open>What it prints is what checkout sells\<close>

lemma every_plan_has_an_amount: "unpriced = []"
  by (simp add: unpriced_def sellable_eq AMOUNTS_def)

lemma env_name_lower: "py_lower (price_env_name t i) = PRICE_PREFIX @ price_key t i"
  by (cases t; cases i; hypsubst; code_simp)

lemma price_key_inj: "price_key t i = price_key t' i' \<longleftrightarrow> t = t' \<and> i = i'"
  by (cases t; cases i; cases t'; cases i') (simp_all add: price_key_def tier_value.simps)

lemma price_env_name_inj: "price_env_name t i = price_env_name t' i' \<longleftrightarrow> t = t' \<and> i = i'"
  by (metis env_name_lower price_key_inj same_append_eq)

lemma names_price_env:
  "p \<noteq> [] \<Longrightarrow> names_price (price_key t i) (price_env_name t' i', p) \<longleftrightarrow> t' = t \<and> i' = i"
proof -
  have "price_key t i \<noteq> ''ids''" by (cases t; cases i) (simp_all add: price_key_def tier_value.simps)
  then show "p \<noteq> [] \<Longrightarrow> ?thesis"
    by (auto simp: names_price_def env_name_lower price_key_inj)
qed

text \<open>
  What the script relies on in Stripe's answers, as its documentation states it. \<open>offer s p\<close> is what
  the price \<open>p\<close> of the account \<open>s\<close> was created with, which nothing changes afterwards: an answer to
  a listing by lookup key holds prices of that lookup key, a created price is the one asked for,
  and a product answers under the id it was asked or created by.
\<close>

definition keeps_offers :: "('r \<Rightarrow> string \<Rightarrow> seed_price option) \<Rightarrow> ('r, 'a) call \<Rightarrow> bool" where
  "keeps_offers offer f \<longleftrightarrow> (\<forall>p np. keeps (\<lambda>s. offer s p = Some np) f)"

definition stripe_contract :: "('r \<Rightarrow> string \<Rightarrow> seed_price option) \<Rightarrow> 'r seed_sdk \<Rightarrow> bool" where
  "stripe_contract offer SD \<longleftrightarrow>
     (\<forall>i. keeps_offers offer (sd_product_retrieve SD i)) \<and>
     (\<forall>i name md. keeps_offers offer (sd_product_create SD i name md)) \<and>
     (\<forall>key. keeps_offers offer (sd_price_list SD key)) \<and>
     (\<forall>np. keeps_offers offer (sd_price_create SD np)) \<and>
     (\<forall>i s product s'. sd_product_retrieve SD i s = (Inr product, s') \<longrightarrow> jitem ''id'' product = Inr (JStr i)) \<and>
     (\<forall>i name md s product s'. sd_product_create SD i name md s = (Inr product, s') \<longrightarrow> jitem ''id'' product = Inr (JStr i)) \<and>
     (\<forall>key s answer s' prices price. sd_price_list SD key s = (Inr answer, s') \<longrightarrow>
        jitem ''data'' answer = Inr (JList prices) \<longrightarrow> price \<in> set prices \<longrightarrow>
        (\<exists>p np. jitem ''id'' price = Inr (JStr p) \<and> p \<noteq> [] \<and> offer s' p = Some np \<and> sp_lookup_key np = key)) \<and>
     (\<forall>np s price s'. sd_price_create SD np s = (Inr price, s') \<longrightarrow>
        (\<exists>p. jitem ''id'' price = Inr (JStr p) \<and> p \<noteq> [] \<and> offer s' p = Some np))"

text \<open>Stripe listed \<open>p\<close> first under the lookup key, at some moment.\<close>

definition listed :: "'r seed_sdk \<Rightarrow> string \<Rightarrow> string \<Rightarrow> bool" where
  "listed SD key p \<longleftrightarrow> (\<exists>s answer s' price prices. sd_price_list SD key s = (Inr answer, s') \<and>
     jitem ''data'' answer = Inr (JList (price # prices)) \<and> jitem ''id'' price = Inr (JStr p))"

lemma contract_retrieve:
  "stripe_contract offer SD \<Longrightarrow> sd_product_retrieve SD j s = (Inr product, s') \<Longrightarrow> jitem ''id'' product = Inr (JStr j)"
  unfolding stripe_contract_def by (elim conjE) metis

lemma contract_product:
  "stripe_contract offer SD \<Longrightarrow> sd_product_create SD j name md s = (Inr product, s') \<Longrightarrow> jitem ''id'' product = Inr (JStr j)"
  unfolding stripe_contract_def by (elim conjE) metis

lemma contract_list:
  "stripe_contract offer SD \<Longrightarrow> sd_price_list SD key s = (Inr answer, s') \<Longrightarrow> jitem ''data'' answer = Inr (JList prices) \<Longrightarrow>
   price \<in> set prices \<Longrightarrow>
   \<exists>p np. jitem ''id'' price = Inr (JStr p) \<and> p \<noteq> [] \<and> offer s' p = Some np \<and> sp_lookup_key np = key"
  unfolding stripe_contract_def by (elim conjE) metis

lemma contract_create:
  "stripe_contract offer SD \<Longrightarrow> sd_price_create SD np s = (Inr price, s') \<Longrightarrow>
   \<exists>p. jitem ''id'' price = Inr (JStr p) \<and> p \<noteq> [] \<and> offer s' p = Some np"
  unfolding stripe_contract_def by (elim conjE) metis

lemma keeps_ensure:
  assumes "stripe_contract offer SD"
  shows "keeps (\<lambda>s. offer s p = Some np) (ensure_product SD t dry)"
    and "keeps (\<lambda>s. offer s p = Some np) (ensure_price SD t i pr dry)"
proof -
  have k: "keeps (\<lambda>s. offer s p = Some np) (sd_product_retrieve SD j)"
    "keeps (\<lambda>s. offer s p = Some np) (sd_product_create SD j name md)"
    "keeps (\<lambda>s. offer s p = Some np) (sd_price_list SD key)"
    "keeps (\<lambda>s. offer s p = Some np) (sd_price_create SD new)" for j name md key new
    using assms by (simp_all add: stripe_contract_def keeps_offers_def)
  show "keeps (\<lambda>s. offer s p = Some np) (ensure_product SD t dry)"
    unfolding ensure_product_def by (intro keeps_intro k)
  show "keeps (\<lambda>s. offer s p = Some np) (ensure_price SD t i pr dry)"
    unfolding ensure_price_def by (auto intro!: keeps_intro k split: list.split)
qed

lemma ensure_product_id:
  assumes "stripe_contract offer SD" "ensure_product SD t False s = (Inr i, s')"
  shows "i = ''tier_'' @ tier_value t"
  using assms(2)
  by (auto simp: ensure_product_def and_then_returns try_except_def and_then_def id_of_def product_id_for_def
      split: if_splits option.splits sum.splits prod.splits
      dest!: contract_retrieve [OF assms(1)] contract_product [OF assms(1)])

lemma ensure_price_offer:
  assumes "stripe_contract offer SD" "ensure_price SD t i pr False s = (Inr p, s')"
  shows "p \<noteq> [] \<and> (\<exists>np. offer s' p = Some np \<and> sp_lookup_key np = tier_value t @ ''_'' @ interval_value i \<and>
    (listed SD (price_key t i) p \<or> new_price t i pr = Inr np))"
proof -
  obtain answer s1 data where a: "sd_price_list SD (price_key t i) s = (Inr answer, s1)" "jitem ''data'' answer = Inr (JList data)"
    using assms(2) by (fastforce simp: ensure_price_def and_then_returns bind_result_Inr elim: as_list.elims)
  show ?thesis
  proof (cases data)
    case Nil
    then obtain np price where n: "new_price t i pr = Inr np" "sd_price_create SD np s1 = (Inr price, s')" "id_of price = Inr p"
      using assms(2) a by (auto simp: ensure_price_def and_then_returns)
    obtain q where "jitem ''id'' price = Inr (JStr q)" "q \<noteq> []" "offer s' q = Some np"
      using contract_create [OF assms(1) n(2)] by blast
    moreover have "sp_lookup_key np = tier_value t @ ''_'' @ interval_value i"
      using n(1) by (auto simp: new_price_def price_key_def split: option.splits)
    ultimately show ?thesis using n(1,3) by (auto simp: id_of_def)
  next
    case (Cons price prices)
    then have p: "id_of price = Inr p" "s' = s1"
      using assms(2) a by (auto simp: ensure_price_def and_then_returns)
    have member: "price \<in> set data" using Cons by simp
    obtain q np where q: "jitem ''id'' price = Inr (JStr q)" "q \<noteq> []" "offer s1 q = Some np" "sp_lookup_key np = price_key t i"
      using contract_list [OF assms(1) a member] by blast
    then have "q = p" using p by (simp add: id_of_def)
    moreover have "listed SD (price_key t i) q"
      unfolding listed_def using a(1) a(2) [unfolded Cons] q(1) by blast
    ultimately show ?thesis using q p by (auto simp: price_key_def)
  qed
qed

text \<open>What the script's amounts come to.\<close>

lemma new_price_value:
  assumes "t \<in> set PURCHASABLE_TIERS"
  shows "new_price t i pr = Inr \<lparr>sp_product = pr, sp_currency = ''usd'',
    sp_unit_amount = (if t = PLUS then 2000 else 10000) * (if i = MONTHLY then 1 else 10),
    sp_interval = (if i = MONTHLY then ''month'' else ''year''), sp_lookup_key = tier_value t @ ''_'' @ interval_value i,
    sp_metadata = [(''tier'', tier_value t), (''interval'', interval_value i)]\<rparr>"
  using assms
  by (cases t; cases i) (simp_all add: new_price_def AMOUNTS_def CURRENCY_def PURCHASABLE_TIERS_eq price_key_def)

lemma seed_tier_prices:
  assumes "stripe_contract offer SD" "seed_tier SD False t s = (Inr lines, s')"
  shows "\<exists>a b. lines = [(price_env_name t MONTHLY, a), (price_env_name t ANNUAL, b)] \<and>
    (\<forall>(i, p) \<in> {(MONTHLY, a), (ANNUAL, b)}. p \<noteq> [] \<and> (\<exists>np. offer s' p = Some np \<and>
       sp_lookup_key np = tier_value t @ ''_'' @ interval_value i \<and>
       (listed SD (price_key t i) p \<or> new_price t i (''tier_'' @ tier_value t) = Inr np)))"
proof -
  obtain pr a b s1 s2 where run: "ensure_product SD t False s = (Inr pr, s1)"
    "ensure_price SD t MONTHLY pr False s1 = (Inr a, s2)" "ensure_price SD t ANNUAL pr False s2 = (Inr b, s')"
    "lines = [(price_env_name t MONTHLY, a), (price_env_name t ANNUAL, b)]"
    using assms(2) by (auto simp: seed_tier_def all_intervals_def and_then_returns)
  have pr: "pr = ''tier_'' @ tier_value t" using ensure_product_id [OF assms(1) run(1)] .
  have "offer s2 p = Some np \<Longrightarrow> offer s' p = Some np" for p np
    using keepsD [OF keeps_ensure(2) [OF assms(1)] _ run(3)] by blast
  with ensure_price_offer [OF assms(1) run(2)] ensure_price_offer [OF assms(1) run(3)]
  show ?thesis unfolding run(4) pr by (intro exI [of _ a] exI [of _ b] conjI refl) auto
qed

lemma seed_tier_keeps:
  "stripe_contract offer SD \<Longrightarrow> keeps (\<lambda>s. offer s p = Some np) (seed_tier SD dry t)"
  unfolding seed_tier_def by (intro keeps_intro keeps_ensure)

lemma seed_all_prices:
  assumes "stripe_contract offer SD" "seed_all SD False s = (Inr lines, s')"
  shows "\<exists>f. lines = [(price_env_name PLUS MONTHLY, f PLUS MONTHLY), (price_env_name PLUS ANNUAL, f PLUS ANNUAL),
      (price_env_name PRO MONTHLY, f PRO MONTHLY), (price_env_name PRO ANNUAL, f PRO ANNUAL)] \<and>
    (\<forall>t \<in> set PURCHASABLE_TIERS. \<forall>i. f t i \<noteq> [] \<and> (\<exists>np. offer s' (f t i) = Some np \<and>
       sp_lookup_key np = tier_value t @ ''_'' @ interval_value i \<and>
       (listed SD (price_key t i) (f t i) \<or> new_price t i (''tier_'' @ tier_value t) = Inr np)))"
proof -
  obtain l1 l2 s1 where run: "seed_tier SD False PLUS s = (Inr l1, s1)" "seed_tier SD False PRO s1 = (Inr l2, s')" "lines = l1 @ l2"
    using assms(2) by (auto simp: seed_all_def PURCHASABLE_TIERS_eq and_then_returns)
  obtain a b where l1: "l1 = [(price_env_name PLUS MONTHLY, a), (price_env_name PLUS ANNUAL, b)]"
    and ab: "\<forall>(i, p) \<in> {(MONTHLY, a), (ANNUAL, b)}. p \<noteq> [] \<and> (\<exists>np. offer s1 p = Some np \<and>
       sp_lookup_key np = tier_value PLUS @ ''_'' @ interval_value i \<and>
       (listed SD (price_key PLUS i) p \<or> new_price PLUS i (''tier_'' @ tier_value PLUS) = Inr np))"
    using seed_tier_prices [OF assms(1) run(1)] by blast
  obtain c d where l2: "l2 = [(price_env_name PRO MONTHLY, c), (price_env_name PRO ANNUAL, d)]"
    and cd: "\<forall>(i, p) \<in> {(MONTHLY, c), (ANNUAL, d)}. p \<noteq> [] \<and> (\<exists>np. offer s' p = Some np \<and>
       sp_lookup_key np = tier_value PRO @ ''_'' @ interval_value i \<and>
       (listed SD (price_key PRO i) p \<or> new_price PRO i (''tier_'' @ tier_value PRO) = Inr np))"
    using seed_tier_prices [OF assms(1) run(2)] by blast
  have later: "offer s1 p = Some np \<Longrightarrow> offer s' p = Some np" for p np
    using keepsD [OF seed_tier_keeps [OF assms(1)] _ run(2)] by blast
  let ?f = "\<lambda>t i. if t = PLUS then (if i = MONTHLY then a else b) else (if i = MONTHLY then c else d)"
  have "?f t i \<noteq> [] \<and> (\<exists>np. offer s' (?f t i) = Some np \<and> sp_lookup_key np = tier_value t @ ''_'' @ interval_value i \<and>
       (listed SD (price_key t i) (?f t i) \<or> new_price t i (''tier_'' @ tier_value t) = Inr np))"
    if "t \<in> set PURCHASABLE_TIERS" for t i
    using that ab cd later by (cases i) (auto simp: PURCHASABLE_TIERS_eq)
  then show ?thesis
    by (intro exI [of _ ?f]) (simp add: run(3) l1 l2)
qed


text \<open>
  An account that is a list of prices: it lists what it has under a lookup key, refuses a second
  price under one, and answers every product.
\<close>

definition ex_offer :: "(string \<times> seed_price) list \<Rightarrow> string \<Rightarrow> seed_price option" where
  "ex_offer = map_of"

definition ex_seeded :: "(string \<times> seed_price) list seed_sdk" where
  "ex_seeded =
     \<lparr>sd_product_retrieve = (\<lambda>i. raise (StripeError InvalidRequestError ''No such product'')),
      sd_product_create = (\<lambda>i name md. ret (JObj [(''id'', JStr i)])),
      sd_price_list = (\<lambda>key s. (Inr (JObj [(''data'', JList (map (\<lambda>(p, np). JObj [(''id'', JStr p)])
        (filter (\<lambda>(p, np). p \<noteq> [] \<and> sp_lookup_key np = key \<and> map_of s p = Some np) s)))]), s)),
      sd_price_create = (\<lambda>np s. let p = ''price_'' @ sp_lookup_key np in
        if map_of s p = None then (Inr (JObj [(''id'', JStr p)]), (p, np) # s)
        else (Inl (StripeError InvalidRequestError ''lookup_key is taken''), s))\<rparr>"

lemma ex_seeded_contract: "stripe_contract ex_offer ex_seeded"
  by (auto simp: stripe_contract_def keeps_offers_def keeps_def ex_seeded_def ex_offer_def Let_def split: if_splits)

text \<open>The yearly price of \<open>pro\<close> is there already, under an id of its own.\<close>

definition ex_account :: "(string \<times> seed_price) list" where
  "ex_account = [(''price_1'', \<lparr>sp_product = ''tier_pro'', sp_currency = ''usd'', sp_unit_amount = 90000,
     sp_interval = ''year'', sp_lookup_key = ''pro_annual'', sp_metadata = []\<rparr>)]"


text \<open>
  A price the script created goes on resolving after it is retired. Stripe returns a price with
  the interval and the metadata it was created with; where no setting names its id any more,
  the adapter reads its tier from the metadata, and a subscriber who is still on it keeps
  their plan.
\<close>

theorem retired_price_keeps_its_tier:
  assumes "new_price t i product_id = Inr np"
    and "jget2 ''recurring'' ''interval'' price = Inr (JStr (sp_interval np))"
    and "jitem ''id'' price = Inr (JStr p)"
    and "jget2 ''metadata'' ''tier'' price = Inr (JStr (the (map_of (sp_metadata np) ''tier'')))"
    and "map_of (price_catalog S) p = None"
  shows "\<exists>rp. price_of price = Inr (Some rp) \<and> resolve_tier S (Some rp) = (Some t, Some i)"
proof -
  have np: "sp_interval np = seed_interval i" "map_of (sp_metadata np) ''tier'' = Some (tier_value t)"
    using assms(1) by (auto simp: new_price_def split: option.splits)
  have "\<exists>kvs. price = JObj kvs \<and> kvs \<noteq> []"
    using assms(3) by (cases price) auto
  then obtain kvs where price: "price = JObj kvs" "kvs \<noteq> []" by blast
  have iv: "interval_of (JStr (seed_interval i)) = Some i"
    by (cases i) (simp_all add: interval_of_def INTERVALS_def)
  have "price_of price = Inr (Some \<lparr>rp_id = p, rp_interval = Some i, rp_tier = Some (tier_value t)\<rparr>)"
    using assms(2-4) np iv by (simp add: price_of_def price jor_def)
  moreover have "resolve_tier S (Some \<lparr>rp_id = p, rp_interval = Some i, rp_tier = Some (tier_value t)\<rparr>) = (Some t, Some i)"
    using assms(5) by (simp add: resolve_tier_def)
  ultimately show ?thesis by blast
qed

theorem retired_price_keeps_its_tier_witness:
  "\<exists>rp. price_of (JObj [(''id'', JStr ''price_old''), (''recurring'', JObj [(''interval'', JStr ''year'')]),
      (''metadata'', JObj [(''tier'', JStr ''pro'')])]) = Inr (Some rp) \<and>
    resolve_tier ex_settings (Some rp) = (Some PRO, Some ANNUAL)"
proof -
  have new: "new_price PRO ANNUAL ''tier_pro'' = Inr \<lparr>sp_product = ''tier_pro'', sp_currency = ''usd'', sp_unit_amount = 100000,
      sp_interval = ''year'', sp_lookup_key = price_key PRO ANNUAL,
      sp_metadata = [(''tier'', tier_value PRO), (''interval'', interval_value ANNUAL)]\<rparr>"
    by (simp add: new_price_def AMOUNTS_def CURRENCY_def)
  have gone: "map_of (price_catalog ex_settings) ''price_old'' = None"
    by code_simp
  show ?thesis
    by (rule retired_price_keeps_its_tier [OF new _ _ _ gone]) (simp_all add: jget2_def jor_def tier_value.simps)
qed

end
