(* ===== verification/Operator_Scripts.thy ===== *)
theory Operator_Scripts
  imports Seed Frames
begin

text \<open>
  The operators' scripts that delete or check something: \<open>scripts/prune_sandbox_rows.py\<close>,
  \<open>scripts/cleanup_ci_schemas.py\<close>, \<open>scripts/cleanup_test_clocks.py\<close>, \<open>scripts/check_db_role.py\<close> and
  \<open>scripts/configure_portal.py\<close>. Stripe's SDK, the clock and what Postgres answers are parameters;
  what is printed is not modelled. Times are microseconds.
\<close>

section \<open>Pruning the rows of an old sandbox\<close>

definition TEST_KEY_PREFIXES :: "string list" where
  "TEST_KEY_PREFIXES = [''sk_test_'', ''rk_test_'']"

definition refuse_key :: "string \<Rightarrow> string option" where
  "refuse_key key =
     (if list_ex (\<lambda>p. starts_with p key) TEST_KEY_PREFIXES then None
      else if contains ''_live_'' key then Some ''that is a live key; it would match paying customers''
      else Some ''that is not a Stripe secret test key (sk_test_ or rk_test_)'')"

text \<open>\<open>missing e\<close>: an \<open>InvalidRequestError\<close> whose code is \<open>resource_missing\<close>.\<close>

definition stripe_lookup ::
  "(string \<Rightarrow> ('r, json) call) \<Rightarrow> (exc \<Rightarrow> bool) \<Rightarrow> string \<Rightarrow> ('r, bool) call" where
  "stripe_lookup retrieve missing cid =
     try_except (and_then (retrieve cid) (\<lambda>_. ret True)) (\<lambda>e. if missing e then ret False else raise e)"

record prune_result =
  pr_old :: "string list"
  pr_kept :: "string list"

fun sort_customers :: "(string \<Rightarrow> ('r, bool) call) \<Rightarrow> string list \<Rightarrow> ('r, 'c, prune_result) service" where
  "sort_customers in_old [] = ret \<lparr>pr_old = [], pr_kept = []\<rparr>"
| "sort_customers in_old (c # cs) =
     and_then (call (in_old c)) (\<lambda>found.
     and_then (sort_customers in_old cs) (\<lambda>rest.
     ret (if found then rest\<lparr>pr_old := c # pr_old rest\<rparr> else rest\<lparr>pr_kept := c # pr_kept rest\<rparr>)))"

definition customers :: "database \<Rightarrow> string list" where
  "customers db = sort (List.map_filter stripe_customer_id (subscriptions db))"

definition remove_customers :: "string list \<Rightarrow> database \<Rightarrow> database" where
  "remove_customers cs db = db\<lparr>subscriptions := filter (\<lambda>r. case stripe_customer_id r of
     None \<Rightarrow> True | Some c \<Rightarrow> c \<notin> set cs) (subscriptions db)\<rparr>"

definition prune :: "(string \<Rightarrow> ('r, bool) call) \<Rightarrow> bool \<Rightarrow> ('r, 'c, prune_result) service" where
  "prune in_old delete = request
     (and_then (query customers) (\<lambda>cs.
      and_then (sort_customers in_old cs) (\<lambda>result.
      and_then (only_if (delete \<and> pr_old result \<noteq> []) (update_view (remove_customers (pr_old result)))) (\<lambda>_.
      and_then commit (\<lambda>_. ret result)))))"

fun is_stripe_error :: "exc \<Rightarrow> bool" where
  "is_stripe_error (StripeError _ _) = True"
| "is_stripe_error _ = False"

definition prune_main ::
  "(string \<Rightarrow> ('r, bool) call) \<Rightarrow> string \<Rightarrow> bool \<Rightarrow> ('r, 'c, nat) service" where
  "prune_main in_old key delete =
     (if refuse_key key \<noteq> None then ret 2 else
      try_except (and_then (prune in_old delete) (\<lambda>_. ret 0))
        (\<lambda>e. if is_stripe_error e then ret 1 else raise e))"

section \<open>Left-over CI schemas\<close>

definition is_digit :: "char \<Rightarrow> bool" where
  "is_digit c \<longleftrightarrow> (let n = of_char c :: nat in 48 \<le> n \<and> n \<le> 57)"

definition is_hex :: "char \<Rightarrow> bool" where
  "is_hex c \<longleftrightarrow> (let n = of_char c :: nat in (48 \<le> n \<and> n \<le> 57) \<or> (97 \<le> n \<and> n \<le> 102))"

definition digits_value :: "string \<Rightarrow> nat" where
  "digits_value = foldl (\<lambda>a c. 10 * a + (of_char c - 48)) 0"

text \<open>\<open>^ci_(\d{10})_[0-9a-f]{8}$\<close>; \<open>$\<close> also matches before a final newline.\<close>

definition schema_time :: "string \<Rightarrow> nat option" where
  "schema_time name =
     (let n = (if name \<noteq> [] \<and> last name = char_of (10 :: nat) then butlast name else name);
          digits = take 10 (drop 3 n); rest = drop 13 n
      in if take 3 n = ''ci_'' \<and> length digits = 10 \<and> list_all is_digit digits \<and>
            take 1 rest = ''_'' \<and> length rest = 9 \<and> list_all is_hex (drop 1 rest)
         then Some (digits_value digits) else None)"

definition new_schema_name :: "int \<Rightarrow> string \<Rightarrow> string" where
  "new_schema_name t0 uuid_hex = ''ci_'' @ str_int (trunc_seconds t0) @ ''_'' @ take 8 uuid_hex"

definition stale :: "string list \<Rightarrow> int \<Rightarrow> int \<Rightarrow> string list" where
  "stale names t0 older_than_minutes =
     (let cutoff = t0 - older_than_minutes * 60 * second_us
      in sort (filter (\<lambda>n. case schema_time n of None \<Rightarrow> False | Some t \<Rightarrow> int t * second_us < cutoff) names))"

text \<open>
  The schemas the role owns, before and after. \<open>fails\<close> is what dropping one raises; the drops are
  one transaction.
\<close>

definition drop_stale ::
  "(string \<Rightarrow> exc option) \<Rightarrow> int \<Rightarrow> int \<Rightarrow> bool \<Rightarrow> string list \<Rightarrow> (exc + nat) \<times> string list" where
  "drop_stale fails t0 older_than_minutes dry owned =
     (let doomed = stale (filter (starts_with ''ci_'') owned) t0 older_than_minutes
      in if dry then (Inr 0, owned)
         else case List.find (\<lambda>n. fails n \<noteq> None) doomed of
           Some n \<Rightarrow> (Inl (the (fails n)), owned)
         | None \<Rightarrow> (Inr 0, filter (\<lambda>n. n \<notin> set doomed) owned))"

definition cleanup_ci_main ::
  "string \<Rightarrow> (string \<Rightarrow> exc option) \<Rightarrow> int \<Rightarrow> int \<Rightarrow> bool \<Rightarrow> string list \<Rightarrow> (exc + nat) \<times> string list" where
  "cleanup_ci_main url fails t0 older_than_minutes dry owned =
     (if url = [] then (Inr 1, owned) else drop_stale fails t0 older_than_minutes dry owned)"

section \<open>Left-over test clocks\<close>

text \<open>
  How many clocks are deleted and kept; a delete that fails counts as neither. Each clock that
  has the prefix is named by its id, in whatever is printed about it.
\<close>

fun cleanup_clocks ::
  "string \<Rightarrow> int \<Rightarrow> bool \<Rightarrow> (string \<Rightarrow> ('r, unit) call) \<Rightarrow> json list \<Rightarrow> ('r, nat \<times> nat) call" where
  "cleanup_clocks prefix cutoff dry delete [] = ret (0, 0)"
| "cleanup_clocks prefix cutoff dry delete (c # cs) =
     and_then (lift_result (bind_result (jget ''name'' c) (\<lambda>v. as_string (jor v (JStr ''''))))) (\<lambda>name.
     and_then (lift_result (bind_result (jget ''created'' c) (\<lambda>v. as_opt_int (jor v (JInt 0))))) (\<lambda>created.
     if prefix \<noteq> [] \<and> \<not> starts_with prefix name then
       and_then (cleanup_clocks prefix cutoff dry delete cs) (\<lambda>(d, k). ret (d, k + 1))
     else
       and_then (lift_result (id_of c)) (\<lambda>i.
       if cutoff < (case created of Some t \<Rightarrow> t | None \<Rightarrow> 0) * second_us then
         and_then (cleanup_clocks prefix cutoff dry delete cs) (\<lambda>(d, k). ret (d, k + 1))
       else
         and_then (if dry then ret True
           else try_except (and_then (delete i) (\<lambda>_. ret True)) (\<lambda>_. ret False)) (\<lambda>gone.
         and_then (cleanup_clocks prefix cutoff dry delete cs) (\<lambda>(d, k).
         ret (if gone then d + 1 else d, k))))))"

definition cleanup_test_clocks ::
  "settings \<Rightarrow> ('r, json) call \<Rightarrow> (string \<Rightarrow> ('r, unit) call) \<Rightarrow> int \<Rightarrow> string \<Rightarrow> int \<Rightarrow> bool \<Rightarrow> ('r, nat) call" where
  "cleanup_test_clocks S list_clocks delete t0 prefix older_than dry =
     (if \<not> starts_with ''sk_test_'' (stripe_secret_key S) then ret 1 else
      and_then list_clocks (\<lambda>answer.
      and_then (lift_result (bind_result (jget ''data'' answer) (\<lambda>v. as_list (jor v (JList []))))) (\<lambda>clocks.
      and_then (cleanup_clocks prefix (t0 - older_than * 60 * second_us) dry delete clocks) (\<lambda>_. ret 0))))"

section \<open>The portal's configuration\<close>

definition switchable_products ::
  "settings \<Rightarrow> (string \<Rightarrow> ('r, json) call) \<Rightarrow> ('r, (string \<times> string list) list) call" where
  "switchable_products S retrieve =
     and_then (map_prog (\<lambda>(t, row).
       if \<not> td_purchasable row then ret None else
       let prices = List.map_filter (\<lambda>i. price_id_for S t i) all_intervals in
       case prices of
         [] \<Rightarrow> ret None
       | p # _ \<Rightarrow>
           and_then (retrieve p) (\<lambda>price.
           and_then (lift_result (bind_result (jitem ''product'' price) id_of)) (\<lambda>product.
           ret (Some (product, prices))))) CATALOG) (\<lambda>found.
     ret (List.map_filter (\<lambda>x. x) found))"

definition portal_features :: "(string \<times> string list) list \<Rightarrow> json" where
  "portal_features products = JObj
     [(''customer_update'', JObj [(''enabled'', JBool True),
        (''allowed_updates'', JList (map JStr [''name'', ''email'', ''address'', ''phone'']))]),
      (''invoice_history'', JObj [(''enabled'', JBool True)]),
      (''payment_method_update'', JObj [(''enabled'', JBool True)]),
      (''subscription_cancel'', JObj [(''enabled'', JBool True), (''mode'', JStr ''at_period_end'')]),
      (''subscription_update'', JObj [(''enabled'', JBool True),
        (''default_allowed_updates'', JList [JStr ''price'']),
        (''proration_behavior'', JStr ''always_invoice''),
        (''products'', JList (map (\<lambda>(p, ps). JObj [(''product'', JStr p), (''prices'', JList (map JStr ps))]) products))])]"

text \<open>\<open>c.get("metadata", {}).get("managed_by")\<close>, and the first configuration that carries the marker.\<close>

definition managed_by :: "json \<Rightarrow> exc + json" where
  "managed_by c = (case c of
     JObj kvs \<Rightarrow> (case map_of kvs ''metadata'' of None \<Rightarrow> Inr JNull | Some md \<Rightarrow> jget ''managed_by'' md)
   | _ \<Rightarrow> Inl AttributeError)"

definition MARKER :: "(string, string) dict" where
  "MARKER = [(''managed_by'', ''subscription-service'')]"

fun own_configuration :: "json list \<Rightarrow> exc + json option" where
  "own_configuration [] = Inr None"
| "own_configuration (c # cs) = bind_result (managed_by c) (\<lambda>m.
     if m = JStr (the (map_of MARKER ''managed_by'')) then Inr (Some c) else own_configuration cs)"

record 'r portal_sdk =
  po_price_retrieve :: "string \<Rightarrow> ('r, json) call"
  po_list :: "('r, json) call"
  po_modify :: "string \<Rightarrow> json \<Rightarrow> ('r, json) call"
  po_create :: "json \<Rightarrow> string \<Rightarrow> (string, string) dict \<Rightarrow> ('r, json) call"

text \<open>The exit code, and the id of the configuration where one was written.\<close>

definition configure_portal :: "settings \<Rightarrow> 'r portal_sdk \<Rightarrow> bool \<Rightarrow> ('r, nat \<times> string option) call" where
  "configure_portal S SD dry =
     (if stripe_secret_key S = [] then ret (1, None) else
      and_then (switchable_products S (po_price_retrieve SD)) (\<lambda>products.
      if products = [] then ret (1, None) else
      and_then (po_list SD) (\<lambda>answer.
      and_then (lift_result (bind_result (jitem ''data'' answer) as_list)) (\<lambda>configs.
      and_then (lift_result (own_configuration configs)) (\<lambda>existing.
      if dry then ret (0, None) else
      and_then (case existing of
          Some c \<Rightarrow>
            and_then (lift_result (id_of c)) (\<lambda>i. po_modify SD i (portal_features products))
        | None \<Rightarrow> po_create SD (portal_features products) ''Manage your subscription'' MARKER) (\<lambda>config.
      and_then (lift_result (id_of config)) (\<lambda>i. ret (0, Some i))))))))"

section \<open>What the database role can do\<close>

definition APP_TABLES :: "string list" where
  "APP_TABLES = [''subscriptions'', ''processed_events'', ''usage_counters'', ''entitlement_grants'',
     ''subscription_audit'', ''sales_inquiries'']"

definition FOREIGN_SCHEMAS :: "string list" where
  "FOREIGN_SCHEMAS = [''auth'', ''storage'', ''vault'']"

definition ROLE_ATTRIBUTES :: "string list" where
  "ROLE_ATTRIBUTES = [''superuser'', ''createrole'', ''createdb'', ''bypassrls'']"

text \<open>
  The problems found, from what Postgres answers to each question. Whether a schema can be used
  is an error where there is no such schema, which nothing catches. The tables are read in one
  transaction, which the first denial aborts: every table after it is denied too.
\<close>

fun reached :: "(string \<Rightarrow> exc + bool) \<Rightarrow> string list \<Rightarrow> exc + string list" where
  "reached can_reach [] = Inr []"
| "reached can_reach (s # ss) = (case can_reach s of
     Inl e \<Rightarrow> Inl e
   | Inr can \<Rightarrow> map_sum id (\<lambda>found. if can then s # found else found) (reached can_reach ss))"

definition role_problems ::
  "(string \<Rightarrow> bool) \<Rightarrow> (string \<Rightarrow> exc + bool) \<Rightarrow> (string \<Rightarrow> bool) \<Rightarrow> bool \<Rightarrow> exc + string list" where
  "role_problems attribute can_reach readable writable = map_sum id (\<lambda>found.
     map (\<lambda>n. ''role has '' @ n) (filter attribute ROLE_ATTRIBUTES) @
     map (\<lambda>s. ''can reach the '' @ s @ '' schema'') found @
     map (\<lambda>t. ''cannot read '' @ t) (dropWhile readable APP_TABLES) @
     (if writable then [] else [''cannot write''])) (reached can_reach FOREIGN_SCHEMAS)"

definition check_db_role ::
  "(string \<Rightarrow> bool) \<Rightarrow> (string \<Rightarrow> exc + bool) \<Rightarrow> (string \<Rightarrow> bool) \<Rightarrow> bool \<Rightarrow> exc + nat" where
  "check_db_role attribute can_reach readable writable =
     map_sum id (\<lambda>problems. if problems \<noteq> [] then 1 else 0) (role_problems attribute can_reach readable writable)"

section \<open>What pruning deletes\<close>

lemma sort_customers_run:
  assumes "\<And>c s. fst (in_old c s) = ans c"
  shows "\<exists>r'. sort_customers in_old cs w =
    (case List.find (\<lambda>c. case ans c of Inl _ \<Rightarrow> True | Inr _ \<Rightarrow> False) cs of
       Some c \<Rightarrow> Inl (projl (ans c))
     | None \<Rightarrow> Inr \<lparr>pr_old = filter (\<lambda>c. ans c = Inr True) cs, pr_kept = filter (\<lambda>c. ans c \<noteq> Inr True) cs\<rparr>,
     w\<lparr>remote := r'\<rparr>)"
proof (induction cs arbitrary: w)
  case Nil
  show ?case by (rule exI [of _ "remote w"]) simp
next
  case (Cons c cs)
  obtain r' where c: "in_old c (remote w) = (ans c, r')"
    using assms [of c "remote w"] by (cases "in_old c (remote w)") auto
  show ?case
  proof (cases "ans c")
    case (Inl e)
    then show ?thesis by (intro exI [of _ r']) (simp add: and_then_def call_apply c)
  next
    case (Inr found)
    obtain r'' where "sort_customers in_old cs (w\<lparr>remote := r'\<rparr>) =
      (case List.find (\<lambda>c. case ans c of Inl _ \<Rightarrow> True | Inr _ \<Rightarrow> False) cs of
         Some c \<Rightarrow> Inl (projl (ans c))
       | None \<Rightarrow> Inr \<lparr>pr_old = filter (\<lambda>c. ans c = Inr True) cs, pr_kept = filter (\<lambda>c. ans c \<noteq> Inr True) cs\<rparr>,
       w\<lparr>remote := r''\<rparr>)"
      using Cons.IH [of "w\<lparr>remote := r'\<rparr>"] by auto
    then show ?thesis using Inr
      by (intro exI [of _ r'']) (auto simp: and_then_def call_apply c split: option.split)
  qed
qed

lemma unique_remove:
  assumes "unique_rows db"
  shows "unique_rows (remove_customers cs db)"
proof -
  have "distinct (List.map_filter f (filter P xs))" if "distinct (List.map_filter f xs)" for f :: "subscription \<Rightarrow> string option" and P xs
    using that by (induction xs) (auto simp: map_filter_simps in_map_filter split: option.splits)
  moreover have "distinct (map f (filter P xs))" if "distinct (map f xs)" for f :: "subscription \<Rightarrow> string" and P xs
    using that by (rule distinct_map_filter)
  ultimately show ?thesis
    using assms by (auto simp: unique_rows_def unique_subscriptions_def remove_customers_def)
qed

lemma prune_run:
  assumes "idle w" "\<And>c s. fst (in_old c s) = ans c"
  shows "\<exists>r'. if \<exists>c \<in> set (customers (durable w)). \<exists>e. ans c = Inl e
      then \<exists>c \<in> set (customers (durable w)). \<exists>e. ans c = Inl e \<and> prune in_old delete w = (Inl e, w\<lparr>remote := r'\<rparr>)
      else (\<exists>res db. prune in_old delete w = (Inr res, w\<lparr>remote := r', view := db, durable := db\<rparr>) \<and>
        set (pr_old res) = {c \<in> set (customers (durable w)). ans c = Inr True} \<and>
        db = (durable w)\<lparr>subscriptions := filter (\<lambda>r. \<not> (delete \<and> (\<exists>c. stripe_customer_id r = Some c \<and> ans c = Inr True)))
          (subscriptions (durable w))\<rparr>)"
proof -
  let ?cs = "customers (durable w)" and ?bad = "\<lambda>c. case ans c of Inl _ \<Rightarrow> True | Inr _ \<Rightarrow> False"
  have i: "db_up w" "rivals w = []" "marks w = []" "view w = durable w" "unique_rows (durable w)"
    using assms(1) by (simp_all add: idle_def)
  obtain r' where run: "sort_customers in_old ?cs w = (case List.find ?bad ?cs of
       Some c \<Rightarrow> Inl (projl (ans c))
     | None \<Rightarrow> Inr \<lparr>pr_old = filter (\<lambda>c. ans c = Inr True) ?cs, pr_kept = filter (\<lambda>c. ans c \<noteq> Inr True) ?cs\<rparr>,
     w\<lparr>remote := r'\<rparr>)"
    using sort_customers_run [where in_old = in_old and ans = ans and cs = "?cs" and w = w, OF assms(2)] by blast
  have undone: "w\<lparr>remote := r', view := durable w, marks := []\<rparr> = w\<lparr>remote := r'\<rparr>"
    using i by (cases w) simp
  show ?thesis
  proof (intro exI [of _ r'])
    show "if \<exists>c \<in> set ?cs. \<exists>e. ans c = Inl e
        then \<exists>c \<in> set ?cs. \<exists>e. ans c = Inl e \<and> prune in_old delete w = (Inl e, w\<lparr>remote := r'\<rparr>)
      else (\<exists>res db. prune in_old delete w = (Inr res, w\<lparr>remote := r', view := db, durable := db\<rparr>) \<and>
        set (pr_old res) = {c \<in> set ?cs. ans c = Inr True} \<and>
        db = (durable w)\<lparr>subscriptions := filter (\<lambda>r. \<not> (delete \<and> (\<exists>c. stripe_customer_id r = Some c \<and> ans c = Inr True)))
          (subscriptions (durable w))\<rparr>)"
    proof (cases "List.find ?bad ?cs")
      case (Some c)
      then have "c \<in> set ?cs" "?bad c" by (blast dest: find_Some_D)+
      moreover from this(2) have "ans c = Inl (projl (ans c))" by (cases "ans c") auto
      moreover have "prune in_old delete w = (Inl (projl (ans c)), w\<lparr>remote := r'\<rparr>)"
        using run i undone by (simp add: prune_def request_def try_except_def and_then_def Some)
      ultimately have hit: "\<exists>c \<in> set ?cs. \<exists>e. ans c = Inl e \<and> prune in_old delete w = (Inl e, w\<lparr>remote := r'\<rparr>)"
        by blast
      then have "\<exists>c \<in> set ?cs. \<exists>e. ans c = Inl e" by blast
      with hit show ?thesis by (simp only: if_True)
    next
      case None
      then have clear: "\<not> (\<exists>c \<in> set ?cs. \<exists>e. ans c = Inl e)" by (auto simp: find_None_iff)
      define db where "db = (durable w)\<lparr>subscriptions := filter (\<lambda>r. \<not> (delete \<and> (\<exists>c. stripe_customer_id r = Some c \<and> ans c = Inr True)))
          (subscriptions (durable w))\<rparr>"
      let ?old = "filter (\<lambda>c. ans c = Inr True) ?cs"
      have members: "c \<in> set ?cs \<longleftrightarrow> (\<exists>r \<in> set (subscriptions (durable w)). stripe_customer_id r = Some c)" for c
        by (simp add: customers_def in_map_filter)
      have gone: "(if delete \<and> ?old \<noteq> [] then remove_customers ?old (durable w) else durable w) = db"
      proof -
        have row: "(case stripe_customer_id r of None \<Rightarrow> True | Some c \<Rightarrow> c \<notin> set ?old) \<longleftrightarrow>
            \<not> (\<exists>c. stripe_customer_id r = Some c \<and> ans c = Inr True)"
          if "r \<in> set (subscriptions (durable w))" for r
          using that members by (auto split: option.split)
        have "?old = [] \<Longrightarrow> delete \<Longrightarrow> filter (\<lambda>r. \<not> (\<exists>c. stripe_customer_id r = Some c \<and> ans c = Inr True))
            (subscriptions (durable w)) = subscriptions (durable w)"
          using members by (intro filter_True) (auto simp: filter_empty_conv)
        moreover have "filter (\<lambda>r. case stripe_customer_id r of None \<Rightarrow> True | Some c \<Rightarrow> c \<notin> set ?old) (subscriptions (durable w)) =
            filter (\<lambda>r. \<not> (\<exists>c. stripe_customer_id r = Some c \<and> ans c = Inr True)) (subscriptions (durable w))"
          by (rule filter_cong [OF refl row])
        ultimately show ?thesis
          by (cases delete; cases "?old = []") (simp_all add: remove_customers_def db_def)
      qed
      have u: "unique_rows db" using unique_remove i(5) gone by metis
      have "prune in_old delete w = (Inr \<lparr>pr_old = ?old, pr_kept = filter (\<lambda>c. ans c \<noteq> Inr True) ?cs\<rparr>,
          w\<lparr>remote := r', view := db, durable := db\<rparr>)"
      proof -
        let ?w = "w\<lparr>remote := r'\<rparr>"
        have "(if delete \<and> ?old \<noteq> [] then w\<lparr>remote := r', view := remove_customers ?old (durable w)\<rparr> else ?w) = ?w\<lparr>view := db\<rparr>"
          using gone i(4) by (cases "delete \<and> ?old \<noteq> []"; cases w) auto
        moreover have "only_if (delete \<and> ?old \<noteq> []) (update_view (remove_customers ?old)) ?w =
            (Inr (), if delete \<and> ?old \<noteq> [] then w\<lparr>remote := r', view := remove_customers ?old (durable w)\<rparr> else ?w)"
          by (simp add: i(4))
        ultimately have "only_if (delete \<and> ?old \<noteq> []) (update_view (remove_customers ?old)) ?w = (Inr (), ?w\<lparr>view := db\<rparr>)"
          by (simp only:)
        moreover have "commit (?w\<lparr>view := db\<rparr>) = (Inr (), w\<lparr>remote := r', view := db, durable := db\<rparr>)"
          using i u by (cases w) simp
        ultimately show ?thesis
          using run i None
          by (simp add: prune_def request_def try_except_def and_then_def del: only_if_apply update_view_apply)
      qed
      then show ?thesis
        using clear by (auto simp: db_def)
    qed
  qed
qed

lemma accepted_test_key:
  "refuse_key key = None \<longleftrightarrow> starts_with ''sk_test_'' key \<or> starts_with ''rk_test_'' key"
  by (simp add: refuse_key_def TEST_KEY_PREFIXES_def)

lemma live_is_no_test:
  assumes "starts_with ''sk_live_'' key \<or> starts_with ''rk_live_'' key"
  shows "\<not> starts_with ''sk_test_'' key" "\<not> starts_with ''rk_test_'' key"
  using assms by (auto simp: starts_with_def)

text \<open>
  C40: Pruning deletes the old sandbox's rows and nothing else. A live key decides nothing: with a
  key that starts with \<open>sk_live_\<close> or \<open>rk_live_\<close>, or with anything but \<open>sk_test_\<close> or \<open>rk_test_\<close>,
  the script exits with 2 before anything is asked or deleted. With a test key, if asking about
  some customer fails, every row stays and the script exits with 1 or raises; otherwise it exits
  with 0 and exactly the rows whose customer the old sandbox has are deleted, if deleting was
  asked for, and rows without a customer, and every other table, stay.
\<close>

theorem prune_deletes_only_old_sandbox:
  assumes "idle w" "\<And>c s. fst (in_old c s) = ans c"
  shows "(starts_with ''sk_live_'' key \<or> starts_with ''rk_live_'' key \<longrightarrow> prune_main in_old key delete w = (Inr 2, w)) \<and>
    (if \<not> (starts_with ''sk_test_'' key \<or> starts_with ''rk_test_'' key)
     then prune_main in_old key delete w = (Inr 2, w)
     else if \<exists>c \<in> set (customers (durable w)). \<exists>e. ans c = Inl e
     then \<exists>r' c e. c \<in> set (customers (durable w)) \<and> ans c = Inl e \<and>
       prune_main in_old key delete w = (if is_stripe_error e then Inr 1 else Inl e, w\<lparr>remote := r'\<rparr>)
     else \<exists>r' db. prune_main in_old key delete w = (Inr 0, w\<lparr>remote := r', view := db, durable := db\<rparr>) \<and>
       db = (durable w)\<lparr>subscriptions := filter (\<lambda>r. \<not> (delete \<and> (\<exists>c. stripe_customer_id r = Some c \<and> ans c = Inr True)))
         (subscriptions (durable w))\<rparr>)"
proof (cases "starts_with ''sk_test_'' key \<or> starts_with ''rk_test_'' key")
  case False
  then show ?thesis by (simp add: prune_main_def flip: accepted_test_key)
next
  case True
  then have "refuse_key key = None" by (simp add: accepted_test_key)
  moreover have "\<not> (starts_with ''sk_live_'' key \<or> starts_with ''rk_live_'' key)"
    using True live_is_no_test by blast
  ultimately show ?thesis
    using prune_run [where in_old = in_old and ans = ans and delete = delete, OF assms] True
    by (auto simp: prune_main_def and_then_def try_except_def split: if_splits) blast+
qed

text \<open>Two customers, one of whom the old sandbox has.\<close>

definition ex_two :: database where
  "ex_two = empty_db\<lparr>subscriptions := [ex_row, first_row ''cus_2'' ''bob'']\<rparr>"

definition ex_old :: "string \<Rightarrow> (ex_state, bool) call" where
  "ex_old c = ret (c = ''cus_1'')"

theorem prune_deletes_only_old_sandbox_witness:
  "prune_main ex_old ''sk_live_1'' True (ex_world ex_two None) = (Inr 2, ex_world ex_two None) \<and>
   (\<exists>w'. prune_main ex_old ''sk_test_1'' True (ex_world ex_two None) = (Inr 0, w') \<and>
      subscriptions (durable w') = [first_row ''cus_2'' ''bob''])"
proof -
  have u: "unique_rows ex_two"
    by (simp add: ex_two_def unique_rows_def unique_subscriptions_def empty_db_def map_filter_simps)
  then have idle: "idle (ex_world ex_two None)" by (simp add: idle_def)
  have ans: "fst (ex_old c s) = Inr (c = ''cus_1'')" for c s by (simp add: ex_old_def)
  have rows: "subscriptions ex_two = [ex_row, first_row ''cus_2'' ''bob'']" by (simp add: ex_two_def)
  note pruned = prune_deletes_only_old_sandbox [where in_old = ex_old and ans = "\<lambda>c. Inr (c = ''cus_1'')"
        and delete = True, OF idle ans]
  show ?thesis
    using pruned [of "''sk_live_1''"] pruned [of "''sk_test_1''"] rows
    by (auto simp: starts_with_def)
qed

section \<open>The names of CI schemas\<close>

lemma str_nat_last: "10 \<le> n \<Longrightarrow> str_nat n = str_nat (n div 10) @ [digit_char (n mod 10)]"
  by (subst str_nat.simps) simp

lemma digit_char_is_digit: "d < 10 \<Longrightarrow> is_digit (digit_char d)"
  by (simp add: is_digit_def Let_def)

lemma str_nat_digits: "list_all is_digit (str_nat n)"
proof (induction n rule: str_nat.induct)
  case (1 n)
  show ?case
  proof (cases "n < 10")
    case True
    then show ?thesis by (simp add: digit_char_is_digit str_nat.simps [of n])
  next
    case False
    then have "list_all is_digit (str_nat (n div 10))" by (rule 1)
    with False show ?thesis by (simp add: str_nat_last digit_char_is_digit)
  qed
qed

lemma str_nat_value: "digits_value (str_nat n) = n"
proof (induction n rule: str_nat.induct)
  case (1 n)
  show ?case
  proof (cases "n < 10")
    case True
    then show ?thesis by (simp add: digits_value_def str_nat.simps [of n])
  next
    case False
    with 1 have "digits_value (str_nat (n div 10)) = n div 10" by simp
    with False show ?thesis by (simp add: str_nat_last digits_value_def)
  qed
qed

lemma str_nat_length: "10 ^ k \<le> n \<Longrightarrow> n < 10 ^ Suc k \<Longrightarrow> length (str_nat n) = Suc k"
proof (induction k arbitrary: n)
  case 0
  then show ?case by (simp add: str_nat.simps [of n])
next
  case (Suc k)
  have "(10::nat) \<le> 10 ^ Suc k" by simp
  then have n: "10 \<le> n" using Suc.prems(1) by linarith
  have "10 ^ k \<le> n div 10" "n div 10 < 10 ^ Suc k"
    using Suc.prems by (auto simp: less_mult_imp_div_less div_le_mono [of "10 ^ Suc k" n 10])
  then show ?case using Suc.IH [of "n div 10"] by (simp add: str_nat_last [OF n])
qed

lemma generated_name:
  assumes "length d = 10" "list_all is_digit d" "length h = 8" "list_all is_hex h"
  shows "schema_time (''ci_'' @ d @ ''_'' @ h) = Some (digits_value d)"
proof -
  have "last (''ci_'' @ d @ ''_'' @ h) = last h" using assms(3) by (cases h) auto
  moreover have "is_hex (last h)" using assms(3,4) by (cases h rule: rev_cases) (auto simp: list_all_iff)
  ultimately have "last (''ci_'' @ d @ ''_'' @ h) \<noteq> char_of (10 :: nat)"
    by (auto simp: is_hex_def Let_def)
  then show ?thesis
    using assms by (simp add: schema_time_def Let_def)
qed

text \<open>
  The cleanup recognises what the suite creates and dates it right, and nothing else goes. The
  name of a schema created at a moment between 2001 and 2286 is deleted by a later run exactly if
  the second it was created in began more than the cutoff ago; and whatever is deleted is one of
  the names given, of the generated shape, and old enough.
\<close>

theorem ci_schemas_are_recognised:
  assumes "10 ^ 9 * second_us \<le> t0" "t0 < 10 ^ 10 * second_us" "8 \<le> length u" "list_all is_hex u"
  shows "stale [new_schema_name t0 u] t minutes =
      (if t0 div second_us * second_us < t - minutes * 60 * second_us then [new_schema_name t0 u] else []) \<and>
    (\<forall>n \<in> set (stale names t minutes). n \<in> set names \<and>
      (\<exists>s. schema_time n = Some s \<and> int s * second_us < t - minutes * 60 * second_us))"
proof -
  let ?s = "nat (t0 div second_us)"
  have pos: "0 \<le> t0" using assms(1) by (simp add: second_us_def)
  have bounds: "10 ^ 9 \<le> ?s" "?s < 10 ^ 10"
  proof -
    have "10 ^ 9 \<le> t0 div second_us" "t0 div second_us < 10 ^ 10"
      using assms(1,2) unfolding second_us_def by simp_all
    moreover from this(1) have "0 \<le> t0 div second_us" by simp
    ultimately show "10 ^ 9 \<le> ?s" "?s < 10 ^ 10" by (simp_all add: le_nat_iff nat_less_iff)
  qed
  have name: "new_schema_name t0 u = ''ci_'' @ str_nat ?s @ ''_'' @ take 8 u"
    using pos by (simp add: new_schema_name_def str_int_def trunc_seconds_nonneg second_us_def)
  have "length (str_nat ?s) = 10" using str_nat_length [of 9 ?s] bounds by simp
  moreover have "list_all is_hex (take 8 u)"
    using assms(4) by (auto simp: list_all_iff dest: in_set_takeD)
  ultimately have "schema_time (new_schema_name t0 u) = Some ?s"
    unfolding name using assms(3) by (simp only: generated_name str_nat_digits str_nat_value length_take min.absorb2)
  moreover have "int ?s = t0 div second_us" using pos by (simp add: second_us_def)
  ultimately show ?thesis
    by (auto simp: stale_def Let_def split: option.splits)
qed

theorem ci_schemas_are_recognised_witness:
  "stale [new_schema_name 1700000000000000 ''0123456789abcdef''] 1700010000000000 60 =
     [new_schema_name 1700000000000000 ''0123456789abcdef'']"
  using ci_schemas_are_recognised [of 1700000000000000 "''0123456789abcdef''" 1700010000000000 60 "[]"]
  by (simp add: second_us_def is_hex_def Let_def)

lemma cleanup_ci_keeps:
  assumes "drop_stale fails t0 minutes dry owned = (r, left)" "n \<in> set owned" "n \<notin> set left"
  shows "r = Inr 0 \<and> \<not> dry \<and> n \<in> set (stale owned t0 minutes)"
  using assms by (auto simp: drop_stale_def stale_def Let_def split: if_splits option.splits)

section \<open>What the portal lets a customer switch to\<close>

lemma map_prog_results:
  "map_prog f xs s = (Inr ys, s') \<Longrightarrow> y \<in> set ys \<Longrightarrow> \<exists>x \<in> set xs. \<exists>s1 s2. f x s1 = (Inr y, s2)"
proof (induction xs arbitrary: s ys)
  case Nil
  then show ?case by simp
next
  case (Cons x xs)
  from Cons.prems(1) obtain z zs s1 where
    "f x s = (Inr z, s1)" "map_prog f xs s1 = (Inr zs, s')" "ys = z # zs"
    by (auto simp: and_then_returns)
  with Cons.prems(2) Cons.IH [of s1 zs] show ?case by auto
qed

text \<open>
  The portal offers what checkout sells. Every price of every product it lets a customer switch
  to is the configured price of a plan on sale, and comes back from Stripe as that plan, so a
  switch in the portal is mirrored as the plan it shows.
\<close>

theorem portal_offers_plans_on_sale:
  assumes "switchable_products S retrieve s = (Inr products, s')"
    and "(product, prices) \<in> set products" "p \<in> set prices"
  shows "\<exists>t \<in> set PURCHASABLE_TIERS. \<exists>i. price_id_for S t i = Some p \<and>
    resolve_tier S (Some \<lparr>rp_id = p, rp_interval = iv, rp_tier = md\<rparr>) = (Some t, Some i)"
proof -
  obtain found where
    "Some (product, prices) \<in> set found"
    "map_prog (\<lambda>(t, row). if \<not> td_purchasable row then ret None else
       let prices = List.map_filter (\<lambda>i. price_id_for S t i) all_intervals in
       case prices of
         [] \<Rightarrow> ret None
       | p # _ \<Rightarrow>
           and_then (retrieve p) (\<lambda>price.
           and_then (lift_result (bind_result (jitem ''product'' price) id_of)) (\<lambda>product.
           ret (Some (product, prices))))) CATALOG s = (Inr found, s')"
    using assms(1,2) by (auto simp: switchable_products_def and_then_returns in_map_filter)
  from map_prog_results [OF this(2,1)] obtain t row where
    "(t, row) \<in> set CATALOG" "td_purchasable row" "prices = List.map_filter (\<lambda>i. price_id_for S t i) all_intervals"
    by (auto simp: and_then_returns Let_def split: if_splits list.splits)
  moreover from this(1,2) have "t \<in> set PURCHASABLE_TIERS"
    by (force simp: PURCHASABLE_TIERS_def)
  ultimately obtain i where "t \<in> set PURCHASABLE_TIERS" "price_id_for S t i = Some p"
    using assms(3) by (auto simp: in_map_filter)
  then show ?thesis
    using find_price_in_catalog [of S t i p] by (auto simp: resolve_tier_def)
qed

end
