(* ===== verification/Application.thy ===== *)
theory Application
  imports Auth Checkout Flags Health
begin

text \<open>
  The parts of \<open>app/main.py\<close> that are not an error handler, and the log lines of
  \<open>app/observability.py\<close>: start and end of the process, which documentation is served, the request
  id, liveness, the metrics behind the admin key, and the one JSON object a log record becomes. Values that are not JSON
  (\<open>default=str\<close>), the handlers of the logging module and the timers are not modelled.
\<close>

section \<open>Documentation, liveness, metrics\<close>

record docs =
  docs_url :: "string option"
  redoc_url :: "string option"
  openapi_url :: "string option"

definition docs_urls :: "settings \<Rightarrow> docs" where
  "docs_urls S =
     (if is_production S then \<lparr>docs_url = None, redoc_url = None, openapi_url = None\<rparr>
      else \<lparr>docs_url = Some ''/docs'', redoc_url = Some ''/redoc'', openapi_url = Some ''/openapi.json''\<rparr>)"

definition healthz :: "settings \<Rightarrow> ('r, 'c, json) service" where
  "healthz S = ret (JObj [(''status'', JStr ''ok''), (''environment'', JStr (environment S))])"

text \<open>The readiness probe's status and payload (\<open>Health\<close>).\<close>

definition readyz ::
  "settings \<Rightarrow> probe \<Rightarrow> ('c, 'v) cache_backend \<Rightarrow> bool \<Rightarrow> bool \<Rightarrow> ('r, 'c, nat \<times> json) service" where
  "readyz S P B db_slow cache_slow =
     and_then (readiness S P B db_slow cache_slow) (\<lambda>r. ret (rd_http r, readiness_payload r))"

definition metrics_endpoint :: "settings \<Rightarrow> string option \<Rightarrow> ('r, 'c, (string \<times> string list) list) service" where
  "metrics_endpoint S key = admin S key (gets metrics)"

section \<open>Start and end of the process\<close>

text \<open>
  The module globals that live as long as the process: the flag client (\<open>flags.py\<close>), the cache
  backend (\<open>cache.py\<close>), the engine and the factory of its sessions (\<open>db.py\<close>), built when first
  asked for. An engine is known by its URL, a factory by its engine. What closing one of
  them raises is a parameter.
\<close>

datatype backend_choice = Redis string | In_memory

record process =
  ps_flags :: "flag_client option"
  ps_cache :: "backend_choice option"
  ps_engine :: "string option"
  ps_sessions :: "string option"

type_synonym 'a life = "(process, exc, 'a) prog"

definition get_cache :: "string option \<Rightarrow> backend_choice life" where
  "get_cache redis_url = and_then (gets ps_cache) (\<lambda>backend. case backend of
     Some b \<Rightarrow> ret b
   | None \<Rightarrow>
       (let b = (if truthy redis_url then Redis (the redis_url) else In_memory)
        in and_then (modify (\<lambda>p. p\<lparr>ps_cache := Some b\<rparr>)) (\<lambda>_. ret b)))"

definition set_cache :: "backend_choice option \<Rightarrow> unit life" where
  "set_cache backend = modify (\<lambda>p. p\<lparr>ps_cache := backend\<rparr>)"

definition get_engine :: "string \<Rightarrow> string life" where
  "get_engine url = and_then (gets ps_engine) (\<lambda>engine. case engine of
     Some e \<Rightarrow> ret e
   | None \<Rightarrow> and_then (modify (\<lambda>p. p\<lparr>ps_engine := Some url\<rparr>)) (\<lambda>_. ret url))"

definition get_sessionmaker :: "string \<Rightarrow> string life" where
  "get_sessionmaker url = and_then (gets ps_sessions) (\<lambda>factory. case factory of
     Some f \<Rightarrow> ret f
   | None \<Rightarrow> and_then (get_engine url) (\<lambda>engine.
       and_then (modify (\<lambda>p. p\<lparr>ps_sessions := Some engine\<rparr>)) (\<lambda>_. ret engine)))"

definition close_flags :: "exc option \<Rightarrow> unit life" where
  "close_flags failing = and_then (gets ps_flags) (\<lambda>client.
     and_then (try_except (case (client, failing) of (Some _, Some e) \<Rightarrow> raise e | _ \<Rightarrow> ret ()) (\<lambda>_. ret ())) (\<lambda>_.
     modify (\<lambda>p. p\<lparr>ps_flags := None\<rparr>)))"

definition set_client_for_tests :: "flag_client option \<Rightarrow> unit life" where
  "set_client_for_tests client = modify (\<lambda>p. p\<lparr>ps_flags := client\<rparr>)"

definition close_cache :: "exc option \<Rightarrow> unit life" where
  "close_cache failing = and_then (gets ps_cache) (\<lambda>backend.
     and_then (case (backend, failing) of (Some _, Some e) \<Rightarrow> raise e | _ \<Rightarrow> ret ()) (\<lambda>_.
     modify (\<lambda>p. p\<lparr>ps_cache := None\<rparr>)))"

definition dispose_engine :: "exc option \<Rightarrow> unit life" where
  "dispose_engine failing = and_then (gets ps_engine) (\<lambda>engine.
     and_then (case (engine, failing) of (Some _, Some e) \<Rightarrow> raise e | _ \<Rightarrow> ret ()) (\<lambda>_.
     modify (\<lambda>p. p\<lparr>ps_engine := None, ps_sessions := None\<rparr>)))"

definition start :: "settings \<Rightarrow> bool \<Rightarrow> (string \<Rightarrow> exc + (flag_client \<times> bool)) \<Rightarrow> unit life" where
  "start S installed connect = modify (\<lambda>p. p\<lparr>ps_flags := snd (init_flags S installed connect (ps_flags p))\<rparr>)"

definition shutdown :: "exc option \<Rightarrow> exc option \<Rightarrow> exc option \<Rightarrow> unit life" where
  "shutdown flags_fail cache_fail engine_fail =
     and_then (close_flags flags_fail) (\<lambda>_.
     and_then (close_cache cache_fail) (\<lambda>_. dispose_engine engine_fail))"

text \<open>
  Shutting down closes everything, whatever the flag client does. A cache that fails to close
  is raised, and leaves the engine as it was.
\<close>

lemma shutdown_closes:
  "fst (shutdown flags_fail None None p) = Inr ()"
  "snd (shutdown flags_fail None None p) = \<lparr>ps_flags = None, ps_cache = None, ps_engine = None, ps_sessions = None\<rparr>"
  "ps_cache p \<noteq> None \<Longrightarrow> shutdown flags_fail (Some e) engine_fail p = (Inl e, p\<lparr>ps_flags := None\<rparr>)"
  by (cases p; auto simp: shutdown_def close_flags_def close_cache_def dispose_engine_def and_then_def try_except_def
      split: option.split)+

text \<open>
  Sessions are of the engine there is: asked for before or after a shutdown, a factory belongs to the
  current engine, and one made before the engine was disposed is not handed out again.
\<close>

definition sessions_current :: "process \<Rightarrow> bool" where
  "sessions_current p \<longleftrightarrow> ps_sessions p = None \<or> ps_sessions p = ps_engine p"

lemma sessions_stay_current:
  "sessions_current p \<Longrightarrow> sessions_current (snd (get_sessionmaker url p))"
  "sessions_current p \<Longrightarrow> sessions_current (snd (get_engine url p))"
  "sessions_current p \<Longrightarrow> sessions_current (snd (dispose_engine failing p))"
  "sessions_current p \<Longrightarrow> sessions_current (snd (get_cache redis_url p))"
  by (auto simp: sessions_current_def get_sessionmaker_def get_engine_def dispose_engine_def get_cache_def and_then_def
      Let_def split: option.splits)

section \<open>Request ids\<close>

text \<open>
  \<open>request_id_var\<close> is the first component of the state; \<open>fresh\<close> is \<open>new_request_id()\<close>. The variable
  is reset whether the request returned or raised, and a response carries the id in its header.
\<close>

definition request_id_of :: "string option \<Rightarrow> string \<Rightarrow> string" where
  "request_id_of incoming fresh =
     (if truthy incoming \<and> length (the incoming) \<le> 128 then the incoming else fresh)"

definition correlate_requests ::
  "string option \<Rightarrow> string \<Rightarrow> (string option \<times> 's, exc, (string, string) dict) prog \<Rightarrow>
   (string option \<times> 's, exc, (string, string) dict) prog" where
  "correlate_requests incoming fresh call_next = (\<lambda>(rid, s).
     let i = request_id_of incoming fresh in
     case call_next (Some i, s) of (r, (_, s')) \<Rightarrow> (map_sum id (dict_set ''X-Request-ID'' i) r, (rid, s')))"

lemma correlate_resets: "fst (snd (correlate_requests incoming fresh call_next (rid, s))) = rid"
  by (simp add: correlate_requests_def Let_def split: prod.split)

section \<open>Log lines\<close>

text \<open>\<open>json.dumps\<close> in the order of the dictionary.\<close>

fun json_line :: "json \<Rightarrow> string" where
  "json_line JNull = ''null''"
| "json_line (JBool b) = (if b then ''true'' else ''false'')"
| "json_line (JInt n) = str_int n"
| "json_line (JDec s) = s"
| "json_line (JStr s) = json_quote s"
| "json_line (JList xs) = ''['' @ comma_join (map json_line xs) @ '']''"
| "json_line (JObj kvs) = ''{'' @ comma_join (map (\<lambda>(k, v). json_quote k @ '': '' @ json_line v) kvs) @ ''}''"

record log_record =
  lr_ts :: string
  lr_level :: string
  lr_logger :: string
  lr_message :: string
  lr_exception :: "string option"
  lr_context :: "(string, json) dict"

definition log_payload :: "string option \<Rightarrow> log_record \<Rightarrow> (string, json) dict" where
  "log_payload rid rec =
     (let base = [(''ts'', JStr (lr_ts rec)), (''level'', JStr (lr_level rec)),
                  (''logger'', JStr (lr_logger rec)), (''msg'', JStr (lr_message rec))];
          with_id = (if truthy rid then dict_set ''request_id'' (JStr (the rid)) base else base);
          with_exc = (case lr_exception rec of None \<Rightarrow> with_id | Some e \<Rightarrow> dict_set ''exception'' (JStr e) with_id)
      in fold (\<lambda>(k, v). dict_set k v) (lr_context rec) with_exc)"

definition format_record :: "string option \<Rightarrow> log_record \<Rightarrow> string" where
  "format_record rid rec = json_line (JObj (log_payload rid rec))"

text \<open>\<open>event(logger, name, **fields)\<close>: the context of the record it logs.\<close>

definition event_context :: "string \<Rightarrow> (string, json) dict \<Rightarrow> (string, json) dict" where
  "event_context name given = fold (\<lambda>(k, v). dict_set k v) given [(''event'', JStr name)]"

section \<open>One line per record\<close>

text \<open>A number's literal is printable; every other text is escaped.\<close>

definition printable :: "char \<Rightarrow> bool" where
  "printable c \<longleftrightarrow> (let n = of_char c :: nat in 32 \<le> n \<and> n \<le> 126)"

lemma printable_marks [simp]:
  "printable CHR ''[''" "printable CHR '']''" "printable CHR ''{''" "printable CHR ''}''"
  "printable CHR '',''" "printable CHR '':''" "printable CHR '' ''"
  by (simp_all add: printable_def)

fun plain_numbers :: "json \<Rightarrow> bool" where
  "plain_numbers (JDec s) = list_all printable s"
| "plain_numbers (JList xs) = list_all plain_numbers xs"
| "plain_numbers (JObj kvs) = list_all (\<lambda>(k, v). plain_numbers v) kvs"
| "plain_numbers _ = True"

lemma printable_digits: "list_all printable (str_nat n)"
proof (induction n rule: str_nat.induct)
  case (1 n)
  have d: "m < 10 \<Longrightarrow> printable (digit_char m)" for m by (simp add: printable_def Let_def)
  show ?case
  proof (cases "n < 10")
    case True
    then show ?thesis by (simp add: d str_nat.simps [of n])
  next
    case False
    then have "list_all printable (str_nat (n div 10))" by (rule 1)
    with False show ?thesis by (subst str_nat.simps) (simp add: d)
  qed
qed

lemma printable_escape: "list_all printable (json_escape c)"
proof -
  have hex: "m < 16 \<Longrightarrow> printable (hex_digit m)" for m
    by (auto simp: printable_def hex_digit_def Let_def)
  have "of_char c < (256 :: nat)" by simp
  then have "of_char c div 16 < (16 :: nat)" "of_char c mod 16 < (16 :: nat)"
    using less_mult_imp_div_less [of "of_char c" 16 16] by simp_all
  then show ?thesis
    by (auto simp: json_escape_def Let_def hex) (auto simp: printable_def Let_def)
qed

lemma printable_quote: "list_all printable (json_quote s)"
  using printable_escape by (auto simp: json_quote_def list_all_iff) (auto simp: printable_def Let_def)

lemma printable_comma: "\<forall>s \<in> set xs. list_all printable s \<Longrightarrow> list_all printable (comma_join xs)"
  by (induction xs rule: comma_join.induct) (auto simp: printable_def Let_def)

lemma printable_line: "plain_numbers j \<Longrightarrow> list_all printable (json_line j)"
proof (induction j)
  case (JInt n)
  then show ?case using printable_digits by (auto simp: str_int_def) (auto simp: printable_def Let_def)
next
  case (JList xs)
  then have "list_all printable (comma_join (map json_line xs))"
    by (intro printable_comma) (auto simp: list_all_iff)
  then show ?case by simp
next
  case (JObj kvs)
  have "list_all printable (comma_join (map (\<lambda>(k, v). json_quote k @ '': '' @ json_line v) kvs))"
    using JObj printable_quote by (intro printable_comma) (fastforce simp: list_all_iff)
  then show ?case by simp
qed (auto simp: printable_quote, auto simp: printable_def Let_def)

text \<open>
  One record is one line. Whatever a message, a request id, a traceback or a field
  contains - line breaks of an attacker's header included - the formatted record is printable
  ASCII without a line break, so it cannot be taken for two records.
\<close>

theorem log_record_is_one_line:
  assumes "\<forall>(k, v) \<in> set (lr_context rec). plain_numbers v"
  shows "list_all printable (format_record rid rec) \<and> char_of (10 :: nat) \<notin> set (format_record rid rec)"
proof -
  have set_all: "list_all (\<lambda>(k, v). plain_numbers v) (dict_set k v d)"
    if "list_all (\<lambda>(k, v). plain_numbers v) d" "plain_numbers v" for k v d
    using that by (induction d) auto
  have fold_all: "list_all (\<lambda>(k, v). plain_numbers v) (fold (\<lambda>(k, v). dict_set k v) kvs d)"
    if "list_all (\<lambda>(k, v). plain_numbers v) d" "\<forall>(k, v) \<in> set kvs. plain_numbers v" for kvs d
    using that by (induction kvs arbitrary: d) (auto simp: set_all)
  have "list_all (\<lambda>(k, v). plain_numbers v) (log_payload rid rec)"
    unfolding log_payload_def Let_def
    by (intro fold_all assms) (auto intro!: set_all split: option.split)
  then have line: "list_all printable (format_record rid rec)"
    unfolding format_record_def by (intro printable_line) simp
  moreover have "\<not> printable (char_of (10 :: nat))" by (simp add: printable_def Let_def)
  ultimately show ?thesis by (auto simp: list_all_iff)
qed

end
