(* ===== verification/Delivery.thy ===== *)
theory Delivery
  imports Reconcile Checkout Examples
begin

text \<open>
  How an alert leaves the service: \<open>EmailNotifier\<close> of \<open>app/notify.py\<close>, over an SMTP server that is a
  parameter; and the arguments the database engine is opened with (\<open>app/db.py\<close>, \<open>_bound_lock_wait\<close> of
  \<open>services/subscriptions.py\<close>). Timeouts are microseconds. The library's own encoding of a message
  is not modelled, and a message has one outcome: where a server refuses some of several
  recipients, smtplib's \<open>send_message\<close> returns the refusals instead of raising, and the code does
  not read them, so this counts as accepted.
\<close>

section \<open>A message\<close>

record smtp_settings =
  smtp_port :: int
  smtp_starttls :: bool
  smtp_username :: string
  smtp_password :: string

record email =
  em_subject :: string
  em_from :: string
  em_to :: string
  em_body :: string

definition py_strip :: "string \<Rightarrow> string" where
  "py_strip s = rev (dropWhile is_space (rev (dropWhile is_space s)))"

fun split_comma :: "string \<Rightarrow> string list" where
  "split_comma [] = [[]]"
| "split_comma (c # cs) = (if c = CHR '','' then [] # split_comma cs
     else case split_comma cs of p # ps \<Rightarrow> (c # p) # ps | [] \<Rightarrow> [[c]])"

definition recipients :: "settings \<Rightarrow> string list" where
  "recipients S = filter (\<lambda>a. a \<noteq> []) (map py_strip (split_comma (alert_email_to S)))"

text \<open>
  A header of more than one line (\<open>len(value.splitlines()) > 1\<close>) is refused by the library: a line
  end is one of eight characters, or a carriage return and a line feed, and one may stand last.
\<close>

definition line_end :: "char \<Rightarrow> bool" where
  "line_end c \<longleftrightarrow> (of_char c :: nat) \<in> {10, 11, 12, 13, 28, 29, 30, 133}"

definition drop_line_end :: "string \<Rightarrow> string" where
  "drop_line_end s = (case rev s of
     [] \<Rightarrow> []
   | c # r \<Rightarrow>
       if \<not> line_end c then s
       else if c = char_of (10 :: nat) \<and> r \<noteq> [] \<and> hd r = char_of (13 :: nat) then rev (tl r)
       else rev r)"

definition one_line :: "string \<Rightarrow> bool" where
  "one_line s \<longleftrightarrow> list_all (\<lambda>c. \<not> line_end c) (drop_line_end s)"

definition message :: "settings \<Rightarrow> string \<Rightarrow> string \<Rightarrow> exc + email" where
  "message S subject body =
     (if one_line subject \<and> one_line (alert_email_from S) \<and> one_line (comma_join (recipients S))
      then Inr \<lparr>em_subject = subject, em_from = alert_email_from S, em_to = comma_join (recipients S), em_body = body\<rparr>
      else Inl (ValueError ''Header values may not contain linefeed or carriage return characters''))"

section \<open>Delivery\<close>

datatype smtp_step =
    Connect string int
  | Connect_tls string int
  | Starttls
  | Login string string
  | Send email
  | Quit

text \<open>\<open>with smtp:\<close> leaves the session however its body ended; an error of the leaving is raised.\<close>

definition with_smtp :: "(smtp_step \<Rightarrow> ('r, unit) call) \<Rightarrow> ('r, unit) call \<Rightarrow> ('r, unit) call" where
  "with_smtp server body = (\<lambda>s. case body s of (r, s1) \<Rightarrow>
     (case server Quit s1 of (Inl e, s2) \<Rightarrow> (Inl e, s2) | (Inr _, s2) \<Rightarrow> (r, s2)))"

definition deliver :: "settings \<Rightarrow> smtp_settings \<Rightarrow> (smtp_step \<Rightarrow> ('r, unit) call) \<Rightarrow> email \<Rightarrow> ('r, unit) call" where
  "deliver S M server msg =
     and_then (server (if smtp_port M = 465 then Connect_tls (smtp_host S) (smtp_port M)
                       else Connect (smtp_host S) (smtp_port M))) (\<lambda>_.
     with_smtp server
       (and_then (only_if (smtp_port M \<noteq> 465 \<and> smtp_starttls M) (server Starttls)) (\<lambda>_.
        and_then (only_if (smtp_username M \<noteq> []) (server (Login (smtp_username M) (smtp_password M)))) (\<lambda>_.
        server (Send msg)))))"

definition send_email ::
  "settings \<Rightarrow> smtp_settings \<Rightarrow> (smtp_step \<Rightarrow> ('r, unit) call) \<Rightarrow> string \<Rightarrow> string \<Rightarrow> ('r, unit) call" where
  "send_email S M server subject body =
     and_then (lift_result (message S subject body)) (deliver S M server)"

section \<open>What a server sees\<close>

text \<open>
  A server that answers each step as \<open>ans\<close> says, from what it has seen so far, and remembers the
  steps with whether they succeeded.
\<close>

type_synonym seen = "(smtp_step \<times> bool) list"

definition traced :: "(seen \<Rightarrow> smtp_step \<Rightarrow> exc option) \<Rightarrow> smtp_step \<Rightarrow> (seen, unit) call" where
  "traced ans step = (\<lambda>tr. (case ans tr step of None \<Rightarrow> Inr () | Some e \<Rightarrow> Inl e, tr @ [(step, ans tr step = None)]))"

fun secret :: "smtp_step \<Rightarrow> bool" where
  "secret (Login _ _) = True"
| "secret (Send _) = True"
| "secret _ = False"

text \<open>Every secret step is sent over a connection that is encrypted by then.\<close>

definition encrypted :: "seen \<Rightarrow> bool" where
  "encrypted tr \<longleftrightarrow> (\<exists>h p. (Connect_tls h p, True) \<in> set tr) \<or> (Starttls, True) \<in> set tr"

fun confidential :: "seen \<Rightarrow> seen \<Rightarrow> bool" where
  "confidential past [] = True"
| "confidential past ((step, ok) # tr) \<longleftrightarrow> (secret step \<longrightarrow> encrypted past) \<and> confidential (past @ [(step, ok)]) tr"

lemma confidential_snoc:
  "confidential past (tr @ [(step, ok)]) \<longleftrightarrow> confidential past tr \<and> (secret step \<longrightarrow> encrypted (past @ tr))"
  by (induction past tr rule: confidential.induct) auto

definition safe :: "seen \<Rightarrow> bool" where "safe tr \<longleftrightarrow> confidential [] tr"

lemma safe_simps [simp]:
  "safe []" "safe (tr @ [(step, ok)]) \<longleftrightarrow> safe tr \<and> (secret step \<longrightarrow> encrypted tr)"
  by (simp_all add: safe_def confidential_snoc)

lemma encrypted_snoc [simp]:
  "encrypted tr \<Longrightarrow> encrypted (tr @ xs)" "encrypted (tr @ [(Starttls, True)])"
  "encrypted (tr @ [(Connect_tls h p, True)])"
  by (auto simp: encrypted_def)

lemma traced_runs:
  "traced ans step tr = (r, tr') \<longleftrightarrow> tr' = tr @ [(step, ans tr step = None)] \<and>
     r = (case ans tr step of None \<Rightarrow> Inr () | Some e \<Rightarrow> Inl e)"
  by (auto simp: traced_def)

text \<open>What a session comes to, from the answers to its steps.\<close>

lemma deliver_traced:
  "deliver S M (traced ans) msg [] = (r, tr) \<Longrightarrow>
     (smtp_port M = 465 \<or> smtp_starttls M \<longrightarrow> safe tr) \<and>
     (r = Inr () \<longrightarrow> filter (\<lambda>(step, ok). \<exists>m. step = Send m) tr = [(Send msg, True)])"
  by (auto simp: deliver_def with_smtp_def and_then_def traced_def encrypted_def safe_def
      split: option.splits if_splits prod.splits sum.splits)

text \<open>
  C33: An alert is delivered in private, and a delivery that returns was accepted. Against any server,
  with TLS from the first byte or STARTTLS configured, neither the password nor the message is
  ever sent before the connection is encrypted - a server that refuses STARTTLS gets neither.
  And where \<open>send\<close> returns, the server has accepted the message, once, addressed to the configured
  recipients (for at least one of them: smtplib raises only where all are refused); so an orphan is
  marked as told only if a mail server took the mail.
\<close>

theorem alert_is_private_and_accepted:
  assumes "send_email S M (traced ans) subject body [] = (r, tr)"
  shows "(smtp_port M = 465 \<or> smtp_starttls M \<longrightarrow> safe tr) \<and>
    (r = Inr () \<longrightarrow> filter (\<lambda>(step, ok). \<exists>m. step = Send m) tr =
      [(Send \<lparr>em_subject = subject, em_from = alert_email_from S, em_to = comma_join (recipients S), em_body = body\<rparr>, True)])"
proof (cases "message S subject body")
  case (Inl e)
  then show ?thesis using assms by (auto simp: send_email_def and_then_def safe_def)
next
  case (Inr msg)
  then have "deliver S M (traced ans) msg [] = (r, tr)"
    using assms by (simp add: send_email_def and_then_def)
  from deliver_traced [OF this] Inr show ?thesis
    by (auto simp: message_def split: if_splits)
qed

definition ex_mail :: settings where
  "ex_mail = ex_settings\<lparr>alert_email_to := ''ops@x.test, , billing@x.test '', alert_email_from := ''svc@x.test'',
     smtp_host := ''mail.x.test''\<rparr>"

definition ex_smtp :: smtp_settings where
  "ex_smtp = \<lparr>smtp_port = 587, smtp_starttls = True, smtp_username = ''svc'', smtp_password = ''pw''\<rparr>"

theorem alert_is_private_and_accepted_witness:
  "\<exists>tr tr'. send_email ex_mail ex_smtp (traced (\<lambda>_ _. None)) ''s'' ''b'' [] = (Inr (), tr) \<and> safe tr \<and>
     (Send \<lparr>em_subject = ''s'', em_from = ''svc@x.test'', em_to = ''ops@x.test, billing@x.test'', em_body = ''b''\<rparr>, True) \<in> set tr \<and>
     send_email ex_mail ex_smtp (traced (\<lambda>_ step. if step = Starttls then Some SendError else None)) ''s'' ''b'' [] =
       (Inl SendError, tr') \<and> safe tr'"
proof -
  have ok: "send_email ex_mail ex_smtp (traced (\<lambda>_ _. None)) ''s'' ''b'' [] = (Inr (),
      [(Connect ''mail.x.test'' 587, True), (Starttls, True), (Login ''svc'' ''pw'', True),
       (Send \<lparr>em_subject = ''s'', em_from = ''svc@x.test'', em_to = ''ops@x.test, billing@x.test'', em_body = ''b''\<rparr>, True),
       (Quit, True)])"
    by code_simp
  have refused: "send_email ex_mail ex_smtp (traced (\<lambda>_ step. if step = Starttls then Some SendError else None)) ''s'' ''b'' [] =
      (Inl SendError, [(Connect ''mail.x.test'' 587, True), (Starttls, False), (Quit, True)])"
    by code_simp
  show ?thesis
    using alert_is_private_and_accepted [OF ok] alert_is_private_and_accepted [OF refused] ok refused
    by (auto simp: ex_smtp_def)
qed

section \<open>The engine\<close>

record db_settings =
  database_url :: string
  db_command_timeout :: int
  db_lock_timeout :: int

definition TRANSACTION_POOLER_PORT :: string where
  "TRANSACTION_POOLER_PORT = '':6543''"

text \<open>
  The keyword arguments of the engine. \<open>ea_unique_names\<close> is whether prepared statements are named
  by a fresh UUID; the two caches are the driver's and SQLAlchemy's, \<open>None\<close> their default.
\<close>

record engine_args =
  ea_pool_pre_ping :: bool
  ea_command_timeout :: int
  ea_timeout :: int
  ea_statement_cache_size :: "nat option"
  ea_unique_names :: bool
  ea_prepared_statement_cache_size :: "nat option"

definition engine_kwargs :: "db_settings \<Rightarrow> string \<Rightarrow> engine_args option" where
  "engine_kwargs DS url =
     (if \<not> starts_with ''postgresql'' url then None else
      let args = \<lparr>ea_pool_pre_ping = True, ea_command_timeout = db_command_timeout DS, ea_timeout = db_command_timeout DS,
        ea_statement_cache_size = None, ea_unique_names = False, ea_prepared_statement_cache_size = None\<rparr>
      in Some (if contains TRANSACTION_POOLER_PORT url
        then args\<lparr>ea_statement_cache_size := Some 0, ea_unique_names := True, ea_prepared_statement_cache_size := Some 0\<rparr>
        else args))"

text \<open>\<open>lock_timeout\<close> in milliseconds, where the dialect has row locks.\<close>

definition bound_lock_wait :: "db_settings \<Rightarrow> string \<Rightarrow> int option" where
  "bound_lock_wait DS dialect =
     (if dialect \<noteq> ''postgresql'' then None else Some (trunc_seconds (db_lock_timeout DS * 1000)))"

text \<open>
  A wait for a lock is bounded by the configured time. Postgres takes a \<open>lock_timeout\<close> of 0 for no
  timeout at all, and a setting below a millisecond becomes 0.
\<close>

lemma lock_wait_is_bounded:
  assumes "0 \<le> db_lock_timeout DS" "bound_lock_wait DS dialect = Some ms"
  shows "(ms = 0 \<longleftrightarrow> db_lock_timeout DS < 1000) \<and> ms * 1000 \<le> db_lock_timeout DS"
proof -
  have "ms = db_lock_timeout DS * 1000 div 1000000"
    using assms by (auto simp: bound_lock_wait_def trunc_seconds_nonneg second_us_def split: if_splits)
  then show ?thesis using assms(1) by linarith
qed

end
