(* ===== verification/Postgres.thy ===== *)
theory Postgres
  imports Prelude
begin

text \<open>
  What the migrations say to the database: a catalog of roles, schemas, tables and functions, and
  the statements of \<open>alembic/versions\<close> as programs over it. The meaning of a statement is that of
  PostgreSQL's manual, as far as the migrations use it: who owns what, which privileges are
  granted to whom, row security, default privileges and the search path.

  Not in the catalog: membership of a role in another, privileges on single columns, policies
  with a condition, grant options, and relation names taken by something that is not a table.
\<close>

section \<open>The catalog\<close>

datatype column_type =
    String nat
  | Text
  | Integer
  | Boolean
  | DateTime_tz
  | JSONType

record column =
  col_name :: string
  col_type :: column_type
  col_nullable :: bool
  col_primary :: bool
  col_default :: "string option"

record index =
  ix_name :: string
  ix_columns :: "string list"
  ix_unique :: bool

record table_def =
  tbl_name :: string
  tbl_columns :: "column list"
  tbl_uniques :: "(string option \<times> string list) list"
  tbl_indexes :: "index list"

datatype grantee = Public | Role string

datatype privilege = SELECT | INSERT | UPDATE | DELETE | TRUNCATE | REFERENCES | TRIGGER

definition ALL_PRIVILEGES :: "privilege set" where
  "ALL_PRIVILEGES = {SELECT, INSERT, UPDATE, DELETE, TRUNCATE, REFERENCES, TRIGGER}"

lemma in_ALL_PRIVILEGES [simp]: "p \<in> ALL_PRIVILEGES"
  by (cases p) (simp_all add: ALL_PRIVILEGES_def)

record pg_role =
  superuser :: bool
  createrole :: bool
  createdb :: bool
  bypassrls :: bool
  can_login :: bool
  role_path :: "string list option"

record pg_schema =
  schema_owner :: string
  schema_usage :: "grantee set"
  schema_create :: "grantee set"

text \<open>A policy is permissive, for all commands and all rows; it names the role it is for.\<close>

record pg_table =
  tb_def :: table_def
  tb_owner :: string
  tb_acl :: "(grantee \<times> privilege) set"
  tb_rls :: bool
  tb_policies :: "(string, grantee) dict"

record pg_function =
  fn_owner :: string
  fn_execute :: "grantee set"
  fn_definer :: bool
  fn_path :: "string list option"

text \<open>
  \<open>me\<close> and \<open>path\<close> are the session's: who runs the statements, and its search path. A default
  privilege holds for what one role creates, in one schema or (\<open>None\<close>) in any.
\<close>

record catalog =
  dialect :: string
  me :: string
  path :: "string list"
  roles :: "(string, pg_role) dict"
  schemas :: "(string, pg_schema) dict"
  tables :: "(string \<times> string, pg_table) dict"
  routines :: "(string \<times> string, pg_function) dict"
  default_acl :: "(string \<times> string option \<times> grantee \<times> privilege) set"
  version_num :: "(string, string) dict"

datatype pg_error =
    Undefined_table string
  | Duplicate_table string
  | Undefined_column string
  | Duplicate_column string
  | Undefined_object string
  | Duplicate_object string
  | Undefined_schema string
  | Insufficient_privilege string
  | Dependent_objects string

type_synonym 'a ddl = "(catalog, pg_error, 'a) prog"

section \<open>Who may do what\<close>

definition is_superuser :: "catalog \<Rightarrow> string \<Rightarrow> bool" where
  "is_superuser c r \<longleftrightarrow> (case dict_get (roles c) r of None \<Rightarrow> False | Some a \<Rightarrow> superuser a)"

definition may_bypass_rls :: "catalog \<Rightarrow> string \<Rightarrow> bool" where
  "may_bypass_rls c r \<longleftrightarrow> (case dict_get (roles c) r of None \<Rightarrow> False | Some a \<Rightarrow> superuser a \<or> bypassrls a)"

definition may_create_roles :: "catalog \<Rightarrow> string \<Rightarrow> bool" where
  "may_create_roles c r \<longleftrightarrow> (case dict_get (roles c) r of None \<Rightarrow> False | Some a \<Rightarrow> superuser a \<or> createrole a)"

definition may_use_schema :: "catalog \<Rightarrow> string \<Rightarrow> string \<Rightarrow> bool" where
  "may_use_schema c r s \<longleftrightarrow> (case dict_get (schemas c) s of
     None \<Rightarrow> False
   | Some sc \<Rightarrow> is_superuser c r \<or> schema_owner sc = r \<or> Public \<in> schema_usage sc \<or> Role r \<in> schema_usage sc)"

definition may_create_in :: "catalog \<Rightarrow> string \<Rightarrow> string \<Rightarrow> bool" where
  "may_create_in c r s \<longleftrightarrow> (case dict_get (schemas c) s of
     None \<Rightarrow> False
   | Some sc \<Rightarrow> is_superuser c r \<or> schema_owner sc = r \<or> Public \<in> schema_create sc \<or> Role r \<in> schema_create sc)"

definition has_privilege :: "catalog \<Rightarrow> string \<Rightarrow> privilege \<Rightarrow> pg_table \<Rightarrow> bool" where
  "has_privilege c r p tb \<longleftrightarrow>
     is_superuser c r \<or> tb_owner tb = r \<or> (Public, p) \<in> tb_acl tb \<or> (Role r, p) \<in> tb_acl tb"

text \<open>
  Row security lets a row through for its owner, for a role that bypasses it, and where a policy
  names the role. Only reading and writing rows is subject to it.
\<close>

definition passes_rls :: "catalog \<Rightarrow> string \<Rightarrow> pg_table \<Rightarrow> bool" where
  "passes_rls c r tb \<longleftrightarrow> \<not> tb_rls tb \<or> tb_owner tb = r \<or> may_bypass_rls c r \<or>
     (\<exists>g \<in> snd ` set (tb_policies tb). g = Public \<or> g = Role r)"

definition row_privilege :: "privilege \<Rightarrow> bool" where
  "row_privilege p \<longleftrightarrow> p \<in> {SELECT, INSERT, UPDATE, DELETE}"

definition may :: "catalog \<Rightarrow> string \<Rightarrow> privilege \<Rightarrow> string \<times> string \<Rightarrow> bool" where
  "may c r p rel \<longleftrightarrow> (case dict_get (tables c) rel of
     None \<Rightarrow> False
   | Some tb \<Rightarrow> may_use_schema c r (fst rel) \<and> has_privilege c r p tb \<and> (row_privilege p \<longrightarrow> passes_rls c r tb))"

definition may_execute :: "catalog \<Rightarrow> string \<Rightarrow> string \<times> string \<Rightarrow> bool" where
  "may_execute c r fn \<longleftrightarrow> (case dict_get (routines c) fn of
     None \<Rightarrow> False
   | Some f \<Rightarrow> may_use_schema c r (fst fn) \<and>
       (is_superuser c r \<or> fn_owner f = r \<or> Public \<in> fn_execute f \<or> Role r \<in> fn_execute f))"

section \<open>Names\<close>

text \<open>
  The schemas a session searches, in order: those of its path that exist and that it may use,
  \<open>$user\<close> being the schema named like the role.
\<close>

definition searched :: "catalog \<Rightarrow> string \<Rightarrow> string list \<Rightarrow> string list" where
  "searched c r p = filter (may_use_schema c r) (map (\<lambda>s. if s = ''$user'' then r else s) p)"

definition resolve :: "catalog \<Rightarrow> string \<Rightarrow> string list \<Rightarrow> string \<Rightarrow> (string \<times> string) option" where
  "resolve c r p name =
     map_option (\<lambda>s. (s, name)) (List.find (\<lambda>s. dict_get (tables c) (s, name) \<noteq> None) (searched c r p))"

definition DEFAULT_PATH :: "string list" where
  "DEFAULT_PATH = [''$user'', ''public'']"

text \<open>The path a new session of a role starts with.\<close>

definition login_path :: "catalog \<Rightarrow> string \<Rightarrow> string list" where
  "login_path c r = (case dict_get (roles c) r of
     None \<Rightarrow> DEFAULT_PATH
   | Some a \<Rightarrow> (case role_path a of None \<Rightarrow> DEFAULT_PATH | Some p \<Rightarrow> p))"

section \<open>Statements on tables\<close>

text \<open>\<open>CREATE TABLE\<close> puts an unqualified name into the first schema that is searched.\<close>

definition creation_schema :: "string ddl" where
  "creation_schema = and_then (gets (\<lambda>c. searched c (me c) (path c))) (\<lambda>ss. case ss of
     [] \<Rightarrow> raise (Undefined_schema '''')
   | s # _ \<Rightarrow> and_then (gets (\<lambda>c. may_create_in c (me c) s)) (\<lambda>ok.
       if ok then ret s else raise (Insufficient_privilege s)))"

definition born_acl :: "catalog \<Rightarrow> string \<Rightarrow> (grantee \<times> privilege) set" where
  "born_acl c s = (\<lambda>(_, _, gp). gp) `
     Set.filter (\<lambda>(creator, sc, _). creator = me c \<and> (sc = None \<or> sc = Some s)) (default_acl c)"

definition put_table :: "string \<times> string \<Rightarrow> pg_table \<Rightarrow> unit ddl" where
  "put_table rel tb = modify (\<lambda>c. c\<lparr>tables := dict_set rel tb (tables c)\<rparr>)"

definition create_table_in :: "string \<Rightarrow> table_def \<Rightarrow> unit ddl" where
  "create_table_in s td =
     and_then (gets (\<lambda>c. dict_get (tables c) (s, tbl_name td))) (\<lambda>old.
     if old \<noteq> None then raise (Duplicate_table (tbl_name td)) else
     and_then (gets (\<lambda>c. (me c, born_acl c s))) (\<lambda>(owner, acl).
     put_table (s, tbl_name td)
       \<lparr>tb_def = td, tb_owner = owner, tb_acl = acl, tb_rls = False, tb_policies = []\<rparr>))"

definition create_table :: "table_def \<Rightarrow> unit ddl" where
  "create_table td = and_then creation_schema (\<lambda>s. create_table_in s td)"

text \<open>A table found by its name, and one the session may alter.\<close>

definition find_table :: "string \<Rightarrow> ((string \<times> string) \<times> pg_table) ddl" where
  "find_table name = and_then (gets (\<lambda>c. resolve c (me c) (path c) name)) (\<lambda>found. case found of
     None \<Rightarrow> raise (Undefined_table name)
   | Some rel \<Rightarrow> and_then (gets (\<lambda>c. the (dict_get (tables c) rel))) (\<lambda>tb. ret (rel, tb)))"

definition must_own :: "pg_table \<Rightarrow> unit ddl" where
  "must_own tb = and_then (gets (\<lambda>c. is_superuser c (me c) \<or> tb_owner tb = me c)) (\<lambda>ok.
     if ok then ret () else raise (Insufficient_privilege (tbl_name (tb_def tb))))"

definition alter_table :: "string \<Rightarrow> (table_def \<Rightarrow> pg_error + table_def) \<Rightarrow> unit ddl" where
  "alter_table name change =
     and_then (find_table name) (\<lambda>(rel, tb).
     and_then (must_own tb) (\<lambda>_.
     and_then (lift_result (change (tb_def tb))) (\<lambda>td. put_table rel (tb\<lparr>tb_def := td\<rparr>))))"

definition add_column :: "string \<Rightarrow> column \<Rightarrow> unit ddl" where
  "add_column name col = alter_table name (\<lambda>td.
     if col_name col \<in> col_name ` set (tbl_columns td) then Inl (Duplicate_column (col_name col))
     else Inr (td\<lparr>tbl_columns := tbl_columns td @ [col]\<rparr>))"

text \<open>A dropped column takes the constraints and indexes on it along.\<close>

definition drop_column :: "string \<Rightarrow> string \<Rightarrow> unit ddl" where
  "drop_column name col = alter_table name (\<lambda>td.
     if col \<notin> col_name ` set (tbl_columns td) then Inl (Undefined_column col)
     else Inr (td\<lparr>tbl_columns := filter (\<lambda>c. col_name c \<noteq> col) (tbl_columns td),
       tbl_uniques := filter (\<lambda>u. col \<notin> set (snd u)) (tbl_uniques td),
       tbl_indexes := filter (\<lambda>i. col \<notin> set (ix_columns i)) (tbl_indexes td)\<rparr>))"

definition create_index :: "string \<Rightarrow> string \<Rightarrow> string list \<Rightarrow> bool \<Rightarrow> unit ddl" where
  "create_index iname name cols unique = alter_table name (\<lambda>td.
     if iname \<in> ix_name ` set (tbl_indexes td) then Inl (Duplicate_object iname)
     else if \<not> set cols \<subseteq> col_name ` set (tbl_columns td) then Inl (Undefined_column name)
     else Inr (td\<lparr>tbl_indexes := tbl_indexes td @ [\<lparr>ix_name = iname, ix_columns = cols, ix_unique = unique\<rparr>]\<rparr>))"

definition drop_index :: "string \<Rightarrow> string \<Rightarrow> unit ddl" where
  "drop_index iname name = alter_table name (\<lambda>td.
     if iname \<notin> ix_name ` set (tbl_indexes td) then Inl (Undefined_object iname)
     else Inr (td\<lparr>tbl_indexes := filter (\<lambda>i. ix_name i \<noteq> iname) (tbl_indexes td)\<rparr>))"

definition drop_table :: "string \<Rightarrow> unit ddl" where
  "drop_table name =
     and_then (find_table name) (\<lambda>(rel, tb).
     and_then (must_own tb) (\<lambda>_. modify (\<lambda>c. c\<lparr>tables := AList.delete rel (tables c)\<rparr>)))"

section \<open>Statements on privileges\<close>

text \<open>
  \<open>public."t"\<close>: a table named with its schema. \<open>ALTER TABLE IF EXISTS\<close> passes over a missing one.
\<close>

definition public_table :: "string \<Rightarrow> (pg_table \<Rightarrow> unit ddl) \<Rightarrow> unit ddl" where
  "public_table name f = and_then (gets (\<lambda>c. dict_get (tables c) (''public'', name))) (\<lambda>found. case found of
     None \<Rightarrow> raise (Undefined_table name)
   | Some tb \<Rightarrow> f tb)"

definition set_rls_if_exists :: "bool \<Rightarrow> string \<Rightarrow> unit ddl" where
  "set_rls_if_exists on name = and_then (gets (\<lambda>c. dict_get (tables c) (''public'', name))) (\<lambda>found. case found of
     None \<Rightarrow> ret ()
   | Some tb \<Rightarrow> and_then (must_own tb) (\<lambda>_. put_table (''public'', name) (tb\<lparr>tb_rls := on\<rparr>)))"

definition must_exist :: "string \<Rightarrow> unit ddl" where
  "must_exist r = and_then (gets (\<lambda>c. dict_get (roles c) r)) (\<lambda>found.
     if found = None then raise (Undefined_object r) else ret ())"

text \<open>
  \<open>GRANT\<close> and \<open>REVOKE\<close> are the owner's. Someone else's fails, or does nothing where they hold a
  privilege on the table.
\<close>

definition change_acl :: "string \<Rightarrow> string \<Rightarrow> ((grantee \<times> privilege) set \<Rightarrow> (grantee \<times> privilege) set) \<Rightarrow> unit ddl" where
  "change_acl name r change = public_table name (\<lambda>tb.
     and_then (must_exist r) (\<lambda>_.
     and_then (gets (\<lambda>c. is_superuser c (me c) \<or> tb_owner tb = me c)) (\<lambda>own.
     if own then put_table (''public'', name) (tb\<lparr>tb_acl := change (tb_acl tb)\<rparr>) else
     and_then (gets (\<lambda>c. \<exists>p \<in> ALL_PRIVILEGES. has_privilege c (me c) p tb)) (\<lambda>some_privilege.
     if some_privilege then ret () else raise (Insufficient_privilege name)))))"

definition grant_on :: "privilege set \<Rightarrow> string \<Rightarrow> string \<Rightarrow> unit ddl" where
  "grant_on ps name r = change_acl name r (\<lambda>acl. acl \<union> (\<lambda>p. (Role r, p)) ` ps)"

definition revoke_all_on :: "string \<Rightarrow> string \<Rightarrow> unit ddl" where
  "revoke_all_on name r = change_acl name r (Set.filter (\<lambda>(g, p). g \<noteq> Role r))"

text \<open>\<open>ALTER DEFAULT PRIVILEGES IN SCHEMA s REVOKE ALL ON TABLES FROM r\<close>, for what the session creates.\<close>

definition revoke_default :: "string \<Rightarrow> string \<Rightarrow> unit ddl" where
  "revoke_default s r = and_then (must_exist r) (\<lambda>_. modify (\<lambda>c. c\<lparr>default_acl :=
     Set.filter (\<lambda>(creator, sc, g, p). \<not> (creator = me c \<and> sc = Some s \<and> g = Role r)) (default_acl c)\<rparr>))"

definition drop_policy_if_exists :: "string \<Rightarrow> string \<Rightarrow> unit ddl" where
  "drop_policy_if_exists pname name = public_table name (\<lambda>tb.
     and_then (must_own tb) (\<lambda>_. put_table (''public'', name) (tb\<lparr>tb_policies := AList.delete pname (tb_policies tb)\<rparr>)))"

definition create_policy :: "string \<Rightarrow> string \<Rightarrow> string \<Rightarrow> unit ddl" where
  "create_policy pname name r = public_table name (\<lambda>tb.
     and_then (must_own tb) (\<lambda>_.
     and_then (must_exist r) (\<lambda>_.
     if dict_get (tb_policies tb) pname \<noteq> None then raise (Duplicate_object pname)
     else put_table (''public'', name) (tb\<lparr>tb_policies := dict_set pname (Role r) (tb_policies tb)\<rparr>))))"

section \<open>Statements on roles, schemas and functions\<close>

definition plain_role :: pg_role where
  "plain_role = \<lparr>superuser = False, createrole = False, createdb = False, bypassrls = False, can_login = False, role_path = None\<rparr>"

text \<open>\<open>do $$ begin create role r nologin; exception when duplicate_object then null; end $$\<close>.\<close>

definition create_role_if_missing :: "string \<Rightarrow> unit ddl" where
  "create_role_if_missing r = and_then (gets (\<lambda>c. may_create_roles c (me c))) (\<lambda>ok.
     if \<not> ok then raise (Insufficient_privilege r) else
     and_then (gets (\<lambda>c. dict_get (roles c) r)) (\<lambda>found.
     if found \<noteq> None then ret () else modify (\<lambda>c. c\<lparr>roles := dict_set r plain_role (roles c)\<rparr>)))"

definition alter_role_path :: "string \<Rightarrow> string list option \<Rightarrow> unit ddl" where
  "alter_role_path r p = and_then (gets (\<lambda>c. may_create_roles c (me c))) (\<lambda>ok.
     if \<not> ok then raise (Insufficient_privilege r) else
     and_then (gets (\<lambda>c. dict_get (roles c) r)) (\<lambda>found. case found of
       None \<Rightarrow> raise (Undefined_object r)
     | Some a \<Rightarrow> modify (\<lambda>c. c\<lparr>roles := dict_set r (a\<lparr>role_path := p\<rparr>) (roles c)\<rparr>)))"

definition change_schema :: "string \<Rightarrow> (pg_schema \<Rightarrow> pg_schema) \<Rightarrow> unit ddl" where
  "change_schema s f = and_then (gets (\<lambda>c. dict_get (schemas c) s)) (\<lambda>found. case found of
     None \<Rightarrow> raise (Undefined_schema s)
   | Some sc \<Rightarrow> and_then (gets (\<lambda>c. is_superuser c (me c) \<or> schema_owner sc = me c)) (\<lambda>ok.
       if \<not> ok then raise (Insufficient_privilege s)
       else modify (\<lambda>c. c\<lparr>schemas := dict_set s (f sc) (schemas c)\<rparr>)))"

definition grant_usage :: "string \<Rightarrow> string \<Rightarrow> unit ddl" where
  "grant_usage s r = and_then (must_exist r) (\<lambda>_.
     change_schema s (\<lambda>sc. sc\<lparr>schema_usage := insert (Role r) (schema_usage sc)\<rparr>))"

definition revoke_usage :: "string \<Rightarrow> string \<Rightarrow> unit ddl" where
  "revoke_usage s r = and_then (must_exist r) (\<lambda>_.
     change_schema s (\<lambda>sc. sc\<lparr>schema_usage := schema_usage sc - {Role r}\<rparr>))"

definition revoke_schema_from_public :: "string \<Rightarrow> unit ddl" where
  "revoke_schema_from_public s = change_schema s (\<lambda>sc. sc\<lparr>schema_usage := schema_usage sc - {Public},
     schema_create := schema_create sc - {Public}\<rparr>)"

text \<open>Only who may create in the database can create a schema; that is taken for granted of the session.\<close>

definition create_schema_if_missing :: "string \<Rightarrow> unit ddl" where
  "create_schema_if_missing s = modify (\<lambda>c. if dict_get (schemas c) s \<noteq> None then c else
     c\<lparr>schemas := dict_set s \<lparr>schema_owner = me c, schema_usage = {}, schema_create = {}\<rparr> (schemas c)\<rparr>)"

definition drop_schema_if_exists :: "string \<Rightarrow> unit ddl" where
  "drop_schema_if_exists s = and_then (gets (\<lambda>c. dict_get (schemas c) s)) (\<lambda>found. case found of
     None \<Rightarrow> ret ()
   | Some sc \<Rightarrow> and_then (gets (\<lambda>c. is_superuser c (me c) \<or> schema_owner sc = me c)) (\<lambda>ok.
       if \<not> ok then raise (Insufficient_privilege s) else
       and_then (gets (\<lambda>c. list_ex (\<lambda>(rel, _). fst rel = s) (tables c) \<or> list_ex (\<lambda>(fn, _). fst fn = s) (routines c))) (\<lambda>used.
       if used then raise (Dependent_objects s)
       else modify (\<lambda>c. c\<lparr>schemas := AList.delete s (schemas c)\<rparr>))))"

text \<open>A new function may be executed by everyone; one that is replaced keeps its owner and privileges.\<close>

definition create_or_replace_function :: "string \<times> string \<Rightarrow> bool \<Rightarrow> string list option \<Rightarrow> unit ddl" where
  "create_or_replace_function fn definer fpath =
     and_then (gets (\<lambda>c. may_create_in c (me c) (fst fn))) (\<lambda>ok.
     if \<not> ok then raise (Insufficient_privilege (fst fn)) else
     and_then (gets (\<lambda>c. (me c, dict_get (routines c) fn))) (\<lambda>(owner, old).
     case old of
       None \<Rightarrow> modify (\<lambda>c. c\<lparr>routines := dict_set fn
         \<lparr>fn_owner = owner, fn_execute = {Public}, fn_definer = definer, fn_path = fpath\<rparr> (routines c)\<rparr>)
     | Some f \<Rightarrow> and_then (gets (\<lambda>c. is_superuser c owner \<or> fn_owner f = owner)) (\<lambda>own.
         if \<not> own then raise (Insufficient_privilege (snd fn))
         else modify (\<lambda>c. c\<lparr>routines := dict_set fn (f\<lparr>fn_definer := definer, fn_path := fpath\<rparr>) (routines c)\<rparr>))))"

definition change_function :: "string \<times> string \<Rightarrow> (grantee set \<Rightarrow> grantee set) \<Rightarrow> unit ddl" where
  "change_function fn change = and_then (gets (\<lambda>c. dict_get (routines c) fn)) (\<lambda>found. case found of
     None \<Rightarrow> raise (Undefined_object (snd fn))
   | Some f \<Rightarrow> and_then (gets (\<lambda>c. is_superuser c (me c) \<or> fn_owner f = me c)) (\<lambda>own.
       if \<not> own then raise (Insufficient_privilege (snd fn))
       else modify (\<lambda>c. c\<lparr>routines := dict_set fn (f\<lparr>fn_execute := change (fn_execute f)\<rparr>) (routines c)\<rparr>)))"

definition grant_execute :: "string \<times> string \<Rightarrow> string \<Rightarrow> unit ddl" where
  "grant_execute fn r = and_then (must_exist r) (\<lambda>_. change_function fn (insert (Role r)))"

definition revoke_function_from_public :: "string \<times> string \<Rightarrow> unit ddl" where
  "revoke_function_from_public fn = change_function fn (\<lambda>gs. gs - {Public})"

definition drop_function_if_exists :: "string \<times> string \<Rightarrow> unit ddl" where
  "drop_function_if_exists fn = and_then (gets (\<lambda>c. dict_get (routines c) fn)) (\<lambda>found. case found of
     None \<Rightarrow> ret ()
   | Some f \<Rightarrow> and_then (gets (\<lambda>c. is_superuser c (me c) \<or> fn_owner f = me c)) (\<lambda>own.
       if \<not> own then raise (Insufficient_privilege (snd fn))
       else modify (\<lambda>c. c\<lparr>routines := AList.delete fn (routines c)\<rparr>)))"

definition set_local_path :: "string list \<Rightarrow> unit ddl" where
  "set_local_path p = modify (\<lambda>c. c\<lparr>path := p\<rparr>)"

end
