(* ===== verification/Migrations.thy ===== *)
theory Migrations
  imports Postgres
begin

text \<open>
  The seven revisions of \<open>alembic/versions\<close>, and \<open>alembic/env.py\<close>, which runs them. Alembic itself is
  modelled as far as \<open>env.py\<close> configures it: the version table in the schema it is told, the
  pending revisions in the order of their \<open>down_revision\<close>s, one transaction.
\<close>

section \<open>Columns\<close>

definition col :: "string \<Rightarrow> column_type \<Rightarrow> column" where
  "col n ty = \<lparr>col_name = n, col_type = ty, col_nullable = True, col_primary = False, col_default = None\<rparr>"

definition not_null :: "column \<Rightarrow> column" where
  "not_null c = c\<lparr>col_nullable := False\<rparr>"

definition defaults_to :: "string \<Rightarrow> column \<Rightarrow> column" where
  "defaults_to d c = c\<lparr>col_default := Some d\<rparr>"

definition primary :: "column \<Rightarrow> column" where
  "primary c = c\<lparr>col_primary := True, col_nullable := False\<rparr>"

section \<open>0001 to 0003: tables\<close>

definition subscriptions_table :: table_def where
  "subscriptions_table = \<lparr>tbl_name = ''subscriptions'',
     tbl_columns =
       [primary (col ''id'' (String 36)),
        not_null (col ''user_id'' (String 64)),
        defaults_to ''free'' (not_null (col ''tier'' (String 32))),
        defaults_to ''free'' (not_null (col ''status'' (String 32))),
        col ''stripe_customer_id'' (String 64),
        col ''stripe_subscription_id'' (String 64),
        col ''stripe_price_id'' (String 64),
        col ''billing_interval'' (String 16),
        col ''current_period_start'' DateTime_tz,
        col ''current_period_end'' DateTime_tz,
        defaults_to ''false'' (not_null (col ''cancel_at_period_end'' Boolean)),
        col ''trial_end'' DateTime_tz,
        col ''past_due_since'' DateTime_tz,
        col ''disputed_at'' DateTime_tz,
        defaults_to ''now()'' (not_null (col ''created_at'' DateTime_tz)),
        defaults_to ''now()'' (not_null (col ''updated_at'' DateTime_tz))],
     tbl_uniques = [(None, [''user_id'']), (None, [''stripe_subscription_id''])],
     tbl_indexes = []\<rparr>"

definition processed_events_table :: table_def where
  "processed_events_table = \<lparr>tbl_name = ''processed_events'',
     tbl_columns =
       [primary (col ''event_id'' (String 64)),
        not_null (col ''event_type'' (String 64)),
        defaults_to ''processing'' (not_null (col ''status'' (String 16))),
        col ''error'' Text,
        defaults_to ''now()'' (not_null (col ''received_at'' DateTime_tz)),
        col ''completed_at'' DateTime_tz],
     tbl_uniques = [], tbl_indexes = []\<rparr>"

definition usage_counters_table :: table_def where
  "usage_counters_table = \<lparr>tbl_name = ''usage_counters'',
     tbl_columns =
       [primary (col ''id'' (String 36)),
        not_null (col ''user_id'' (String 64)),
        not_null (col ''key'' (String 64)),
        not_null (col ''window_start'' DateTime_tz),
        not_null (col ''window_end'' DateTime_tz),
        defaults_to ''0'' (not_null (col ''count'' Integer))],
     tbl_uniques = [(Some ''uq_usage_window'', [''user_id'', ''key'', ''window_start''])], tbl_indexes = []\<rparr>"

definition entitlement_grants_table :: table_def where
  "entitlement_grants_table = \<lparr>tbl_name = ''entitlement_grants'',
     tbl_columns =
       [primary (col ''id'' (String 36)),
        not_null (col ''user_id'' (String 64)),
        not_null (col ''tier'' (String 32)),
        col ''expires_at'' DateTime_tz,
        not_null (col ''reason'' Text),
        not_null (col ''created_by'' (String 64)),
        defaults_to ''now()'' (not_null (col ''created_at'' DateTime_tz)),
        col ''revoked_at'' DateTime_tz],
     tbl_uniques = [], tbl_indexes = []\<rparr>"

definition subscription_audit_table :: table_def where
  "subscription_audit_table = \<lparr>tbl_name = ''subscription_audit'',
     tbl_columns =
       [primary (col ''id'' (String 36)),
        not_null (col ''user_id'' (String 64)),
        col ''from_tier'' (String 32),
        col ''to_tier'' (String 32),
        col ''from_status'' (String 32),
        col ''to_status'' (String 32),
        not_null (col ''reason'' (String 128)),
        col ''stripe_event_id'' (String 64),
        col ''detail'' JSONType,
        defaults_to ''now()'' (not_null (col ''created_at'' DateTime_tz))],
     tbl_uniques = [], tbl_indexes = []\<rparr>"

definition sales_inquiries_table :: table_def where
  "sales_inquiries_table = \<lparr>tbl_name = ''sales_inquiries'',
     tbl_columns =
       [primary (col ''id'' (String 36)),
        col ''user_id'' (String 64),
        not_null (col ''email'' (String 320)),
        col ''company'' (String 200),
        col ''seats'' Integer,
        col ''message'' (String 2000),
        defaults_to ''pricing_page'' (not_null (col ''source'' (String 32))),
        col ''current_tier'' (String 32),
        col ''handled_at'' DateTime_tz,
        defaults_to ''now()'' (not_null (col ''created_at'' DateTime_tz))],
     tbl_uniques = [], tbl_indexes = []\<rparr>"

definition upgrade_0001 :: "unit ddl" where
  "upgrade_0001 =
     and_then (create_table subscriptions_table) (\<lambda>_.
     and_then (create_index ''ix_subscriptions_stripe_customer_id'' ''subscriptions'' [''stripe_customer_id''] True) (\<lambda>_.
     and_then (create_table processed_events_table) (\<lambda>_.
     and_then (create_table usage_counters_table) (\<lambda>_.
     and_then (create_index ''ix_usage_user_key'' ''usage_counters'' [''user_id'', ''key''] False) (\<lambda>_.
     and_then (create_table entitlement_grants_table) (\<lambda>_.
     and_then (create_index ''ix_grants_user_active'' ''entitlement_grants'' [''user_id'', ''revoked_at''] False) (\<lambda>_.
     and_then (create_table subscription_audit_table) (\<lambda>_.
     create_index ''ix_audit_user_created'' ''subscription_audit'' [''user_id'', ''created_at''] False))))))))"

definition downgrade_0001 :: "unit ddl" where
  "downgrade_0001 =
     and_then (drop_table ''subscription_audit'') (\<lambda>_.
     and_then (drop_table ''entitlement_grants'') (\<lambda>_.
     and_then (drop_table ''usage_counters'') (\<lambda>_.
     and_then (drop_table ''processed_events'') (\<lambda>_. drop_table ''subscriptions''))))"

definition upgrade_0002 :: "unit ddl" where
  "upgrade_0002 = add_column ''subscriptions'' (col ''discount'' JSONType)"

definition downgrade_0002 :: "unit ddl" where
  "downgrade_0002 = drop_column ''subscriptions'' ''discount''"

definition upgrade_0003 :: "unit ddl" where
  "upgrade_0003 =
     and_then (create_table sales_inquiries_table) (\<lambda>_.
     and_then (create_index ''ix_sales_inquiries_user_id'' ''sales_inquiries'' [''user_id''] False) (\<lambda>_.
     create_index ''ix_sales_inquiry_created'' ''sales_inquiries'' [''created_at''] False))"

definition downgrade_0003 :: "unit ddl" where
  "downgrade_0003 =
     and_then (drop_index ''ix_sales_inquiry_created'' ''sales_inquiries'') (\<lambda>_.
     and_then (drop_index ''ix_sales_inquiries_user_id'' ''sales_inquiries'') (\<lambda>_.
     drop_table ''sales_inquiries''))"

section \<open>0004: the public API is closed\<close>

definition on_postgres :: "unit ddl \<Rightarrow> unit ddl" where
  "on_postgres m = and_then (gets (\<lambda>c. dialect c = ''postgresql'')) (\<lambda>pg. only_if pg m)"

definition SERVICE_TABLES :: "string list" where
  "SERVICE_TABLES = [''subscriptions'', ''processed_events'', ''usage_counters'', ''entitlement_grants'',
     ''subscription_audit'', ''sales_inquiries'']"

definition LOCKED_TABLES :: "string list" where
  "LOCKED_TABLES = [''subscriptions'', ''processed_events'', ''usage_counters'', ''entitlement_grants'',
     ''subscription_audit'', ''sales_inquiries'', ''alembic_version'']"

definition WEB_ROLES :: "string list" where
  "WEB_ROLES = [''anon'', ''authenticated'']"

definition lock_out :: "string \<Rightarrow> unit ddl" where
  "lock_out role =
     and_then (gets (\<lambda>c. dict_get (roles c) role \<noteq> None)) (\<lambda>exists.
     if \<not> exists then ret () else
     and_then (for_each (\<lambda>t. revoke_all_on t role) LOCKED_TABLES) (\<lambda>_.
     revoke_default ''public'' role))"

definition upgrade_0004 :: "unit ddl" where
  "upgrade_0004 = on_postgres
     (and_then (for_each (set_rls_if_exists True) LOCKED_TABLES) (\<lambda>_. for_each lock_out WEB_ROLES))"

definition downgrade_0004 :: "unit ddl" where
  "downgrade_0004 = on_postgres (for_each (set_rls_if_exists False) LOCKED_TABLES)"

section \<open>0005 to 0007: the service's role\<close>

definition APP_ROLE :: string where "APP_ROLE = ''app_service''"

definition POLICY :: string where "POLICY = ''app_service_full_access''"

definition upgrade_0005 :: "unit ddl" where
  "upgrade_0005 = on_postgres
     (and_then (create_role_if_missing APP_ROLE) (\<lambda>_.
      and_then (grant_usage ''public'' APP_ROLE) (\<lambda>_.
      for_each (\<lambda>t.
        and_then (grant_on {SELECT, INSERT, UPDATE, DELETE} t APP_ROLE) (\<lambda>_.
        and_then (drop_policy_if_exists POLICY t) (\<lambda>_.
        create_policy POLICY t APP_ROLE))) SERVICE_TABLES)))"

definition downgrade_0005 :: "unit ddl" where
  "downgrade_0005 = on_postgres
     (and_then (for_each (\<lambda>t.
        and_then (drop_policy_if_exists POLICY t) (\<lambda>_. revoke_all_on t APP_ROLE)) SERVICE_TABLES) (\<lambda>_.
      revoke_usage ''public'' APP_ROLE))"

definition PRIVATE_SCHEMA :: string where "PRIVATE_SCHEMA = ''app_private''"

definition MISSING_ACCOUNTS :: "string \<times> string" where
  "MISSING_ACCOUNTS = (PRIVATE_SCHEMA, ''missing_accounts(uuid[])'')"

definition upgrade_0006 :: "unit ddl" where
  "upgrade_0006 = on_postgres
     (and_then (create_schema_if_missing PRIVATE_SCHEMA) (\<lambda>_.
      and_then (revoke_schema_from_public PRIVATE_SCHEMA) (\<lambda>_.
      and_then (create_or_replace_function MISSING_ACCOUNTS True (Some [])) (\<lambda>_.
      and_then (revoke_function_from_public MISSING_ACCOUNTS) (\<lambda>_.
      and_then (grant_usage PRIVATE_SCHEMA APP_ROLE) (\<lambda>_.
      grant_execute MISSING_ACCOUNTS APP_ROLE))))))"

definition downgrade_0006 :: "unit ddl" where
  "downgrade_0006 = on_postgres
     (and_then (drop_function_if_exists MISSING_ACCOUNTS) (\<lambda>_. drop_schema_if_exists PRIVATE_SCHEMA))"

definition upgrade_0007 :: "unit ddl" where
  "upgrade_0007 = on_postgres (alter_role_path APP_ROLE (Some [''public'']))"

definition downgrade_0007 :: "unit ddl" where
  "downgrade_0007 = on_postgres (alter_role_path APP_ROLE None)"

section \<open>The chain, and \<open>env.py\<close>\<close>

record revision =
  rev_id :: string
  rev_down :: "string option"
  rev_upgrade :: "unit ddl"
  rev_downgrade :: "unit ddl"

definition REVISIONS :: "revision list" where
  "REVISIONS =
     [\<lparr>rev_id = ''0001'', rev_down = None, rev_upgrade = upgrade_0001, rev_downgrade = downgrade_0001\<rparr>,
      \<lparr>rev_id = ''0002'', rev_down = Some ''0001'', rev_upgrade = upgrade_0002, rev_downgrade = downgrade_0002\<rparr>,
      \<lparr>rev_id = ''0003'', rev_down = Some ''0002'', rev_upgrade = upgrade_0003, rev_downgrade = downgrade_0003\<rparr>,
      \<lparr>rev_id = ''0004'', rev_down = Some ''0003'', rev_upgrade = upgrade_0004, rev_downgrade = downgrade_0004\<rparr>,
      \<lparr>rev_id = ''0005'', rev_down = Some ''0004'', rev_upgrade = upgrade_0005, rev_downgrade = downgrade_0005\<rparr>,
      \<lparr>rev_id = ''0006'', rev_down = Some ''0005'', rev_upgrade = upgrade_0006, rev_downgrade = downgrade_0006\<rparr>,
      \<lparr>rev_id = ''0007'', rev_down = Some ''0006'', rev_upgrade = upgrade_0007, rev_downgrade = downgrade_0007\<rparr>]"

text \<open>The revisions after the recorded one: each is the one that names its predecessor.\<close>

fun revisions_after :: "nat \<Rightarrow> string option \<Rightarrow> revision list" where
  "revisions_after 0 at = []"
| "revisions_after (Suc n) at = (case List.find (\<lambda>r. rev_down r = at) REVISIONS of
     None \<Rightarrow> []
   | Some r \<Rightarrow> r # revisions_after n (Some (rev_id r)))"

definition version_table :: table_def where
  "version_table = \<lparr>tbl_name = ''alembic_version'', tbl_columns = [primary (col ''version_num'' (String 32))],
     tbl_uniques = [], tbl_indexes = []\<rparr>"

text \<open>The schema of the version table: the one \<open>env.py\<close> names, or the one its name resolves to.\<close>

definition version_schema :: "string option \<Rightarrow> string ddl" where
  "version_schema named = (case named of
     Some s \<Rightarrow>
       and_then (gets (\<lambda>c. dict_get (tables c) (s, ''alembic_version''))) (\<lambda>found.
       and_then (if found \<noteq> None then ret () else create_table_in s version_table) (\<lambda>_. ret s))
   | None \<Rightarrow>
       and_then (gets (\<lambda>c. resolve c (me c) (path c) ''alembic_version'')) (\<lambda>found. case found of
         Some rel \<Rightarrow> ret (fst rel)
       | None \<Rightarrow> and_then creation_schema (\<lambda>s. and_then (create_table_in s version_table) (\<lambda>_. ret s))))"

definition run_revision :: "string \<Rightarrow> revision \<Rightarrow> unit ddl" where
  "run_revision s r = and_then (rev_upgrade r) (\<lambda>_. modify (\<lambda>c. c\<lparr>version_num := dict_set s (rev_id r) (version_num c)\<rparr>))"

definition upgrade_head :: "string \<Rightarrow> unit ddl" where
  "upgrade_head s = and_then (gets (\<lambda>c. dict_get (version_num c) s)) (\<lambda>at.
     for_each (run_revision s) (revisions_after (length REVISIONS) at))"

text \<open>And back: from the recorded revision down its \<open>down_revision\<close>s, to the target (\<open>None\<close> is the base).\<close>

fun revisions_down :: "nat \<Rightarrow> string option \<Rightarrow> string option \<Rightarrow> revision list" where
  "revisions_down 0 target at = []"
| "revisions_down (Suc n) target at = (if at = target then [] else
     case List.find (\<lambda>r. Some (rev_id r) = at) REVISIONS of
       None \<Rightarrow> []
     | Some r \<Rightarrow> r # revisions_down n target (rev_down r))"

definition undo_revision :: "string \<Rightarrow> revision \<Rightarrow> unit ddl" where
  "undo_revision s r = and_then (rev_downgrade r) (\<lambda>_. modify (\<lambda>c. c\<lparr>version_num := (case rev_down r of
     None \<Rightarrow> AList.delete s (version_num c) | Some v \<Rightarrow> dict_set s v (version_num c))\<rparr>))"

definition downgrade_to :: "string option \<Rightarrow> string \<Rightarrow> unit ddl" where
  "downgrade_to target s = and_then (gets (\<lambda>c. dict_get (version_num c) s)) (\<lambda>at.
     for_each (undo_revision s) (revisions_down (length REVISIONS) target at))"

text \<open>The command given, on the version table found or made.\<close>

definition run_migrations :: "(string \<Rightarrow> unit ddl) \<Rightarrow> string option \<Rightarrow> unit ddl" where
  "run_migrations command named = and_then (version_schema named) command"

text \<open>One transaction: an error undoes it, and what is set with \<open>SET LOCAL\<close> ends with it.\<close>

definition in_transaction :: "unit ddl \<Rightarrow> unit ddl" where
  "in_transaction m = (\<lambda>c. case m c of
     (Inl e, _) \<Rightarrow> (Inl e, c)
   | (Inr u, c') \<Rightarrow> (Inr u, c'\<lparr>path := path c\<rparr>))"

definition SCHEMA :: string where "SCHEMA = ''public''"

definition do_run_migrations :: "(string \<Rightarrow> unit ddl) \<Rightarrow> unit ddl" where
  "do_run_migrations command = and_then (gets (\<lambda>c. dialect c = ''postgresql'')) (\<lambda>postgres.
     in_transaction
       (and_then (only_if postgres (set_local_path [SCHEMA])) (\<lambda>_.
        run_migrations command (if postgres then Some SCHEMA else None))))"

abbreviation alembic_upgrade :: "unit ddl" where
  "alembic_upgrade \<equiv> do_run_migrations upgrade_head"

abbreviation alembic_downgrade :: "string option \<Rightarrow> unit ddl" where
  "alembic_downgrade target \<equiv> do_run_migrations (downgrade_to target)"

end
