(* ===== verification/Migration_Facts.thy ===== *)
theory Migration_Facts
  imports Migrations
begin

text \<open>
  What each migration does to a database the migration credential owns, step by step: the
  service's tables are the tail of the catalog's, and every statement rewrites that tail. The
  whole upgrade has a closed form, \<open>at_head\<close>.
\<close>

named_theorems ddl_steps \<open>statements on the service's tables\<close>

section \<open>Dictionaries with a tail\<close>

declare map_of_append [simp del]

lemma map_of_tail [simp]: "map_of ts k = None \<Longrightarrow> map_of (ts @ xs) k = map_of xs k"
  by (simp add: map_of_append map_add_def split: option.split)

lemma update_tail: "map_of ts k = None \<Longrightarrow> AList.update k v (ts @ xs) = ts @ AList.update k v xs"
  by (induction ts) (auto split: if_splits)

lemma delete_tail: "map_of ts k = None \<Longrightarrow> AList.delete k (ts @ xs) = ts @ AList.delete k xs"
  by (induction ts) (auto simp: AList.delete_eq)

lemma update_absent: "map_of xs k = None \<Longrightarrow> AList.update k v xs = xs @ [(k, v)]"
  by (induction xs) (auto split: if_splits)

lemma update_map:
  "distinct (map fst xs) \<Longrightarrow> map_of xs k = Some v \<Longrightarrow>
     AList.update k (f v) xs = map (\<lambda>(k', x). (k', if k' = k then f x else x)) xs"
proof (induction xs)
  case (Cons kx xs)
  have same: "map (\<lambda>(k', x). (k', if k' = k then f x else x)) xs = xs" if "k \<notin> fst ` set xs"
    using that by (intro map_idI) force
  obtain k0 x where kx: "kx = (k0, x)" by (cases kx)
  show ?case
  proof (cases "k0 = k")
    case True
    with Cons.prems kx same show ?thesis by simp
  next
    case False
    with Cons kx show ?thesis by simp
  qed
qed simp

section \<open>Guards that pass\<close>

lemma and_then_done: "m s = (Inr (), s') \<Longrightarrow> and_then m f s = f () s'"
  by (simp add: and_then_def)

lemma must_own_passes [simp]: "tb_owner tb = me c \<Longrightarrow> and_then (must_own tb) f c = f () c"
  by (simp add: must_own_def and_then_def)

lemma must_exist_passes [simp]: "dict_get (roles c) r \<noteq> None \<Longrightarrow> and_then (must_exist r) f c = f () c"
  by (auto simp: must_exist_def and_then_def)

lemma public_table_found [simp]: "dict_get (tables c) (''public'', t) = Some tb \<Longrightarrow> public_table t f c = f tb c"
  by (simp add: public_table_def)

section \<open>A database to migrate\<close>

text \<open>
  The migration credential owns the schema \<open>public\<close> and may create roles; it is neither a web role
  nor the service's, and nothing of the service's is there yet.
\<close>

definition able :: "catalog \<Rightarrow> bool" where
  "able c \<longleftrightarrow> dialect c = ''postgresql'' \<and> may_create_roles c (me c) \<and>
     (\<exists>sc. dict_get (schemas c) ''public'' = Some sc \<and> schema_owner sc = me c) \<and>
     (\<forall>t \<in> set LOCKED_TABLES. dict_get (tables c) (''public'', t) = None)"

definition at :: "catalog \<Rightarrow> ((string \<times> string) \<times> pg_table) list \<Rightarrow> catalog" where
  "at c xs = c\<lparr>path := [''public''], tables := tables c @ xs\<rparr>"

lemma at_simps [simp]:
  "me (at c xs) = me c" "path (at c xs) = [''public'']" "tables (at c xs) = tables c @ xs"
  "dialect (at c xs) = dialect c" "roles (at c xs) = roles c" "schemas (at c xs) = schemas c"
  "routines (at c xs) = routines c" "default_acl (at c xs) = default_acl c" "version_num (at c xs) = version_num c"
  "is_superuser (at c xs) = is_superuser c"
  by (simp_all add: at_def fun_eq_iff is_superuser_def)

lemma at_rights [simp]:
  "may_create_roles (at c xs) = may_create_roles c"
  "may_use_schema (at c xs) = may_use_schema c" "may_create_in (at c xs) = may_create_in c"
  "born_acl (at c xs) = born_acl c"
  by (simp_all add: fun_eq_iff may_create_roles_def may_use_schema_def may_create_in_def born_acl_def
      split: option.split)

lemma able_public:
  "able c \<Longrightarrow> may_use_schema c (me c) ''public''" "able c \<Longrightarrow> may_create_in c (me c) ''public''"
  by (auto simp: able_def may_use_schema_def may_create_in_def)

lemma able_fresh: "able c \<Longrightarrow> t \<in> set LOCKED_TABLES \<Longrightarrow> map_of (tables c) (''public'', t) = None"
  by (simp add: able_def)

lemma searched_at [simp]: "able c \<Longrightarrow> searched (at c xs) (me c) [''public''] = [''public'']"
  by (simp add: searched_def able_public)

lemma resolve_at:
  "able c \<Longrightarrow> t \<in> set LOCKED_TABLES \<Longrightarrow>
     resolve (at c xs) (me c) [''public''] t = (if map_of xs (''public'', t) = None then None else Some (''public'', t))"
  by (simp add: resolve_def able_fresh)

lemma put_at:
  "able c \<Longrightarrow> t \<in> set LOCKED_TABLES \<Longrightarrow>
     put_table (''public'', t) tb (at c xs) = (Inr (), at c (AList.update (''public'', t) tb xs))"
  by (simp add: put_table_def at_def update_tail able_fresh)

section \<open>Statements\<close>

definition born :: "catalog \<Rightarrow> table_def \<Rightarrow> (string \<times> string) \<times> pg_table" where
  "born c td = ((''public'', tbl_name td),
     \<lparr>tb_def = td, tb_owner = me c, tb_acl = born_acl c ''public'', tb_rls = False, tb_policies = []\<rparr>)"

lemma create_table_in_at:
  assumes "able c" "tbl_name td \<in> set LOCKED_TABLES" "map_of xs (''public'', tbl_name td) = None"
  shows "create_table_in ''public'' td (at c xs) = (Inr (), at c (xs @ [born c td]))"
  using assms put_at [OF assms(1,2)]
  by (simp add: create_table_in_def able_fresh born_def update_absent)

lemma create_table_at [ddl_steps]:
  assumes "able c" "tbl_name td \<in> set LOCKED_TABLES" "map_of xs (''public'', tbl_name td) = None"
  shows "create_table td (at c xs) = (Inr (), at c (xs @ [born c td]))"
proof -
  have "creation_schema (at c xs) = (Inr ''public'', at c xs)"
    by (simp add: creation_schema_def assms(1) able_public)
  then show ?thesis
    by (simp add: create_table_def and_then_Inr create_table_in_at [OF assms])
qed

definition redefine :: "(table_def \<Rightarrow> table_def) \<Rightarrow> pg_table \<Rightarrow> pg_table" where
  "redefine f tb = tb\<lparr>tb_def := f (tb_def tb)\<rparr>"

lemma alter_table_at:
  assumes "able c" "t \<in> set LOCKED_TABLES" "map_of xs (''public'', t) = Some tb" "tb_owner tb = me c"
    "change (tb_def tb) = Inr (f (tb_def tb))"
  shows "alter_table t change (at c xs) = (Inr (), at c (AList.update (''public'', t) (redefine f tb) xs))"
  using assms put_at [OF assms(1,2)]
  by (simp add: alter_table_def find_table_def must_own_def resolve_at able_fresh and_then_def redefine_def)

definition with_index :: "string \<Rightarrow> string list \<Rightarrow> bool \<Rightarrow> table_def \<Rightarrow> table_def" where
  "with_index i cols u td = td\<lparr>tbl_indexes := tbl_indexes td @ [\<lparr>ix_name = i, ix_columns = cols, ix_unique = u\<rparr>]\<rparr>"

lemma create_index_at [ddl_steps]:
  assumes "able c" "t \<in> set LOCKED_TABLES" "map_of xs (''public'', t) = Some tb" "tb_owner tb = me c"
    "i \<notin> ix_name ` set (tbl_indexes (tb_def tb))" "set cols \<subseteq> col_name ` set (tbl_columns (tb_def tb))"
  shows "create_index i t cols u (at c xs) =
    (Inr (), at c (AList.update (''public'', t) (redefine (with_index i cols u) tb) xs))"
  unfolding create_index_def using assms
  by (intro alter_table_at) (simp_all add: with_index_def)

definition with_column :: "column \<Rightarrow> table_def \<Rightarrow> table_def" where
  "with_column cl td = td\<lparr>tbl_columns := tbl_columns td @ [cl]\<rparr>"

lemma add_column_at [ddl_steps]:
  assumes "able c" "t \<in> set LOCKED_TABLES" "map_of xs (''public'', t) = Some tb" "tb_owner tb = me c"
    "col_name cl \<notin> col_name ` set (tbl_columns (tb_def tb))"
  shows "add_column t cl (at c xs) = (Inr (), at c (AList.update (''public'', t) (redefine (with_column cl) tb) xs))"
  unfolding add_column_def using assms
  by (intro alter_table_at) (simp_all add: with_column_def)

section \<open>0001 to 0003\<close>

lemma table_names [simp]:
  "tbl_name subscriptions_table = ''subscriptions''" "tbl_name processed_events_table = ''processed_events''"
  "tbl_name usage_counters_table = ''usage_counters''" "tbl_name entitlement_grants_table = ''entitlement_grants''"
  "tbl_name subscription_audit_table = ''subscription_audit''" "tbl_name sales_inquiries_table = ''sales_inquiries''"
  "tbl_name version_table = ''alembic_version''"
  by (simp_all add: subscriptions_table_def processed_events_table_def usage_counters_table_def
      entitlement_grants_table_def subscription_audit_table_def sales_inquiries_table_def version_table_def)

lemma locked_names [simp]:
  "''subscriptions'' \<in> set LOCKED_TABLES" "''processed_events'' \<in> set LOCKED_TABLES" "''usage_counters'' \<in> set LOCKED_TABLES"
  "''entitlement_grants'' \<in> set LOCKED_TABLES" "''subscription_audit'' \<in> set LOCKED_TABLES"
  "''sales_inquiries'' \<in> set LOCKED_TABLES" "''alembic_version'' \<in> set LOCKED_TABLES"
  by (simp_all add: LOCKED_TABLES_def)

definition subscriptions_0001 :: table_def where
  "subscriptions_0001 = with_index ''ix_subscriptions_stripe_customer_id'' [''stripe_customer_id''] True subscriptions_table"

definition usage_0001 :: table_def where
  "usage_0001 = with_index ''ix_usage_user_key'' [''user_id'', ''key''] False usage_counters_table"

definition grants_0001 :: table_def where
  "grants_0001 = with_index ''ix_grants_user_active'' [''user_id'', ''revoked_at''] False entitlement_grants_table"

definition audit_0001 :: table_def where
  "audit_0001 = with_index ''ix_audit_user_created'' [''user_id'', ''created_at''] False subscription_audit_table"

definition subscriptions_0002 :: table_def where
  "subscriptions_0002 = with_column (col ''discount'' JSONType) subscriptions_0001"

definition inquiries_0003 :: table_def where
  "inquiries_0003 = with_index ''ix_sales_inquiry_created'' [''created_at''] False
     (with_index ''ix_sales_inquiries_user_id'' [''user_id''] False sales_inquiries_table)"

lemma born_parts [simp]:
  "fst (born c td) = (''public'', tbl_name td)" "tb_owner (snd (born c td)) = me c" "tb_def (snd (born c td)) = td"
  by (simp_all add: born_def)

lemma redefined_names [simp]:
  "tbl_name (with_index i cols u td) = tbl_name td" "tbl_name (with_column cl td) = tbl_name td"
  by (simp_all add: with_index_def with_column_def)

definition tables_0001 :: "catalog \<Rightarrow> ((string \<times> string) \<times> pg_table) list" where
  "tables_0001 c = [born c subscriptions_0001, born c processed_events_table, born c usage_0001, born c grants_0001,
     born c audit_0001]"

lemma index_columns:
  "''stripe_customer_id'' \<in> col_name ` set (tbl_columns subscriptions_table)"
  "''user_id'' \<in> col_name ` set (tbl_columns usage_counters_table)" "''key'' \<in> col_name ` set (tbl_columns usage_counters_table)"
  "''user_id'' \<in> col_name ` set (tbl_columns entitlement_grants_table)"
  "''revoked_at'' \<in> col_name ` set (tbl_columns entitlement_grants_table)"
  "''user_id'' \<in> col_name ` set (tbl_columns subscription_audit_table)"
  "''created_at'' \<in> col_name ` set (tbl_columns subscription_audit_table)"
  "''user_id'' \<in> col_name ` set (tbl_columns sales_inquiries_table)"
  "''created_at'' \<in> col_name ` set (tbl_columns sales_inquiries_table)"
  by (simp_all add: subscriptions_table_def usage_counters_table_def entitlement_grants_table_def
      subscription_audit_table_def sales_inquiries_table_def col_def not_null_def defaults_to_def primary_def)

lemma no_indexes:
  "tbl_indexes subscriptions_table = []" "tbl_indexes usage_counters_table = []"
  "tbl_indexes entitlement_grants_table = []" "tbl_indexes subscription_audit_table = []"
  "tbl_indexes sales_inquiries_table = []"
  by (simp_all add: subscriptions_table_def usage_counters_table_def entitlement_grants_table_def
      subscription_audit_table_def sales_inquiries_table_def)

lemma no_discount_yet: "''discount'' \<notin> col_name ` set (tbl_columns subscriptions_0001)"
  by (simp add: subscriptions_0001_def with_index_def subscriptions_table_def col_def not_null_def defaults_to_def primary_def)

lemma no_table_yet [simp]:
  "map_of [] k = None" "map_of (born c td # xs) (''public'', k) = (if k = tbl_name td then Some (snd (born c td)) else map_of xs (''public'', k))"
  by (simp_all add: born_def)

lemma map_of_snoc: "map_of (xs @ [y]) k = (case map_of xs k of None \<Rightarrow> map_of [y] k | Some v \<Rightarrow> Some v)"
  by (induction xs) auto

text \<open>A table at the end of the tail is created, and then gets its indexes.\<close>

lemma index_last:
  assumes "able c" "n \<in> set LOCKED_TABLES" "map_of xs (''public'', n) = None" "tbl_name td = n"
    "i \<notin> ix_name ` set (tbl_indexes td)" "set cols \<subseteq> col_name ` set (tbl_columns td)"
  shows "create_index i n cols u (at c (xs @ [born c td])) = (Inr (), at c (xs @ [born c (with_index i cols u td)]))"
proof -
  have "map_of (xs @ [born c td]) (''public'', n) = Some (snd (born c td))"
    using assms(3,4) by (simp add: born_def)
  from create_index_at [OF assms(1,2) this] assms(5,6)
  have "create_index i n cols u (at c (xs @ [born c td])) =
      (Inr (), at c (AList.update (''public'', n) (redefine (with_index i cols u) (snd (born c td))) (xs @ [born c td])))"
    by simp
  moreover have "AList.update (''public'', n) (redefine (with_index i cols u) (snd (born c td))) (xs @ [born c td]) =
      xs @ [born c (with_index i cols u td)]"
    using assms(3,4) by (simp add: update_tail born_def redefine_def with_index_def)
  ultimately show ?thesis by simp
qed

lemma then_create:
  assumes "able c" "f () (at c ys) = z" "ys = xs @ [born c td]" "tbl_name td \<in> set LOCKED_TABLES"
    and "map_of xs (''public'', tbl_name td) = None"
  shows "and_then (create_table td) f (at c xs) = z"
  using create_table_at [OF assms(1,4,5)] assms(2,3) by (simp add: and_then_Inr)

lemma create_index_last:
  assumes "able c" "xs = zs @ [born c td]" "tbl_name td = n" "n \<in> set LOCKED_TABLES" "map_of zs (''public'', n) = None"
    "i \<notin> ix_name ` set (tbl_indexes td)" "set cols \<subseteq> col_name ` set (tbl_columns td)"
    "ys = zs @ [born c (with_index i cols u td)]"
  shows "create_index i n cols u (at c xs) = (Inr (), at c ys)"
  using index_last [OF assms(1,4,5,3,6,7)] assms(2,8) by simp

lemma then_index:
  assumes "able c" "f () (at c ys) = z" "xs = zs @ [born c td]" "tbl_name td = n" "n \<in> set LOCKED_TABLES"
    and "map_of zs (''public'', n) = None" "i \<notin> ix_name ` set (tbl_indexes td)" "set cols \<subseteq> col_name ` set (tbl_columns td)"
    and "ys = zs @ [born c (with_index i cols u td)]"
  shows "and_then (create_index i n cols u) f (at c xs) = z"
  using create_index_last [OF assms(1,3-9)] assms(2) by (simp add: and_then_Inr)

text \<open>The table of the recorded version stands first; what it looks like does not matter here.\<close>

definition recorded_in :: "pg_table \<Rightarrow> (string \<times> string) \<times> pg_table" where
  "recorded_in vt = ((''public'', ''alembic_version''), vt)"

lemma recorded_lookup [simp]:
  "map_of (recorded_in vt # xs) (''public'', k) = (if k = ''alembic_version'' then Some vt else map_of xs (''public'', k))"
  "fst (recorded_in vt) = (''public'', ''alembic_version'')" "snd (recorded_in vt) = vt"
  by (simp_all add: recorded_in_def)

lemma run_0001:
  assumes "able c"
  shows "upgrade_0001 (at c [recorded_in vt]) = (Inr (), at c (recorded_in vt # tables_0001 c))"
proof -
  let ?v = "recorded_in vt" and ?s = "born c subscriptions_0001" and ?e = "born c processed_events_table"
    and ?u = "born c usage_0001" and ?g = "born c grants_0001" and ?a = "born c audit_0001"
  note named = subscriptions_0001_def usage_0001_def grants_0001_def audit_0001_def no_indexes index_columns
  show ?thesis
    unfolding upgrade_0001_def tables_0001_def
    by (rule then_create [OF assms, where ys = "[?v, born c subscriptions_table]"],
        rule then_index [OF assms, where ys = "[?v, ?s]" and zs = "[?v]" and td = subscriptions_table],
        rule then_create [OF assms, where ys = "[?v, ?s, ?e]"],
        rule then_create [OF assms, where ys = "[?v, ?s, ?e, born c usage_counters_table]"],
        rule then_index [OF assms, where ys = "[?v, ?s, ?e, ?u]" and zs = "[?v, ?s, ?e]" and td = usage_counters_table],
        rule then_create [OF assms, where ys = "[?v, ?s, ?e, ?u, born c entitlement_grants_table]"],
        rule then_index [OF assms, where ys = "[?v, ?s, ?e, ?u, ?g]" and zs = "[?v, ?s, ?e, ?u]" and td = entitlement_grants_table],
        rule then_create [OF assms, where ys = "[?v, ?s, ?e, ?u, ?g, born c subscription_audit_table]"],
        rule create_index_last [OF assms, where zs = "[?v, ?s, ?e, ?u, ?g]" and td = subscription_audit_table],
        simp_all add: named)
qed

lemma run_0002:
  assumes "able c"
  shows "upgrade_0002 (at c (recorded_in vt # born c subscriptions_0001 # xs)) =
    (Inr (), at c (recorded_in vt # born c subscriptions_0002 # xs))"
proof -
  let ?xs = "recorded_in vt # born c subscriptions_0001 # xs"
  have "map_of ?xs (''public'', ''subscriptions'') = Some (snd (born c subscriptions_0001))"
    by (simp add: subscriptions_0001_def)
  from add_column_at [OF assms _ this, of "col ''discount'' JSONType"] no_discount_yet
  have "add_column ''subscriptions'' (col ''discount'' JSONType) (at c ?xs) = (Inr (), at c (AList.update (''public'', ''subscriptions'')
      (redefine (with_column (col ''discount'' JSONType)) (snd (born c subscriptions_0001))) ?xs))"
    by (simp add: col_def)
  then show ?thesis
    unfolding upgrade_0002_def by (simp add: recorded_in_def born_def redefine_def subscriptions_0002_def subscriptions_0001_def)
qed

lemma run_0003:
  assumes "able c" "map_of xs (''public'', ''sales_inquiries'') = None"
  shows "upgrade_0003 (at c xs) = (Inr (), at c (xs @ [born c inquiries_0003]))"
proof -
  let ?i = "with_index ''ix_sales_inquiries_user_id'' [''user_id''] False sales_inquiries_table"
  have one: "tbl_columns ?i = tbl_columns sales_inquiries_table" "ix_name ` set (tbl_indexes ?i) = {''ix_sales_inquiries_user_id''}"
    by (simp_all add: with_index_def no_indexes)
  show ?thesis
    unfolding upgrade_0003_def inquiries_0003_def
    by (rule then_create [OF assms(1), where ys = "xs @ [born c sales_inquiries_table]"],
        rule then_index [OF assms(1), where ys = "xs @ [born c ?i]" and zs = xs and td = sales_inquiries_table],
        rule create_index_last [OF assms(1), where zs = xs and td = ?i],
        simp_all add: no_indexes index_columns assms(2) one)
qed

section \<open>Statements on all tables\<close>

definition hit :: "string list \<Rightarrow> (pg_table \<Rightarrow> pg_table) \<Rightarrow> ((string \<times> string) \<times> pg_table) list \<Rightarrow>
    ((string \<times> string) \<times> pg_table) list" where
  "hit names f xs = map (\<lambda>(k, tb). (k, if k \<in> Pair ''public'' ` set names then f tb else tb)) xs"

lemma hit_keys [simp]: "map fst (hit names f xs) = map fst xs"
  by (auto simp: hit_def)

lemma hit_lookup: "map_of (hit names f xs) (''public'', t) =
    (if t \<in> set names then map_option f (map_of xs (''public'', t)) else map_of xs (''public'', t))"
  by (induction xs) (auto simp: hit_def)

text \<open>
  A statement that rewrites one table, said of each of some distinct tables that are there and
  belong to the session's role.
\<close>

lemma for_each_table:
  assumes "distinct names" "distinct (map fst xs)"
    and "\<And>t. t \<in> set names \<Longrightarrow> \<exists>tb. map_of xs (''public'', t) = Some tb \<and> ok tb"
    and "\<And>t xs tb. t \<in> set names \<Longrightarrow> map_of xs (''public'', t) = Some tb \<Longrightarrow> ok tb \<Longrightarrow>
      op t (at c xs) = (Inr (), at c (AList.update (''public'', t) (f tb) xs))"
  shows "for_each op names (at c xs) = (Inr (), at c (hit names f xs))"
  using assms
proof (induction names arbitrary: xs)
  case Nil
  show ?case by (simp add: hit_def case_prod_beta)
next
  case (Cons t names)
  obtain tb where tb: "map_of xs (''public'', t) = Some tb" "ok tb" using Cons.prems(3) [of t] by auto
  let ?xs = "AList.update (''public'', t) (f tb) xs"
  have upd: "?xs = map (\<lambda>(k, x). (k, if k = (''public'', t) then f x else x)) xs"
    using update_map [OF Cons.prems(2) tb(1)] .
  have "for_each op names (at c ?xs) = (Inr (), at c (hit names f ?xs))"
  proof (rule Cons.IH)
    show "distinct (map fst ?xs)" using Cons.prems(2) by (simp add: distinct_update)
    show "\<exists>tb. map_of ?xs (''public'', t') = Some tb \<and> ok tb" if "t' \<in> set names" for t'
      using that Cons.prems(1,3) by auto
  qed (use Cons.prems in auto)
  moreover have "hit names f ?xs = hit (t # names) f xs"
    using Cons.prems(1) unfolding upd hit_def by auto
  moreover have "op t (at c xs) = (Inr (), at c ?xs)" using Cons.prems(4) tb by simp
  ultimately show ?case by (simp add: and_then_Inr)
qed

lemma hit_hit [simp]: "hit names f (hit names g xs) = hit names (f \<circ> g) xs"
  by (auto simp: hit_def)

lemma hit_same [simp]: "hit names (\<lambda>tb. tb) xs = xs"
  by (simp add: hit_def case_prod_beta)

definition with_rls :: "bool \<Rightarrow> pg_table \<Rightarrow> pg_table" where
  "with_rls on tb = tb\<lparr>tb_rls := on\<rparr>"

definition barred :: "string \<Rightarrow> pg_table \<Rightarrow> pg_table" where
  "barred r tb = tb\<lparr>tb_acl := Set.filter (\<lambda>(g, p). g \<noteq> Role r) (tb_acl tb)\<rparr>"

definition undefault :: "string \<Rightarrow> catalog \<Rightarrow> catalog" where
  "undefault r c = c\<lparr>default_acl :=
     Set.filter (\<lambda>(creator, sc, g, p). \<not> (creator = me c \<and> sc = Some ''public'' \<and> g = Role r)) (default_acl c)\<rparr>"

lemma set_rls_at:
  assumes "able c" "t \<in> set LOCKED_TABLES" "map_of xs (''public'', t) = Some tb" "tb_owner tb = me c"
  shows "set_rls_if_exists on t (at c xs) = (Inr (), at c (AList.update (''public'', t) (with_rls on tb) xs))"
  using assms put_at [OF assms(1,2)]
  by (simp add: set_rls_if_exists_def able_fresh with_rls_def)

lemma revoke_all_at:
  assumes "able c" "t \<in> set LOCKED_TABLES" "map_of xs (''public'', t) = Some tb" "tb_owner tb = me c"
    "dict_get (roles c) r \<noteq> None"
  shows "revoke_all_on t r (at c xs) = (Inr (), at c (AList.update (''public'', t) (barred r tb) xs))"
  using assms put_at [OF assms(1,2)]
  by (simp add: revoke_all_on_def change_acl_def able_fresh barred_def)

text \<open>The service's tables, all there and owned by the migration credential.\<close>

definition complete :: "catalog \<Rightarrow> ((string \<times> string) \<times> pg_table) list \<Rightarrow> bool" where
  "complete c xs \<longleftrightarrow> distinct (map fst xs) \<and>
     (\<forall>t \<in> set LOCKED_TABLES. \<exists>tb. map_of xs (''public'', t) = Some tb \<and> tb_owner tb = me c)"

lemma complete_hit: "complete c xs \<Longrightarrow> (\<And>tb. tb_owner (f tb) = tb_owner tb) \<Longrightarrow> complete c (hit names f xs)"
  unfolding complete_def hit_lookup by fastforce

lemma complete_cong: "me c' = me c \<Longrightarrow> complete c' = complete c"
  by (simp add: complete_def fun_eq_iff)

lemma distinct_tables: "distinct LOCKED_TABLES" "distinct SERVICE_TABLES" "set SERVICE_TABLES \<subseteq> set LOCKED_TABLES"
  by (simp_all add: LOCKED_TABLES_def SERVICE_TABLES_def)

lemma on_postgres_at: "able c \<Longrightarrow> on_postgres m (at c xs) = m (at c xs)"
  by (simp add: on_postgres_def able_def)

lemma run_rls:
  assumes "able c" "complete c xs"
  shows "for_each (set_rls_if_exists on) LOCKED_TABLES (at c xs) = (Inr (), at c (hit LOCKED_TABLES (with_rls on) xs))"
  by (rule for_each_table [where ok = "\<lambda>tb. tb_owner tb = me c"])
    (use assms distinct_tables in \<open>auto simp: complete_def set_rls_at\<close>)

lemma run_lock_out:
  assumes "able c" "complete c xs"
  shows "lock_out r (at c xs) = (if dict_get (roles c) r = None then (Inr (), at c xs)
    else (Inr (), at (undefault r c) (hit LOCKED_TABLES (barred r) xs)))"
proof (cases "dict_get (roles c) r = None")
  case False
  have "for_each (\<lambda>t. revoke_all_on t r) LOCKED_TABLES (at c xs) = (Inr (), at c (hit LOCKED_TABLES (barred r) xs))"
    by (rule for_each_table [where ok = "\<lambda>tb. tb_owner tb = me c"])
      (use assms distinct_tables False in \<open>auto simp: complete_def revoke_all_at\<close>)
  moreover have "revoke_default ''public'' r (at c ys) = (Inr (), at (undefault r c) ys)" for ys
    using False by (simp add: revoke_default_def) (simp add: at_def undefault_def)
  ultimately show ?thesis using False by (auto simp: lock_out_def and_then_done)
qed (simp add: lock_out_def)

lemma undefault_simps [simp]:
  "me (undefault r c) = me c" "roles (undefault r c) = roles c" "schemas (undefault r c) = schemas c"
  "tables (undefault r c) = tables c" "routines (undefault r c) = routines c" "dialect (undefault r c) = dialect c"
  "version_num (undefault r c) = version_num c" "path (undefault r c) = path c"
  by (simp_all add: undefault_def)

lemma able_cong:
  "dialect c' = dialect c \<Longrightarrow> me c' = me c \<Longrightarrow> roles c' = roles c \<Longrightarrow> schemas c' = schemas c \<Longrightarrow> tables c' = tables c \<Longrightarrow>
     able c' = able c"
  by (simp add: able_def may_create_roles_def)

lemma able_undefault [simp]: "able (undefault r c) = able c" "complete (undefault r c) xs = complete c xs"
  by (rule able_cong) (simp_all add: complete_def)

text \<open>The roles of the web that there are lose what they have, and what they would be given.\<close>

definition web_roles :: "catalog \<Rightarrow> string list" where
  "web_roles c = filter (\<lambda>r. dict_get (roles c) r \<noteq> None) WEB_ROLES"

definition closed :: "catalog \<Rightarrow> pg_table \<Rightarrow> pg_table" where
  "closed c tb = fold barred (web_roles c) (with_rls True tb)"

definition after_0004 :: "catalog \<Rightarrow> catalog" where
  "after_0004 c = fold undefault (web_roles c) c"

lemma run_0004:
  assumes "able c" "complete c xs"
  shows "upgrade_0004 (at c xs) = (Inr (), at (after_0004 c) (hit LOCKED_TABLES (closed c) xs))"
proof -
  have owners: "tb_owner (with_rls on tb) = tb_owner tb" "tb_owner (barred r tb) = tb_owner tb" for on r tb
    by (simp_all add: with_rls_def barred_def)
  let ?ys = "hit LOCKED_TABLES (with_rls True) xs"
  have ys: "complete c ?ys" by (intro complete_hit assms(2) owners)
  have zs: "complete c (hit LOCKED_TABLES (barred r) ?ys)" for r by (intro complete_hit ys owners)
  show ?thesis
    using run_lock_out [OF assms(1) ys, of "''anon''"] run_lock_out [OF assms(1) ys, of "''authenticated''"]
      run_lock_out [of "undefault ''anon'' c" "hit LOCKED_TABLES (barred ''anon'') ?ys" "''authenticated''"]
      assms(1) zs
    by (auto simp: upgrade_0004_def on_postgres_at [OF assms(1)] run_rls [OF assms] WEB_ROLES_def
        web_roles_def closed_def [abs_def] after_0004_def and_then_def comp_def split: if_splits)
qed

section \<open>0005 to 0007\<close>

definition admitted :: "pg_table \<Rightarrow> pg_table" where
  "admitted tb = tb\<lparr>tb_acl := tb_acl tb \<union> (\<lambda>p. (Role APP_ROLE, p)) ` {SELECT, INSERT, UPDATE, DELETE},
     tb_policies := AList.update POLICY (Role APP_ROLE) (AList.delete POLICY (tb_policies tb))\<rparr>"

definition app_attributes :: "catalog \<Rightarrow> pg_role" where
  "app_attributes c = (case dict_get (roles c) APP_ROLE of None \<Rightarrow> plain_role | Some a \<Rightarrow> a)"

definition public_schema :: "catalog \<Rightarrow> pg_schema" where
  "public_schema c = the (dict_get (schemas c) ''public'')"

definition after_0005 :: "catalog \<Rightarrow> catalog" where
  "after_0005 c = c
     \<lparr>roles := AList.update APP_ROLE (app_attributes c) (roles c),
      schemas := AList.update ''public''
        ((public_schema c)\<lparr>schema_usage := insert (Role APP_ROLE) (schema_usage (public_schema c))\<rparr>) (schemas c)\<rparr>"

lemma able_rights:
  assumes "able c"
  shows "dialect c = ''postgresql''" "may_create_roles c (me c)"
    "dict_get (schemas c) ''public'' = Some (public_schema c)" "schema_owner (public_schema c) = me c"
  using assms by (auto simp: able_def public_schema_def)

lemma after_0005_simps [simp]:
  "me (after_0005 c) = me c" "tables (after_0005 c) = tables c" "dialect (after_0005 c) = dialect c"
  "routines (after_0005 c) = routines c" "default_acl (after_0005 c) = default_acl c"
  "version_num (after_0005 c) = version_num c" "path (after_0005 c) = path c"
  by (simp_all add: after_0005_def)

lemma able_after_0005: "able c \<Longrightarrow> able (after_0005 c)"
  by (auto simp: able_def after_0005_def public_schema_def may_create_roles_def app_attributes_def split: option.splits)

lemma admit_at:
  assumes "able c" "dict_get (roles c) APP_ROLE \<noteq> None"
    and "t \<in> set LOCKED_TABLES" "map_of xs (''public'', t) = Some tb" "tb_owner tb = me c"
  shows "and_then (grant_on {SELECT, INSERT, UPDATE, DELETE} t APP_ROLE) (\<lambda>_.
      and_then (drop_policy_if_exists POLICY t) (\<lambda>_. create_policy POLICY t APP_ROLE)) (at c xs) =
    (Inr (), at c (AList.update (''public'', t) (admitted tb) xs))"
proof -
  let ?g = "tb\<lparr>tb_acl := tb_acl tb \<union> (\<lambda>p. (Role APP_ROLE, p)) ` {SELECT, INSERT, UPDATE, DELETE}\<rparr>"
  let ?d = "?g\<lparr>tb_policies := AList.delete POLICY (tb_policies tb)\<rparr>"
  let ?put = "\<lambda>v ys. AList.update (''public'', t) v ys"
  have "grant_on {SELECT, INSERT, UPDATE, DELETE} t APP_ROLE (at c xs) = (Inr (), at c (?put ?g xs))"
    using assms put_at [OF assms(1,3)] by (simp add: grant_on_def change_acl_def able_fresh)
  moreover have "drop_policy_if_exists POLICY t (at c (?put ?g xs)) = (Inr (), at c (?put ?d xs))"
    using assms put_at [OF assms(1,3)] by (simp add: drop_policy_if_exists_def able_fresh)
  moreover have "create_policy POLICY t APP_ROLE (at c (?put ?d xs)) = (Inr (), at c (?put (admitted tb) xs))"
    using assms put_at [OF assms(1,3)]
    by (simp add: create_policy_def able_fresh AList.delete_conv' admitted_def)
  ultimately show ?thesis by (simp add: and_then_done)
qed

lemma run_0005:
  assumes "able c" "complete c xs"
  shows "upgrade_0005 (at c xs) = (Inr (), at (after_0005 c) (hit SERVICE_TABLES admitted xs))"
proof -
  note r = able_rights [OF assms(1)]
  let ?c1 = "c\<lparr>roles := AList.update APP_ROLE (app_attributes c) (roles c)\<rparr>"
  have role: "create_role_if_missing APP_ROLE (at c xs) = (Inr (), at ?c1 xs)"
  proof (cases "dict_get (roles c) APP_ROLE")
    case None
    with r show ?thesis
      by (simp add: create_role_if_missing_def app_attributes_def)
  next
    case (Some a)
    with r show ?thesis
      by (simp add: create_role_if_missing_def app_attributes_def update_triv)
  qed
  have usage: "grant_usage ''public'' APP_ROLE (at ?c1 xs) = (Inr (), at (after_0005 c) xs)"
    using r by (simp add: grant_usage_def change_schema_def) (simp add: at_def after_0005_def)
  have "for_each (\<lambda>t. and_then (grant_on {SELECT, INSERT, UPDATE, DELETE} t APP_ROLE) (\<lambda>_.
      and_then (drop_policy_if_exists POLICY t) (\<lambda>_. create_policy POLICY t APP_ROLE))) SERVICE_TABLES (at (after_0005 c) xs) =
      (Inr (), at (after_0005 c) (hit SERVICE_TABLES admitted xs))"
  proof (rule for_each_table [where ok = "\<lambda>tb. tb_owner tb = me c"])
    have "dict_get (roles (after_0005 c)) APP_ROLE \<noteq> None" by (simp add: after_0005_def)
    then show "and_then (grant_on {SELECT, INSERT, UPDATE, DELETE} t APP_ROLE) (\<lambda>_.
        and_then (drop_policy_if_exists POLICY t) (\<lambda>_. create_policy POLICY t APP_ROLE)) (at (after_0005 c) ys) =
        (Inr (), at (after_0005 c) (AList.update (''public'', t) (admitted tb) ys))"
      if "t \<in> set SERVICE_TABLES" "map_of ys (''public'', t) = Some tb" "tb_owner tb = me c" for t ys tb
      using that distinct_tables(3) by (intro admit_at able_after_0005 assms(1)) auto
  qed (use assms(2) distinct_tables in \<open>auto simp: complete_def\<close>)
  then show ?thesis
    using role usage by (simp add: upgrade_0005_def on_postgres_at [OF assms(1)] and_then_done)
qed

text \<open>Nothing of \<open>app_private\<close> is there yet.\<close>

definition no_private :: "catalog \<Rightarrow> bool" where
  "no_private c \<longleftrightarrow> dict_get (schemas c) PRIVATE_SCHEMA = None \<and> dict_get (routines c) MISSING_ACCOUNTS = None"

definition after_0006 :: "catalog \<Rightarrow> catalog" where
  "after_0006 c = c
     \<lparr>schemas := schemas c @ [(PRIVATE_SCHEMA, \<lparr>schema_owner = me c, schema_usage = {Role APP_ROLE}, schema_create = {}\<rparr>)],
      routines := routines c @ [(MISSING_ACCOUNTS,
        \<lparr>fn_owner = me c, fn_execute = {Role APP_ROLE}, fn_definer = True, fn_path = Some []\<rparr>)]\<rparr>"

lemma able_after_0006: "able c \<Longrightarrow> able (after_0006 c)"
  by (auto simp: able_def after_0006_def may_create_roles_def map_of_append map_add_def PRIVATE_SCHEMA_def)

lemma update_at_end: "map_of d k = None \<Longrightarrow> AList.update k v (d @ [(k, w)]) = d @ [(k, v)]"
  by (simp add: update_tail)

lemma run_0006:
  assumes "able c" "no_private c" "dict_get (roles c) APP_ROLE \<noteq> None"
  shows "upgrade_0006 (at c xs) = (Inr (), at (after_0006 c) xs)"
proof -
  let ?sc = "\<lambda>us. schemas c @ [(PRIVATE_SCHEMA, \<lparr>schema_owner = me c, schema_usage = us, schema_create = {}\<rparr>)]"
  let ?fn = "\<lambda>gs. routines c @ [(MISSING_ACCOUNTS, \<lparr>fn_owner = me c, fn_execute = gs, fn_definer = True, fn_path = Some []\<rparr>)]"
  let ?at = "\<lambda>us gs. at (c\<lparr>schemas := ?sc us, routines := ?fn gs\<rparr>) xs"
  note none = assms(2) [unfolded no_private_def]
  have fn: "fst MISSING_ACCOUNTS = PRIVATE_SCHEMA" by (simp add: MISSING_ACCOUNTS_def)
  have 1: "create_schema_if_missing PRIVATE_SCHEMA (at c xs) = (Inr (), at (c\<lparr>schemas := ?sc {}\<rparr>) xs)"
    using none by (simp add: create_schema_if_missing_def at_def update_absent)
  have 2: "revoke_schema_from_public PRIVATE_SCHEMA (at (c\<lparr>schemas := ?sc {}\<rparr>) xs) = (Inr (), at (c\<lparr>schemas := ?sc {}\<rparr>) xs)"
    using none by (simp add: revoke_schema_from_public_def change_schema_def update_at_end)
  have 3: "create_or_replace_function MISSING_ACCOUNTS True (Some []) (at (c\<lparr>schemas := ?sc {}\<rparr>) xs) = (Inr (), ?at {} {Public})"
    using none by (simp add: create_or_replace_function_def fn may_create_in_def update_absent)
  have 4: "revoke_function_from_public MISSING_ACCOUNTS (?at {} {Public}) = (Inr (), ?at {} {})"
    using none by (simp add: revoke_function_from_public_def change_function_def update_at_end)
  have 5: "grant_usage PRIVATE_SCHEMA APP_ROLE (?at {} {}) = (Inr (), ?at {Role APP_ROLE} {})"
    using none assms(3) by (simp add: grant_usage_def change_schema_def update_at_end)
  have 6: "grant_execute MISSING_ACCOUNTS APP_ROLE (?at {Role APP_ROLE} {}) = (Inr (), at (after_0006 c) xs)"
    using none assms(3) by (simp add: grant_execute_def change_function_def update_at_end) (simp add: at_def after_0006_def)
  show ?thesis
    using 1 2 3 4 5 6 by (simp add: upgrade_0006_def on_postgres_at [OF assms(1)] and_then_done)
qed

definition after_0007 :: "catalog \<Rightarrow> catalog" where
  "after_0007 c = c\<lparr>roles := AList.update APP_ROLE ((app_attributes c)\<lparr>role_path := Some [''public'']\<rparr>) (roles c)\<rparr>"

lemma run_0007:
  assumes "able c" "dict_get (roles c) APP_ROLE \<noteq> None"
  shows "upgrade_0007 (at c xs) = (Inr (), at (after_0007 c) xs)"
proof -
  obtain a where a: "dict_get (roles c) APP_ROLE = Some a" using assms(2) by blast
  have "may_create_roles c (me c)" using assms(1) by (simp add: able_def)
  then have "alter_role_path APP_ROLE (Some [''public'']) (at c xs) =
      (Inr (), (at c xs)\<lparr>roles := AList.update APP_ROLE (a\<lparr>role_path := Some [''public'']\<rparr>) (roles c)\<rparr>)"
    using a by (simp add: alter_role_path_def)
  also have "\<dots> = (Inr (), at (after_0007 c) xs)"
    using a by (simp add: at_def after_0007_def app_attributes_def)
  finally show ?thesis
    by (simp add: upgrade_0007_def on_postgres_at [OF assms(1)])
qed

section \<open>The whole upgrade\<close>

text \<open>A database on which no migration has run.\<close>

definition fresh :: "catalog \<Rightarrow> bool" where
  "fresh c \<longleftrightarrow> able c \<and> no_private c \<and> dict_get (version_num c) ''public'' = None"

definition stamped :: "string \<Rightarrow> catalog \<Rightarrow> catalog" where
  "stamped v c = c\<lparr>version_num := AList.update ''public'' v (version_num c)\<rparr>"

lemma stamped_simps [simp]:
  "me (stamped v c) = me c" "tables (stamped v c) = tables c" "dialect (stamped v c) = dialect c"
  "routines (stamped v c) = routines c" "default_acl (stamped v c) = default_acl c" "roles (stamped v c) = roles c"
  "schemas (stamped v c) = schemas c" "path (stamped v c) = path c"
  "born (stamped v c) td = born c td" "able (stamped v c) = able c" "complete (stamped v c) = complete c"
  "no_private (stamped v c) = no_private c" "stamped v (stamped w c) = stamped v c"
  "web_roles (stamped v c) = web_roles c" "closed (stamped v c) = closed c"
proof -
  show "stamped v (stamped w c) = stamped v c" by (simp add: stamped_def)
  show "able (stamped v c) = able c" by (rule able_cong) (simp_all add: stamped_def)
qed (simp_all add: stamped_def born_def born_acl_def complete_def fun_eq_iff no_private_def web_roles_def closed_def)

definition tables_0003 :: "pg_table \<Rightarrow> catalog \<Rightarrow> ((string \<times> string) \<times> pg_table) list" where
  "tables_0003 vt c = [recorded_in vt, born c subscriptions_0002, born c processed_events_table, born c usage_0001,
     born c grants_0001, born c audit_0001, born c inquiries_0003]"

lemma complete_0003:
  assumes "tb_owner vt = me c"
  shows "complete c (tables_0003 vt c)"
  unfolding complete_def
proof
  show "distinct (map fst (tables_0003 vt c))"
    by (simp add: tables_0003_def subscriptions_0002_def subscriptions_0001_def usage_0001_def grants_0001_def audit_0001_def inquiries_0003_def)
  show "\<forall>t \<in> set LOCKED_TABLES. \<exists>tb. map_of (tables_0003 vt c) (''public'', t) = Some tb \<and> tb_owner tb = me c"
    using assms by (simp add: LOCKED_TABLES_def tables_0003_def subscriptions_0002_def subscriptions_0001_def usage_0001_def grants_0001_def
        audit_0001_def inquiries_0003_def)
qed

lemma run_revision_at:
  assumes "rev_upgrade r (at c xs) = (Inr (), at c' ys)"
  shows "run_revision ''public'' r (at c xs) = (Inr (), at (stamped (rev_id r) c') ys)"
  using assms by (simp add: run_revision_def and_then_done) (simp add: at_def stamped_def)

definition head_tables :: "pg_table \<Rightarrow> catalog \<Rightarrow> ((string \<times> string) \<times> pg_table) list" where
  "head_tables vt c = hit SERVICE_TABLES admitted (hit LOCKED_TABLES (closed c) (tables_0003 vt c))"

definition upgraded :: "catalog \<Rightarrow> catalog" where
  "upgraded c = stamped ''0007'' (after_0007 (after_0006 (after_0005 (after_0004 c))))"

lemma fold_undefault: "stamped v (fold undefault rs c) = fold undefault rs (stamped v c)"
proof -
  have "undefault r (stamped v c) = stamped v (undefault r c)" for r c
    by (cases c) (simp add: undefault_def stamped_def)
  then show ?thesis by (induction rs arbitrary: c) simp_all
qed

lemma after_0004_simps [simp]:
  "me (after_0004 c) = me c" "tables (after_0004 c) = tables c" "dialect (after_0004 c) = dialect c"
  "routines (after_0004 c) = routines c" "roles (after_0004 c) = roles c" "schemas (after_0004 c) = schemas c"
  "path (after_0004 c) = path c" "version_num (after_0004 c) = version_num c"
proof -
  have f: "me (fold undefault rs c) = me c \<and> tables (fold undefault rs c) = tables c \<and> dialect (fold undefault rs c) = dialect c \<and>
      routines (fold undefault rs c) = routines c \<and> roles (fold undefault rs c) = roles c \<and> schemas (fold undefault rs c) = schemas c \<and>
      path (fold undefault rs c) = path c \<and> version_num (fold undefault rs c) = version_num c" for rs
    by (induction rs arbitrary: c) simp_all
  show "me (after_0004 c) = me c" "tables (after_0004 c) = tables c" "dialect (after_0004 c) = dialect c"
    "routines (after_0004 c) = routines c" "roles (after_0004 c) = roles c" "schemas (after_0004 c) = schemas c"
    "path (after_0004 c) = path c" "version_num (after_0004 c) = version_num c"
    using f by (simp_all add: after_0004_def)
qed

lemma stamped_later:
  "after_0004 (stamped v c) = stamped v (after_0004 c)" "after_0005 (stamped v c) = stamped v (after_0005 c)"
  "after_0006 (stamped v c) = stamped v (after_0006 c)" "after_0007 (stamped v c) = stamped v (after_0007 c)"
  by (simp add: after_0004_def fold_undefault)
    (cases c; simp add: stamped_def after_0005_def after_0006_def after_0007_def public_schema_def app_attributes_def)+

lemma revisions_in_order:
  "revisions_after (length REVISIONS) None = REVISIONS"
  by (simp add: REVISIONS_def eval_nat_numeral)

text \<open>All revisions in order, on a database that has the version table and nothing of the service's.\<close>

lemma run_revisions:
  assumes able: "able c" and hidden: "no_private c" and owned: "tb_owner vt = me c"
  shows "for_each (run_revision ''public'') REVISIONS (at c [recorded_in vt]) = (Inr (), at (upgraded c) (head_tables vt c))"
proof -
  let ?c4 = "after_0004 (stamped ''0003'' c)"
  let ?c5 = "after_0005 (stamped ''0004'' ?c4)"
  let ?c6 = "after_0006 (stamped ''0005'' ?c5)"
  let ?c7 = "after_0007 (stamped ''0006'' ?c6)"
  let ?x4 = "hit LOCKED_TABLES (closed c) (tables_0003 vt c)"
  have able4: "able ?c4" by (rule able_cong [THEN iffD2, OF _ _ _ _ _ able]) simp_all
  have able5: "able ?c5" using able_after_0005 [of "stamped ''0004'' ?c4"] able4 by simp
  have able6: "able ?c6" using able_after_0006 [of "stamped ''0005'' ?c5"] able5 by simp
  have complete4: "complete c ?x4"
  proof (rule complete_hit [OF complete_0003 [OF owned]])
    have "tb_owner (fold barred rs tb) = tb_owner tb" for rs tb
      by (induction rs arbitrary: tb) (simp_all add: barred_def)
    then show "tb_owner (closed c tb) = tb_owner tb" for tb
      by (simp add: closed_def with_rls_def)
  qed
  have hidden5: "no_private ?c5"
    using hidden by (simp add: no_private_def after_0005_def PRIVATE_SCHEMA_def)
  have role5: "dict_get (roles ?c5) APP_ROLE \<noteq> None" by (simp add: after_0005_def)
  have role6: "dict_get (roles ?c6) APP_ROLE \<noteq> None" using role5 by (simp add: after_0006_def)
  have 1: "run_revision ''public'' (REVISIONS ! 0) (at c [recorded_in vt]) =
      (Inr (), at (stamped ''0001'' c) (recorded_in vt # tables_0001 c))"
    using run_revision_at [of "REVISIONS ! 0"] run_0001 [OF able] by (simp add: REVISIONS_def)
  have 2: "run_revision ''public'' (REVISIONS ! 1) (at (stamped ''0001'' c) (recorded_in vt # tables_0001 c)) =
      (Inr (), at (stamped ''0002'' c) (butlast (tables_0003 vt c)))"
    using run_revision_at [of "REVISIONS ! 1"] run_0002 [of "stamped ''0001'' c" vt "tl (tables_0001 c)"] able
    by (simp add: REVISIONS_def tables_0001_def tables_0003_def)
  have 3: "run_revision ''public'' (REVISIONS ! 2) (at (stamped ''0002'' c) (butlast (tables_0003 vt c))) =
      (Inr (), at (stamped ''0003'' c) (tables_0003 vt c))"
    using run_revision_at [of "REVISIONS ! 2"] run_0003 [of "stamped ''0002'' c" "butlast (tables_0003 vt c)"] able
    by (simp add: REVISIONS_def tables_0003_def subscriptions_0002_def subscriptions_0001_def usage_0001_def grants_0001_def audit_0001_def)
  have 4: "run_revision ''public'' (REVISIONS ! 3) (at (stamped ''0003'' c) (tables_0003 vt c)) = (Inr (), at (stamped ''0004'' ?c4) ?x4)"
    using run_revision_at [of "REVISIONS ! 3"] run_0004 [of "stamped ''0003'' c" "tables_0003 vt c"] able complete_0003 [OF owned]
    by (simp add: REVISIONS_def)
  have 5: "run_revision ''public'' (REVISIONS ! 4) (at (stamped ''0004'' ?c4) ?x4) = (Inr (), at (stamped ''0005'' ?c5) (head_tables vt c))"
    using run_revision_at [of "REVISIONS ! 4"] run_0005 [of "stamped ''0004'' ?c4" ?x4] able4 complete4
      complete_cong [of "stamped ''0004'' ?c4" c]
    by (simp add: REVISIONS_def head_tables_def)
  have 6: "run_revision ''public'' (REVISIONS ! 5) (at (stamped ''0005'' ?c5) (head_tables vt c)) = (Inr (), at (stamped ''0006'' ?c6) (head_tables vt c))"
    using run_revision_at [of "REVISIONS ! 5"] run_0006 [of "stamped ''0005'' ?c5" "head_tables vt c"] able5 hidden5 role5
    by (simp add: REVISIONS_def)
  have 7: "run_revision ''public'' (REVISIONS ! 6) (at (stamped ''0006'' ?c6) (head_tables vt c)) = (Inr (), at (stamped ''0007'' ?c7) (head_tables vt c))"
    using run_revision_at [of "REVISIONS ! 6"] run_0007 [of "stamped ''0006'' ?c6" "head_tables vt c"] able6 role6
    by (simp add: REVISIONS_def)
  have all: "REVISIONS = [REVISIONS ! 0, REVISIONS ! 1, REVISIONS ! 2, REVISIONS ! 3, REVISIONS ! 4, REVISIONS ! 5, REVISIONS ! 6]"
    by (simp add: REVISIONS_def)
  have "for_each (run_revision ''public'') REVISIONS (at c [recorded_in vt]) = (Inr (), at (stamped ''0007'' ?c7) (head_tables vt c))"
    by (subst all) (simp add: and_then_done 1 2 3 4 5 6 7 del: One_nat_def)
  moreover have "stamped ''0007'' ?c7 = upgraded c"
    by (simp add: upgraded_def stamped_later)
  ultimately show ?thesis by simp
qed

definition at_head :: "pg_table \<Rightarrow> catalog \<Rightarrow> catalog" where
  "at_head vt c = (upgraded c)\<lparr>tables := tables c @ head_tables vt c\<rparr>"

definition new_version_table :: "catalog \<Rightarrow> pg_table" where
  "new_version_table c = snd (born c version_table)"

lemma upgraded_simps [simp]:
  "path (upgraded c) = path c" "tables (upgraded c) = tables c" "me (upgraded c) = me c" "dialect (upgraded c) = dialect c"
  by (simp_all add: upgraded_def after_0007_def after_0006_def)

lemma run_in_transaction:
  assumes "dialect c = ''postgresql''" "run_migrations command (Some ''public'') (at d xs) = (Inr (), at e ys)"
    "c\<lparr>path := [''public'']\<rparr> = at d xs" "path c = path e"
  shows "do_run_migrations command c = (Inr (), e\<lparr>tables := tables e @ ys\<rparr>)"
proof -
  have "(at e ys)\<lparr>path := path e\<rparr> = e\<lparr>tables := tables e @ ys\<rparr>"
    by (cases e) (simp add: at_def)
  with assms show ?thesis
    by (simp add: do_run_migrations_def in_transaction_def set_local_path_def SCHEMA_def)
qed

text \<open>Migrating a fresh database succeeds, and this is what it makes.\<close>

lemma migrates:
  assumes "fresh c"
  shows "alembic_upgrade c = (Inr (), at_head (new_version_table c) c)"
proof -
  have able: "able c" and hidden: "no_private c" and none: "map_of (version_num c) ''public'' = None"
    using assms by (simp_all add: fresh_def)
  have "born c version_table = recorded_in (new_version_table c)"
    by (simp add: recorded_in_def new_version_table_def born_def)
  then have "version_schema (Some ''public'') (at c []) = (Inr ''public'', at c [recorded_in (new_version_table c)])"
    using create_table_in_at [of c version_table "[]"] able
    by (simp add: version_schema_def able_fresh and_then_done)
  moreover have "for_each (run_revision ''public'') REVISIONS (at c [recorded_in (new_version_table c)]) =
      (Inr (), at (upgraded c) (head_tables (new_version_table c) c))"
    by (rule run_revisions [OF able hidden]) (simp add: new_version_table_def)
  ultimately have "run_migrations upgrade_head (Some ''public'') (at c []) = (Inr (), at (upgraded c) (head_tables (new_version_table c) c))"
    using none by (simp add: run_migrations_def upgrade_head_def and_then_Inr revisions_in_order)
  from run_in_transaction [OF able_rights(1) [OF able] this] show ?thesis
    by (simp add: at_head_def at_def)
qed

end
