(* ===== verification/Declared.thy ===== *)
theory Declared
  imports Migration_Facts Models
begin

text \<open>
  The columns \<open>app/models.py\<close> declares, as \<open>Base.metadata\<close> holds them; and that the migrations, the
  declarations and the constraints the session's flush checks (\<open>Models.unique_rows\<close>) agree.
\<close>

section \<open>The declarations\<close>

definition uuid_key :: "string \<Rightarrow> column" where
  "uuid_key n = primary (col n (String 36))"

definition created_now :: "string \<Rightarrow> column" where
  "created_now n = defaults_to ''now()'' (not_null (col n DateTime_tz))"

definition Subscription_table :: table_def where
  "Subscription_table = \<lparr>tbl_name = ''subscriptions'',
     tbl_columns =
       [uuid_key ''id'', not_null (col ''user_id'' (String 64)),
        not_null (col ''tier'' (String 32)), not_null (col ''status'' (String 32)),
        col ''stripe_customer_id'' (String 64), col ''stripe_subscription_id'' (String 64),
        col ''stripe_price_id'' (String 64), col ''billing_interval'' (String 16),
        col ''current_period_start'' DateTime_tz, col ''current_period_end'' DateTime_tz,
        not_null (col ''cancel_at_period_end'' Boolean), col ''trial_end'' DateTime_tz,
        col ''past_due_since'' DateTime_tz, col ''disputed_at'' DateTime_tz, col ''discount'' JSONType,
        created_now ''created_at'', created_now ''updated_at''],
     tbl_uniques = [(None, [''user_id'']), (None, [''stripe_subscription_id''])],
     tbl_indexes = [\<lparr>ix_name = ''ix_subscriptions_stripe_customer_id'', ix_columns = [''stripe_customer_id''], ix_unique = True\<rparr>]\<rparr>"

definition ProcessedEvent_table :: table_def where
  "ProcessedEvent_table = \<lparr>tbl_name = ''processed_events'',
     tbl_columns =
       [primary (col ''event_id'' (String 64)), not_null (col ''event_type'' (String 64)),
        not_null (col ''status'' (String 16)), col ''error'' Text, created_now ''received_at'',
        col ''completed_at'' DateTime_tz],
     tbl_uniques = [], tbl_indexes = []\<rparr>"

definition UsageCounter_table :: table_def where
  "UsageCounter_table = \<lparr>tbl_name = ''usage_counters'',
     tbl_columns =
       [uuid_key ''id'', not_null (col ''user_id'' (String 64)), not_null (col ''key'' (String 64)),
        not_null (col ''window_start'' DateTime_tz), not_null (col ''window_end'' DateTime_tz),
        not_null (col ''count'' Integer)],
     tbl_uniques = [(Some ''uq_usage_window'', [''user_id'', ''key'', ''window_start''])],
     tbl_indexes = [\<lparr>ix_name = ''ix_usage_user_key'', ix_columns = [''user_id'', ''key''], ix_unique = False\<rparr>]\<rparr>"

definition EntitlementGrant_table :: table_def where
  "EntitlementGrant_table = \<lparr>tbl_name = ''entitlement_grants'',
     tbl_columns =
       [uuid_key ''id'', not_null (col ''user_id'' (String 64)), not_null (col ''tier'' (String 32)),
        col ''expires_at'' DateTime_tz, not_null (col ''reason'' Text), not_null (col ''created_by'' (String 64)),
        created_now ''created_at'', col ''revoked_at'' DateTime_tz],
     tbl_uniques = [],
     tbl_indexes = [\<lparr>ix_name = ''ix_grants_user_active'', ix_columns = [''user_id'', ''revoked_at''], ix_unique = False\<rparr>]\<rparr>"

definition SalesInquiry_table :: table_def where
  "SalesInquiry_table = \<lparr>tbl_name = ''sales_inquiries'',
     tbl_columns =
       [uuid_key ''id'', col ''user_id'' (String 64), not_null (col ''email'' (String 320)),
        col ''company'' (String 200), col ''seats'' Integer, col ''message'' (String 2000),
        not_null (col ''source'' (String 32)), col ''current_tier'' (String 32),
        col ''handled_at'' DateTime_tz, created_now ''created_at''],
     tbl_uniques = [],
     tbl_indexes =
       [\<lparr>ix_name = ''ix_sales_inquiry_created'', ix_columns = [''created_at''], ix_unique = False\<rparr>,
        \<lparr>ix_name = ''ix_sales_inquiries_user_id'', ix_columns = [''user_id''], ix_unique = False\<rparr>]\<rparr>"

definition SubscriptionAudit_table :: table_def where
  "SubscriptionAudit_table = \<lparr>tbl_name = ''subscription_audit'',
     tbl_columns =
       [uuid_key ''id'', not_null (col ''user_id'' (String 64)),
        col ''from_tier'' (String 32), col ''to_tier'' (String 32),
        col ''from_status'' (String 32), col ''to_status'' (String 32),
        not_null (col ''reason'' (String 128)), col ''stripe_event_id'' (String 64),
        col ''detail'' JSONType, created_now ''created_at''],
     tbl_uniques = [],
     tbl_indexes = [\<lparr>ix_name = ''ix_audit_user_created'', ix_columns = [''user_id'', ''created_at''], ix_unique = False\<rparr>]\<rparr>"

definition metadata :: "table_def list" where
  "metadata = [Subscription_table, ProcessedEvent_table, UsageCounter_table, EntitlementGrant_table,
     SalesInquiry_table, SubscriptionAudit_table]"

section \<open>The migrated tables are the declared ones\<close>

text \<open>
  A column is as declared if it differs at most by a server default the declaration leaves to
  the client; a table, if it has the declared columns in any order, and the same constraints
  and indexes.
\<close>

definition as_declared_column :: "column \<Rightarrow> column \<Rightarrow> bool" where
  "as_declared_column d m \<longleftrightarrow> m\<lparr>col_default := None\<rparr> = d\<lparr>col_default := None\<rparr> \<and>
     (col_default d = None \<or> col_default m = col_default d)"

definition as_declared :: "table_def \<Rightarrow> table_def \<Rightarrow> bool" where
  "as_declared d m \<longleftrightarrow> tbl_name m = tbl_name d \<and>
     length (tbl_columns m) = length (tbl_columns d) \<and> distinct (map col_name (tbl_columns d)) \<and>
     list_all (\<lambda>cd. list_ex (as_declared_column cd) (tbl_columns m)) (tbl_columns d) \<and>
     set (tbl_uniques m) = set (tbl_uniques d) \<and> set (tbl_indexes m) = set (tbl_indexes d)"

definition migrated :: "table_def list" where
  "migrated = [subscriptions_0002, processed_events_table, usage_0001, grants_0001, inquiries_0003, audit_0001]"

lemmas table_defs = subscriptions_0002_def subscriptions_0001_def usage_0001_def grants_0001_def audit_0001_def inquiries_0003_def
  with_index_def with_column_def subscriptions_table_def processed_events_table_def usage_counters_table_def
  entitlement_grants_table_def subscription_audit_table_def sales_inquiries_table_def
  col_def not_null_def defaults_to_def primary_def

lemmas declared_defs = Subscription_table_def ProcessedEvent_table_def UsageCounter_table_def EntitlementGrant_table_def
  SalesInquiry_table_def SubscriptionAudit_table_def uuid_key_def created_now_def col_def not_null_def defaults_to_def primary_def

lemma migrated_as_declared: "list_all2 as_declared metadata migrated"
  unfolding metadata_def migrated_def
  by (simp add: as_declared_def as_declared_column_def table_defs declared_defs)
    (auto simp: as_declared_column_def)

lemma declared_names: "map tbl_name metadata = map tbl_name migrated"
  by (simp add: metadata_def migrated_def declared_defs table_defs)

section \<open>What a flush checks is what the schema says\<close>

text \<open>
  The rows as cells by column. A column the records do not keep (a surrogate id nobody
  addresses, a JSON column) reads as NULL, which no unique constraint counts.
\<close>

definition opt_stamp :: "stamp option \<Rightarrow> pyval" where
  "opt_stamp s = (case s of None \<Rightarrow> PNone | Some t \<Rightarrow> PStamp t)"

definition subscription_cells :: "subscription \<Rightarrow> payload" where
  "subscription_cells r =
     [(''user_id'', PStr (user_id r)), (''tier'', PStr (tier_col r)), (''status'', PStr (status_col r)),
      (''stripe_customer_id'', opt_str (stripe_customer_id r)), (''stripe_subscription_id'', opt_str (stripe_subscription_id r)),
      (''stripe_price_id'', opt_str (stripe_price_id r)), (''billing_interval'', opt_str (billing_interval_col r)),
      (''current_period_start'', opt_stamp (current_period_start r)), (''current_period_end'', opt_stamp (current_period_end r)),
      (''cancel_at_period_end'', PBool (cancel_at_period_end r)), (''trial_end'', opt_stamp (trial_end r)),
      (''past_due_since'', opt_stamp (past_due_since r)), (''disputed_at'', opt_stamp (disputed_at r))]"

definition event_cells :: "processed_event \<Rightarrow> payload" where
  "event_cells e =
     [(''event_id'', PStr (event_id e)), (''event_type'', PStr (event_type e)), (''status'', PStr (event_status e)),
      (''error'', opt_str (event_error e)), (''received_at'', PStamp (received_at e)),
      (''completed_at'', opt_stamp (completed_at e))]"

definition counter_cells :: "usage_counter \<Rightarrow> payload" where
  "counter_cells c =
     [(''user_id'', PStr (counter_user c)), (''key'', PStr (counter_name c)), (''window_start'', PStamp (window_start c)),
      (''window_end'', PStamp (window_end c)), (''count'', PInt (counter_count c))]"

definition grant_cells :: "entitlement_grant \<Rightarrow> payload" where
  "grant_cells g =
     [(''id'', PStr (grant_id g)), (''user_id'', PStr (grant_user g)), (''tier'', PStr (grant_tier g)),
      (''expires_at'', opt_stamp (expires_at g)), (''reason'', PStr (grant_reason g)), (''created_by'', PStr (created_by g)),
      (''created_at'', PStamp (grant_created_at g)), (''revoked_at'', opt_stamp (revoked_at g))]"

definition inquiry_cells :: "sales_inquiry \<Rightarrow> payload" where
  "inquiry_cells i =
     [(''id'', PStr (inquiry_id i)), (''user_id'', opt_str (inquiry_user i)), (''email'', PStr (inquiry_email i)),
      (''company'', opt_str (inquiry_company i)),
      (''seats'', case inquiry_seats i of None \<Rightarrow> PNone | Some n \<Rightarrow> PInt n),
      (''message'', opt_str (inquiry_message i)), (''source'', PStr (inquiry_source i)),
      (''current_tier'', opt_str (inquiry_current_tier i)), (''handled_at'', opt_stamp (handled_at i)),
      (''created_at'', PStamp (inquiry_created_at i))]"

definition audit_cells :: "audit_row \<Rightarrow> payload" where
  "audit_cells a =
     [(''user_id'', PStr (audit_user a)), (''from_tier'', opt_str (from_tier a)), (''to_tier'', opt_str (to_tier a)),
      (''from_status'', opt_str (from_status a)), (''to_status'', opt_str (to_status a)),
      (''reason'', PStr (audit_reason a)), (''stripe_event_id'', opt_str (audit_event a)),
      (''created_at'', PStamp (audit_created_at a))]"

definition rows_of :: "database \<Rightarrow> (string, payload list) dict" where
  "rows_of db =
     [(''subscriptions'', map subscription_cells (subscriptions db)),
      (''processed_events'', map event_cells (processed_events db)),
      (''usage_counters'', map counter_cells (usage_counters db)),
      (''entitlement_grants'', map grant_cells (entitlement_grants db)),
      (''sales_inquiries'', map inquiry_cells (sales_inquiries db)),
      (''subscription_audit'', map audit_cells (subscription_audit db))]"

definition cell :: "payload \<Rightarrow> string \<Rightarrow> pyval" where
  "cell row n = (case dict_get row n of None \<Rightarrow> PNone | Some v \<Rightarrow> v)"

definition keys_of :: "table_def \<Rightarrow> string list list" where
  "keys_of td = map col_name (filter col_primary (tbl_columns td)) # map snd (tbl_uniques td) @
     map ix_columns (filter ix_unique (tbl_indexes td))"

definition unique_on :: "payload list \<Rightarrow> string list \<Rightarrow> bool" where
  "unique_on rows key = distinct (filter (\<lambda>vs. PNone \<notin> set vs) (map (\<lambda>r. map (cell r) key) rows))"

lemma unique_present:
  assumes "\<And>r. map (cell (cells r)) key = map ((\<lambda>f. f r)) fs" "\<And>r f. f \<in> set fs \<Longrightarrow> f r \<noteq> PNone"
    and "\<And>r r'. map (\<lambda>f. f r) fs = map (\<lambda>f. f r') fs \<longleftrightarrow> g r = g r'"
  shows "unique_on (map cells rows) key \<longleftrightarrow> distinct (map g rows)"
proof -
  have "filter (\<lambda>vs. PNone \<notin> set vs) (map (\<lambda>r. map (cell r) key) (map cells rows)) = map (\<lambda>r. map (\<lambda>f. f r) fs) rows"
  proof (induction rows)
    case (Cons r rows)
    have "PNone \<notin> (\<lambda>f. f r) ` set fs" using assms(2) by (metis (mono_tags, lifting) imageE)
    with Cons show ?case by (simp add: assms(1))
  qed simp
  then show ?thesis
    using assms(3) by (simp add: unique_on_def distinct_map inj_on_def)
qed

lemma unique_optional:
  assumes "\<And>r. cell (cells r) k = opt_str (g r)"
  shows "unique_on (map cells rows) [k] \<longleftrightarrow> distinct (List.map_filter g rows)"
proof -
  have "filter (\<lambda>vs. PNone \<notin> set vs) (map (\<lambda>r. map (cell r) [k]) (map cells rows)) = map (\<lambda>s. [PStr s]) (List.map_filter g rows)"
  proof (induction rows)
    case (Cons r rows)
    then show ?case by (cases "g r") (simp_all add: assms map_filter_simps)
  qed (simp add: map_filter_simps)
  then show ?thesis by (simp add: unique_on_def distinct_map inj_on_def)
qed

lemma unique_absent: "(\<And>r. cell (cells r) k = PNone) \<Longrightarrow> unique_on (map cells rows) [k]"
proof -
  assume "\<And>r. cell (cells r) k = PNone"
  then have "filter (\<lambda>vs. PNone \<notin> set vs) (map (\<lambda>r. map (cell r) [k]) (map cells rows)) = []"
    by (induction rows) simp_all
  then show ?thesis by (simp add: unique_on_def)
qed

lemma keys_migrated:
  "keys_of subscriptions_0002 = [[''id''], [''user_id''], [''stripe_subscription_id''], [''stripe_customer_id'']]"
  "keys_of processed_events_table = [[''event_id'']]"
  "keys_of usage_0001 = [[''id''], [''user_id'', ''key'', ''window_start'']]"
  "keys_of grants_0001 = [[''id'']]" "keys_of inquiries_0003 = [[''id'']]" "keys_of audit_0001 = [[''id'']]"
  by (simp_all add: keys_of_def table_defs)

lemma migrated_names:
  "tbl_name subscriptions_0002 = ''subscriptions''" "tbl_name usage_0001 = ''usage_counters''"
  "tbl_name grants_0001 = ''entitlement_grants''" "tbl_name inquiries_0003 = ''sales_inquiries''"
  "tbl_name audit_0001 = ''subscription_audit''"
  by (simp_all add: subscriptions_0002_def subscriptions_0001_def usage_0001_def grants_0001_def inquiries_0003_def audit_0001_def)

text \<open>
  The unique constraints the session keeps are those of the migrated tables, NULLs being distinct;
  \<open>Flush_Check\<close> has the statement over what \<open>alembic upgrade head\<close> leaves in the catalog.
\<close>

lemma unique_rows_migrated:
  "unique_rows db \<longleftrightarrow>
     list_all (\<lambda>td. list_all (unique_on (the (dict_get (rows_of db) (tbl_name td)))) (keys_of td)) migrated"
proof -
  have subs: "unique_on (map subscription_cells rs) [''id'']"
    "unique_on (map subscription_cells rs) [''user_id''] \<longleftrightarrow> distinct (map user_id rs)"
    "unique_on (map subscription_cells rs) [''stripe_subscription_id''] \<longleftrightarrow> distinct (List.map_filter stripe_subscription_id rs)"
    "unique_on (map subscription_cells rs) [''stripe_customer_id''] \<longleftrightarrow> distinct (List.map_filter stripe_customer_id rs)" for rs
    by (rule unique_absent, simp add: cell_def subscription_cells_def)
      (rule unique_present [where fs = "[\<lambda>r. PStr (user_id r)]"], simp_all add: cell_def subscription_cells_def unique_optional)
  have events: "unique_on (map event_cells rs) [''event_id''] \<longleftrightarrow> distinct (map event_id rs)" for rs
    by (rule unique_present [where fs = "[\<lambda>r. PStr (event_id r)]"]) (simp_all add: cell_def event_cells_def)
  have counters: "unique_on (map counter_cells rs) [''id'']"
    "unique_on (map counter_cells rs) [''user_id'', ''key'', ''window_start''] \<longleftrightarrow>
       distinct (map (\<lambda>c. (counter_user c, counter_name c, window_start c)) rs)" for rs
    by (rule unique_absent, simp add: cell_def counter_cells_def)
      (rule unique_present [where fs = "[\<lambda>c. PStr (counter_user c), \<lambda>c. PStr (counter_name c), \<lambda>c. PStamp (window_start c)]"],
        auto simp: cell_def counter_cells_def)
  have grants: "unique_on (map grant_cells rs) [''id''] \<longleftrightarrow> distinct (map grant_id rs)" for rs
    by (rule unique_present [where fs = "[\<lambda>r. PStr (grant_id r)]"]) (simp_all add: cell_def grant_cells_def)
  have inquiries: "unique_on (map inquiry_cells rs) [''id''] \<longleftrightarrow> distinct (map inquiry_id rs)" for rs
    by (rule unique_present [where fs = "[\<lambda>r. PStr (inquiry_id r)]"]) (simp_all add: cell_def inquiry_cells_def)
  have audit: "unique_on (map audit_cells rs) [''id'']" for rs
    by (rule unique_absent) (simp add: cell_def audit_cells_def)
  show ?thesis
    by (simp add: migrated_def keys_migrated migrated_names rows_of_def subs events counters grants inquiries audit
        unique_rows_def unique_subscriptions_def)
      auto
qed

end
