(* ===== verification/Head_Facts.thy ===== *)
theory Head_Facts
  imports Declared
begin

text \<open>
  What the catalog says after \<open>alembic upgrade head\<close>: the tables, the privileges, the roles and the
  schemas of \<open>at_head\<close>, looked up.
\<close>

section \<open>Tables\<close>

declare map_of_append [simp del]

text \<open>The definition the migrations give a table of the service, and the one it is created with.\<close>

definition head_def :: "string \<Rightarrow> table_def" where
  "head_def t = (case List.find (\<lambda>td. tbl_name td = t) migrated of None \<Rightarrow> version_table | Some td \<Rightarrow> td)"

definition base_table :: "pg_table \<Rightarrow> catalog \<Rightarrow> string \<Rightarrow> pg_table" where
  "base_table vt c t = (if t = ''alembic_version'' then vt else snd (born c (head_def t)))"

lemma migrated_events [simp]: "tbl_name processed_events_table = ''processed_events''"
  by simp

lemma tables_0003_lookup:
  "t \<in> set LOCKED_TABLES \<Longrightarrow> map_of (tables_0003 vt c) (''public'', t) = Some (base_table vt c t)"
  by (auto simp: LOCKED_TABLES_def tables_0003_def base_table_def head_def_def migrated_def migrated_names)

lemma tables_0003_keys: "map fst (tables_0003 vt c) = map (Pair ''public'')
    [''alembic_version'', ''subscriptions'', ''processed_events'', ''usage_counters'', ''entitlement_grants'',
     ''subscription_audit'', ''sales_inquiries'']"
  by (simp add: tables_0003_def migrated_names)

definition head_table :: "pg_table \<Rightarrow> catalog \<Rightarrow> string \<Rightarrow> pg_table" where
  "head_table vt c t = (let tb = closed c (base_table vt c t) in if t \<in> set SERVICE_TABLES then admitted tb else tb)"

lemma head_tables_lookup:
  "t \<in> set LOCKED_TABLES \<Longrightarrow> map_of (head_tables vt c) (''public'', t) = Some (head_table vt c t)"
  by (simp add: head_tables_def hit_lookup tables_0003_lookup head_table_def Let_def)

lemma head_tables_other:
  "rel \<notin> Pair ''public'' ` set LOCKED_TABLES \<Longrightarrow> map_of (head_tables vt c) rel = None"
  unfolding map_of_eq_None_iff
  by (simp add: head_tables_def image_set tables_0003_keys del: set_map) (auto simp: LOCKED_TABLES_def)

lemma head_lookup:
  assumes "able c"
  shows "dict_get (tables (at_head vt c)) rel =
    (if rel \<in> Pair ''public'' ` set LOCKED_TABLES then Some (head_table vt c (snd rel)) else dict_get (tables c) rel)"
proof (cases "rel \<in> Pair ''public'' ` set LOCKED_TABLES")
  case True
  then obtain t where "rel = (''public'', t)" "t \<in> set LOCKED_TABLES" by auto
  with assms show ?thesis by (simp add: at_head_def able_fresh head_tables_lookup)
next
  case False
  then show ?thesis
    by (simp add: at_head_def map_of_append map_add_def head_tables_other split: option.split)
qed

lemma barred_parts [simp]:
  "tb_owner (fold barred rs tb) = tb_owner tb" "tb_def (fold barred rs tb) = tb_def tb"
  "tb_rls (fold barred rs tb) = tb_rls tb" "tb_policies (fold barred rs tb) = tb_policies tb"
  "tb_acl (fold barred rs tb) = {(g, p) \<in> tb_acl tb. g \<notin> Role ` set rs}"
  by (induction rs arbitrary: tb) (auto simp: barred_def)

lemma head_table_parts [simp]:
  "tb_owner (head_table vt c t) = tb_owner (base_table vt c t)" "tb_def (head_table vt c t) = tb_def (base_table vt c t)"
  "tb_rls (head_table vt c t)"
  by (simp_all add: head_table_def closed_def with_rls_def admitted_def Let_def)

lemma head_table_policies:
  "tb_policies (head_table vt c t) = (if t \<in> set SERVICE_TABLES
     then AList.update POLICY (Role APP_ROLE) (AList.delete POLICY (tb_policies (base_table vt c t)))
     else tb_policies (base_table vt c t))"
  by (simp add: head_table_def closed_def with_rls_def admitted_def Let_def)

lemma head_table_acl:
  "tb_acl (head_table vt c t) = {(g, p) \<in> tb_acl (base_table vt c t). g \<notin> Role ` set (web_roles c)} \<union>
     (if t \<in> set SERVICE_TABLES then {(Role APP_ROLE, p) | p. row_privilege p} else {})"
  by (auto simp: head_table_def closed_def with_rls_def admitted_def Let_def row_privilege_def)

lemma new_version_parts [simp]:
  "tb_owner (new_version_table c) = me c" "tb_acl (new_version_table c) = born_acl c ''public''"
  "tb_policies (new_version_table c) = []" "tb_def (new_version_table c) = version_table"
  by (simp_all add: new_version_table_def born_def)

lemma base_table_new [simp]:
  "tb_owner (base_table (new_version_table c) c t) = me c" "tb_acl (base_table (new_version_table c) c t) = born_acl c ''public''"
  "tb_policies (base_table (new_version_table c) c t) = []"
  by (simp_all add: base_table_def born_def)

section \<open>The rest of the catalog\<close>

lemma at_head_simps [simp]:
  "me (at_head vt c) = me c" "path (at_head vt c) = path c" "dialect (at_head vt c) = dialect c"
  by (simp_all add: at_head_def)

lemma head_roles: "roles (at_head vt c) = AList.update APP_ROLE ((app_attributes c)\<lparr>role_path := Some [''public'']\<rparr>) (roles c)"
  by (simp add: at_head_def upgraded_def after_0007_def after_0006_def after_0005_def app_attributes_def)

lemma head_default_acl: "default_acl (at_head vt c) = {(creator, sc, g, p) \<in> default_acl c.
    \<not> (creator = me c \<and> sc = Some ''public'' \<and> g \<in> Role ` set (web_roles c))}"
proof -
  have "default_acl (fold undefault rs c) = {(creator, sc, g, p) \<in> default_acl c.
      \<not> (creator = me c \<and> sc = Some ''public'' \<and> g \<in> Role ` set rs)}" for rs
    by (induction rs arbitrary: c) (auto simp: undefault_def)
  then show ?thesis
    by (simp add: at_head_def upgraded_def after_0007_def after_0006_def after_0004_def)
qed

lemma head_schemas: "schemas (at_head vt c) =
    AList.update ''public'' ((public_schema c)\<lparr>schema_usage := insert (Role APP_ROLE) (schema_usage (public_schema c))\<rparr>) (schemas c) @
      [(PRIVATE_SCHEMA, \<lparr>schema_owner = me c, schema_usage = {Role APP_ROLE}, schema_create = {}\<rparr>)]"
  by (simp add: at_head_def upgraded_def after_0007_def after_0006_def after_0005_def public_schema_def)

lemma head_routines: "routines (at_head vt c) = routines c @ [(MISSING_ACCOUNTS,
    \<lparr>fn_owner = me c, fn_execute = {Role APP_ROLE}, fn_definer = True, fn_path = Some []\<rparr>)]"
  by (simp add: at_head_def upgraded_def after_0007_def after_0006_def)

lemma head_version [simp]: "dict_get (version_num (at_head vt c)) ''public'' = Some ''0007''"
  by (simp add: at_head_def upgraded_def stamped_def)

lemma head_superuser: "is_superuser (at_head vt c) r = is_superuser c r"
  by (auto simp: is_superuser_def head_roles app_attributes_def plain_role_def split: option.splits)

lemma head_bypass: "may_bypass_rls (at_head vt c) r = may_bypass_rls c r"
  by (auto simp: may_bypass_rls_def head_roles app_attributes_def plain_role_def split: option.splits)

lemma fresh_parts:
  assumes "fresh c"
  shows "able c" "dict_get (schemas c) PRIVATE_SCHEMA = None" "dict_get (routines c) MISSING_ACCOUNTS = None"
    "dict_get (version_num c) ''public'' = None"
  using assms by (simp_all add: fresh_def no_private_def)

lemma head_public_usage:
  assumes "fresh c"
  shows "may_use_schema (at_head vt c) r ''public'' \<longleftrightarrow> r = APP_ROLE \<or> may_use_schema c r ''public''"
  using able_rights(3,4) [OF fresh_parts(1) [OF assms]]
  by (auto simp: may_use_schema_def head_schemas head_superuser PRIVATE_SCHEMA_def map_of_append map_add_def)

lemma head_private_usage:
  assumes "fresh c"
  shows "may_use_schema (at_head vt c) r PRIVATE_SCHEMA \<longleftrightarrow> r = APP_ROLE \<or> r = me c \<or> is_superuser c r"
  using fresh_parts(2) [OF assms]
  by (auto simp: may_use_schema_def head_schemas head_superuser PRIVATE_SCHEMA_def map_of_append map_add_def)

lemma head_other_usage:
  assumes "s \<noteq> ''public''" "s \<noteq> PRIVATE_SCHEMA"
  shows "may_use_schema (at_head vt c) r s = may_use_schema c r s"
  using assms by (auto simp: may_use_schema_def head_schemas head_superuser map_of_append map_add_def split: option.splits)

lemma has_privilege_head:
  "has_privilege (at_head vt c) r p tb \<longleftrightarrow> is_superuser c r \<or> tb_owner tb = r \<or> (Public, p) \<in> tb_acl tb \<or> (Role r, p) \<in> tb_acl tb"
  by (simp add: has_privilege_def head_superuser)

text \<open>Migrated again, nothing happens: the version recorded is the last one.\<close>

lemma migrates_again:
  assumes "able c"
  shows "alembic_upgrade (at_head vt c) = (Inr (), at_head vt c)"
proof -
  let ?c = "at_head vt c"
  have none: "revisions_after (length REVISIONS) (Some ''0007'') = []"
    by (simp add: REVISIONS_def eval_nat_numeral)
  have "dialect c = ''postgresql''" using assms by (rule able_rights)
  moreover have "dict_get (tables ?c) (''public'', ''alembic_version'') \<noteq> None"
    by (simp add: head_lookup [OF assms])
  moreover have "?c\<lparr>path := [''public''], path := path c\<rparr> = ?c" by (cases ?c) (use at_head_simps(2) [of vt c] in simp)
  ultimately show ?thesis
    by (auto simp: do_run_migrations_def in_transaction_def set_local_path_def SCHEMA_def run_migrations_def upgrade_head_def version_schema_def
        and_then_def none)
qed

end
