(* ===== verification/Downgrade.thy ===== *)
theory Downgrade
  imports Head_Facts
begin

text \<open>
  The way back: what each \<open>downgrade\<close> of \<open>alembic/versions\<close> undoes, and the catalog a downgrade to the
  base leaves.
\<close>

section \<open>Tables dropped\<close>

lemma drop_table_at:
  assumes "able c" "t \<in> set LOCKED_TABLES" "map_of xs (''public'', t) = Some tb" "tb_owner tb = me c"
  shows "drop_table t (at c xs) = (Inr (), at c (AList.delete (''public'', t) xs))"
  using assms
  by (simp add: drop_table_def find_table_def must_own_def resolve_at able_fresh and_then_def)
    (simp add: at_def delete_tail able_fresh)

definition base_tables :: "catalog \<Rightarrow> ((string \<times> string) \<times> pg_table) list \<Rightarrow> bool" where
  "base_tables c xs \<longleftrightarrow> map fst xs = [(''public'', ''alembic_version''), (''public'', ''subscriptions''),
      (''public'', ''processed_events''), (''public'', ''usage_counters''), (''public'', ''entitlement_grants''),
      (''public'', ''subscription_audit''), (''public'', ''sales_inquiries'')] \<and>
     list_all (\<lambda>(k, tb). tb_owner tb = me c) xs \<and>
     tb_def (snd (xs ! 1)) = subscriptions_0002 \<and> tb_def (snd (xs ! 6)) = inquiries_0003"

lemma undo_0003:
  assumes "able c" "map_of xs (''public'', ''sales_inquiries'') = None" "tb_owner tb = me c" "tb_def tb = inquiries_0003"
  shows "downgrade_0003 (at c (xs @ [((''public'', ''sales_inquiries''), tb)])) = (Inr (), at c xs)"
proof -
  let ?last = "\<lambda>tb. xs @ [((''public'', ''sales_inquiries''), tb)]"
  let ?drop = "\<lambda>i td. td\<lparr>tbl_indexes := filter (\<lambda>x. ix_name x \<noteq> i) (tbl_indexes td)\<rparr>"
  let ?one = "redefine (?drop ''ix_sales_inquiry_created'') tb"
  let ?two = "redefine (?drop ''ix_sales_inquiries_user_id'') ?one"
  have last: "map_of (?last b) (''public'', ''sales_inquiries'') = Some b" for b
    using assms(2) by simp
  have put: "AList.update (''public'', ''sales_inquiries'') b' (?last b) = ?last b'" for b b'
    using assms(2) by (simp add: update_tail)
  have 1: "drop_index ''ix_sales_inquiry_created'' ''sales_inquiries'' (at c (?last tb)) = (Inr (), at c (?last ?one))"
    unfolding drop_index_def using assms put
    by (subst alter_table_at [OF assms(1) _ last]) (simp_all add: inquiries_0003_def with_index_def)
  have "drop_index ''ix_sales_inquiries_user_id'' ''sales_inquiries'' (at c (?last ?one)) = (Inr (), at c (?last ?two))"
    unfolding drop_index_def using assms put
    by (subst alter_table_at [OF assms(1) _ last]) (simp_all add: inquiries_0003_def with_index_def redefine_def)
  moreover have "drop_table ''sales_inquiries'' (at c (?last ?two)) = (Inr (), at c xs)"
    using assms(2,3) by (subst drop_table_at [OF assms(1) _ last]) (simp_all add: redefine_def delete_tail)
  ultimately show ?thesis
    using 1 by (simp add: downgrade_0003_def and_then_done)
qed

lemma undo_0002:
  assumes "able c" "tb_owner tb = me c" "tb_def tb = subscriptions_0002"
  obtains tb' where "tb_owner tb' = me c"
    "downgrade_0002 (at c (recorded_in w # ((''public'', ''subscriptions''), tb) # xs)) =
      (Inr (), at c (recorded_in w # ((''public'', ''subscriptions''), tb') # xs))"
proof
  let ?f = "\<lambda>td. td\<lparr>tbl_columns := filter (\<lambda>c. col_name c \<noteq> ''discount'') (tbl_columns td),
       tbl_uniques := filter (\<lambda>u. ''discount'' \<notin> set (snd u)) (tbl_uniques td),
       tbl_indexes := filter (\<lambda>i. ''discount'' \<notin> set (ix_columns i)) (tbl_indexes td)\<rparr>"
  let ?xs = "recorded_in w # ((''public'', ''subscriptions''), tb) # xs"
  have there: "map_of ?xs (''public'', ''subscriptions'') = Some tb" by simp
  have column: "''discount'' \<in> col_name ` set (tbl_columns subscriptions_0002)"
    by (simp add: subscriptions_0002_def with_column_def col_def)
  show "tb_owner (redefine ?f tb) = me c" using assms(2) by (simp add: redefine_def)
  show "downgrade_0002 (at c ?xs) = (Inr (), at c (recorded_in w # ((''public'', ''subscriptions''), redefine ?f tb) # xs))"
    unfolding downgrade_0002_def drop_column_def using assms column
    by (subst alter_table_at [OF assms(1) _ there, where f = ?f]) (simp_all add: recorded_in_def)
qed

lemma undo_0001:
  assumes "able c" "list_all (\<lambda>tb. tb_owner tb = me c) [s, e, u, g, a]"
  shows "downgrade_0001 (at c [recorded_in w, ((''public'', ''subscriptions''), s), ((''public'', ''processed_events''), e),
      ((''public'', ''usage_counters''), u), ((''public'', ''entitlement_grants''), g), ((''public'', ''subscription_audit''), a)]) =
    (Inr (), at c [recorded_in w])"
  using assms by (simp add: downgrade_0001_def and_then_done drop_table_at recorded_in_def)

section \<open>Privileges taken back\<close>

definition dismissed :: "pg_table \<Rightarrow> pg_table" where
  "dismissed tb = barred APP_ROLE (tb\<lparr>tb_policies := AList.delete POLICY (tb_policies tb)\<rparr>)"

lemma dismiss_at:
  assumes "able c" "dict_get (roles c) APP_ROLE \<noteq> None"
    and "t \<in> set LOCKED_TABLES" "map_of xs (''public'', t) = Some tb" "tb_owner tb = me c"
  shows "and_then (drop_policy_if_exists POLICY t) (\<lambda>_. revoke_all_on t APP_ROLE) (at c xs) =
    (Inr (), at c (AList.update (''public'', t) (dismissed tb) xs))"
proof -
  let ?d = "tb\<lparr>tb_policies := AList.delete POLICY (tb_policies tb)\<rparr>"
  have "drop_policy_if_exists POLICY t (at c xs) = (Inr (), at c (AList.update (''public'', t) ?d xs))"
    using assms put_at [OF assms(1,3)] by (simp add: drop_policy_if_exists_def able_fresh)
  moreover have "revoke_all_on t APP_ROLE (at c (AList.update (''public'', t) ?d xs)) =
      (Inr (), at c (AList.update (''public'', t) (dismissed tb) xs))"
    using assms revoke_all_at [OF assms(1,3), of "AList.update (''public'', t) ?d xs" ?d APP_ROLE] by (simp add: dismissed_def)
  ultimately show ?thesis by (simp add: and_then_done)
qed

definition before_0005 :: "catalog \<Rightarrow> catalog" where
  "before_0005 c = c\<lparr>schemas := AList.update ''public''
     ((public_schema c)\<lparr>schema_usage := schema_usage (public_schema c) - {Role APP_ROLE}\<rparr>) (schemas c)\<rparr>"

lemma undo_0005:
  assumes "able c" "complete c xs" "dict_get (roles c) APP_ROLE \<noteq> None"
  shows "downgrade_0005 (at c xs) = (Inr (), at (before_0005 c) (hit SERVICE_TABLES dismissed xs))"
proof -
  have "for_each (\<lambda>t. and_then (drop_policy_if_exists POLICY t) (\<lambda>_. revoke_all_on t APP_ROLE)) SERVICE_TABLES (at c xs) =
      (Inr (), at c (hit SERVICE_TABLES dismissed xs))"
    by (rule for_each_table [where ok = "\<lambda>tb. tb_owner tb = me c"])
      (use assms distinct_tables in \<open>auto simp: complete_def intro!: dismiss_at\<close>)
  moreover have "revoke_usage ''public'' APP_ROLE (at c ys) = (Inr (), at (before_0005 c) ys)" for ys
    using assms(3) able_rights [OF assms(1)] by (simp add: revoke_usage_def change_schema_def) (simp add: at_def before_0005_def)
  ultimately show ?thesis by (simp add: downgrade_0005_def on_postgres_at [OF assms(1)] and_then_done)
qed

lemma undo_0004:
  assumes "able c" "complete c xs"
  shows "downgrade_0004 (at c xs) = (Inr (), at c (hit LOCKED_TABLES (with_rls False) xs))"
  using run_rls [OF assms] by (simp add: downgrade_0004_def on_postgres_at [OF assms(1)])

lemma undo_0007:
  assumes "able c" "dict_get (roles c) APP_ROLE = Some a"
  shows "downgrade_0007 (at c xs) = (Inr (), at (c\<lparr>roles := AList.update APP_ROLE (a\<lparr>role_path := None\<rparr>) (roles c)\<rparr>) xs)"
proof -
  have "alter_role_path APP_ROLE None (at c xs) = (Inr (), (at c xs)\<lparr>roles := AList.update APP_ROLE (a\<lparr>role_path := None\<rparr>) (roles c)\<rparr>)"
    using assms able_rights(2) [OF assms(1)] by (simp add: alter_role_path_def)
  then show ?thesis
    by (simp add: downgrade_0007_def on_postgres_at [OF assms(1)])
qed

text \<open>\<open>app_private\<close> goes when nothing but the function is in it.\<close>

definition nothing_private :: "catalog \<Rightarrow> bool" where
  "nothing_private c \<longleftrightarrow> list_all (\<lambda>(rel, _). fst rel \<noteq> PRIVATE_SCHEMA) (tables c) \<and>
     list_all (\<lambda>(fn, _). fst fn \<noteq> PRIVATE_SCHEMA) (routines c)"

lemma undo_0006:
  assumes "able (after_0006 c)" "no_private c" "nothing_private c" "list_all (\<lambda>(rel, _). fst rel = ''public'') xs"
  shows "downgrade_0006 (at (after_0006 c) xs) = (Inr (), at c xs)"
proof -
  let ?sc = "\<lparr>schema_owner = me c, schema_usage = {Role APP_ROLE}, schema_create = {}\<rparr>"
  let ?fn = "\<lparr>fn_owner = me c, fn_execute = {Role APP_ROLE}, fn_definer = True, fn_path = Some []\<rparr>"
  let ?half = "c\<lparr>schemas := schemas c @ [(PRIVATE_SCHEMA, ?sc)]\<rparr>"
  note none = assms(2) [unfolded no_private_def]
  have "drop_function_if_exists MISSING_ACCOUNTS (at (after_0006 c) xs) = (Inr (), at ?half xs)"
    using none by (simp add: drop_function_if_exists_def at_def after_0006_def delete_tail)
  moreover have "drop_schema_if_exists PRIVATE_SCHEMA (at ?half xs) = (Inr (), at c xs)"
  proof -
    have "\<not> list_ex (\<lambda>(rel, _). fst rel = PRIVATE_SCHEMA) (tables c @ xs)" "\<not> list_ex (\<lambda>(fn, _). fst fn = PRIVATE_SCHEMA) (routines c)"
      using assms(3,4) by (auto simp: nothing_private_def list_all_iff list_ex_iff PRIVATE_SCHEMA_def)
    then show ?thesis
      using none by (simp add: drop_schema_if_exists_def) (simp add: at_def delete_tail)
  qed
  ultimately show ?thesis
    by (simp add: downgrade_0006_def on_postgres_at [OF assms(1)] and_then_done)
qed

section \<open>All the way down\<close>

text \<open>What is left behind: the role, without its search path; default privileges and grants stay revoked.\<close>

definition rolled_back :: "catalog \<Rightarrow> catalog" where
  "rolled_back c = (after_0004 c)
     \<lparr>roles := AList.update APP_ROLE ((app_attributes c)\<lparr>role_path := None\<rparr>) (roles c),
      schemas := AList.update ''public''
        ((public_schema c)\<lparr>schema_usage := schema_usage (public_schema c) - {Role APP_ROLE}\<rparr>) (schemas c)\<rparr>"

definition tables_reopened :: "pg_table \<Rightarrow> catalog \<Rightarrow> ((string \<times> string) \<times> pg_table) list" where
  "tables_reopened vt c = hit LOCKED_TABLES (with_rls False) (hit SERVICE_TABLES dismissed (head_tables vt c))"

definition unstamped :: "catalog \<Rightarrow> catalog" where
  "unstamped c = c\<lparr>version_num := AList.delete ''public'' (version_num c)\<rparr>"

lemma for_each_done: "for_each f xs s = (Inr (), s') \<Longrightarrow> for_each f (xs @ ys) s = for_each f ys s'"
proof (induction xs arbitrary: s)
  case (Cons x xs)
  then show ?case by (auto simp: and_then_def split: prod.splits sum.splits)
qed simp

lemma undo_revision_at:
  assumes "rev_downgrade r (at c xs) = (Inr (), at c' ys)"
  shows "undo_revision ''public'' r (at c xs) =
    (Inr (), at (case rev_down r of None \<Rightarrow> unstamped c' | Some v \<Rightarrow> stamped v c') ys)"
  using assms
  by (cases "rev_down r") (simp_all add: undo_revision_def and_then_done, simp_all add: at_def stamped_def unstamped_def)

lemma rolled_back_simps [simp]:
  "me (rolled_back c) = me c" "tables (rolled_back c) = tables c" "dialect (rolled_back c) = dialect c"
  "routines (rolled_back c) = routines c" "path (rolled_back c) = path c" "version_num (rolled_back c) = version_num c"
  by (simp_all add: rolled_back_def)

lemma able_role:
  assumes "able c"
  shows "able (c\<lparr>roles := AList.update APP_ROLE ((app_attributes c)\<lparr>role_path := p\<rparr>) (roles c)\<rparr>)"
proof -
  have "may_create_roles (c\<lparr>roles := AList.update APP_ROLE ((app_attributes c)\<lparr>role_path := p\<rparr>) (roles c)\<rparr>) (me c)"
    using able_rights(2) [OF assms] by (auto simp: may_create_roles_def app_attributes_def split: option.splits)
  with assms show ?thesis by (simp add: able_def)
qed

lemma able_after_0004: "able c \<Longrightarrow> able (after_0004 c)"
  by (rule able_cong [THEN iffD2, of "after_0004 c" c]) simp_all

lemma after_0004_parts [simp]: "app_attributes (after_0004 c) = app_attributes c" "public_schema (after_0004 c) = public_schema c"
  by (simp_all add: app_attributes_def public_schema_def)

lemma able_rolled_back:
  assumes "able c"
  shows "able (rolled_back c)"
proof -
  have "may_create_roles (rolled_back c) (me c)"
    using able_rights(2) [OF able_role [OF able_after_0004 [OF assms], of None]]
    by (simp add: may_create_roles_def rolled_back_def)
  moreover have "dict_get (schemas (rolled_back c)) ''public'' =
      Some ((public_schema c)\<lparr>schema_usage := schema_usage (public_schema c) - {Role APP_ROLE}\<rparr>)"
    by (simp add: rolled_back_def)
  ultimately show ?thesis
    using assms able_rights(4) [OF assms] unfolding able_def by simp
qed

lemma complete_head: "tb_owner vt = me c \<Longrightarrow> complete c (head_tables vt c)"
  unfolding head_tables_def
  by (intro complete_hit complete_0003) (simp_all add: closed_def with_rls_def admitted_def)

lemma dismissed_owner [simp]: "tb_owner (dismissed tb) = tb_owner tb" "tb_def (dismissed tb) = tb_def tb"
  by (simp_all add: dismissed_def barred_def)

lemma undo_to_0003:
  assumes "able c" "no_private c" "nothing_private c" "tb_owner vt = me c"
  shows "for_each (undo_revision ''public'') [REVISIONS ! 6, REVISIONS ! 5, REVISIONS ! 4, REVISIONS ! 3] (at (upgraded c) (head_tables vt c)) =
    (Inr (), at (stamped ''0003'' (rolled_back c)) (tables_reopened vt c))"
proof -
  let ?H = "head_tables vt c" and ?a = "app_attributes c"
  let ?d5 = "\<lambda>v. stamped v ((after_0005 (after_0004 c))\<lparr>roles := AList.update APP_ROLE (?a\<lparr>role_path := None\<rparr>) (roles c)\<rparr>)"
  note able5 = able_after_0005 [OF able_after_0004 [OF assms(1)]]
  have attrs: "app_attributes (after_0005 (after_0004 c)) = ?a" by (simp add: app_attributes_def after_0005_def)
  have able_d5: "able (?d5 v)" for v
    using able_role [OF able5, of None] by (simp add: attrs) (simp add: after_0005_def)
  have top: "able (upgraded c)" "dict_get (roles (upgraded c)) APP_ROLE = Some (?a\<lparr>role_path := Some [''public'']\<rparr>)"
  proof -
    show "dict_get (roles (upgraded c)) APP_ROLE = Some (?a\<lparr>role_path := Some [''public'']\<rparr>)"
      by (simp add: upgraded_def after_0007_def after_0006_def after_0005_def app_attributes_def)
    show "able (upgraded c)"
      using able_role [OF able_after_0006 [OF able5], of "Some [''public'']"] by (simp add: upgraded_def after_0007_def)
  qed
  have "(upgraded c)\<lparr>roles := AList.update APP_ROLE (?a\<lparr>role_path := None\<rparr>) (roles (upgraded c))\<rparr> = after_0006 (?d5 ''0007'')"
    by (cases c) (simp add: upgraded_def after_0007_def after_0006_def after_0005_def stamped_def app_attributes_def)
  with undo_0007 [OF top, of ?H] have "downgrade_0007 (at (upgraded c) ?H) = (Inr (), at (after_0006 (?d5 ''0007'')) ?H)" by simp
  from undo_revision_at [of "REVISIONS ! 6", OF _] this
  have 7: "undo_revision ''public'' (REVISIONS ! 6) (at (upgraded c) ?H) = (Inr (), at (after_0006 (?d5 ''0006'')) ?H)"
    by (simp add: REVISIONS_def flip: stamped_later)
  have hidden: "no_private (?d5 v)" "nothing_private (?d5 v)" for v
    using assms(2,3) by (simp_all add: no_private_def nothing_private_def after_0005_def PRIVATE_SCHEMA_def)
  have keys: "list_all (\<lambda>(rel, _). fst rel = ''public'') ?H"
  proof -
    have "set (map fst ?H) \<subseteq> range (Pair ''public'')" by (simp add: head_tables_def tables_0003_keys del: set_map)
    then show ?thesis by (force simp: list_all_iff)
  qed
  have "able (after_0006 (?d5 v))" for v by (rule able_after_0006 [OF able_d5])
  from undo_revision_at [of "REVISIONS ! 5", OF _] undo_0006 [OF this hidden keys]
  have 6: "undo_revision ''public'' (REVISIONS ! 5) (at (after_0006 (?d5 ''0006'')) ?H) = (Inr (), at (?d5 ''0005'') ?H)"
    by (simp add: REVISIONS_def)
  have "complete (?d5 v) ?H" for v using complete_head [OF assms(4)] complete_cong [of "?d5 v" c] by simp
  moreover have "dict_get (roles (?d5 v)) APP_ROLE \<noteq> None" for v by simp
  moreover have "before_0005 (?d5 v) = stamped v (rolled_back c)" for v
    by (cases c) (simp add: before_0005_def stamped_def after_0005_def rolled_back_def public_schema_def)
  ultimately have "downgrade_0005 (at (?d5 ''0005'') ?H) = (Inr (), at (stamped ''0005'' (rolled_back c)) (hit SERVICE_TABLES dismissed ?H))"
    using undo_0005 [OF able_d5] by metis
  from undo_revision_at [of "REVISIONS ! 4", OF _] this
  have 5: "undo_revision ''public'' (REVISIONS ! 4) (at (?d5 ''0005'') ?H) =
      (Inr (), at (stamped ''0004'' (rolled_back c)) (hit SERVICE_TABLES dismissed ?H))"
    by (simp add: REVISIONS_def)
  have "complete (stamped ''0004'' (rolled_back c)) (hit SERVICE_TABLES dismissed ?H)"
    using complete_hit [OF complete_head [OF assms(4)], of dismissed] complete_cong [of "stamped ''0004'' (rolled_back c)" c] by simp
  with undo_0004 [of "stamped ''0004'' (rolled_back c)"] able_rolled_back [OF assms(1)]
  have "downgrade_0004 (at (stamped ''0004'' (rolled_back c)) (hit SERVICE_TABLES dismissed ?H)) =
      (Inr (), at (stamped ''0004'' (rolled_back c)) (tables_reopened vt c))"
    by (simp add: tables_reopened_def del: hit_hit)
  from undo_revision_at [of "REVISIONS ! 3", OF _] this
  have 4: "undo_revision ''public'' (REVISIONS ! 3) (at (stamped ''0004'' (rolled_back c)) (hit SERVICE_TABLES dismissed ?H)) =
      (Inr (), at (stamped ''0003'' (rolled_back c)) (tables_reopened vt c))"
    by (simp add: REVISIONS_def)
  show ?thesis using 7 6 5 4 by (simp add: and_then_done)
qed

lemma run_downgrade:
  assumes "able c" "for_each (undo_revision ''public'') (revisions_down (length REVISIONS) target (Some ''0007''))
      (at (upgraded c) (head_tables vt c)) = (Inr (), at e ys)" "path e = path c"
  shows "alembic_downgrade target (at_head vt c) = (Inr (), e\<lparr>tables := tables e @ ys\<rparr>)"
proof (rule run_in_transaction)
  show "dialect (at_head vt c) = ''postgresql''" using able_rights(1) [OF assms(1)] by simp
  show "(at_head vt c)\<lparr>path := [''public'']\<rparr> = at (upgraded c) (head_tables vt c)" by (simp add: at_def at_head_def)
  show "path (at_head vt c) = path e" using assms(3) by simp
  have "map_of (tables (at (upgraded c) (head_tables vt c))) (''public'', ''alembic_version'') \<noteq> None"
    using able_fresh [OF assms(1)] by (simp add: head_tables_lookup)
  then have "version_schema (Some ''public'') (at (upgraded c) (head_tables vt c)) = (Inr ''public'', at (upgraded c) (head_tables vt c))"
    by (auto simp: version_schema_def)
  then show "run_migrations (downgrade_to target) (Some ''public'') (at (upgraded c) (head_tables vt c)) = (Inr (), at e ys)"
    using assms(2) by (simp add: run_migrations_def downgrade_to_def and_then_Inr upgraded_def stamped_def)
qed

lemma down_orders:
  "revisions_down (length REVISIONS) (Some ''0003'') (Some ''0007'') = [REVISIONS ! 6, REVISIONS ! 5, REVISIONS ! 4, REVISIONS ! 3]"
  "revisions_down (length REVISIONS) None (Some ''0007'') =
     [REVISIONS ! 6, REVISIONS ! 5, REVISIONS ! 4, REVISIONS ! 3] @ [REVISIONS ! 2, REVISIONS ! 1, REVISIONS ! 0]"
  by (simp_all add: REVISIONS_def eval_nat_numeral)

lemma downgrades_to_0003:
  assumes "able c" "no_private c" "nothing_private c" "tb_owner vt = me c"
  shows "alembic_downgrade (Some ''0003'') (at_head vt c) =
    (Inr (), (stamped ''0003'' (rolled_back c))\<lparr>tables := tables c @ tables_reopened vt c\<rparr>)"
  using run_downgrade [OF assms(1), of "Some ''0003''", unfolded down_orders, OF undo_to_0003 [OF assms]] by simp

definition last_version_table :: "pg_table \<Rightarrow> catalog \<Rightarrow> pg_table" where
  "last_version_table vt c = with_rls False (closed c vt)"

lemma reopened_tables:
  assumes "tb_owner vt = me c"
  obtains s e u g a i where "tables_reopened vt c =
      [recorded_in (last_version_table vt c), ((''public'', ''subscriptions''), s), ((''public'', ''processed_events''), e),
       ((''public'', ''usage_counters''), u), ((''public'', ''entitlement_grants''), g), ((''public'', ''subscription_audit''), a),
       ((''public'', ''sales_inquiries''), i)]"
    "list_all (\<lambda>tb. tb_owner tb = me c) [s, e, u, g, a, i]" "tb_def s = subscriptions_0002" "tb_def i = inquiries_0003"
proof -
  let ?T = "tables_reopened vt c"
  have "map fst ?T = map (Pair ''public'') [''alembic_version'', ''subscriptions'', ''processed_events'', ''usage_counters'',
      ''entitlement_grants'', ''subscription_audit'', ''sales_inquiries'']"
    by (simp add: tables_reopened_def head_tables_def tables_0003_keys del: hit_hit)
  then obtain v s e u g a i where T: "?T = [((''public'', ''alembic_version''), v), ((''public'', ''subscriptions''), s),
      ((''public'', ''processed_events''), e), ((''public'', ''usage_counters''), u), ((''public'', ''entitlement_grants''), g),
      ((''public'', ''subscription_audit''), a), ((''public'', ''sales_inquiries''), i)]"
    by (auto simp: map_eq_Cons_conv)
  have look: "map_of ?T (''public'', t) = Some (with_rls False ((if t \<in> set SERVICE_TABLES then dismissed else (\<lambda>tb. tb)) (head_table vt c t)))"
    if "t \<in> set LOCKED_TABLES" for t
    using that by (simp add: tables_reopened_def hit_lookup head_tables_lookup del: hit_hit)
  have owner: "tb_owner (base_table vt c t) = me c" for t
    using assms by (simp add: base_table_def)
  have v: "v = last_version_table vt c"
    using look [of "''alembic_version''"] unfolding T
    by (simp add: SERVICE_TABLES_def last_version_table_def head_table_def base_table_def)
  have rest: "s = with_rls False (dismissed (head_table vt c ''subscriptions''))"
    "e = with_rls False (dismissed (head_table vt c ''processed_events''))"
    "u = with_rls False (dismissed (head_table vt c ''usage_counters''))"
    "g = with_rls False (dismissed (head_table vt c ''entitlement_grants''))"
    "a = with_rls False (dismissed (head_table vt c ''subscription_audit''))"
    "i = with_rls False (dismissed (head_table vt c ''sales_inquiries''))"
    using look [of "''subscriptions''"] look [of "''processed_events''"] look [of "''usage_counters''"]
      look [of "''entitlement_grants''"] look [of "''subscription_audit''"] look [of "''sales_inquiries''"]
    unfolding T by (simp_all add: SERVICE_TABLES_def)
  have rls: "tb_owner (with_rls False tb) = tb_owner tb" "tb_def (with_rls False tb) = tb_def tb" for tb
    by (simp_all add: with_rls_def)
  have defs: "head_def ''subscriptions'' = subscriptions_0002" "head_def ''sales_inquiries'' = inquiries_0003"
    by (simp_all add: head_def_def migrated_def migrated_names)
  show thesis
    by (rule that [of s e u g a i]) (use T v in \<open>simp_all add: recorded_in_def rest rls owner base_table_def defs\<close>)
qed

lemma downgrades_to_base:
  assumes "able c" "no_private c" "nothing_private c" "tb_owner vt = me c"
  shows "alembic_downgrade None (at_head vt c) =
    (Inr (), (unstamped (rolled_back c))\<lparr>tables := tables c @ [recorded_in (last_version_table vt c)]\<rparr>)"
proof -
  let ?c = "rolled_back c" and ?w = "last_version_table vt c"
  have able: "able (stamped v ?c)" for v using able_rolled_back [OF assms(1)] by simp
  obtain s e u g a i where T: "tables_reopened vt c =
      [recorded_in ?w, ((''public'', ''subscriptions''), s), ((''public'', ''processed_events''), e),
       ((''public'', ''usage_counters''), u), ((''public'', ''entitlement_grants''), g), ((''public'', ''subscription_audit''), a),
       ((''public'', ''sales_inquiries''), i)]"
    and own: "list_all (\<lambda>tb. tb_owner tb = me c) [s, e, u, g, a, i]" and defs: "tb_def s = subscriptions_0002" "tb_def i = inquiries_0003"
    by (rule reopened_tables [OF assms(4)])
  let ?rest = "\<lambda>s. [recorded_in ?w, ((''public'', ''subscriptions''), s), ((''public'', ''processed_events''), e),
       ((''public'', ''usage_counters''), u), ((''public'', ''entitlement_grants''), g), ((''public'', ''subscription_audit''), a)]"
  have 3: "undo_revision ''public'' (REVISIONS ! 2) (at (stamped ''0003'' ?c) (tables_reopened vt c)) = (Inr (), at (stamped ''0002'' ?c) (?rest s))"
    using undo_revision_at [of "REVISIONS ! 2", OF _] undo_0003 [OF able, of "?rest s" i ] own defs
    by (simp add: REVISIONS_def T)
  have "tb_owner s = me (stamped ''0002'' ?c)" using own by simp
  then obtain s' where s': "tb_owner s' = me (stamped ''0002'' ?c)"
    "downgrade_0002 (at (stamped ''0002'' ?c) (?rest s)) = (Inr (), at (stamped ''0002'' ?c) (?rest s'))"
    by (rule undo_0002 [OF able _ defs(1)])
  have 2: "undo_revision ''public'' (REVISIONS ! 1) (at (stamped ''0002'' ?c) (?rest s)) = (Inr (), at (stamped ''0001'' ?c) (?rest s'))"
    using undo_revision_at [of "REVISIONS ! 1", OF _] s'(2) by (simp add: REVISIONS_def)
  have "downgrade_0001 (at (stamped ''0001'' ?c) (?rest s')) = (Inr (), at (stamped ''0001'' ?c) [recorded_in ?w])"
    using undo_0001 [OF able, of "''0001''" s' e u g a] own s'(1) by simp
  then have 1: "undo_revision ''public'' (REVISIONS ! 0) (at (stamped ''0001'' ?c) (?rest s')) = (Inr (), at (unstamped ?c) [recorded_in ?w])"
    using undo_revision_at [of "REVISIONS ! 0", OF _]
    by (simp add: REVISIONS_def) (simp add: unstamped_def stamped_def delete_update_same)
  have "for_each (undo_revision ''public'') ([REVISIONS ! 6, REVISIONS ! 5, REVISIONS ! 4, REVISIONS ! 3] @ [REVISIONS ! 2, REVISIONS ! 1, REVISIONS ! 0])
      (at (upgraded c) (head_tables vt c)) = (Inr (), at (unstamped ?c) [recorded_in ?w])"
    by (subst for_each_done [OF undo_to_0003 [OF assms]]) (simp add: and_then_done 3 2 1 del: One_nat_def)
  from run_downgrade [OF assms(1), of None, unfolded down_orders(2), OF this] show ?thesis
    by (simp add: unstamped_def)
qed

section \<open>Up again\<close>

lemma rolled_back_web_roles: "web_roles (unstamped (rolled_back c)) = web_roles c"
  by (auto simp: web_roles_def unstamped_def rolled_back_def WEB_ROLES_def APP_ROLE_def)

lemma closed_parts:
  "closed c tb = tb\<lparr>tb_acl := {(g, p) \<in> tb_acl tb. g \<notin> Role ` set (web_roles c)}, tb_rls := True\<rparr>"
  by (rule pg_table.equality) (simp_all add: closed_def with_rls_def)

lemma default_acl_0004: "default_acl (after_0004 c) = {(creator, sc, g, p) \<in> default_acl c.
    \<not> (creator = me c \<and> sc = Some ''public'' \<and> g \<in> Role ` set (web_roles c))}"
  using head_default_acl [of vt c] by (simp add: at_head_def upgraded_def after_0007_def after_0006_def stamped_def)

lemma reborn:
  assumes "able c"
  shows "closed (unstamped (rolled_back c)) (snd (born (unstamped (rolled_back c)) td)) = closed c (snd (born c td))"
proof -
  have "{(g, p) \<in> born_acl (unstamped (rolled_back c)) ''public''. g \<notin> Role ` set (web_roles c)} =
      {(g, p) \<in> born_acl c ''public''. g \<notin> Role ` set (web_roles c)}"
    by (force simp: born_acl_def unstamped_def rolled_back_def default_acl_0004 image_iff)
  then show ?thesis
    by (simp add: closed_parts rolled_back_web_roles born_def) (simp add: unstamped_def)
qed

lemma reclosed: "closed (unstamped (rolled_back c)) (last_version_table vt c) = closed c vt"
  by (simp add: closed_parts rolled_back_web_roles last_version_table_def with_rls_def)

lemma head_tables_again:
  assumes "able c"
  shows "head_tables (last_version_table vt c) (unstamped (rolled_back c)) = head_tables vt c"
proof -
  have "hit LOCKED_TABLES (closed (unstamped (rolled_back c))) (tables_0003 (last_version_table vt c) (unstamped (rolled_back c))) =
      hit LOCKED_TABLES (closed c) (tables_0003 vt c)"
    using reborn [OF assms] reclosed [of c vt]
    by (simp add: hit_def tables_0003_def recorded_in_def born_def LOCKED_TABLES_def migrated_names)
  then show ?thesis by (simp add: head_tables_def del: hit_hit)
qed

lemma upgraded_again:
  assumes "able c" "dict_get (version_num c) ''public'' = None"
  shows "upgraded (unstamped (rolled_back c)) = upgraded c"
proof (rule catalog.equality)
  let ?c = "unstamped (rolled_back c)"
  have parts: "app_attributes ?c = (app_attributes c)\<lparr>role_path := None\<rparr>"
    "public_schema ?c = (public_schema c)\<lparr>schema_usage := schema_usage (public_schema c) - {Role APP_ROLE}\<rparr>"
    by (simp_all add: app_attributes_def public_schema_def unstamped_def rolled_back_def)
  note up = upgraded_def stamped_def after_0007_def after_0006_def after_0005_def
  show "roles (upgraded ?c) = roles (upgraded c)" "schemas (upgraded ?c) = schemas (upgraded c)"
    using head_roles [of undefined ?c] head_roles [of undefined c] head_schemas [of undefined ?c] head_schemas [of undefined c]
    by (simp_all add: at_head_def parts) (simp_all add: unstamped_def rolled_back_def)
  show "default_acl (upgraded ?c) = default_acl (upgraded c)"
    using head_default_acl [of undefined ?c] head_default_acl [of undefined c]
    by (auto simp: at_head_def rolled_back_web_roles) (auto simp: unstamped_def rolled_back_def default_acl_0004)
  show "version_num (upgraded ?c) = version_num (upgraded c)"
    using assms(2) by (simp add: up unstamped_def rolled_back_def map_of_eq_None_iff)
  show "routines (upgraded ?c) = routines (upgraded c)" "catalog.more (upgraded ?c) = catalog.more (upgraded c)"
    by (simp_all add: up unstamped_def)
qed (simp_all add: unstamped_def)

lemma upgrades_again:
  assumes "fresh c" "nothing_private c" "tb_owner vt = me c"
  shows "alembic_upgrade ((unstamped (rolled_back c))\<lparr>tables := tables c @ [recorded_in (last_version_table vt c)]\<rparr>) = (Inr (), at_head vt c)"
proof -
  let ?c = "unstamped (rolled_back c)" and ?w = "last_version_table vt c"
  note f = fresh_parts [OF assms(1)]
  have same: "me ?c = me c" "dialect ?c = dialect c" "tables ?c = tables c" "path ?c = path c" by (simp_all add: unstamped_def)
  have able: "able ?c"
    by (rule able_cong [THEN iffD2, OF _ _ _ _ _ able_rolled_back [OF f(1)]]) (simp_all add: unstamped_def)
  have hidden: "no_private ?c"
    using f(2,3) by (simp add: no_private_def unstamped_def rolled_back_def PRIVATE_SCHEMA_def)
  have none: "map_of (version_num ?c) ''public'' = None" by (simp add: unstamped_def AList.delete_conv')
  have "version_schema (Some ''public'') (at ?c [recorded_in ?w]) = (Inr ''public'', at ?c [recorded_in ?w])"
    using able_fresh [OF able] by (simp add: version_schema_def)
  moreover have "for_each (run_revision ''public'') REVISIONS (at ?c [recorded_in ?w]) = (Inr (), at (upgraded ?c) (head_tables ?w ?c))"
    by (rule run_revisions [OF able hidden]) (simp add: same last_version_table_def with_rls_def closed_parts assms(3))
  ultimately have "run_migrations upgrade_head (Some ''public'') (at ?c [recorded_in ?w]) = (Inr (), at (upgraded c) (head_tables vt c))"
    using none by (simp add: run_migrations_def upgrade_head_def and_then_Inr revisions_in_order
        upgraded_again [OF f(1,4)] head_tables_again [OF f(1)])
  from run_in_transaction [OF _ this, of "?c\<lparr>tables := tables c @ [recorded_in ?w]\<rparr>"] able_rights(1) [OF f(1)]
  show ?thesis by (simp add: same at_def at_head_def)
qed

end
