(* ===== verification/Migration_Properties.thy ===== *)
theory Migration_Properties
  imports Downgrade
begin

text \<open>
  What the migrations make of a database: the declared schema in \<open>public\<close>, closed to the roles
  of the public API, open to the service's role on its six tables and nowhere else.
\<close>

section \<open>A Supabase-like database\<close>

text \<open>
  For the witnesses: \<open>anon\<close> and \<open>authenticated\<close> have the use of \<open>public\<close> and, by default privileges, all
  on every table created there; another role owns the schema \<open>postgres\<close>, with a version
  table of its own, which the default search path finds first.
\<close>

definition supabase :: catalog where
  "supabase = \<lparr>dialect = ''postgresql'', me = ''postgres'', path = DEFAULT_PATH,
     roles = [(''postgres'', \<lparr>superuser = False, createrole = True, createdb = True, bypassrls = True, can_login = True, role_path = None\<rparr>),
       (''anon'', plain_role), (''authenticated'', plain_role), (''ci_runner'', plain_role)],
     schemas = [(''public'', \<lparr>schema_owner = ''postgres'', schema_usage = {Public}, schema_create = {}\<rparr>),
       (''postgres'', \<lparr>schema_owner = ''ci_runner'', schema_usage = {Public}, schema_create = {Public}\<rparr>)],
     tables = [((''postgres'', ''alembic_version''),
       \<lparr>tb_def = version_table, tb_owner = ''ci_runner'', tb_acl = {(Role ''postgres'', SELECT)}, tb_rls = False, tb_policies = []\<rparr>)],
     routines = [],
     default_acl = {(''postgres'', Some ''public'', Role ''anon'', SELECT), (''postgres'', Some ''public'', Role ''anon'', TRUNCATE),
       (''postgres'', Some ''public'', Role ''authenticated'', SELECT)},
     version_num = [(''postgres'', ''0007'')]\<rparr>"

lemma fresh_supabase: "fresh supabase"
  by (simp add: fresh_def able_def no_private_def supabase_def may_create_roles_def PRIVATE_SCHEMA_def MISSING_ACCOUNTS_def LOCKED_TABLES_def)

section \<open>The schema\<close>

lemma declared_table_names:
  "tbl_name Subscription_table = ''subscriptions''" "tbl_name ProcessedEvent_table = ''processed_events''"
  "tbl_name UsageCounter_table = ''usage_counters''" "tbl_name EntitlementGrant_table = ''entitlement_grants''"
  "tbl_name SalesInquiry_table = ''sales_inquiries''" "tbl_name SubscriptionAudit_table = ''subscription_audit''"
  by (simp_all add: declared_defs)

lemma found_as_migrated:
  "list_all2 (\<lambda>d m. tbl_name d \<in> set SERVICE_TABLES \<and> head_def (tbl_name d) = m) metadata migrated"
  by (simp add: metadata_def migrated_def head_def_def SERVICE_TABLES_def migrated_names declared_table_names)

lemma declared_in_head:
  assumes "td \<in> set metadata"
  shows "tbl_name td \<in> set SERVICE_TABLES" "as_declared td (tb_def (base_table vt c (tbl_name td)))"
proof -
  have "list_all2 (\<lambda>d m. as_declared d m \<and> tbl_name d \<in> set SERVICE_TABLES \<and> head_def (tbl_name d) = m) metadata migrated"
    using migrated_as_declared found_as_migrated by (auto simp: list_all2_conv_all_nth)
  then have td: "as_declared td (head_def (tbl_name td)) \<and> tbl_name td \<in> set SERVICE_TABLES"
    using assms by (auto simp: list_all2_conv_all_nth in_set_conv_nth)
  then show "tbl_name td \<in> set SERVICE_TABLES" by simp
  with td show "as_declared td (tb_def (base_table vt c (tbl_name td)))"
    by (auto simp: base_table_def SERVICE_TABLES_def)
qed

lemma metadata_names: "tbl_name ` set metadata = set SERVICE_TABLES"
  by (auto simp: metadata_def declared_table_names SERVICE_TABLES_def)

lemma locked_is_service: "set LOCKED_TABLES = insert ''alembic_version'' (set SERVICE_TABLES)"
  by (auto simp: LOCKED_TABLES_def SERVICE_TABLES_def)

text \<open>
  C23: The migrations make the schema the models declare. On a database they have not run on they
  succeed, whatever the credential's search path finds: every declared table is then in \<open>public\<close>
  with the declared columns, keys and indexes, owned by the migration credential and under row
  security; no other table but the version table is touched; run again, nothing happens.
\<close>

theorem migrations_make_declared_schema:
  assumes "fresh c"
  shows "\<exists>c'. alembic_upgrade c = (Inr (), c') \<and> alembic_upgrade c' = (Inr (), c') \<and>
     (\<forall>td \<in> set metadata. \<exists>tb. dict_get (tables c') (''public'', tbl_name td) = Some tb \<and>
        as_declared td (tb_def tb) \<and> tb_owner tb = me c \<and> tb_rls tb) \<and>
     (\<forall>rel. rel \<notin> Pair ''public'' ` insert ''alembic_version'' (tbl_name ` set metadata) \<longrightarrow>
        dict_get (tables c') rel = dict_get (tables c) rel)"
proof (rule exI [of _ "at_head (new_version_table c) c"], intro conjI ballI allI impI)
  let ?c = "at_head (new_version_table c) c"
  note able = fresh_parts(1) [OF assms]
  show "alembic_upgrade c = (Inr (), ?c)" by (rule migrates [OF assms])
  show "alembic_upgrade ?c = (Inr (), ?c)" by (rule migrates_again [OF able])
  show "\<exists>tb. dict_get (tables ?c) (''public'', tbl_name td) = Some tb \<and> as_declared td (tb_def tb) \<and> tb_owner tb = me c \<and> tb_rls tb"
    if "td \<in> set metadata" for td
    using declared_in_head [OF that] distinct_tables(3) by (auto simp: head_lookup [OF able])
  show "dict_get (tables ?c) rel = dict_get (tables c) rel"
    if "rel \<notin> Pair ''public'' ` insert ''alembic_version'' (tbl_name ` set metadata)" for rel
    using that by (simp add: head_lookup [OF able] metadata_names locked_is_service)
qed

theorem migrations_make_declared_schema_witness:
  "resolve supabase (me supabase) (path supabase) ''alembic_version'' = Some (''postgres'', ''alembic_version'') \<and>
   dict_get (version_num supabase) ''postgres'' = Some ''0007'' \<and>
   (\<exists>c'. alembic_upgrade supabase = (Inr (), c') \<and> dict_get (tables c') (''public'', ''subscriptions'') \<noteq> None)"
proof -
  have "Subscription_table \<in> set metadata" by (simp add: metadata_def)
  with migrations_make_declared_schema [OF fresh_supabase]
  have "\<exists>c'. alembic_upgrade supabase = (Inr (), c') \<and> dict_get (tables c') (''public'', ''subscriptions'') \<noteq> None"
    by (fastforce simp: declared_table_names)
  then show ?thesis
    by (simp add: supabase_def resolve_def searched_def may_use_schema_def DEFAULT_PATH_def)
qed

section \<open>The public API\<close>

lemma born_acl_head: "born_acl (at_head vt c) ''public'' =
    {(g, p). \<exists>sc. (me c, sc, g, p) \<in> default_acl c \<and> (sc = None \<or> sc = Some ''public'' \<and> g \<notin> Role ` set (web_roles c))}"
  by (force simp: born_acl_def head_default_acl image_iff)

lemma created_table:
  assumes "create_table_in s td c = (Inr (), c')"
  shows "dict_get (tables c') (s, tbl_name td) =
      Some \<lparr>tb_def = td, tb_owner = me c, tb_acl = born_acl c s, tb_rls = False, tb_policies = []\<rparr> \<and>
    is_superuser c' = is_superuser c"
  using assms
  by (auto simp: create_table_in_def put_table_def and_then_def is_superuser_def fun_eq_iff raise_def ret_def gets_def modify_def
      split: if_splits)

text \<open>
  A role of the public API as Supabase makes it: there, plain, not the migration credential, and
  with no default privileges on the tables that one creates but its own in \<open>public\<close>.
\<close>

definition api_role :: "catalog \<Rightarrow> string \<Rightarrow> bool" where
  "api_role c r \<longleftrightarrow> r \<in> set WEB_ROLES \<and> r \<noteq> me c \<and>
     (\<exists>a. dict_get (roles c) r = Some a \<and> \<not> superuser a \<and> \<not> bypassrls a) \<and>
     (\<forall>sc g p. (me c, sc, g, p) \<in> default_acl c \<longrightarrow> sc = None \<or> sc = Some ''public'' \<longrightarrow>
        g \<noteq> Public \<and> (g = Role r \<longrightarrow> sc = Some ''public''))"

lemma api_role_parts:
  assumes "api_role c r"
  shows "r \<noteq> me c" "\<not> is_superuser c r" "\<not> may_bypass_rls c r" "r \<in> set (web_roles c)" "r \<noteq> APP_ROLE"
    "(Public, p) \<notin> born_acl c ''public''"
  using assms by (auto simp: api_role_def is_superuser_def may_bypass_rls_def web_roles_def WEB_ROLES_def APP_ROLE_def born_acl_def)

lemma web_roles_facts:
  assumes "fresh c" "alembic_upgrade c = (Inr (), c')" "api_role c r"
  shows "(\<forall>t \<in> set LOCKED_TABLES. \<exists>tb. dict_get (tables c') (''public'', t) = Some tb \<and>
      (\<forall>p. \<not> may c' r p (''public'', t)) \<and> (\<forall>acl. \<not> passes_rls c' r (tb\<lparr>tb_acl := acl\<rparr>))) \<and>
    (\<forall>td c''. create_table_in ''public'' td c' = (Inr (), c'') \<longrightarrow> (\<forall>p. \<not> may c'' r p (''public'', tbl_name td)))"
proof -
  let ?vt = "new_version_table c"
  note able = fresh_parts(1) [OF assms(1)]
  have c': "c' = at_head ?vt c" using migrates [OF assms(1)] assms(2) by simp
  note plain = api_role_parts(2-5) [OF assms(3)] and other = api_role_parts(1) [OF assms(3)]
  have acl: "(Public, p) \<notin> born_acl c ''public''" "(Public, p) \<notin> born_acl c' ''public''" "(Role r, p) \<notin> born_acl c' ''public''" for p
    using assms(3) plain(3) unfolding c' born_acl_head by (auto simp: born_acl_def api_role_def)
  have head: "\<not> has_privilege c' r p (head_table ?vt c t)" "\<not> passes_rls c' r ((head_table ?vt c t)\<lparr>tb_acl := any\<rparr>)" for p t any
    using acl(1) plain other
    by (auto simp: c' has_privilege_head passes_rls_def head_table_acl head_table_policies head_bypass)
  have "\<not> may c'' r p (''public'', tbl_name td)" if "create_table_in ''public'' td c' = (Inr (), c'')" for td c'' p
    using created_table [OF that] acl plain(1) other by (simp add: may_def has_privilege_def c' head_superuser)
  then show ?thesis
    using head by (auto simp: c' head_lookup [OF able] may_def)
qed

lemma locked_out_facts:
  assumes "fresh c" "alembic_upgrade c = (Inr (), c')" "api_role c r"
  shows "t \<in> set LOCKED_TABLES \<Longrightarrow> \<not> may c' r p (''public'', t)"
  using web_roles_facts [OF assms] by blast

text \<open>
  C22: The roles of the public API are locked out. After the migrations such a role may do nothing
  with any of the service's tables or the version table; row security stops it even where a later
  grant gives it a privilege back; and a table a later migration creates is not granted to it.
\<close>

theorem web_roles_are_locked_out:
  assumes "fresh c" "alembic_upgrade c = (Inr (), c')" "api_role c r"
  shows "(\<forall>t \<in> set LOCKED_TABLES. \<exists>tb. dict_get (tables c') (''public'', t) = Some tb \<and>
      (\<forall>p. \<not> may c' r p (''public'', t)) \<and> (\<forall>acl. \<not> passes_rls c' r (tb\<lparr>tb_acl := acl\<rparr>))) \<and>
    (\<forall>td c''. create_table_in ''public'' td c' = (Inr (), c'') \<longrightarrow> (\<forall>p. \<not> may c'' r p (''public'', tbl_name td)))"
  by (rule web_roles_facts [OF assms])

text \<open>The catalog the migrations leave of the example.\<close>

lemma supabase_migrates: "alembic_upgrade supabase = (Inr (), at_head (new_version_table supabase) supabase)"
  by (rule migrates [OF fresh_supabase])

lemma supabase_roles:
  "me supabase = ''postgres''" "dict_get (roles supabase) ''anon'' = Some plain_role" "dict_get (roles supabase) APP_ROLE = None"
  "is_superuser supabase r = False"
  by (simp_all add: supabase_def APP_ROLE_def is_superuser_def plain_role_def)

lemma api_role_anon: "api_role supabase ''anon''"
  by (auto simp: api_role_def supabase_roles plain_role_def WEB_ROLES_def) (auto simp: supabase_def)

theorem web_roles_are_locked_out_witness:
  "(Role ''anon'', SELECT) \<in> born_acl supabase ''public'' \<and>
   (\<forall>p. \<not> may (snd (alembic_upgrade supabase)) ''anon'' p (''public'', ''subscriptions''))"
proof
  show "\<forall>p. \<not> may (snd (alembic_upgrade supabase)) ''anon'' p (''public'', ''subscriptions'')"
    using web_roles_are_locked_out [OF fresh_supabase supabase_migrates api_role_anon]
    by (simp add: supabase_migrates) (meson locked_names(1))
  show "(Role ''anon'', SELECT) \<in> born_acl supabase ''public''"
    by (force simp: born_acl_def supabase_def)
qed

section \<open>The service's role\<close>

text \<open>
  A database whose service role the migrations create: PUBLIC holds nothing on the tables there
  are, and is given nothing on those to come; and nothing waits for a role of that name.
\<close>

definition app_role_new :: "catalog \<Rightarrow> bool" where
  "app_role_new c \<longleftrightarrow> dict_get (roles c) APP_ROLE = None \<and> me c \<noteq> APP_ROLE \<and>
     (\<forall>rel tb. dict_get (tables c) rel = Some tb \<longrightarrow>
       tb_owner tb \<noteq> APP_ROLE \<and> (\<forall>p. (Public, p) \<notin> tb_acl tb \<and> (Role APP_ROLE, p) \<notin> tb_acl tb)) \<and>
     (\<forall>sc g p. (me c, sc, g, p) \<in> default_acl c \<longrightarrow> g \<noteq> Public \<and> g \<noteq> Role APP_ROLE)"

lemma app_role_new_supabase: "app_role_new supabase"
  by (auto simp: app_role_new_def supabase_def APP_ROLE_def)

lemma app_role_facts:
  assumes "fresh c" "alembic_upgrade c = (Inr (), c')" "app_role_new c"
  shows "(\<forall>p rel. may c' APP_ROLE p rel \<longleftrightarrow> row_privilege p \<and> rel \<in> Pair ''public'' ` set SERVICE_TABLES) \<and>
    dict_get (roles c') APP_ROLE = Some (plain_role\<lparr>role_path := Some [''public'']\<rparr>) \<and>
    (\<forall>r. may_execute c' r MISSING_ACCOUNTS \<longleftrightarrow> r = APP_ROLE \<or> r = me c \<or> is_superuser c r)"
proof (intro conjI allI)
  let ?vt = "new_version_table c"
  note able = fresh_parts(1) [OF assms(1)]
  have c': "c' = at_head ?vt c" using migrates [OF assms(1)] assms(2) by simp
  note new = assms(3) [unfolded app_role_new_def]
  have plain: "\<not> is_superuser c APP_ROLE" using new by (simp add: is_superuser_def)
  have acl: "(Public, p) \<notin> born_acl c ''public''" "(Role APP_ROLE, p) \<notin> born_acl c ''public''" for p
    using new [THEN conjunct2, THEN conjunct2, THEN conjunct2] by (auto simp: born_acl_def)
  show "dict_get (roles c') APP_ROLE = Some (plain_role\<lparr>role_path := Some [''public'']\<rparr>)"
    using new by (simp add: c' head_roles app_attributes_def)
  show "may c' APP_ROLE p rel \<longleftrightarrow> row_privilege p \<and> rel \<in> Pair ''public'' ` set SERVICE_TABLES" for p rel
  proof (cases "rel \<in> Pair ''public'' ` set LOCKED_TABLES")
    case True
    then obtain t where t: "rel = (''public'', t)" "t \<in> set LOCKED_TABLES" by auto
    have "passes_rls c' APP_ROLE (head_table ?vt c t)" if "t \<in> set SERVICE_TABLES"
      using that by (simp add: passes_rls_def head_table_policies)
    moreover have "has_privilege c' APP_ROLE p (head_table ?vt c t) \<longleftrightarrow> t \<in> set SERVICE_TABLES \<and> row_privilege p"
      using acl plain new by (simp add: c' has_privilege_head head_table_acl)
    ultimately show ?thesis
      using t head_public_usage [OF assms(1)] by (auto simp: may_def c' head_lookup [OF able])
  next
    case False
    have "\<not> has_privilege c' APP_ROLE p tb" if "dict_get (tables c) rel = Some tb" for tb
      using new [THEN conjunct2, THEN conjunct2, THEN conjunct1, rule_format, OF that] plain by (simp add: c' has_privilege_head)
    with False show ?thesis
      using distinct_tables(3) by (auto simp: may_def c' head_lookup [OF able] split: option.split)
  qed
  show "may_execute c' r MISSING_ACCOUNTS \<longleftrightarrow> r = APP_ROLE \<or> r = me c \<or> is_superuser c r" for r
    using fresh_parts(3) [OF assms(1)] head_private_usage [OF assms(1)]
    by (auto simp: may_execute_def c' head_routines head_superuser map_of_append map_add_def MISSING_ACCOUNTS_def)
qed

text \<open>
  C21: The service's role may read and write the rows of the six tables and do nothing else. Where the
  migrations create the role that is all it may do on any table of the database; it cannot log in
  by itself, is no superuser and bypasses nothing; and of all plain roles it alone may call
  \<open>missing_accounts\<close>.
\<close>

theorem app_role_is_scoped:
  assumes "fresh c" "alembic_upgrade c = (Inr (), c')" "app_role_new c"
  shows "(\<forall>p rel. may c' APP_ROLE p rel \<longleftrightarrow> row_privilege p \<and> rel \<in> Pair ''public'' ` set SERVICE_TABLES) \<and>
    dict_get (roles c') APP_ROLE = Some (plain_role\<lparr>role_path := Some [''public'']\<rparr>) \<and>
    (\<forall>r. may_execute c' r MISSING_ACCOUNTS \<longleftrightarrow> r = APP_ROLE \<or> r = me c \<or> is_superuser c r)"
  by (rule app_role_facts [OF assms])

theorem app_role_is_scoped_witness:
  "may (snd (alembic_upgrade supabase)) APP_ROLE DELETE (''public'', ''subscriptions'') \<and>
   \<not> may (snd (alembic_upgrade supabase)) APP_ROLE TRUNCATE (''public'', ''subscriptions'') \<and>
   \<not> may (snd (alembic_upgrade supabase)) APP_ROLE SELECT (''public'', ''alembic_version'')"
  using app_role_is_scoped [OF fresh_supabase supabase_migrates app_role_new_supabase]
  by (auto simp: supabase_migrates row_privilege_def SERVICE_TABLES_def)

section \<open>Where the service's unqualified names lead\<close>

text \<open>Someone who may create schemas makes one named like the role, with a table of the same name.\<close>

definition hijack :: "string \<Rightarrow> pg_schema \<Rightarrow> pg_table \<Rightarrow> catalog \<Rightarrow> catalog" where
  "hijack t sc tb c = c\<lparr>schemas := dict_set APP_ROLE (sc\<lparr>schema_usage := insert (Role APP_ROLE) (schema_usage sc)\<rparr>) (schemas c),
     tables := dict_set (APP_ROLE, t) tb (tables c)\<rparr>"

text \<open>
  C25: A new session of the service finds its tables in \<open>public\<close>, whatever schemas others make. After
  the migrations a hijacker's table is not found; before 0007, and after its downgrade, it is.
\<close>

theorem search_path_is_pinned:
  assumes "fresh c" "alembic_upgrade c = (Inr (), c')" "t \<in> set SERVICE_TABLES"
  shows "resolve (hijack t sc tb c') APP_ROLE (login_path (hijack t sc tb c') APP_ROLE) t = Some (''public'', t) \<and>
    (\<exists>c6. downgrade_0007 c' = (Inr (), c6) \<and>
      resolve (hijack t sc tb c6) APP_ROLE (login_path (hijack t sc tb c6) APP_ROLE) t = Some (APP_ROLE, t))"
proof -
  let ?c = "at_head (new_version_table c) c"
  note able = fresh_parts(1) [OF assms(1)]
  have c': "c' = ?c" using migrates [OF assms(1)] assms(2) by simp
  obtain a where a: "dict_get (roles ?c) APP_ROLE = Some a" "role_path a = Some [''public'']"
    by (simp add: head_roles)
  let ?c6 = "?c\<lparr>roles := AList.update APP_ROLE (a\<lparr>role_path := None\<rparr>) (roles ?c)\<rparr>"
  have "may_create_roles ?c (me c)"
    using able by (auto simp: able_def may_create_roles_def head_roles app_attributes_def plain_role_def split: option.splits)
  then have down: "downgrade_0007 ?c = (Inr (), ?c6)"
    using a able_rights(1) [OF able] by (simp add: downgrade_0007_def on_postgres_def alter_role_path_def)
  have names: "APP_ROLE \<noteq> ''public''" "APP_ROLE \<noteq> ''$user''" by (simp_all add: APP_ROLE_def)
  have usage: "may_use_schema (hijack t sc tb (?c\<lparr>roles := rs\<rparr>)) APP_ROLE ''public''"
    "may_use_schema (hijack t sc tb (?c\<lparr>roles := rs\<rparr>)) APP_ROLE APP_ROLE" for rs
    using names able_rights(3) [OF able]
    by (auto simp: may_use_schema_def hijack_def head_schemas map_of_append map_add_def PRIVATE_SCHEMA_def)
  have there: "dict_get (tables (hijack t sc tb (?c\<lparr>roles := rs\<rparr>))) (''public'', t) \<noteq> None"
    "dict_get (tables (hijack t sc tb (?c\<lparr>roles := rs\<rparr>))) (APP_ROLE, t) \<noteq> None" for rs
    using names assms(3) distinct_tables(3) head_lookup [OF able] by (auto simp: hijack_def)
  have same: "?c\<lparr>roles := roles ?c\<rparr> = ?c" by simp
  have "login_path (hijack t sc tb ?c) APP_ROLE = [''public'']"
    using a by (simp add: login_path_def hijack_def)
  then have "resolve (hijack t sc tb ?c) APP_ROLE (login_path (hijack t sc tb ?c) APP_ROLE) t = Some (''public'', t)"
    using usage(1) [of "roles ?c"] there(1) [of "roles ?c"] by (simp add: resolve_def searched_def same)
  moreover have "login_path (hijack t sc tb ?c6) APP_ROLE = DEFAULT_PATH"
    by (simp add: login_path_def hijack_def)
  then have "resolve (hijack t sc tb ?c6) APP_ROLE (login_path (hijack t sc tb ?c6) APP_ROLE) t = Some (APP_ROLE, t)"
    using usage(2) there(2) by (simp add: resolve_def searched_def DEFAULT_PATH_def)
  ultimately show ?thesis using down c' by blast
qed

theorem search_path_is_pinned_witness:
  "let c' = hijack ''entitlement_grants'' \<lparr>schema_owner = ''ci_runner'', schema_usage = {}, schema_create = {}\<rparr>
       \<lparr>tb_def = entitlement_grants_table, tb_owner = ''ci_runner'', tb_acl = {(Role APP_ROLE, SELECT)}, tb_rls = False, tb_policies = []\<rparr>
       (snd (alembic_upgrade supabase)) in
     resolve c' APP_ROLE (login_path c' APP_ROLE) ''entitlement_grants'' = Some (''public'', ''entitlement_grants'')"
  using search_path_is_pinned [OF fresh_supabase supabase_migrates, of "''entitlement_grants''"]
  by (simp add: supabase_migrates SERVICE_TABLES_def)

section \<open>The way back\<close>

text \<open>
  C26: The migrations round trip. Downgraded to the base, the database has none of the service's
  tables, no \<open>app_private\<close>, no function and no recorded version, and every other table and schema
  is as it was, \<open>public\<close> without a grant to \<open>app_service\<close>. Three things stay: the role \<open>app_service\<close>
  itself, without a search path of its own, which 0005 leaves in place on purpose; what 0004 revoked
  of the web roles' default privileges on \<open>public\<close>; and Alembic's version table, empty. Upgraded
  again, the database is exactly what the first upgrade made.
\<close>

theorem migrations_round_trip:
  assumes "fresh c" "nothing_private c" "alembic_upgrade c = (Inr (), c')"
  shows "\<exists>d. alembic_downgrade None c' = (Inr (), d) \<and> alembic_upgrade d = (Inr (), c') \<and>
    (\<forall>rel. rel \<noteq> (''public'', ''alembic_version'') \<longrightarrow> dict_get (tables d) rel = dict_get (tables c) rel) \<and>
    dict_get (tables d) (''public'', ''alembic_version'') \<noteq> None \<and> dict_get (version_num d) ''public'' = None \<and>
    routines d = routines c \<and> dict_get (schemas d) PRIVATE_SCHEMA = None \<and>
    (\<forall>s. s \<noteq> ''public'' \<longrightarrow> dict_get (schemas d) s = dict_get (schemas c) s) \<and>
    (\<exists>sc. dict_get (schemas c) ''public'' = Some sc \<and>
       dict_get (schemas d) ''public'' = Some (sc\<lparr>schema_usage := schema_usage sc - {Role APP_ROLE}\<rparr>)) \<and>
    (\<forall>r. r \<noteq> APP_ROLE \<longrightarrow> dict_get (roles d) r = dict_get (roles c) r) \<and>
    (\<exists>a. dict_get (roles d) APP_ROLE = Some a \<and> role_path a = None \<and>
       a = (case dict_get (roles c) APP_ROLE of None \<Rightarrow> plain_role | Some b \<Rightarrow> b\<lparr>role_path := None\<rparr>)) \<and>
    default_acl d = {(creator, sc, g, p) \<in> default_acl c.
      \<not> (creator = me c \<and> sc = Some ''public'' \<and> g \<in> Role ` set (web_roles c))}"
proof -
  let ?vt = "new_version_table c"
  let ?d = "(unstamped (rolled_back c))\<lparr>tables := tables c @ [recorded_in (last_version_table ?vt c)]\<rparr>"
  note f = fresh_parts [OF assms(1)] and right = able_rights [OF fresh_parts(1) [OF assms(1)]]
  have c': "c' = at_head ?vt c" using migrates [OF assms(1)] assms(3) by simp
  have hidden: "no_private c" using f(2,3) by (simp add: no_private_def)
  have "alembic_downgrade None c' = (Inr (), ?d)"
    unfolding c' by (rule downgrades_to_base [OF f(1) hidden assms(2)]) simp
  moreover have "alembic_upgrade ?d = (Inr (), c')"
    unfolding c' by (rule upgrades_again [OF assms(1,2)]) simp
  moreover have "dict_get (tables ?d) rel = dict_get (tables c) rel" if "rel \<noteq> (''public'', ''alembic_version'')" for rel
    using that by (simp add: recorded_in_def map_of_append map_add_def split: option.split)
  moreover have "dict_get (tables ?d) (''public'', ''alembic_version'') \<noteq> None"
    by (simp add: recorded_in_def map_of_append map_add_def split: option.split)
  moreover have "dict_get (version_num ?d) ''public'' = None"
    by (simp add: unstamped_def AList.delete_conv')
  moreover have "routines ?d = routines c" by (simp add: unstamped_def)
  moreover have "dict_get (schemas ?d) PRIVATE_SCHEMA = None"
    using f(2) by (simp add: unstamped_def rolled_back_def PRIVATE_SCHEMA_def)
  moreover have "dict_get (schemas ?d) s = dict_get (schemas c) s" if "s \<noteq> ''public''" for s
    using that by (simp add: unstamped_def rolled_back_def)
  moreover have "\<exists>sc. dict_get (schemas c) ''public'' = Some sc \<and>
      dict_get (schemas ?d) ''public'' = Some (sc\<lparr>schema_usage := schema_usage sc - {Role APP_ROLE}\<rparr>)"
    using right(3) by (simp add: unstamped_def rolled_back_def)
  moreover have "dict_get (roles ?d) r = dict_get (roles c) r" if "r \<noteq> APP_ROLE" for r
    using that by (simp add: unstamped_def rolled_back_def)
  moreover have "\<exists>a. dict_get (roles ?d) APP_ROLE = Some a \<and> role_path a = None \<and>
      a = (case dict_get (roles c) APP_ROLE of None \<Rightarrow> plain_role | Some b \<Rightarrow> b\<lparr>role_path := None\<rparr>)"
    by (simp add: unstamped_def rolled_back_def app_attributes_def plain_role_def split: option.split)
  moreover have "default_acl ?d = {(creator, sc, g, p) \<in> default_acl c.
      \<not> (creator = me c \<and> sc = Some ''public'' \<and> g \<in> Role ` set (web_roles c))}"
    by (simp add: unstamped_def rolled_back_def default_acl_0004)
  ultimately show ?thesis by (intro exI [of _ ?d]) auto
qed

lemma supabase_no_private: "nothing_private supabase"
  by (simp add: nothing_private_def supabase_def PRIVATE_SCHEMA_def)

theorem migrations_round_trip_witness:
  "\<exists>d. alembic_downgrade None (snd (alembic_upgrade supabase)) = (Inr (), d) \<and> alembic_upgrade d = alembic_upgrade supabase \<and>
     dict_get (tables d) (''public'', ''subscriptions'') = None"
proof -
  have none: "dict_get (tables supabase) (''public'', ''subscriptions'') = None" by (simp add: supabase_def)
  from migrations_round_trip [OF fresh_supabase supabase_no_private supabase_migrates]
  obtain d where "alembic_downgrade None (snd (alembic_upgrade supabase)) = (Inr (), d)" "alembic_upgrade d = alembic_upgrade supabase"
    "dict_get (tables d) (''public'', ''subscriptions'') = dict_get (tables supabase) (''public'', ''subscriptions'')"
    unfolding supabase_migrates by auto
  with none show ?thesis by metis
qed

text \<open>
  A downgrade behind 0004 turns row security off again, and nothing more: what 0004 revoked stays
  revoked, so the roles of the public API still may do nothing with the tables.
\<close>

theorem downgrade_of_0004_reopens_nothing:
  assumes "fresh c" "nothing_private c" "alembic_upgrade c = (Inr (), c')" "api_role c r"
  shows "\<exists>d. alembic_downgrade (Some ''0003'') c' = (Inr (), d) \<and>
    (\<forall>t \<in> set LOCKED_TABLES. \<exists>tb. dict_get (tables d) (''public'', t) = Some tb \<and> \<not> tb_rls tb \<and>
       (\<forall>p. \<not> may d r p (''public'', t)))"
proof -
  let ?vt = "new_version_table c"
  let ?d = "(stamped ''0003'' (rolled_back c))\<lparr>tables := tables c @ tables_reopened ?vt c\<rparr>"
  note f = fresh_parts [OF assms(1)] and r = api_role_parts [OF assms(4)]
  have c': "c' = at_head ?vt c" using migrates [OF assms(1)] assms(3) by simp
  have hidden: "no_private c" using f(2,3) by (simp add: no_private_def)
  have down: "alembic_downgrade (Some ''0003'') c' = (Inr (), ?d)"
    unfolding c' by (rule downgrades_to_0003 [OF f(1) hidden assms(2)]) simp
  have "\<exists>tb. dict_get (tables ?d) (''public'', t) = Some tb \<and> \<not> tb_rls tb \<and> (\<forall>p. \<not> may ?d r p (''public'', t))"
    if t: "t \<in> set LOCKED_TABLES" for t
  proof -
    let ?tb = "with_rls False ((if t \<in> set SERVICE_TABLES then dismissed else (\<lambda>tb. tb)) (head_table ?vt c t))"
    have there: "dict_get (tables ?d) (''public'', t) = Some ?tb"
      using able_fresh [OF f(1) t] t by (simp add: tables_reopened_def hit_lookup head_tables_lookup del: hit_hit)
    have "\<not> is_superuser ?d r"
      using r(2,5) by (simp add: is_superuser_def stamped_def rolled_back_def)
    then have "\<not> has_privilege ?d r p ?tb" for p
      using r by (auto simp: has_privilege_def with_rls_def dismissed_def barred_def head_table_acl)
    with there show ?thesis by (simp add: may_def with_rls_def)
  qed
  with down show ?thesis by blast
qed

theorem downgrade_of_0004_reopens_nothing_witness:
  "\<not> may (snd (alembic_downgrade (Some ''0003'') (snd (alembic_upgrade supabase)))) ''anon'' SELECT (''public'', ''subscriptions'')"
proof -
  from downgrade_of_0004_reopens_nothing [OF fresh_supabase supabase_no_private supabase_migrates api_role_anon]
  obtain d where "alembic_downgrade (Some ''0003'') (at_head (new_version_table supabase) supabase) = (Inr (), d)"
    "\<forall>t \<in> set LOCKED_TABLES. \<forall>p. \<not> may d ''anon'' p (''public'', t)" by blast
  then show ?thesis by (simp add: supabase_migrates)
qed

end
