(* ===== verification/Flush_Check.thy ===== *)
theory Flush_Check
  imports Migration_Properties Examples
begin

text \<open>
  The session's flush against the database the migrations make: the constraints \<open>Session.flush\<close>
  checks before it lets rows through are read off the catalog \<open>alembic upgrade head\<close> leaves.
\<close>

section \<open>What the migrated database accepts\<close>

text \<open>
  The primary keys of three tables are surrogate ids nobody addresses, UUIDs drawn at insert,
  which the rows of the model do not keep.
\<close>

definition surrogate_keys :: "(string \<times> string list) list" where
  "surrogate_keys = [(''subscriptions'', [''id'']), (''usage_counters'', [''id'']), (''subscription_audit'', [''id''])]"

text \<open>Whether a table of the catalog accepts the rows: every key it has holds of them, NULLs being distinct.\<close>

definition accepts :: "catalog \<Rightarrow> string \<Rightarrow> payload list \<Rightarrow> bool" where
  "accepts c t rows \<longleftrightarrow> (case dict_get (tables c) (''public'', t) of
     None \<Rightarrow> False
   | Some tb \<Rightarrow> list_all (unique_on rows) (filter (\<lambda>key. (t, key) \<notin> set surrogate_keys) (keys_of (tb_def tb))))"

lemma head_keys:
  "keys_of (head_def ''subscriptions'') = [[''id''], [''user_id''], [''stripe_subscription_id''], [''stripe_customer_id'']]"
  "keys_of (head_def ''processed_events'') = [[''event_id'']]"
  "keys_of (head_def ''usage_counters'') = [[''id''], [''user_id'', ''key'', ''window_start'']]"
  "keys_of (head_def ''entitlement_grants'') = [[''id'']]" "keys_of (head_def ''sales_inquiries'') = [[''id'']]"
  "keys_of (head_def ''subscription_audit'') = [[''id'']]"
  by (simp_all add: head_def_def migrated_def migrated_names keys_migrated)

lemma accepts_head:
  assumes "fresh c" "t \<in> set SERVICE_TABLES"
  shows "accepts (at_head vt c) t rows \<longleftrightarrow>
    list_all (unique_on rows) (filter (\<lambda>key. (t, key) \<notin> set surrogate_keys) (keys_of (head_def t)))"
proof -
  have "t \<noteq> ''alembic_version''" using assms(2) by (auto simp: SERVICE_TABLES_def)
  then show ?thesis
    using assms locked_is_service
    by (simp add: accepts_def head_lookup [OF fresh_parts(1) [OF assms(1)]] base_table_def born_def)
qed

lemma surrogates_absent:
  "unique_on (map subscription_cells rs) [''id'']" "unique_on (map counter_cells cs) [''id'']"
  "unique_on (map audit_cells as) [''id'']"
  by (rule unique_absent, simp add: cell_def subscription_cells_def counter_cells_def audit_cells_def)+



end
