(* ===== verification/Role_Check.thy ===== *)
theory Role_Check
  imports Operator_Scripts Migration_Properties
begin

text \<open>
  \<open>scripts/check_db_role.py\<close> against the database the migrations make: the questions the script
  asks, answered from the catalog.
\<close>

section \<open>What Postgres answers\<close>

definition role_attribute :: "catalog \<Rightarrow> string \<Rightarrow> string \<Rightarrow> bool" where
  "role_attribute c r n = (case dict_get (roles c) r of
     None \<Rightarrow> False
   | Some a \<Rightarrow>
       if n = ''superuser'' then superuser a
       else if n = ''createrole'' then createrole a
       else if n = ''createdb'' then createdb a
       else n = ''bypassrls'' \<and> bypassrls a)"

definition has_schema_privilege :: "catalog \<Rightarrow> string \<Rightarrow> string \<Rightarrow> exc + bool" where
  "has_schema_privilege c r s = (if dict_get (schemas c) s = None
     then Inl (DatabaseError (''schema '' @ s @ '' does not exist'')) else Inr (may_use_schema c r s))"

text \<open>The script, run with the credential of a role.\<close>

definition check_role_of :: "catalog \<Rightarrow> string \<Rightarrow> exc + nat" where
  "check_role_of c r = check_db_role (role_attribute c r) (has_schema_privilege c r)
     (\<lambda>t. may c r SELECT (''public'', t)) (may c r INSERT (''public'', ''sales_inquiries''))"

section \<open>The check and the migrations\<close>

text \<open>The schemas the script asks about are there.\<close>

definition foreign_schemas :: "catalog \<Rightarrow> bool" where
  "foreign_schemas c \<longleftrightarrow> list_all (\<lambda>s. dict_get (schemas c) s \<noteq> None) FOREIGN_SCHEMAS"

lemma reached_found:
  assumes "list_all (\<lambda>s. dict_get (schemas c) s \<noteq> None) ss"
  shows "reached (has_schema_privilege c r) ss = Inr (filter (may_use_schema c r) ss)"
  using assms by (induction ss) (simp_all add: has_schema_privilege_def)

lemma head_foreign:
  "s \<in> set FOREIGN_SCHEMAS \<Longrightarrow> may_use_schema (at_head vt c) r s = may_use_schema c r s"
  "foreign_schemas c \<Longrightarrow> foreign_schemas (at_head vt c)"
  by (rule head_other_usage; auto simp: FOREIGN_SCHEMAS_def PRIVATE_SCHEMA_def)
    (simp add: foreign_schemas_def head_schemas FOREIGN_SCHEMAS_def map_of_append map_add_def PRIVATE_SCHEMA_def split: option.split)

lemma passes_iff:
  assumes "foreign_schemas c"
  shows "check_role_of c r = Inr 0 \<longleftrightarrow>
    (\<forall>n \<in> set ROLE_ATTRIBUTES. \<not> role_attribute c r n) \<and> (\<forall>s \<in> set FOREIGN_SCHEMAS. \<not> may_use_schema c r s) \<and>
    (\<forall>t \<in> set APP_TABLES. may c r SELECT (''public'', t)) \<and> may c r INSERT (''public'', ''sales_inquiries'')"
  using assms by (auto simp: check_role_of_def check_db_role_def role_problems_def foreign_schemas_def reached_found
      filter_empty_conv dropWhile_eq_Nil_conv)

text \<open>
  C24: The check agrees with the migrations. On a database the migrations made, with the schemas the
  script asks about there and closed to the service's role, the script finds nothing wrong with
  that role; it finds fault with the credential the migrations ran as, and with every role of
  the public API.
\<close>

theorem migrated_role_passes_check:
  assumes "fresh c" "alembic_upgrade c = (Inr (), c')" "app_role_new c" "foreign_schemas c"
    and "list_all (\<lambda>s. \<not> may_use_schema c APP_ROLE s) FOREIGN_SCHEMAS"
  shows "check_role_of c' APP_ROLE = Inr 0 \<and> check_role_of c' (me c) = Inr 1 \<and>
    (api_role c r \<longrightarrow> check_role_of c' r = Inr 1)"
proof -
  let ?vt = "new_version_table c"
  have c': "c' = at_head ?vt c" using migrates [OF assms(1)] assms(2) by simp
  have there: "foreign_schemas c'" using head_foreign(2) [OF assms(4)] c' by simp
  have exit: "check_role_of c' q = Inr 0 \<or> check_role_of c' q = Inr 1" for q
    using there by (simp add: check_role_of_def check_db_role_def role_problems_def foreign_schemas_def reached_found)
  have app: "\<forall>p rel. may c' APP_ROLE p rel \<longleftrightarrow> row_privilege p \<and> rel \<in> Pair ''public'' ` set SERVICE_TABLES"
    and attrs: "dict_get (roles c') APP_ROLE = Some (plain_role\<lparr>role_path := Some [''public'']\<rparr>)"
    using app_role_facts [OF assms(1-3)] by blast+
  have "\<not> role_attribute c' APP_ROLE n" for n
    using attrs by (simp add: role_attribute_def plain_role_def)
  moreover have "\<not> may_use_schema c' APP_ROLE s" if "s \<in> set FOREIGN_SCHEMAS" for s
    using head_foreign(1) [OF that] assms(5) that by (simp add: c' list_all_iff)
  ultimately have "check_role_of c' APP_ROLE = Inr 0"
    by (simp add: passes_iff [OF there] app row_privilege_def APP_TABLES_def SERVICE_TABLES_def)
  moreover have "check_role_of c' (me c) \<noteq> Inr 0"
  proof -
    have "me c \<noteq> APP_ROLE" using assms(3) by (simp add: app_role_new_def)
    then have "\<exists>n \<in> set ROLE_ATTRIBUTES. role_attribute c' (me c) n"
      using able_rights(2) [OF fresh_parts(1) [OF assms(1)]]
      by (auto simp: role_attribute_def c' head_roles may_create_roles_def ROLE_ATTRIBUTES_def split: option.splits)
    then show ?thesis using passes_iff [OF there] by blast
  qed
  moreover have "check_role_of c' r \<noteq> Inr 0" if r: "api_role c r"
  proof -
    have "\<not> may c' r SELECT (''public'', ''subscriptions'')"
      using locked_out_facts [OF assms(1,2) r] by simp
    then show ?thesis by (simp add: passes_iff [OF there] APP_TABLES_def)
  qed
  ultimately show ?thesis using exit by blast
qed

text \<open>With the schemas Supabase has.\<close>

definition supabase_project :: catalog where
  "supabase_project = supabase\<lparr>schemas := schemas supabase @
     map (\<lambda>s. (s, \<lparr>schema_owner = ''supabase_admin'', schema_usage = {}, schema_create = {}\<rparr>)) FOREIGN_SCHEMAS\<rparr>"

theorem migrated_role_passes_check_witness:
  "check_role_of (snd (alembic_upgrade supabase_project)) APP_ROLE = Inr 0 \<and>
   check_role_of (snd (alembic_upgrade supabase_project)) ''postgres'' = Inr 1 \<and>
   check_role_of (snd (alembic_upgrade supabase_project)) ''anon'' = Inr 1"
proof -
  let ?c = "supabase_project"
  have fresh: "fresh ?c"
    by (simp add: fresh_def able_def no_private_def supabase_project_def supabase_def may_create_roles_def PRIVATE_SCHEMA_def
        MISSING_ACCOUNTS_def LOCKED_TABLES_def FOREIGN_SCHEMAS_def)
  have app: "app_role_new ?c"
    by (auto simp: app_role_new_def supabase_project_def supabase_def APP_ROLE_def)
  have there: "foreign_schemas ?c"
    by (simp add: foreign_schemas_def supabase_project_def supabase_def FOREIGN_SCHEMAS_def)
  have closed: "list_all (\<lambda>s. \<not> may_use_schema ?c APP_ROLE s) FOREIGN_SCHEMAS"
    by (simp add: may_use_schema_def is_superuser_def supabase_project_def supabase_def FOREIGN_SCHEMAS_def APP_ROLE_def)
  have anon: "api_role ?c ''anon''"
    using api_role_anon by (simp add: api_role_def supabase_project_def)
  have "me ?c = ''postgres''" by (simp add: supabase_project_def supabase_def)
  with migrated_role_passes_check [OF fresh migrates [OF fresh] app there closed] anon show ?thesis
    by (simp add: migrates [OF fresh])
qed

section \<open>What the check gets wrong\<close>

text \<open>
  The tables are read in one transaction. Once one is denied, every later one is reported as
  not readable, although the role may read it; and where a schema the script asks about does
  not exist, as on a plain Postgres, the script ends with the error and reports nothing.
\<close>

theorem one_denied_table_hides_the_rest:
  "\<not> readable ''subscriptions'' \<Longrightarrow> reached can_reach FOREIGN_SCHEMAS = Inr found \<Longrightarrow>
     \<exists>ps. role_problems attribute can_reach readable writable = Inr ps \<and> ''cannot read sales_inquiries'' \<in> set ps"
  "can_reach ''auth'' = Inl e \<Longrightarrow> check_db_role attribute can_reach readable writable = Inl e"
  by (simp_all add: role_problems_def check_db_role_def APP_TABLES_def FOREIGN_SCHEMAS_def)

end
