(* ===== verification/Reconcile_Convergence.thy ===== *)
theory Reconcile_Convergence
  imports Reconcile_Properties
begin

text \<open>
  The whole nightly run at once: where the provider is steady and everybody has an account, one
  run leaves no listed customer in drift, and the next one finds nothing to do.
\<close>

section \<open>A steady night\<close>

text \<open>The listed subscription of a row, and what the run makes of the row.\<close>

definition listed_for :: "remote_subscription list \<Rightarrow> subscription \<Rightarrow> remote_subscription option" where
  "listed_for rems row = List.find (\<lambda>rem. rs_customer_id rem \<noteq> None \<and> rs_customer_id rem = stripe_customer_id row) rems"

definition repaired :: "settings \<Rightarrow> int \<Rightarrow> remote_subscription list \<Rightarrow> subscription \<Rightarrow> subscription" where
  "repaired S t rems row = (case listed_for rems row of
     None \<Rightarrow> row
   | Some rem \<Rightarrow> if drifted S row rem then mirrored S t (Some rem) row else row)"

text \<open>
  One listed subscription per customer, unmarked, which is the one the provider answers with; each
  customer has a row with a user, and no row of another customer holds a listed subscription.
\<close>

definition steady :: "'r provider \<Rightarrow> remote_subscription list \<Rightarrow> subscription list \<Rightarrow> bool" where
  "steady PV rems rows \<longleftrightarrow>
     distinct (map rs_customer_id rems) \<and>
     (\<forall>rem \<in> set rems. truthy (rs_customer_id rem) \<and> orphan_marks rem = [] \<and>
        (\<forall>r. \<exists>r'. p_fetch_current_subscription PV (the (rs_customer_id rem)) r = (Inr (Some rem), r')) \<and>
        (\<exists>row \<in> set rows. stripe_customer_id row = rs_customer_id rem \<and> user_id row \<noteq> []) \<and>
        (\<forall>row \<in> set rows. stripe_subscription_id row = Some (rs_id rem) \<longrightarrow> stripe_customer_id row = rs_customer_id rem)) \<and>
     distinct (map rs_id rems)"

text \<open>A directory in which every account is there.\<close>

definition all_accounts :: "('r, 'c) accounts \<Rightarrow> bool" where
  "all_accounts AD \<longleftrightarrow> (\<forall>ids w. AD ids w = (Inr (Some []), w))"

section \<open>One repair\<close>

lemma distinct_replaced:
  assumes "distinct xs" "distinct (List.map_filter f xs)"
    and "\<forall>y \<in> set xs. y \<noteq> x \<longrightarrow> f y = None \<or> f y \<noteq> f x'"
  shows "distinct (List.map_filter f (map (\<lambda>y. if y = x then x' else y) xs))"
  using assms
proof (induction xs)
  case (Cons a xs)
  let ?new = "\<lambda>y. if y = x then x' else y"
  have IH: "distinct (List.map_filter f (map ?new xs))"
    using Cons by (auto simp: map_filter_simps split: option.splits)
  have "k \<notin> set (List.map_filter f (map ?new xs))" if "f (?new a) = Some k" for k
    using that Cons.prems by (auto simp: in_map_filter map_filter_simps split: if_splits option.splits)
  with IH show ?case by (cases "f (?new a)") (simp_all add: map_filter_simps)
qed (simp add: map_filter_simps)

lemma only_customer_row:
  assumes "unique_subscriptions rows" "sub \<in> set rows" "stripe_customer_id sub = Some cid"
    and "r \<in> set rows" "stripe_customer_id r = Some cid"
  shows "r = sub"
proof -
  have "filter (\<lambda>r. stripe_customer_id r = Some cid) rows = [sub]"
    using filter_column_unique [of stripe_customer_id rows sub cid] assms(1-3) by (simp add: unique_subscriptions_def)
  moreover have "r \<in> set (filter (\<lambda>r. stripe_customer_id r = Some cid) rows)" using assms(4,5) by simp
  ultimately show ?thesis by simp
qed

lemma mirrored_subscription: "stripe_subscription_id (mirrored S t (Some rem) sub) \<in> {None, Some (rs_id rem)}"
  by (auto simp: mirrored_def project_def NO_SUBSCRIPTION_def split: prod.split)

lemma mirrored_user: "user_id (mirrored S t ans sub) = user_id sub"
  by (simp add: mirrored_def)

lemma repaired_same [simp]:
  "user_id (repaired S t rems row) = user_id row" "stripe_customer_id (repaired S t rems row) = stripe_customer_id row"
  by (simp_all add: repaired_def mirrored_def split: option.split)

lemma listed_for_one:
  "listed_for [rem] row = (if rs_customer_id rem \<noteq> None \<and> rs_customer_id rem = stripe_customer_id row then Some rem else None)"
  by (cases "rs_customer_id rem") (auto simp: listed_for_def)

lemma listed_for_repaired [simp]: "listed_for rems (repaired S t rems' row) = listed_for rems row"
  by (simp add: listed_for_def)

lemma listed_for_append:
  "listed_for (xs @ ys) row = (case listed_for xs row of None \<Rightarrow> listed_for ys row | Some rem \<Rightarrow> Some rem)"
  by (induction xs) (auto simp: listed_for_def)

text \<open>A run over some subscriptions and then over others is one over all.\<close>

lemma repaired_append:
  assumes "distinct (map rs_customer_id (xs @ ys))"
  shows "repaired S t ys (repaired S t xs row) = repaired S t (xs @ ys) row"
proof (cases "listed_for xs row")
  case (Some rem)
  then have rem: "rem \<in> set xs" "rs_customer_id rem = stripe_customer_id row"
    by (auto simp: listed_for_def dest: find_Some_D)
  have "listed_for ys row = None"
  proof (rule ccontr)
    assume "listed_for ys row \<noteq> None"
    then obtain rem' where "rem' \<in> set ys" "rs_customer_id rem' = stripe_customer_id row"
      by (auto simp: listed_for_def dest: find_Some_D)
    with rem assms show False by auto (metis disjoint_iff image_eqI)
  qed
  then have "repaired S t ys (repaired S t xs row) = repaired S t xs row"
    by (simp add: repaired_def [of S t ys])
  then show ?thesis using Some by (simp add: repaired_def listed_for_append)
next
  case None
  then show ?thesis by (simp add: repaired_def listed_for_append)
qed

text \<open>What one item makes of the rows, and that they stay unique and steady.\<close>

lemma one_repair:
  assumes "unique_subscriptions rows" "sub \<in> set rows" "stripe_customer_id sub = rs_customer_id rem" "rs_customer_id rem = Some cid"
  shows "map (repaired S t [rem]) rows =
      (if drifted S sub rem then map (\<lambda>r. if r = sub then mirrored S t (Some rem) sub else r) rows else rows)"
    "drifted S sub rem \<Longrightarrow> put_subscription (mirrored S t (Some rem) sub) rows = map (repaired S t [rem]) rows"
proof -
  have each: "repaired S t [rem] r = (if drifted S sub rem \<and> r = sub then mirrored S t (Some rem) sub else r)"
    if "r \<in> set rows" for r
  proof (cases "stripe_customer_id r = Some cid")
    case True
    then have "r = sub" using only_customer_row [OF assms(1,2) _ that] assms(3,4) by simp
    then show ?thesis using assms(3,4) by (simp add: repaired_def listed_for_one)
  next
    case False
    moreover from this have "r \<noteq> sub" using assms(3,4) by auto
    ultimately show ?thesis using assms(4) by (simp add: repaired_def listed_for_one)
  qed
  show one: "map (repaired S t [rem]) rows =
      (if drifted S sub rem then map (\<lambda>r. if r = sub then mirrored S t (Some rem) sub else r) rows else rows)"
    using each by (cases "drifted S sub rem") (simp_all add: map_idI)
  have users: "(user_id r = user_id sub) = (r = sub)" if "r \<in> set rows" for r
    using assms(1,2) that by (auto simp: unique_subscriptions_def distinct_map inj_on_def)
  show "put_subscription (mirrored S t (Some rem) sub) rows = map (repaired S t [rem]) rows" if "drifted S sub rem"
    unfolding one put_subscription_def
    by (simp only: that if_True mirrored_user, rule map_cong [OF refl]) (simp only: users)
qed

lemma steady_step:
  assumes "unique_subscriptions rows" "steady PV (rem # rems) rows"
  shows "unique_subscriptions (map (repaired S t [rem]) rows)" "steady PV rems (map (repaired S t [rem]) rows)"
proof -
  obtain cid where cid: "rs_customer_id rem = Some cid" using assms(2) by (cases "rs_customer_id rem") (auto simp: steady_def)
  obtain sub where sub: "sub \<in> set rows" "stripe_customer_id sub = rs_customer_id rem"
    using assms(2) by (auto simp: steady_def)
  note rows = one_repair(1) [OF assms(1) sub cid, of S t]
  let ?new = "map (repaired S t [rem]) rows"
  have d: "distinct rows" using assms(1) by (auto simp: unique_subscriptions_def distinct_map)
  have "distinct (List.map_filter stripe_subscription_id ?new)"
  proof (cases "drifted S sub rem")
    case True
    have "\<forall>r \<in> set rows. r \<noteq> sub \<longrightarrow>
        stripe_subscription_id r = None \<or> stripe_subscription_id r \<noteq> stripe_subscription_id (mirrored S t (Some rem) sub)"
    proof (intro ballI impI, rule ccontr)
      fix r assume r: "r \<in> set rows" "r \<noteq> sub"
        and "\<not> (stripe_subscription_id r = None \<or> stripe_subscription_id r \<noteq> stripe_subscription_id (mirrored S t (Some rem) sub))"
      then have "stripe_subscription_id r = Some (rs_id rem)" using mirrored_subscription [of S t rem sub] by auto
      then have "stripe_customer_id r = Some cid" using assms(2) r(1) cid by (simp add: steady_def)
      with only_customer_row [OF assms(1) sub(1) _ r(1)] sub(2) cid r(2) show False by simp
    qed
    with True d assms(1) show ?thesis by (simp add: rows distinct_replaced unique_subscriptions_def)
  qed (use assms(1) rows in \<open>simp add: unique_subscriptions_def\<close>)
  moreover have "map user_id ?new = map user_id rows" "List.map_filter stripe_customer_id ?new = List.map_filter stripe_customer_id rows"
    by (simp, induction rows) (simp_all add: map_filter_simps split: option.split)
  ultimately show "unique_subscriptions ?new"
    using assms(1) unfolding unique_subscriptions_def by (simp only:)
  have "stripe_customer_id (repaired S t [rem] row) = rs_customer_id rem'"
    if "row \<in> set rows" "rem' \<in> set rems" "stripe_subscription_id (repaired S t [rem] row) = Some (rs_id rem')" for row rem'
  proof -
    have "rs_id rem' \<noteq> rs_id rem" using assms(2) that(2) unfolding steady_def by (metis distinct.simps(2) image_eqI list.simps(9) set_map)
    then have "stripe_subscription_id row = Some (rs_id rem')"
      using that(3) mirrored_subscription [of S t rem row]
      by (auto simp: repaired_def listed_for_one split: if_splits)
    with that assms(2) show ?thesis by (auto simp: steady_def)
  qed
  then show "steady PV rems ?new"
    using assms(2) by (auto simp: steady_def)
qed

section \<open>The walk\<close>

definition in_drift :: "settings \<Rightarrow> subscription list \<Rightarrow> remote_subscription \<Rightarrow> bool" where
  "in_drift S rows rem \<longleftrightarrow> list_ex (\<lambda>row. stripe_customer_id row = rs_customer_id rem \<and> drifted S row rem) rows"

text \<open>What a run over some listed subscriptions has done to the world and the report.\<close>

definition converged ::
  "settings \<Rightarrow> remote_subscription list \<Rightarrow> ('r, 'c) world \<times> report \<Rightarrow> ('r, 'c) world \<times> report \<Rightarrow> bool" where
  "converged S rems = (\<lambda>(w, rep) (w', rep').
     idle w' \<and> locked w' = [] \<and> now w' = now w \<and>
     (\<exists>audit. durable w' = (durable w)
        \<lparr>subscriptions := map (repaired S (now w) rems) (subscriptions (durable w)), subscription_audit := audit\<rparr>) \<and>
     rr_failed rep' = rr_failed rep \<and> rr_orphaned rep' = rr_orphaned rep \<and> rr_unnotified rep' = rr_unnotified rep \<and>
     rr_mismatched rep' = rr_mismatched rep + length (filter (in_drift S (subscriptions (durable w))) rems))"

lemma in_drift_later:
  assumes "distinct (map rs_customer_id (xs @ ys))" "rem \<in> set ys"
  shows "in_drift S (map (repaired S t xs) rows) rem = in_drift S rows rem"
proof -
  have "repaired S t xs row = row" if "stripe_customer_id row = rs_customer_id rem" for row
  proof -
    have "listed_for xs row = None"
      using assms that by (force simp: listed_for_def find_None_iff)
    then show ?thesis by (simp add: repaired_def)
  qed
  then show ?thesis by (auto simp: in_drift_def list_ex_iff)
qed

lemma converged_rows:
  assumes "converged S rems (w, rep) (w', rep')"
  shows "subscriptions (durable w') = map (repaired S (now w) rems) (subscriptions (durable w))"
  using assms by (auto simp: converged_def)

lemma converged_trans:
  assumes "converged S xs (w, rep) (w1, rep1)" "converged S ys (w1, rep1) (w2, rep2)" "distinct (map rs_customer_id (xs @ ys))"
  shows "converged S (xs @ ys) (w, rep) (w2, rep2)"
proof -
  have rows: "subscriptions (durable w1) = map (repaired S (now w) xs) (subscriptions (durable w))"
    using converged_rows [OF assms(1)] .
  have "filter (in_drift S (subscriptions (durable w1))) ys = filter (in_drift S (subscriptions (durable w))) ys"
    unfolding rows by (rule filter_cong) (simp_all add: in_drift_later [OF assms(3)])
  moreover have "\<exists>audit. durable w2 = (durable w)\<lparr>subscriptions := map (repaired S (now w) (xs @ ys)) (subscriptions (durable w)),
      subscription_audit := audit\<rparr>"
  proof -
    obtain a1 a2 where
      1: "durable w1 = (durable w)\<lparr>subscriptions := map (repaired S (now w) xs) (subscriptions (durable w)), subscription_audit := a1\<rparr>" and
      2: "durable w2 = (durable w1)\<lparr>subscriptions := map (repaired S (now w) ys) (subscriptions (durable w1)), subscription_audit := a2\<rparr>"
      using assms(1,2) by (auto simp: converged_def)
    have "durable w2 = (durable w)\<lparr>subscriptions := map (repaired S (now w) (xs @ ys)) (subscriptions (durable w)), subscription_audit := a2\<rparr>"
      unfolding 2 rows using repaired_append [OF assms(3)] by (simp add: 1)
    then show ?thesis by blast
  qed
  ultimately show ?thesis using assms(1,2) by (simp add: converged_def)
qed

text \<open>A row in agreement: the item commits nothing.\<close>

lemma item_agrees:
  assumes "idle w" "ready cid sub w" "cid \<noteq> []" "user_id sub \<noteq> []" "rs_customer_id rem = Some cid"
    and "all_accounts AD" "orphan_marks rem = []" "\<not> drifted S sub rem"
  shows "\<exists>m. reconcile_item S PV B AD False rem (w, rep) =
    (Inr (), (w\<lparr>metrics := m\<rparr>, rep\<lparr>rr_checked := rr_checked rep + 1\<rparr>))"
proof -
  have acc: "account_state AD (user_id sub) w = (Inr (Some False), w)"
    using assms(6) by (simp add: account_state_def and_then_def all_accounts_def)
  have i: "db_up w" "rivals w = []" "marks w = []" "view w = durable w" "unique_rows (view w)"
    using assms(1) by (simp_all add: idle_def)
  obtain m where com: "commit_and_invalidate B w = (Inr (), w\<lparr>durable := view w, marks := [], cache := cache w, metrics := m\<rparr>)"
    using commit_and_invalidate_apply [OF i(1,2,5), of B] i(3) by auto
  have "w\<lparr>durable := view w, marks := [], cache := cache w, metrics := m\<rparr> = w\<lparr>metrics := m\<rparr>"
    using i by (cases w) simp
  with com have "repair_one S PV B AD False rem cid (w, rep0) = (Inr False, (w\<lparr>metrics := m\<rparr>, rep0))" for rep0
    by (simp add: repair_one_def reconcile_one_def and_then_def find_unlocked [OF assms(2)] assms(4,7,8) acc)
  from item_Inr [OF assms(5,3) this] show ?thesis by auto
qed

lemma unchanged_rows: "\<exists>audit. db = db\<lparr>subscriptions := subscriptions db, subscription_audit := audit\<rparr>"
  by (rule exI [of _ "subscription_audit db"]) simp

lemma item_converges:
  assumes "idle w" "locked w = []" "all_accounts AD" "steady PV (rem # later) (subscriptions (durable w))"
  shows "\<exists>w' rep'. reconcile_item S PV B AD False rem (w, rep) = (Inr (), (w', rep')) \<and>
    converged S [rem] (w, rep) (w', rep') \<and> steady PV later (subscriptions (durable w'))"
proof -
  let ?rows = "subscriptions (durable w)"
  have i: "db_up w" "rivals w = []" "marks w = []" "view w = durable w" "unique_rows (durable w)"
    using assms(1) by (simp_all add: idle_def)
  then have u: "unique_subscriptions ?rows" by (simp add: unique_rows_def)
  obtain cid where cid: "rs_customer_id rem = Some cid" "cid \<noteq> []" "orphan_marks rem = []"
    using assms(4) by (cases "rs_customer_id rem") (auto simp: steady_def)
  obtain sub where sub: "sub \<in> set ?rows" "stripe_customer_id sub = rs_customer_id rem" "user_id sub \<noteq> []"
    using assms(4) by (auto simp: steady_def)
  have ready: "ready cid sub w" using i assms(2) sub cid by (simp add: ready_def)
  have drift: "in_drift S ?rows rem \<longleftrightarrow> drifted S sub rem"
  proof
    assume "in_drift S ?rows rem"
    then obtain row where row: "row \<in> set ?rows" "stripe_customer_id row = Some cid" "drifted S row rem"
      using cid(1) by (auto simp: in_drift_def list_ex_iff)
    with only_customer_row [OF u sub(1) _ row(1,2)] sub(2) cid(1) show "drifted S sub rem" by simp
  next
    assume "drifted S sub rem"
    with sub show "in_drift S ?rows rem" by (auto simp: in_drift_def list_ex_iff)
  qed
  note rows = one_repair [OF u sub(1,2) cid(1), of S "now w"] and stepped = steady_step [OF u assms(4), of S "now w"]
  show ?thesis
  proof (cases "drifted S sub rem")
    case False
    obtain m where "reconcile_item S PV B AD False rem (w, rep) = (Inr (), (w\<lparr>metrics := m\<rparr>, rep\<lparr>rr_checked := rr_checked rep + 1\<rparr>))"
      using item_agrees [OF assms(1) ready cid(2) sub(3) cid(1) assms(3) cid(3) False] by blast
    moreover have same: "map (repaired S (now w) [rem]) ?rows = ?rows" using rows(1) False by simp
    moreover have "converged S [rem] (w, rep) (w\<lparr>metrics := m\<rparr>, rep\<lparr>rr_checked := rr_checked rep + 1\<rparr>)" for m
    proof -
      have "idle (w\<lparr>metrics := m\<rparr>)" using assms(1) by (simp add: idle_def)
      moreover have "filter (in_drift S ?rows) [rem] = []" using False drift by simp
      moreover note assms(2)
      ultimately show ?thesis
        unfolding converged_def prod.case same using unchanged_rows [of "durable w"] by simp
    qed
    ultimately show ?thesis
      using stepped(2) by (intro exI conjI) (assumption, assumption, simp)
  next
    case True
    obtain r' where fetch: "p_fetch_current_subscription PV cid (remote w) = (Inr (Some rem), r')"
    proof -
      have "\<forall>r. \<exists>r'. p_fetch_current_subscription PV cid r = (Inr (Some rem), r')"
        using assms(4) cid(1) by (simp add: steady_def)
      then show thesis using that by blast
    qed
    have check: "checkable PV AD rem cid sub (Some rem) r' w"
      using assms(1,3) ready cid sub(3) fetch by (simp add: checkable_def all_accounts_def)
    let ?db = "synced_db S (now w) None ''reconcile.drift'' sub (Some rem) (view w)"
    have subs: "subscriptions ?db = map (repaired S (now w) [rem]) ?rows"
      using rows(2) [OF True] i(4) by (simp add: synced_db_def Let_def)
    have "unique_rows ?db"
      using i(5) stepped(1) subs by (simp add: unique_rows_def) (simp add: synced_db_def Let_def i(4))
    from item_drift [OF check True this, of B rep] this show ?thesis
      using i(1-3) stepped(2) subs True drift assms(2)
      by (auto simp: converged_def idle_def) (auto simp: synced_db_def Let_def i(4))
  qed
qed

lemma converged_none: "idle w \<Longrightarrow> locked w = [] \<Longrightarrow> converged S [] (w, rep) (w, rep)"
  unfolding converged_def prod.case
  using unchanged_rows [of "durable w"] by (simp add: repaired_def [abs_def] listed_for_def)

lemma steady_distinct: "steady PV rems rows \<Longrightarrow> distinct (map rs_customer_id rems)"
  by (simp add: steady_def)

lemma converged_state:
  assumes "converged S rems (w, rep) (w', rep')"
  shows "idle w'" "locked w' = []"
  using assms by (auto simp: converged_def)

lemma items_converge:
  assumes "idle w" "locked w = []" "all_accounts AD" "steady PV (rems @ later) (subscriptions (durable w))"
  shows "\<exists>w' rep'. for_each (reconcile_item S PV B AD False) rems (w, rep) = (Inr (), (w', rep')) \<and>
    converged S rems (w, rep) (w', rep') \<and> steady PV later (subscriptions (durable w'))"
  using assms
proof (induction rems arbitrary: w rep)
  case Nil
  then show ?case using converged_none [of w S rep] by auto
next
  case (Cons rem rems)
  obtain w1 rep1 where 1: "reconcile_item S PV B AD False rem (w, rep) = (Inr (), (w1, rep1))"
    "converged S [rem] (w, rep) (w1, rep1)" "steady PV (rems @ later) (subscriptions (durable w1))"
    using item_converges [OF Cons.prems(1-3), where rem = rem and later = "rems @ later" and PV = PV and S = S and B = B and rep = rep] Cons.prems(4) by auto
  obtain w2 rep2 where 2: "for_each (reconcile_item S PV B AD False) rems (w1, rep1) = (Inr (), (w2, rep2))"
    "converged S rems (w1, rep1) (w2, rep2)" "steady PV later (subscriptions (durable w2))"
    using Cons.IH [OF converged_state [OF 1(2)] Cons.prems(3) 1(3)] by blast
  have "converged S ([rem] @ rems) (w, rep) (w2, rep2)"
    using converged_trans [OF 1(2) 2(2)] steady_distinct [OF Cons.prems(4)] by simp
  then show ?case using 1 2 by (auto simp: and_then_Inr)
qed

lemma converged_remote: "converged S rems (w\<lparr>remote := r\<rparr>, rep) s = converged S rems (w, rep) s"
  by (simp add: converged_def split: prod.split)

lemma pages_converge:
  assumes "paged PV after ps" "length ps \<le> fuel" "idle w" "locked w = []" "all_accounts AD"
    and "steady PV (concat (map page_items ps)) (subscriptions (durable w))"
  shows "\<exists>w' rep'. reconcile_pages S PV B AD False fuel after (w, rep) = (Inr True, (w', rep')) \<and>
    converged S (concat (map page_items ps)) (w, rep) (w', rep')"
  using assms
proof (induction ps arbitrary: after fuel w rep)
  case Nil
  then show ?case by simp
next
  case (Cons p ps)
  then obtain n where fuel: "fuel = Suc n" "length ps \<le> n" by (cases fuel) auto
  have "\<forall>r. \<exists>r'. p_list_subscriptions_page PV after r = (Inr p, r')"
    using Cons.prems(1) by (cases ps) auto
  then obtain r' where page: "p_list_subscriptions_page PV after (remote w) = (Inr p, r')" by blast
  have idle: "idle (w\<lparr>remote := r'\<rparr>)" "locked (w\<lparr>remote := r'\<rparr>) = []"
    using Cons.prems(3,4) by (simp_all add: idle_def)
  have "steady PV (page_items p @ concat (map page_items ps)) (subscriptions (durable (w\<lparr>remote := r'\<rparr>)))"
    using Cons.prems(6) by simp
  from items_converge [OF idle Cons.prems(5) this, of S B rep]
  obtain w1 rep1 where 1: "for_each (reconcile_item S PV B AD False) (page_items p) (w\<lparr>remote := r'\<rparr>, rep) = (Inr (), (w1, rep1))"
    "converged S (page_items p) (w, rep) (w1, rep1)" "steady PV (concat (map page_items ps)) (subscriptions (durable w1))"
    by (auto simp: converged_remote)
  show ?case
  proof (cases ps)
    case Nil
    with Cons.prems(1) have "page_items p = [] \<or> \<not> page_has_more p" by simp
    then show ?thesis using page 1 Nil fuel(1) by (auto simp: and_then_def call_apply)
  next
    case (Cons q qs)
    with Cons.prems(1) have p: "page_items p \<noteq> []" "page_has_more p"
      "paged PV (Some (rs_id (last (page_items p)))) ps" by simp_all
    from Cons.IH [OF p(3) fuel(2) converged_state [OF 1(2)] Cons.prems(5) 1(3), of rep1]
    obtain w2 rep2 where 2: "reconcile_pages S PV B AD False n (Some (rs_id (last (page_items p)))) (w1, rep1) = (Inr True, (w2, rep2))"
      "converged S (concat (map page_items ps)) (w1, rep1) (w2, rep2)" by blast
    have "converged S (page_items p @ concat (map page_items ps)) (w, rep) (w2, rep2)"
      by (rule converged_trans [OF 1(2) 2(2)]) (use Cons.prems(6) in \<open>simp add: steady_def\<close>)
    then show ?thesis using p page 1(1) 2(1) fuel(1) by (auto simp: and_then_def call_apply)
  qed
qed

section \<open>Convergence\<close>

lemma repaired_agrees: "listed_for rems row = Some rem \<Longrightarrow> \<not> drifted S (repaired S t rems row) rem"
  by (simp add: repaired_def drifted_def mirrored_def)

lemma repaired_again: "repaired S t' rems (repaired S t rems row) = repaired S t rems row"
proof (cases "listed_for rems row")
  case None
  then show ?thesis by (simp add: repaired_def)
next
  case (Some rem)
  then show ?thesis
    using repaired_agrees [OF Some, of S t] by (simp add: repaired_def [of S t'])
qed

lemma steady_after:
  assumes "idle w" "locked w = []" "all_accounts AD" "steady PV rems (subscriptions (durable w))"
    and "converged S rems (w, rep) (w', rep')"
  shows "steady PV rems (subscriptions (durable w'))"
proof -
  have rows: "subscriptions (durable w') = map (repaired S (now w) rems) (subscriptions (durable w))"
    by (rule converged_rows [OF assms(5)])
  have "stripe_customer_id row = rs_customer_id rem"
    if listed: "row \<in> set (subscriptions (durable w))" "rem \<in> set rems" "stripe_subscription_id (repaired S (now w) rems row) = Some (rs_id rem)" for row rem
  proof (cases "stripe_subscription_id row = Some (rs_id rem)")
    case True
    then show ?thesis using assms(4) listed by (auto simp: steady_def)
  next
    case False
    then obtain rem' where r: "listed_for rems row = Some rem'" "stripe_subscription_id (mirrored S (now w) (Some rem') row) = Some (rs_id rem)"
      using listed(3) by (auto simp: repaired_def split: option.splits if_splits)
    then have "rs_id rem' = rs_id rem" "rem' \<in> set rems" "rs_customer_id rem' = stripe_customer_id row"
      using mirrored_subscription [of S "now w" rem' row] by (auto simp: listed_for_def dest: find_Some_D)
    then have "rem' = rem" using assms(4) listed(2) by (auto simp: steady_def distinct_map inj_on_def)
    with \<open>rs_customer_id rem' = stripe_customer_id row\<close> show ?thesis by simp
  qed
  then show ?thesis using assms(4) unfolding steady_def rows by auto
qed

lemma run_converges:
  assumes "paged PV None ps" "length ps \<le> fuel" "idle v" "locked v = []" "all_accounts AD"
    and "steady PV (concat (map page_items ps)) (subscriptions (durable v))"
  shows "\<exists>w' rep'. reconcile S PV B AD notifier False fuel (v, empty_report) = (Inr True, (w', rep')) \<and>
    converged S (concat (map page_items ps)) (v, empty_report) (w', rep')"
proof -
  obtain w' rep' where 1: "reconcile_pages S PV B AD False fuel None (v, empty_report) = (Inr True, (w', rep'))"
    "converged S (concat (map page_items ps)) (v, empty_report) (w', rep')"
    using pages_converge [OF assms, of S B empty_report] by blast
  then have "rr_orphaned rep' = []" by (auto simp: converged_def empty_report_def)
  then have "notify S PV notifier (w', rep') = (Inr (), (w', rep'))"
    by (simp add: notify_def and_then_def Let_def)
  with 1 show ?thesis by (auto simp: reconcile_def and_then_Inr)
qed

lemma agrees_after:
  assumes "steady PV rems (subscriptions (durable w))" "converged S rems (w, rep) (w', rep')"
    and "row \<in> set (subscriptions (durable w'))" "rem \<in> set rems" "stripe_customer_id row = rs_customer_id rem"
  shows "\<not> drifted S row rem"
proof -
  have "row \<in> repaired S (now w) rems ` set (subscriptions (durable w))" using assms(3) converged_rows [OF assms(2)] by simp
  then obtain old where old: "row = repaired S (now w) rems old" by blast
  have "truthy (rs_customer_id rem)" using assms(1,4) by (simp add: steady_def)
  then have "listed_for rems old \<noteq> None"
    using assms(4,5) old by (cases "rs_customer_id rem") (auto simp: listed_for_def find_None_iff)
  then obtain rem' where rem': "listed_for rems old = Some rem'" by blast
  then have "rem' \<in> set rems" "rs_customer_id rem' = rs_customer_id rem"
    using assms(5) old by (auto simp: listed_for_def dest: find_Some_D)
  then have "rem' = rem" using assms(4) steady_distinct [OF assms(1)] by (auto simp: distinct_map inj_on_def)
  with repaired_agrees [OF rem'] old show ?thesis by simp
qed

lemma no_drift_left:
  assumes "steady PV rems (subscriptions (durable w))" "converged S rems (w, rep) (w', rep')"
  shows "filter (in_drift S (subscriptions (durable w'))) rems = []"
  using agrees_after [OF assms] by (auto simp: filter_empty_conv in_drift_def list_ex_iff)

text \<open>
  C9: The nightly run converges. Whatever the rows say beforehand, where the provider steadily lists
  one subscription per customer and answers with it, and everybody has an account, a run ends,
  fails for nobody, and leaves every row of a listed customer in agreement with the provider and
  every other row, and every other table but the audit trail, as it was; it reports as many
  mismatches as rows disagreed, and the next run reports none and writes nothing.
\<close>

theorem reconciliation_converges:
  assumes "paged PV None ps" "length ps \<le> fuel" "idle w" "locked w = []" "all_accounts AD"
    and "steady PV rems (subscriptions (durable w))" "rems = concat (map page_items ps)"
  shows "\<exists>w' rep'. reconcile S PV B AD notifier False fuel (w, empty_report) = (Inr True, (w', rep')) \<and>
    (\<exists>audit. durable w' = (durable w)
      \<lparr>subscriptions := map (repaired S (now w) rems) (subscriptions (durable w)), subscription_audit := audit\<rparr>) \<and>
    (\<forall>row \<in> set (subscriptions (durable w')). \<forall>rem \<in> set rems.
       stripe_customer_id row = rs_customer_id rem \<longrightarrow> \<not> drifted S row rem) \<and>
    rr_mismatched rep' = length (filter (in_drift S (subscriptions (durable w))) rems) \<and> exit_code rep' = 0 \<and>
    (\<exists>w'' rep''. reconcile S PV B AD notifier False fuel (w', empty_report) = (Inr True, (w'', rep'')) \<and>
       rr_mismatched rep'' = 0 \<and> subscriptions (durable w'') = subscriptions (durable w'))"
proof -
  note run = run_converges [OF assms(1,2) _ _ assms(5), folded assms(7), of _ S B notifier]
  obtain w' rep' where 1: "reconcile S PV B AD notifier False fuel (w, empty_report) = (Inr True, (w', rep'))"
    "converged S rems (w, empty_report) (w', rep')"
    using run [OF assms(3,4,6)] by blast
  obtain w'' rep'' where 2: "reconcile S PV B AD notifier False fuel (w', empty_report) = (Inr True, (w'', rep''))"
    "converged S rems (w', empty_report) (w'', rep'')"
    using run [OF converged_state [OF 1(2)] steady_after [OF assms(3-6) 1(2)]] by blast
  have "map (repaired S (now w') rems) (subscriptions (durable w')) = subscriptions (durable w')"
    unfolding converged_rows [OF 1(2)] by (simp add: repaired_again)
  then have "rr_mismatched rep'' = 0" "subscriptions (durable w'') = subscriptions (durable w')"
    using 2(2) converged_rows [OF 2(2)] no_drift_left [OF assms(6) 1(2)] by (simp_all add: converged_def empty_report_def)
  then show ?thesis
    using 1 2(1) agrees_after [OF assms(6) 1(2)] by (auto simp: converged_def exit_code_def empty_report_def)
qed

definition ex_one_page :: "ex_state provider" where
  "ex_one_page = ex_provider\<lparr>
     p_fetch_current_subscription := (\<lambda>cid. ret (Some ex_failing)),
     p_list_subscriptions_page := (\<lambda>after. ret \<lparr>page_items = [ex_failing], page_has_more = False\<rparr>)\<rparr>"

theorem reconciliation_converges_witness:
  "\<exists>w' rep'. reconcile ex_settings ex_one_page InMemoryBackend ex_knows None False 1 (ex_world ex_db None, empty_report) =
     (Inr True, (w', rep')) \<and> rr_mismatched rep' = 1 \<and> map status_col (subscriptions (durable w')) = [''past_due'']"
proof -
  let ?w = "ex_world ex_db None :: (ex_state, document memory) world"
  have rem: "rs_customer_id ex_failing = Some ''cus_1''" "orphan_marks ex_failing = []"
    "map status_col (map (repaired ex_settings 1000000 [ex_failing]) (subscriptions ex_db)) = [''past_due'']"
    "length (filter (in_drift ex_settings (subscriptions ex_db)) [ex_failing]) = 1"
    "list_ex (\<lambda>row. stripe_customer_id row = Some ''cus_1'' \<and> user_id row \<noteq> []) (subscriptions ex_db)"
    "list_all (\<lambda>row. stripe_subscription_id row = Some (rs_id ex_failing) \<longrightarrow> stripe_customer_id row = Some ''cus_1'') (subscriptions ex_db)"
    by (code_simp)+
  have "steady ex_one_page [ex_failing] (subscriptions (durable ?w))"
    using rem(1,2,5,6) by (simp add: steady_def ex_one_page_def list_ex_iff list_all_iff)
  moreover have "paged ex_one_page None [\<lparr>page_items = [ex_failing], page_has_more = False\<rparr>]"
    by (simp add: ex_one_page_def)
  moreover have "idle ?w" "locked ?w = []" "all_accounts (ex_knows :: (ex_state, document memory) accounts)"
    by (simp_all add: idle_def all_accounts_def ex_knows_def)
  ultimately obtain w' rep' where "reconcile ex_settings ex_one_page InMemoryBackend ex_knows None False 1 (?w, empty_report) = (Inr True, (w', rep'))"
    "\<exists>audit. durable w' = (durable ?w)\<lparr>subscriptions := map (repaired ex_settings (now ?w) [ex_failing]) (subscriptions (durable ?w)),
       subscription_audit := audit\<rparr>"
    "rr_mismatched rep' = length (filter (in_drift ex_settings (subscriptions (durable ?w))) [ex_failing])"
    using reconciliation_converges [of ex_one_page "[\<lparr>page_items = [ex_failing], page_has_more = False\<rparr>]" 1 ?w ex_knows "[ex_failing]"
        ex_settings InMemoryBackend None] by auto
  then show ?thesis using rem(3,4) by auto
qed

end
