(* ===== verification/Logging.thy ===== *)
theory Logging
  imports Application
begin

text \<open>
  \<open>configure_logging\<close> of \<open>app/observability.py\<close>, over the logging module of the standard library as far
  as it matters here: loggers by dotted name, each with handlers, a level and a propagate flag;
  a record goes to the handlers of its logger and of the loggers above it, up to the first that
  does not propagate. A logger nobody has made is one with the defaults. And the \<open>Timer\<close>.
\<close>

section \<open>Loggers\<close>

datatype formatter = Json_formatter | Plain_formatter

text \<open>A handler is the service's stream handler, or one that somebody else installed.\<close>

datatype handler = Stream formatter | Other string

record logger =
  lg_handlers :: "handler list"
  lg_propagate :: bool
  lg_level :: nat

definition fresh_logger :: logger where
  "fresh_logger = \<lparr>lg_handlers = [], lg_propagate = True, lg_level = 0\<rparr>"

type_synonym loggers = "string \<Rightarrow> logger"

definition INFO :: nat where "INFO = 20"
definition WARNING :: nat where "WARNING = 30"

text \<open>The name above: \<open>uvicorn\<close> for \<open>uvicorn.access\<close>, and the root (the empty name) for \<open>uvicorn\<close>.\<close>

definition parent_name :: "string \<Rightarrow> string" where
  "parent_name n = rev (drop 1 (dropWhile (\<lambda>c. c \<noteq> CHR ''.'') (rev n)))"

lemma parent_shorter: "n \<noteq> [] \<Longrightarrow> length (parent_name n) < length n"
  unfolding parent_name_def using length_dropWhile_le [of "\<lambda>c. c \<noteq> CHR ''.''" "rev n"]
  by (cases n rule: rev_cases) (auto simp: le_less_trans less_Suc_eq_le)

function lineage :: "string \<Rightarrow> string list" where
  "lineage n = (if n = [] then [[]] else n # lineage (parent_name n))"
  by auto
termination by (relation "measure length") (simp_all add: parent_shorter)

declare lineage.simps [simp del]

fun handlers_above :: "loggers \<Rightarrow> string list \<Rightarrow> handler list" where
  "handlers_above L [] = []"
| "handlers_above L (n # ns) = lg_handlers (L n) @ (if lg_propagate (L n) then handlers_above L ns else [])"

fun effective_level :: "loggers \<Rightarrow> string list \<Rightarrow> nat" where
  "effective_level L [] = 0"
| "effective_level L (n # ns) = (if lg_level (L n) \<noteq> 0 then lg_level (L n) else effective_level L ns)"

text \<open>The handlers that write a record of a logger, one line each.\<close>

definition written_by :: "loggers \<Rightarrow> string \<Rightarrow> nat \<Rightarrow> handler list" where
  "written_by L name level =
     (if effective_level L (lineage name) \<le> level then handlers_above L (lineage name) else [])"

section \<open>\<open>configure_logging\<close>\<close>

definition SERVER_LOGGERS :: "string list" where
  "SERVER_LOGGERS = [''uvicorn'', ''uvicorn.error'', ''uvicorn.access'', ''gunicorn.error'']"

definition configure_logging :: "bool \<Rightarrow> nat \<Rightarrow> loggers \<Rightarrow> loggers" where
  "configure_logging json_logs level L =
     (let handler = Stream (if json_logs then Json_formatter else Plain_formatter);
          L1 = L([] := (L [])\<lparr>lg_handlers := [handler], lg_level := level\<rparr>);
          L2 = L1(''stripe'' := (L1 ''stripe'')\<lparr>lg_level := WARNING\<rparr>)
      in fold (\<lambda>n L. L(n := (L n)\<lparr>lg_handlers := [], lg_propagate := True\<rparr>)) SERVER_LOGGERS L2)"

section \<open>One line, in one format\<close>

text \<open>Nothing is installed on a logger below the root.\<close>

definition unhandled :: "loggers \<Rightarrow> string \<Rightarrow> bool" where
  "unhandled L n \<longleftrightarrow> lg_handlers (L n) = [] \<and> lg_propagate (L n)"

lemma configured:
  "configure_logging j l L n =
     (if n = [] then (L [])\<lparr>lg_handlers := [Stream (if j then Json_formatter else Plain_formatter)], lg_level := l\<rparr>
      else if n = ''stripe'' then (L n)\<lparr>lg_level := WARNING\<rparr>
      else if n \<in> set SERVER_LOGGERS then (L n)\<lparr>lg_handlers := [], lg_propagate := True\<rparr>
      else L n)"
  by (auto simp: configure_logging_def Let_def SERVER_LOGGERS_def)

lemma not_servers: "''stripe'' \<notin> set SERVER_LOGGERS" "[] \<notin> set SERVER_LOGGERS"
  by (simp_all add: SERVER_LOGGERS_def)

lemma lineage_ends: "lineage n = butlast (lineage n) @ [[]]"
proof (induction n rule: lineage.induct)
  case (1 n)
  have "lineage m \<noteq> []" for m by (subst lineage.simps) simp
  with 1 show ?case by (cases "n = []") (simp_all add: lineage.simps [of n] lineage.simps [of "[]"])
qed

lemma nonempty_above: "m \<in> set (butlast (lineage n)) \<Longrightarrow> m \<noteq> []"
proof (induction n rule: lineage.induct)
  case (1 n)
  have "lineage m \<noteq> []" for m by (subst lineage.simps) simp
  with 1 show ?case by (cases "n = []") (auto simp: lineage.simps [of n] lineage.simps [of "[]"])
qed

lemma handlers_climb:
  "list_all (unhandled L) ns \<Longrightarrow> handlers_above L (ns @ ms) = handlers_above L ms"
  by (induction ns) (simp_all add: unhandled_def)

text \<open>
  Once logging is configured, a record leaves once, in the configured format. Whatever handlers
  the server had installed and however it had cut its loggers off the root, a record of a logger
  that is the server's or that nobody has put a handler on, and loud enough, is written by exactly
  one handler, the service's; Stripe's are only written from a warning on; and configuring
  again changes nothing.
\<close>

theorem record_leaves_once:
  assumes "\<forall>n \<in> set (butlast (lineage name)). n \<in> set SERVER_LOGGERS \<or> unhandled L n"
  shows "written_by (configure_logging j l L) name level =
      (if effective_level (configure_logging j l L) (lineage name) \<le> level
       then [Stream (if j then Json_formatter else Plain_formatter)] else []) \<and>
    (level < WARNING \<longrightarrow> written_by (configure_logging j l L) ''stripe'' level = []) \<and>
    configure_logging j l (configure_logging j l L) = configure_logging j l L"
proof (intro conjI impI)
  let ?L = "configure_logging j l L"
  have "unhandled ?L n" if n: "n \<in> set (butlast (lineage name))" for n
  proof -
    have "n \<in> set SERVER_LOGGERS \<or> unhandled L n" "n \<noteq> []" using assms n nonempty_above by blast+
    then show ?thesis using not_servers by (auto simp: unhandled_def configured)
  qed
  then have "handlers_above ?L (butlast (lineage name) @ [[]]) = handlers_above ?L [[]]"
    by (intro handlers_climb) (simp add: list_all_iff)
  moreover have "handlers_above ?L [[]] = [Stream (if j then Json_formatter else Plain_formatter)]"
    by (simp add: configured)
  ultimately show "written_by ?L name level = (if effective_level ?L (lineage name) \<le> level
       then [Stream (if j then Json_formatter else Plain_formatter)] else [])"
    unfolding written_by_def using lineage_ends [of name] by simp
  show "written_by ?L ''stripe'' level = []" if "level < WARNING"
    using that by (simp add: written_by_def lineage.simps [of "''stripe''"] configured WARNING_def)
  show "configure_logging j l ?L = ?L"
    by (rule ext) (auto simp: configured SERVER_LOGGERS_def)
qed

text \<open>Uvicorn as it starts: its own handler on \<open>uvicorn\<close> and on \<open>uvicorn.access\<close>, both cut off.\<close>

definition uvicorn_loggers :: loggers where
  "uvicorn_loggers = (\<lambda>_. fresh_logger)
     (''uvicorn'' := \<lparr>lg_handlers = [Other ''default''], lg_propagate = False, lg_level = INFO\<rparr>,
      ''uvicorn.access'' := \<lparr>lg_handlers = [Other ''access''], lg_propagate = False, lg_level = INFO\<rparr>)"

theorem record_leaves_once_witness:
  "written_by uvicorn_loggers ''uvicorn.access'' INFO = [Other ''access''] \<and>
   written_by (configure_logging True INFO uvicorn_loggers) ''uvicorn.access'' INFO = [Stream Json_formatter]"
proof -
  have up: "parent_name ''uvicorn.access'' = ''uvicorn''" "parent_name ''uvicorn'' = []" by (simp_all add: parent_name_def)
  have line: "lineage ''uvicorn.access'' = [''uvicorn.access'', ''uvicorn'', []]"
    by (simp add: lineage.simps [of "''uvicorn.access''"] lineage.simps [of "''uvicorn''"] lineage.simps [of "[]"] up)
  have "\<forall>n \<in> set (butlast (lineage ''uvicorn.access'')). n \<in> set SERVER_LOGGERS \<or> unhandled uvicorn_loggers n"
    by (simp add: line SERVER_LOGGERS_def)
  from record_leaves_once [OF this, of True INFO INFO] show ?thesis
    by (simp add: line configured SERVER_LOGGERS_def) (simp add: written_by_def line uvicorn_loggers_def INFO_def)
qed

section \<open>The timer\<close>

text \<open>
  \<open>with Timer() as timer\<close>: \<open>elapsed\<close> is what the block took, once it has ended, and what it has taken so
  far before that. Clocks are readings of \<open>time.monotonic()\<close> in microseconds.
\<close>

record timer =
  tm_start :: int
  tm_seconds :: "int option"

definition timer_enter :: "int \<Rightarrow> timer" where
  "timer_enter reading = \<lparr>tm_start = reading, tm_seconds = None\<rparr>"

definition timer_exit :: "int \<Rightarrow> timer \<Rightarrow> timer" where
  "timer_exit reading t = t\<lparr>tm_seconds := Some (reading - tm_start t)\<rparr>"

definition elapsed :: "int \<Rightarrow> timer \<Rightarrow> int" where
  "elapsed reading t = (case tm_seconds t of Some s \<Rightarrow> s | None \<Rightarrow> reading - tm_start t)"

lemma elapsed_is_fixed: "elapsed later (timer_exit finish (timer_enter begun)) = finish - begun"
  by (simp add: elapsed_def timer_exit_def timer_enter_def)

end
