(* ===== verification/Job_Mains.thy ===== *)
theory Job_Mains
  imports Reconcile_Convergence Expire_Grace Logging
begin

text \<open>
  The nightly jobs as processes: \<open>main\<close> of \<open>jobs/reconcile.py\<close> and \<open>jobs/expire_grace.py\<close>. One session for
  the run, closed at its end; then the lines a person is alerted by, and the exit code. A run
  that raises ends with the exception.
\<close>

section \<open>What a job writes\<close>

datatype job_line =
    Event string "(string, json) dict"
  | Error string

record job_exit =
  je_code :: nat
  je_drift :: nat
  je_lines :: "job_line list"

definition count :: "nat \<Rightarrow> json" where
  "count n = JInt (int n)"

definition finished_event :: "report \<Rightarrow> job_line" where
  "finished_event rep = Event ''reconcile.finished''
     [(''checked'', count (rr_checked rep)), (''ignored'', count (rr_ignored rep)), (''mismatched'', count (rr_mismatched rep)),
      (''repaired'', count (rr_repaired rep)), (''failed'', count (length (rr_failed rep))),
      (''unknown_customers'', count (length (rr_unknown rep))), (''orphaned'', count (length (rr_orphaned rep))),
      (''orphaned_closed'', count (rr_orphaned_closed rep)), (''notified'', count (length (rr_notified rep))),
      (''unnotified'', count (length (rr_unnotified rep)))]"

definition alert_lines :: "report \<Rightarrow> job_line list" where
  "alert_lines rep =
     (if rr_mismatched rep \<noteq> 0
      then [Error (''DRIFT: '' @ str_nat (rr_mismatched rep) @ '' subscription(s) disagreed with Stripe'')] else []) @
     (if rr_failed rep \<noteq> []
      then [Error (''REPAIR FAILED: '' @ str_nat (length (rr_failed rep)) @
        '' customer(s) could not be reconciled and may still be on the wrong tier: '' @ comma_join (take 20 (rr_failed rep)))]
      else []) @
     (if rr_orphaned rep \<noteq> []
      then [Error (''ORPHANED: '' @ str_nat (length (rr_orphaned rep)) @
        '' subscription(s) are still billable but their Supabase account no longer exists: '' @
        comma_join (take 20 (map or_subscription (rr_orphaned rep))))]
      else [])"

section \<open>The processes\<close>

text \<open>\<open>async with get_sessionmaker()() as session\<close>: whatever is pending at the end is rolled back.\<close>

definition with_session :: "('r, 'c, 'a) service \<Rightarrow> ('r, 'c, 'a) service" where
  "with_session m = (\<lambda>w. case m w of (r, w') \<Rightarrow> (r, snd (rollback w')))"

definition reconcile_main ::
  "settings \<Rightarrow> 'r provider \<Rightarrow> ('c, document) cache_backend \<Rightarrow> ('r, 'c) accounts \<Rightarrow> ('r, 'c) notifier \<Rightarrow> nat \<Rightarrow>
   ('r, 'c, job_exit) service" where
  "reconcile_main S PV B AD smtp fuel =
     and_then (with_session (\<lambda>w. case reconcile S PV B AD (email_notifier S smtp) False fuel (w, empty_report) of
        (r, (w', rep)) \<Rightarrow> (map_sum id (\<lambda>_. rep) r, w'))) (\<lambda>rep.
     ret \<lparr>je_code = exit_code rep, je_drift = rr_mismatched rep, je_lines = finished_event rep # alert_lines rep\<rparr>)"

definition expire_grace_main ::
  "settings \<Rightarrow> ('c, document) cache_backend \<Rightarrow> ('r, 'c, job_exit) service" where
  "expire_grace_main S B =
     and_then (with_session (expire_grace_windows S B)) (\<lambda>expired.
     ret \<lparr>je_code = 0, je_drift = 0, je_lines = [Event ''grace.expired''
       [(''count'', count (length expired)), (''user_ids'', JList (map JStr expired))]]\<rparr>)"

section \<open>Two nights\<close>

text \<open>
  Drift is alerted once. On a steady night (\<open>reconciliation_converges\<close>) the job says how many rows
  disagreed and succeeds; the night after, with nothing changed in between, it writes no alert.
\<close>

theorem drift_is_alerted_once:
  assumes "paged PV None ps" "length ps \<le> fuel" "idle w" "locked w = []" "all_accounts AD"
    and "steady PV rems (subscriptions (durable w))" "rems = concat (map page_items ps)"
  shows "\<exists>x w' x' w''. reconcile_main S PV B AD smtp fuel w = (Inr x, w') \<and>
    je_code x = 0 \<and> je_drift x = length (filter (in_drift S (subscriptions (durable w))) rems) \<and>
    (je_drift x = 0 \<longleftrightarrow> (\<exists>e. je_lines x = [e])) \<and>
    reconcile_main S PV B AD smtp fuel w' = (Inr x', w'') \<and> je_code x' = 0 \<and> je_drift x' = 0 \<and> (\<exists>e. je_lines x' = [e])"
proof -
  have run: "\<exists>w' rep'. reconcile_main S PV B AD smtp fuel v =
        (Inr \<lparr>je_code = exit_code rep', je_drift = rr_mismatched rep', je_lines = finished_event rep' # alert_lines rep'\<rparr>, w') \<and>
      converged S rems (v, empty_report) (w', rep')"
    if v: "idle v" "locked v = []" "steady PV rems (subscriptions (durable v))" for v
  proof -
    obtain w' rep' where 1: "reconcile S PV B AD (email_notifier S smtp) False fuel (v, empty_report) = (Inr True, (w', rep'))"
      "converged S rems (v, empty_report) (w', rep')"
      using run_converges [OF assms(1,2) v(1,2) assms(5)] v(3) assms(7) by blast
    have "snd (rollback w') = w'" using converged_state(1) [OF 1(2)] by (cases w') (simp add: idle_def)
    with 1 show ?thesis by (auto simp: reconcile_main_def with_session_def and_then_def)
  qed
  obtain w' rep' where 1: "reconcile_main S PV B AD smtp fuel w =
        (Inr \<lparr>je_code = exit_code rep', je_drift = rr_mismatched rep', je_lines = finished_event rep' # alert_lines rep'\<rparr>, w')"
      "converged S rems (w, empty_report) (w', rep')"
    using run [OF assms(3,4,6)] by blast
  obtain w'' rep'' where 2: "reconcile_main S PV B AD smtp fuel w' =
        (Inr \<lparr>je_code = exit_code rep'', je_drift = rr_mismatched rep'', je_lines = finished_event rep'' # alert_lines rep''\<rparr>, w'')"
      "converged S rems (w', empty_report) (w'', rep'')"
    using run [OF converged_state [OF 1(2)] steady_after [OF assms(3-6) 1(2)]] by blast
  have quiet: "exit_code r = 0 \<and> (alert_lines r = [] \<longleftrightarrow> rr_mismatched r = 0)"
    if "converged S rems (v, empty_report) (v', r)" for v v' r
    using that by (auto simp: converged_def empty_report_def exit_code_def alert_lines_def)
  have "rr_mismatched rep'' = 0"
    using no_drift_left [OF assms(6) 1(2)] 2(2) by (simp add: converged_def empty_report_def)
  then show ?thesis
    using 1 2 quiet [OF 1(2)] quiet [OF 2(2)] by (auto simp: converged_def empty_report_def)
qed

end
