(* ===== verification/Stripe_Sdk.thy ===== *)
theory Stripe_Sdk
  imports Stripe_Client
begin

text \<open>
  What \<open>app/stripe_client.py\<close> does around each call of the SDK: \<open>_client\<close>, which configures the module
  \<open>stripe\<close>, \<open>reset_http_client\<close>, and \<open>_as_dict\<close>, which makes documents of the SDK's objects. Timeouts
  are microseconds.
\<close>

section \<open>\<open>_client\<close>\<close>

record client_settings =
  stripe_api_version :: string
  stripe_timeout :: int

text \<open>An HTTP client of the SDK: which one it is, and its timeout.\<close>

record http_client =
  hc_id :: nat
  hc_timeout :: int

text \<open>The attributes of the module \<open>stripe\<close>, and the global \<open>_http_client\<close> of the adapter.\<close>

record stripe_module =
  api_key :: string
  api_version :: "string option"
  default_http_client :: "http_client option"
  our_http_client :: "http_client option"
  clients_made :: nat

definition sdk_client :: "settings \<Rightarrow> client_settings \<Rightarrow> stripe_module \<Rightarrow> stripe_module" where
  "sdk_client S CS m =
     (let m1 = m\<lparr>api_key := stripe_secret_key S\<rparr>;
          m2 = (if stripe_api_version CS \<noteq> [] then m1\<lparr>api_version := Some (stripe_api_version CS)\<rparr> else m1)
      in if our_http_client m2 = None
         then (let c = \<lparr>hc_id = clients_made m2, hc_timeout = stripe_timeout CS\<rparr>
               in m2\<lparr>our_http_client := Some c, default_http_client := Some c, clients_made := Suc (clients_made m2)\<rparr>)
         else m2)"

definition reset_http_client :: "stripe_module \<Rightarrow> stripe_module" where
  "reset_http_client m = m\<lparr>our_http_client := None, default_http_client := None\<rparr>"

text \<open>The module as the SDK is imported: with a client of its own to come, which has no timeout set.\<close>

definition imported :: stripe_module where
  "imported = \<lparr>api_key = [], api_version = None, default_http_client = None, our_http_client = None, clients_made = 0\<rparr>"

text \<open>
  From the first call on, the SDK talks through one client, which has the timeout configured then, until
  the client is reset; the key is the one configured at the last call.
\<close>

definition calls :: "(settings \<times> client_settings) list \<Rightarrow> stripe_module \<Rightarrow> stripe_module" where
  "calls cs m = fold (\<lambda>(S, CS). sdk_client S CS) cs m"

lemma calls_keep_client:
  "our_http_client m = Some c \<Longrightarrow> our_http_client (calls cs m) = Some c \<and>
     default_http_client (calls cs m) = default_http_client m \<and> clients_made (calls cs m) = clients_made m"
  by (induction cs arbitrary: m) (auto simp: calls_def sdk_client_def Let_def)

lemma one_client_with_timeout:
  assumes "our_http_client m = None"
  shows "default_http_client (calls ((S, CS) # cs) m) = Some \<lparr>hc_id = clients_made m, hc_timeout = stripe_timeout CS\<rparr> \<and>
    clients_made (calls ((S, CS) # cs) m) = Suc (clients_made m)"
proof -
  let ?m = "sdk_client S CS m" and ?c = "\<lparr>hc_id = clients_made m, hc_timeout = stripe_timeout CS\<rparr>"
  have "our_http_client ?m = Some ?c" "default_http_client ?m = Some ?c" "clients_made ?m = Suc (clients_made m)"
    using assms by (simp_all add: sdk_client_def Let_def)
  with calls_keep_client [of ?m ?c cs] show ?thesis by (simp add: calls_def)
qed

lemma key_is_current: "api_key (calls (cs @ [(S, CS)]) m) = stripe_secret_key S"
  by (simp add: calls_def sdk_client_def Let_def)

section \<open>\<open>_as_dict\<close>\<close>

text \<open>
  What a call of the SDK returns: plain values, and objects with \<open>to_dict\<close>, whose attributes may be
  objects again. \<open>to_dict\<close> is shallow.
\<close>

datatype sdk_value =
    Plain json
  | Dict "(string \<times> sdk_value) list"
  | Sequence "sdk_value list"
  | Object "(string \<times> sdk_value) list"

fun as_dict :: "sdk_value \<Rightarrow> sdk_value" where
  "as_dict (Plain j) = Plain j"
| "as_dict (Dict kvs) = Dict (map (\<lambda>(k, v). (k, as_dict v)) kvs)"
| "as_dict (Sequence vs) = Sequence (map as_dict vs)"
| "as_dict (Object kvs) = Dict (map (\<lambda>(k, v). (k, as_dict v)) kvs)"

fun objects_in :: "sdk_value \<Rightarrow> nat" where
  "objects_in (Plain j) = 0"
| "objects_in (Dict kvs) = sum_list (map (\<lambda>(k, v). objects_in v) kvs)"
| "objects_in (Sequence vs) = sum_list (map objects_in vs)"
| "objects_in (Object kvs) = Suc (sum_list (map (\<lambda>(k, v). objects_in v) kvs))"

text \<open>No object is left at any depth, and a document is left alone.\<close>

lemma as_dict_plain: "objects_in (as_dict v) = 0"
  by (induction v) (auto simp: comp_def case_prod_beta)

lemma as_dict_keeps: "objects_in v = 0 \<Longrightarrow> as_dict v = v"
proof (induction v)
  case (Dict kvs)
  then have "\<forall>kv \<in> set kvs. as_dict (snd kv) = snd kv"
    by (fastforce simp: case_prod_beta intro: snds.intros)
  then show ?case by (simp add: case_prod_beta map_idI)
next
  case (Sequence vs)
  then show ?case by (simp add: map_idI)
qed simp_all

text \<open>The document the parsing functions read.\<close>

fun document_of :: "sdk_value \<Rightarrow> json" where
  "document_of (Plain j) = j"
| "document_of (Dict kvs) = JObj (map (\<lambda>(k, v). (k, document_of v)) kvs)"
| "document_of (Sequence vs) = JList (map document_of vs)"
| "document_of (Object kvs) = JObj []"

definition retrieve_price :: "(string \<Rightarrow> ('r, sdk_value) call) \<Rightarrow> string \<Rightarrow> ('r, json) call" where
  "retrieve_price retrieve i = and_then (retrieve i) (\<lambda>v. ret (document_of (as_dict v)))"

definition retrieve_charge :: "(string \<Rightarrow> ('r, sdk_value) call) \<Rightarrow> string \<Rightarrow> ('r, json) call" where
  "retrieve_charge retrieve i = and_then (retrieve i) (\<lambda>v. ret (document_of (as_dict v)))"

text \<open>A field of an object at any depth is read as the SDK had it.\<close>

lemma as_dict_lookup:
  "jlookup k (map (\<lambda>(k, v). (k, document_of (as_dict v))) kvs) =
     (case map_of kvs k of None \<Rightarrow> JNull | Some v \<Rightarrow> document_of (as_dict v))"
  by (induction kvs) (auto simp: jlookup_def)

end
