(* ===== verification/Discounts.thy ===== *)
theory Discounts
  imports System_Properties Billing_Properties
begin

text \<open>
  A discount on its way from Stripe's document (\<open>stripe_client.py\<close>) through the customer's row to
  the page that shows it (\<open>routers/billing.py\<close>): what the adapter keeps has the types the response model asks
  for, in every reachable state, so showing a customer their subscription cannot fail on it.
\<close>

section \<open>What Stripe documents\<close>

text \<open>A coupon, the discount that points at it (in either shape), and a subscription with its discounts.\<close>

fun documented_coupon :: "json \<Rightarrow> bool" where
  "documented_coupon (JObj c) \<longleftrightarrow>
     list_all (\<lambda>k. text_or_null (jlookup k c)) [''id'', ''name'', ''currency'', ''duration''] \<and>
     list_all (\<lambda>k. whole_or_null (jlookup k c)) [''amount_off'', ''duration_in_months''] \<and>
     number_or_null (jlookup ''percent_off'' c)"
| "documented_coupon _ \<longleftrightarrow> True"

fun documented_discount :: "json \<Rightarrow> bool" where
  "documented_discount (JObj d) \<longleftrightarrow>
     text_or_null (jlookup ''promotion_code'' d) \<and> whole_or_null (jlookup ''end'' d) \<and>
     documented_coupon (jlookup ''coupon'' d) \<and>
     (case jlookup ''source'' d of JObj s \<Rightarrow> documented_coupon (jlookup ''coupon'' s) | _ \<Rightarrow> True)"
| "documented_discount _ \<longleftrightarrow> True"

fun documented_subscription :: "json \<Rightarrow> bool" where
  "documented_subscription (JObj s) \<longleftrightarrow> documented_discount (jlookup ''discount'' s) \<and>
     (case jlookup ''discounts'' s of JList ds \<Rightarrow> list_all documented_discount ds | _ \<Rightarrow> True)"
| "documented_subscription _ \<longleftrightarrow> True"

text \<open>Every subscription of every page Stripe lists.\<close>

fun documented_page :: "json \<Rightarrow> bool" where
  "documented_page (JObj p) \<longleftrightarrow>
     (case jlookup ''data'' p of JList subs \<Rightarrow> list_all documented_subscription subs | _ \<Rightarrow> True)"
| "documented_page _ \<longleftrightarrow> True"

definition documented_sdk :: "'r sdk \<Rightarrow> bool" where
  "documented_sdk K \<longleftrightarrow>
     (\<forall>ps r. case fst (sdk_subscription_list K ps r) of Inr p \<Rightarrow> documented_page p | Inl _ \<Rightarrow> True)"

section \<open>What the adapter keeps\<close>

lemma jget_Inr: "jget k v = Inr x \<longleftrightarrow> (\<exists>kvs. v = JObj kvs \<and> x = jlookup k kvs)"
  by (cases v) auto

lemma documented_discounts_of:
  assumes "documented_subscription sub"
    and "bind_result (jget ''discounts'' sub) (\<lambda>d. as_list (jor d (JList []))) = Inr discounts"
    and "(case discounts of d # _ \<Rightarrow> Inr d | [] \<Rightarrow> jget ''discount'' sub) = Inr raw"
  shows "documented_discount raw"
proof -
  obtain s where s: "sub = JObj s" "as_list (jor (jlookup ''discounts'' s) (JList [])) = Inr discounts"
    using assms(2) by (auto simp: bind_result_Inr jget_Inr)
  show ?thesis
  proof (cases discounts)
    case Nil
    then show ?thesis using assms(1,3) s(1) by simp
  next
    case (Cons d ds)
    then have "jlookup ''discounts'' s = JList discounts"
      using s(2) by (auto simp: jor_def split: if_splits elim: as_list.elims)
    then show ?thesis using assms(1,3) s(1) Cons by simp
  qed
qed

lemma documented_coupon_of:
  assumes "documented_discount raw" "jget2 ''source'' ''coupon'' raw = Inr c1" "jget ''coupon'' raw = Inr c2"
    and "jor (dict_or_none c1) (dict_or_none c2) \<noteq> JNull"
  shows "documented_coupon (jor (dict_or_none c1) (dict_or_none c2))"
proof -
  obtain d where d: "raw = JObj d" "c2 = jlookup ''coupon'' d"
    using assms(3) by (auto simp: jget_Inr)
  obtain s where s: "jor (jlookup ''source'' d) (JObj []) = JObj s" "c1 = jlookup ''coupon'' s"
    using assms(2) d(1) by (auto simp: jget2_def bind_result_Inr jget_Inr)
  then have "documented_coupon c1"
    using assms(1) d(1) by (auto simp: jor_def split: if_splits)
  moreover have "documented_coupon c2" using assms(1) d by simp
  ultimately show ?thesis by (simp add: jor_def dict_or_none_def)
qed

lemma kept_discount_is_typed:
  assumes "documented_subscription sub" "discount_of sub = Inr (Some d)"
  shows "typed_discount d"
proof -
  obtain discounts raw c1 c2 cid fields code ends where
    run: "bind_result (jget ''discounts'' sub) (\<lambda>d. as_list (jor d (JList []))) = Inr discounts"
      "(case discounts of d # _ \<Rightarrow> Inr d | [] \<Rightarrow> jget ''discount'' sub) = Inr raw"
      "jget2 ''source'' ''coupon'' raw = Inr c1" "jget ''coupon'' raw = Inr c2"
      "jor (dict_or_none c1) (dict_or_none c2) \<noteq> JNull"
      "jget ''id'' (jor (dict_or_none c1) (dict_or_none c2)) = Inr cid"
      "map_result (\<lambda>f. bind_result (jget f (jor (dict_or_none c1) (dict_or_none c2))) (\<lambda>v. Inr (f, v))) DISCOUNT_FIELDS = Inr fields"
      "jget ''promotion_code'' raw = Inr code" "jget ''end'' raw = Inr ends"
    and d: "d = (''coupon_id'', cid) # fields @ [(''promotion_code'', code), (''ends_at'', ends)]"
    using assms(2) by (auto simp: discount_of_def bind_result_Inr Let_def split: if_splits)
  have raw: "documented_discount raw" by (rule documented_discounts_of [OF assms(1) run(1,2)])
  have coupon: "documented_coupon (jor (dict_or_none c1) (dict_or_none c2))"
    by (rule documented_coupon_of [OF raw run(3-5)])
  obtain c where c: "jor (dict_or_none c1) (dict_or_none c2) = JObj c" "cid = jlookup ''id'' c"
    using run(6) by (auto simp: jget_Inr)
  have "fields = map (\<lambda>k. (k, jlookup k c)) DISCOUNT_FIELDS"
    using run(7) by (simp add: c DISCOUNT_FIELDS_def)
  moreover obtain r where "raw = JObj r" "code = jlookup ''promotion_code'' r" "ends = jlookup ''end'' r"
    using run(8,9) by (auto simp: jget_Inr)
  ultimately show ?thesis
    using raw coupon by (simp add: typed_discount_def d c DISCOUNT_FIELDS_def)
qed

section \<open>In every row\<close>

lemma find_status_in: "find_status name subs = Inr (Some s) \<Longrightarrow> s \<in> set subs"
  by (induction subs) (auto simp: bind_result_Inr split: if_splits)

lemma find_by_priority_in: "find_by_priority names subs = Inr (Some s) \<Longrightarrow> s \<in> set subs"
  by (induction names) (auto simp: bind_result_Inr dest: find_status_in split: option.splits)

lemma newest_in:
  assumes "newest subs = Inr c"
  shows "c \<in> set subs"
proof -
  have keyed: "map fst ks = subs"
    if "map_result (\<lambda>s. bind_result (created_key s) (\<lambda>k. Inr (s, k))) subs = Inr ks" for ks
    using that by (induction subs arbitrary: ks) (auto simp: bind_result_Inr)
  obtain k ks where "map_result (\<lambda>s. bind_result (created_key s) (\<lambda>k. Inr (s, k))) subs = Inr (k # ks)"
    "c = fst (max_key snd k ks)"
    using assms by (auto simp: newest_def bind_result_Inr neq_Nil_conv split: list.splits)
  then show ?thesis using keyed max_key_in [of snd k ks] by fastforce
qed

lemma current_in: "current subs = Inr c \<Longrightarrow> c \<in> set subs"
  by (auto simp: current_def bind_result_Inr dest: find_by_priority_in newest_in split: option.splits)

definition typed_column :: "(string \<times> json) list option \<Rightarrow> bool" where
  "typed_column c \<longleftrightarrow> (case c of None \<Rightarrow> True | Some d \<Rightarrow> typed_discount d)"

lemma answered_discount_is_typed:
  assumes "documented_sdk K" "answered (stripe_provider K S) (Some rem)"
  shows "typed_column (rs_discount rem)"
proof -
  obtain cid s s' where fetch: "fetch_current_subscription K cid s = (Inr (Some rem), s')"
    using assms(2) by (auto simp: answered_def stripe_provider_def)
  then obtain ps p v where page: "sdk_subscription_list K ps s = (Inr p, v)" "current_of p = Inr (Some rem)"
    by (auto simp: fetch_current_subscription_def and_then_returns)
  then have doc: "documented_page p"
    using assms(1) unfolding documented_sdk_def by (metis (no_types, lifting) fst_conv sum.simps(6))
  obtain d subs raw where subs: "data_or_empty p = Inr d" "as_list d = Inr subs" "current subs = Inr raw"
    "parse_subscription raw = Inr rem"
    using page(2) by (auto simp: current_of_def bind_result_Inr split: if_splits)
  have "raw \<in> set subs" by (rule current_in [OF subs(3)])
  moreover have "list_all documented_subscription subs"
  proof -
    obtain kvs where p: "p = JObj kvs" using subs(1) by (cases p) (auto simp: data_or_empty_def)
    have "d = JList subs" using subs(2) by (cases d) auto
    then show ?thesis using doc subs(1) p by (auto simp: data_or_empty_def jlookup_def split: option.splits)
  qed
  ultimately have "documented_subscription raw" by (simp add: list_all_iff)
  moreover have "discount_of raw = Inr (rs_discount rem)"
    using subs(4) by (auto simp: parse_subscription_def bind_result_Inr)
  ultimately show ?thesis
    using kept_discount_is_typed by (auto simp: typed_column_def split: option.split)
qed

text \<open>
  The law of the rows: while the provider's answers have typed discounts, so has every row the
  service writes.
\<close>

definition answers_typed :: "'r provider \<Rightarrow> bool" where
  "answers_typed PV \<longleftrightarrow> (\<forall>rem. answered PV (Some rem) \<longrightarrow> typed_column (rs_discount rem))"

definition row_typed :: "'r provider \<Rightarrow> subscription \<Rightarrow> bool" where
  "row_typed PV sub \<longleftrightarrow> (answers_typed PV \<longrightarrow> typed_column (discount sub))"

lemma row_typed_mirror:
  assumes "answered PV ans"
  shows "row_typed PV (write_state t (project S ans) sub)"
proof (cases ans)
  case None
  then show ?thesis
    by (simp add: row_typed_def project_def NO_SUBSCRIPTION_def write_state_def typed_column_def)
next
  case (Some rem)
  then show ?thesis
    using assms by (auto simp: row_typed_def answers_typed_def project_def write_state_def typed_column_def
        NO_SUBSCRIPTION_def split: prod.split)
qed

interpretation discounts: table_law "row_typed PV" S PV "\<lambda>db. list_all (row_typed PV) (subscriptions db)"
  for S and PV :: "'r provider"
proof
  show "row_typed PV (new_subscription uid)" for uid
    by (simp add: row_typed_def new_subscription_def typed_column_def)
  show "answered PV ans \<Longrightarrow> row_typed PV (write_state t (project S ans) sub)" for ans t sub
    by (rule row_typed_mirror)
qed (auto simp: row_typed_def extended_def list_all_iff change_grant_def)

lemma reachable_row_is_typed:
  assumes "documented_sdk K" "dp_provider D = stripe_provider K S" "system_reach D w"
    and "sub \<in> set (subscriptions (durable w))"
  shows "typed_column (discount sub)"
proof -
  obtain w0 where w0: "durable w0 = empty_db" "system_runs D w0 w"
    using assms(3) by (auto simp: system_reach_def)
  have "list_all (row_typed (dp_provider D)) (subscriptions (durable w))"
    using discounts.runs_keep [OF w0(2) refl refl] by (simp add: w0(1))
  moreover have "answers_typed (dp_provider D)"
    using answered_discount_is_typed [OF assms(1)] by (simp add: answers_typed_def assms(2))
  ultimately show ?thesis using assms(4) by (simp add: row_typed_def list_all_iff)
qed


section \<open>On the page\<close>

text \<open>The discount a customer is shown has the values of the column.\<close>

definition shows_column :: "(string \<times> json) list \<Rightarrow> discount_view \<Rightarrow> bool" where
  "shows_column d v \<longleftrightarrow>
     dv_coupon_id v = text_of (jlookup ''coupon_id'' d) \<and> dv_name v = text_of (jlookup ''name'' d) \<and>
     (dv_percent_off v = None \<longleftrightarrow> jlookup ''percent_off'' d = JNull) \<and>
     dv_amount_off v = whole_of (jlookup ''amount_off'' d) \<and> dv_currency v = text_of (jlookup ''currency'' d) \<and>
     dv_duration v = text_of (jlookup ''duration'' d) \<and>
     dv_duration_in_months v = whole_of (jlookup ''duration_in_months'' d) \<and>
     dv_promotion_code v = text_of (jlookup ''promotion_code'' d) \<and> dv_ends_at v = whole_of (jlookup ''ends_at'' d)"

lemma typed_column_is_shown:
  assumes "reads_own_types V" "typed_column c"
  shows "\<exists>v. discount_field V c = Inr v \<and> rel_option shows_column c v"
proof (cases c)
  case None
  then show ?thesis by (simp add: discount_field_def)
next
  case (Some d)
  then show ?thesis
    using typed_discount_is_read [OF assms(1), of d] assms(2)
    by (fastforce simp: discount_field_def typed_column_def shows_column_def)
qed

text \<open>
  C28: A customer can always see their subscription, and the discount on it is Stripe's. In every
  reachable state of a service whose Stripe account holds what Stripe documents, the request
  for one's subscription answers with the row, and with a discount exactly where the row has one, with the
  same coupon, amount, duration, code and end - no history of webhooks, admin calls, jobs and
  failures leaves a column the response model would reject with a 500.
\<close>

theorem stored_discount_is_shown:
  assumes "reads_own_types (dp_pydantic D)" "dp_provider D = stripe_provider K S" "documented_sdk K"
    and "system_reach D w" "db_up w" "sub \<in> set (subscriptions (durable w))"
    and "get_current_user (dp_settings D) (dp_jwt D) a = Inr user" "user_id sub = cu_id user"
  shows "\<exists>su w'. my_subscription (dp_settings D) (dp_pydantic D) (dp_jwt D) a (Serve.opened [] w) = (Inr su, w') \<and>
    su_row su = sub \<and> rel_option shows_column (discount sub) (su_discount su) \<and> durable w' = durable w"
proof -
  let ?w = "Serve.opened [] w"
  have tables: "coherent_db (durable w)" "unique_rows (durable w)"
    using reachable_tables [OF assms(4)] by blast+
  then have idle: "idle ?w" using assms(5) by (simp add: idle_def Serve.opened_def)
  have found: "get_subscription (cu_id user) ?w = (Inr (Some sub), ?w)"
    by (rule get_subscription_found [OF idle]) (simp_all add: Serve.opened_def assms(6,8))
  obtain v where v: "discount_field (dp_pydantic D) (discount sub) = Inr v" "rel_option shows_column (discount sub) v"
    using typed_column_is_shown [OF assms(1) reachable_row_is_typed [OF assms(3,2,4,6)]] by blast
  have "is_tier (tier_col sub)"
    using tables(1) assms(6) by (simp add: coherent_db_def row_coherent_def list_all_iff)
  from summary_found [OF Tier_of_is_tier [OF this] v(1)]
  obtain su where su: "summary (dp_pydantic D) sub = Inr su" "su_row su = sub" "su_discount su = v" by simp
  have "commit ?w = (Inr (), ?w)"
    using idle by (cases ?w) (simp add: idle_def)
  then have "my_subscription (dp_settings D) (dp_pydantic D) (dp_jwt D) a ?w = (Inr su, ?w)"
    unfolding my_subscription_def as_user_in [OF assms(7)]
    by (intro request_Inr) (simp add: and_then_def get_or_create_subscription_def found su(1))
  then show ?thesis
    using su v(2) by (intro exI conjI) (assumption, simp_all add: Serve.opened_def)
qed

section \<open>A customer with a promotion code\<close>

text \<open>Stripe's document of a subscription with a coupon, a webhook about it, and the world after it.\<close>

definition ex_coupon_json :: json where
  "ex_coupon_json = JObj
     [(''id'', JStr ''sub_1''), (''status'', JStr ''active''), (''customer'', JStr ''cus_1''),
      (''discounts'', JList [JObj
         [(''end'', JInt 1796415914), (''promotion_code'', JStr ''promo_1''),
          (''source'', JObj [(''coupon'', JObj
             [(''id'', JStr ''LAUNCH''), (''name'', JStr ''Launch 25''), (''percent_off'', JDec ''25.0''),
              (''amount_off'', JNull), (''duration'', JStr ''repeating''), (''duration_in_months'', JInt 3)])])]]),
      (''items'', JObj [(''data'', JList [JObj
         [(''id'', JStr ''si_1''), (''current_period_start'', JInt 1), (''current_period_end'', JInt 2592001),
          (''price'', JObj [(''id'', JStr ''price_plus'')])]])])]"

definition ex_coupon_sdk :: "ex_state sdk" where
  "ex_coupon_sdk = ex_sdk\<lparr>
     sdk_subscription_list := (\<lambda>ps. ret (JObj [(''data'', JList [ex_coupon_json]), (''has_more'', JBool False)])),
     sdk_construct_event := (\<lambda>payload sig secret. ret ex_event)\<rparr>"

definition ex_coupon_deployment :: "(ex_state, document memory, nat) deployment" where
  "ex_coupon_deployment =
     \<lparr>dp_settings = ex_online, dp_provider = stripe_provider ex_coupon_sdk ex_online, dp_cache = InMemoryBackend,
      dp_jwt = ex_jwt, dp_flags = None, dp_sha256 = (\<lambda>s. s), dp_trace = (\<lambda>e. ''''), dp_postgres = True,
      dp_probe = dp_probe ex_deployment, dp_pydantic = strict_pydantic, dp_smtp = (\<lambda>s b. ret ())\<rparr>"

definition ex_couponed :: "(ex_state, document memory) world" where
  "ex_couponed = (snd (serve ex_coupon_deployment (Stripe_delivery ''{}'' (Some ''sig'')) (Serve.opened [] ex_before)))\<lparr>db_up := True\<rparr>"

lemma durable_db_up: "durable (w\<lparr>db_up := b\<rparr>) = durable w" by simp

lemma up_is_a_step: "system_step D w (w\<lparr>db_up := True\<rparr>)"
proof -
  have "system_step D w (w\<lparr>now := now w, remote := remote w, cache := cache w, db_up := True, locked := locked w\<rparr>)"
    by (rule system_step.elsewhere) simp
  then show ?thesis by (cases w) simp
qed

lemma ex_coupon_reach: "system_reach ex_coupon_deployment ex_couponed"
proof -
  have "system_runs ex_coupon_deployment ex_before ex_couponed"
    unfolding ex_couponed_def
    by (rule system_runs.goes_on [OF system_runs.goes_on [OF system_runs.at_rest system_step.served] up_is_a_step]) simp
  then show ?thesis
    unfolding system_reach_def by (intro exI [of _ ex_before] conjI ex_before_simps)
qed

lemma ex_coupon_row:
  "map (\<lambda>r. (user_id r, map_option (\<lambda>d. (jlookup ''name'' d, jlookup ''duration_in_months'' d)) (discount r)))
     (subscriptions (durable ex_couponed)) = [(''alice'', Some (JStr ''Launch 25'', JInt 3))]"
proof -
  have "map (\<lambda>r. (user_id r, map_option (\<lambda>d. (jlookup ''name'' d, jlookup ''duration_in_months'' d)) (discount r)))
     (subscriptions (durable (snd (serve ex_coupon_deployment (Stripe_delivery ''{}'' (Some ''sig'')) (Serve.opened [] ex_before))))) = [(''alice'', Some (JStr ''Launch 25'', JInt 3))]"
    by code_simp
  then show ?thesis by (simp only: ex_couponed_def durable_db_up)
qed

theorem stored_discount_is_shown_witness:
  "\<exists>su w' v. my_subscription ex_online strict_pydantic ex_jwt (Some ''Bearer good'') (Serve.opened [] ex_couponed) = (Inr su, w') \<and>
     su_discount su = Some v \<and> dv_name v = Some ''Launch 25'' \<and> dv_duration_in_months v = Some 3"
proof -
  obtain r d where r: "subscriptions (durable ex_couponed) = [r]" "user_id r = ''alice''" "discount r = Some d"
      "jlookup ''name'' d = JStr ''Launch 25''" "jlookup ''duration_in_months'' d = JInt 3"
    using ex_coupon_row by (auto simp: map_eq_Cons_conv)
  have "documented_sdk ex_coupon_sdk"
    by (simp add: documented_sdk_def ex_coupon_sdk_def ex_coupon_json_def)
  moreover have "get_current_user ex_online ex_jwt (Some ''Bearer good'') = Inr \<lparr>cu_id = ''alice'', cu_email = None\<rparr>"
    by code_simp
  ultimately obtain su w' where "my_subscription ex_online strict_pydantic ex_jwt (Some ''Bearer good'') (Serve.opened [] ex_couponed) = (Inr su, w')"
      "rel_option shows_column (discount r) (su_discount su)"
    using stored_discount_is_shown [of ex_coupon_deployment ex_coupon_sdk ex_online ex_couponed r "Some ''Bearer good''"
        "\<lparr>cu_id = ''alice'', cu_email = None\<rparr>"] ex_coupon_reach strict_reads_own_types r
    by (auto simp: ex_coupon_deployment_def ex_couponed_def)
  then show ?thesis using r by (auto simp: option_rel_Some1 shows_column_def)
qed

end
