(* ===== verification/Widths.thy ===== *)
theory Widths
  imports Discounts Declared Admin_Properties
begin

text \<open>
  What a column takes: the types and widths of \<open>app/models.py\<close> (\<open>Declared\<close>) against the values the service
  writes. PostgreSQL refuses a text longer than its column and an integer beyond 32 bits, which
  the session's flush does not check; here is what keeps the service's rows inside, and where
  nothing does.
\<close>

section \<open>Cells\<close>

datatype cell =
    Null
  | Characters string
  | Whole int
  | Flag bool
  | Moment stamp
  | Document "(string \<times> json) list"

fun optional_cell :: "('a \<Rightarrow> cell) \<Rightarrow> 'a option \<Rightarrow> cell" where
  "optional_cell c None = Null"
| "optional_cell c (Some x) = c x"

fun fits_type :: "column_type \<Rightarrow> cell \<Rightarrow> bool" where
  "fits_type (String n) (Characters s) = (length s \<le> n)"
| "fits_type Text (Characters s) = True"
| "fits_type Integer (Whole i) = (- (2 ^ 31) \<le> i \<and> i < 2 ^ 31)"
| "fits_type Boolean (Flag b) = True"
| "fits_type DateTime_tz (Moment t) = True"
| "fits_type JSONType (Document d) = True"
| "fits_type _ _ = False"

definition fits_column :: "column \<Rightarrow> cell \<Rightarrow> bool" where
  "fits_column c v = (if v = Null then col_nullable c else fits_type (col_type c) v)"

definition row_fits :: "table_def \<Rightarrow> (string \<times> cell) list \<Rightarrow> bool" where
  "row_fits td row = list_all (\<lambda>(k, v). case List.find (\<lambda>c. col_name c = k) (tbl_columns td) of
     None \<Rightarrow> False | Some c \<Rightarrow> fits_column c v) row"

lemma fits_cell [simp]:
  "fits_column c Null \<longleftrightarrow> col_nullable c"
  "fits_column c (Characters s) \<longleftrightarrow> fits_type (col_type c) (Characters s)"
  "fits_column c (Whole n) \<longleftrightarrow> fits_type (col_type c) (Whole n)"
  "fits_column c (Flag b) \<longleftrightarrow> fits_type (col_type c) (Flag b)"
  "fits_column c (Moment t) \<longleftrightarrow> fits_type (col_type c) (Moment t)"
  "fits_column c (Document d) \<longleftrightarrow> fits_type (col_type c) (Document d)"
  by (simp_all add: fits_column_def)

lemma fits_optional [simp]:
  "fits_column c (optional_cell f v) \<longleftrightarrow> (case v of None \<Rightarrow> col_nullable c | Some x \<Rightarrow> fits_column c (f x))"
  by (cases v) simp_all

section \<open>Which column an attribute is stored in\<close>

text \<open>Of a subscription, the columns the mirror and the clocks are kept in.\<close>

definition mirrored_cells :: "subscription \<Rightarrow> (string \<times> cell) list" where
  "mirrored_cells r =
     [(''tier'', Characters (tier_col r)), (''status'', Characters (status_col r)),
      (''stripe_subscription_id'', optional_cell Characters (stripe_subscription_id r)),
      (''stripe_price_id'', optional_cell Characters (stripe_price_id r)),
      (''billing_interval'', optional_cell Characters (billing_interval_col r)),
      (''current_period_start'', optional_cell Moment (current_period_start r)),
      (''current_period_end'', optional_cell Moment (current_period_end r)),
      (''cancel_at_period_end'', Flag (cancel_at_period_end r)),
      (''trial_end'', optional_cell Moment (trial_end r)),
      (''past_due_since'', optional_cell Moment (past_due_since r)),
      (''disputed_at'', optional_cell Moment (disputed_at r)),
      (''discount'', optional_cell Document (discount r))]"

definition inquiry_cells :: "sales_inquiry \<Rightarrow> (string \<times> cell) list" where
  "inquiry_cells q =
     [(''id'', Characters (inquiry_id q)), (''user_id'', optional_cell Characters (inquiry_user q)),
      (''email'', Characters (inquiry_email q)), (''company'', optional_cell Characters (inquiry_company q)),
      (''seats'', optional_cell Whole (inquiry_seats q)), (''message'', optional_cell Characters (inquiry_message q)),
      (''source'', Characters (inquiry_source q)),
      (''current_tier'', optional_cell Characters (inquiry_current_tier q)),
      (''handled_at'', optional_cell Moment (handled_at q)), (''created_at'', Moment (inquiry_created_at q))]"

definition grant_cells :: "entitlement_grant \<Rightarrow> (string \<times> cell) list" where
  "grant_cells g =
     [(''id'', Characters (grant_id g)), (''user_id'', Characters (grant_user g)),
      (''tier'', Characters (grant_tier g)), (''expires_at'', optional_cell Moment (expires_at g)),
      (''reason'', Characters (grant_reason g)), (''created_by'', Characters (created_by g)),
      (''created_at'', Moment (grant_created_at g)), (''revoked_at'', optional_cell Moment (revoked_at g))]"

lemmas width_defs = row_fits_def mirrored_cells_def inquiry_cells_def grant_cells_def declared_defs

lemma short_values [simp]:
  "length (tier_value t) \<le> 32" "length (status_value s) \<le> 32" "length (interval_value i) \<le> 16"
proof -
  show "length (tier_value t) \<le> 32" by (cases t) simp_all
  show "length (status_value s) \<le> 32" by (cases s) simp_all
  show "length (interval_value i) \<le> 16" by (cases i) simp_all
qed

section \<open>The mirror\<close>

text \<open>The ids of an answer are as short as the columns for them.\<close>

definition short_ids :: "remote_subscription \<Rightarrow> bool" where
  "short_ids rem \<longleftrightarrow> length (rs_id rem) \<le> 64 \<and>
     (case rs_price rem of None \<Rightarrow> True | Some p \<Rightarrow> length (rp_id p) \<le> 64)"

definition answers_short :: "'r provider \<Rightarrow> bool" where
  "answers_short PV \<longleftrightarrow> (\<forall>rem. answered PV (Some rem) \<longrightarrow> short_ids rem)"

definition mirror_fits :: "subscription \<Rightarrow> bool" where
  "mirror_fits r \<longleftrightarrow> row_fits Subscription_table (mirrored_cells r)"

lemma mirror_fits_iff:
  "mirror_fits r \<longleftrightarrow> length (tier_col r) \<le> 32 \<and> length (status_col r) \<le> 32 \<and>
     (case stripe_subscription_id r of None \<Rightarrow> True | Some i \<Rightarrow> length i \<le> 64) \<and>
     (case stripe_price_id r of None \<Rightarrow> True | Some i \<Rightarrow> length i \<le> 64) \<and>
     (case billing_interval_col r of None \<Rightarrow> True | Some i \<Rightarrow> length i \<le> 16)"
  unfolding mirror_fits_def width_defs
  by (simp split: option.split)

lemma mirror_fits_write:
  assumes "short_ids rem"
  shows "mirror_fits (write_state t (project S (Some rem)) sub)"
  using assms
  by (auto simp: mirror_fits_iff write_state_def project_def NO_SUBSCRIPTION_def short_ids_def
      split: prod.split option.splits)

interpretation widths: table_law "\<lambda>r. answers_short PV \<longrightarrow> mirror_fits r" S PV
    "\<lambda>db. list_all (\<lambda>r. answers_short PV \<longrightarrow> mirror_fits r) (subscriptions db)"
  for S and PV :: "'r provider"
proof
  show "answers_short PV \<longrightarrow> mirror_fits (new_subscription uid)" for uid
    by (simp add: mirror_fits_iff new_subscription_def)
  show "answered PV ans \<Longrightarrow> answers_short PV \<longrightarrow> mirror_fits (write_state t (project S ans) sub)" for ans t sub
    by (cases ans)
      (simp add: mirror_fits_iff write_state_def project_def NO_SUBSCRIPTION_def,
       simp add: mirror_fits_write answers_short_def)
qed (auto simp: mirror_fits_iff extended_def list_all_iff change_grant_def)

text \<open>
  C29: No state of the service holds a mirror the database would have refused. While the provider's
  ids have at most 64 characters, every column the synchronisation writes - tier, status, interval,
  ids, dates and discount - is of its declared type and width in every reachable state, null only where
  the column may be.
\<close>

theorem reachable_mirrors_fit_columns:
  assumes "system_reach D w" "answers_short (dp_provider D)" "r \<in> set (subscriptions (durable w))"
  shows "row_fits Subscription_table (mirrored_cells r)"
proof -
  obtain w0 where w0: "durable w0 = empty_db" "system_runs D w0 w"
    using assms(1) by (auto simp: system_reach_def)
  have "list_all (\<lambda>r. answers_short (dp_provider D) \<longrightarrow> mirror_fits r) (subscriptions (durable w))"
    using widths.runs_keep [OF w0(2) refl refl] by (simp add: w0(1))
  then show ?thesis using assms(2,3) by (simp add: list_all_iff mirror_fits_def)
qed

lemma ex_coupon_short: "answers_short (dp_provider ex_coupon_deployment)"
proof -
  have run: "case current_of (JObj [(''data'', JList [ex_coupon_json]), (''has_more'', JBool False)]) of
      Inr (Some rem) \<Rightarrow> short_ids rem | _ \<Rightarrow> True"
    by code_simp
  have "short_ids rem" if ans: "answered (dp_provider ex_coupon_deployment) (Some rem)" for rem
  proof -
    obtain cid s s' where "fetch_current_subscription ex_coupon_sdk cid s = (Inr (Some rem), s')"
      using ans by (auto simp: answered_def ex_coupon_deployment_def stripe_provider_def)
    then have "current_of (JObj [(''data'', JList [ex_coupon_json]), (''has_more'', JBool False)]) = Inr (Some rem)"
      by (auto simp: fetch_current_subscription_def and_then_def ex_coupon_sdk_def)
    with run show ?thesis by simp
  qed
  then show ?thesis by (simp add: answers_short_def)
qed

theorem reachable_mirrors_fit_columns_witness:
  "\<exists>r. subscriptions (durable ex_couponed) = [r] \<and> row_fits Subscription_table (mirrored_cells r)"
proof -
  obtain r where "subscriptions (durable ex_couponed) = [r]"
    using ex_coupon_row by (auto simp: map_eq_Cons_conv)
  then show ?thesis
    using reachable_mirrors_fit_columns [OF ex_coupon_reach ex_coupon_short, of r] by simp
qed

section \<open>Rows that callers fill\<close>

text \<open>
  A lead that the body's checks let through fits: the bounds of the request model are the widths
  of the columns, and a stated number of seats is far inside an integer.
\<close>

lemma accepted_lead_fits:
  assumes "valid_contact body" "length i \<le> 36" "case user of None \<Rightarrow> True | Some u \<Rightarrow> length (cu_id u) \<le> 64"
    and "case current_tier of None \<Rightarrow> True | Some v \<Rightarrow> is_tier v"
  shows "row_fits SalesInquiry_table (inquiry_cells (new_inquiry i t user body current_tier))"
proof -
  have "length v \<le> 32" if "is_tier v" for v using that by (auto simp: is_tier_iff)
  moreover have "length (cs_source body) \<le> 32"
    using assms(1) by (auto simp: valid_contact_def SOURCES_def)
  ultimately show ?thesis
    using assms unfolding width_defs
    by (simp add: new_inquiry_def valid_contact_def at_most_def split: option.splits)
qed

text \<open>
  A grant fits only if the name in \<open>X-Admin-Actor\<close> and the user's id are no longer than their
  columns.
\<close>

lemma grant_fits_iff:
  "row_fits EntitlementGrant_table (grant_cells (new_grant i t actor body)) \<longleftrightarrow>
     length i \<le> 36 \<and> length (gr_user_id body) \<le> 64 \<and> length actor \<le> 64"
  unfolding width_defs by (auto simp: new_grant_def split: option.splits)

text \<open>
  Nothing checks that before the insert: with a name of 65 characters the handler runs to its end,
  and what it has committed is a grant the column does not take - on PostgreSQL, a database error.
\<close>

theorem long_actor_is_not_refused:
  "case create_grant ex_settings InMemoryBackend ex_key (Some (replicate 65 CHR ''a'')) ex_body (ex_world ex_db None) of
     (Inr _, w') \<Rightarrow> map (\<lambda>g. row_fits EntitlementGrant_table (grant_cells g)) (entitlement_grants (durable w')) = [False]
   | (Inl _, _) \<Rightarrow> False"
  by code_simp

end
