(* ===== verification/Openapi_Export.thy ===== *)
theory Openapi_Export
  imports Application "HOL-Library.Multiset"
begin

text \<open>
  \<open>scripts/export_openapi.py\<close>: the file the web app's types are generated from. The schema FastAPI
  builds is a parameter, the file's text (or its absence) is the state. \<open>json.dumps(indent=2,
  sort_keys=True)\<close> is \<open>dumps\<close>; a key is compared by its code points.
\<close>

definition padding :: "nat \<Rightarrow> string" where
  "padding n = replicate n CHR '' ''"

text \<open>Items on lines of their own, between brackets; an empty collection is written without lines.\<close>

fun lines_join :: "string \<Rightarrow> string list \<Rightarrow> string" where
  "lines_join sep [] = []"
| "lines_join sep [x] = x"
| "lines_join sep (x # y # xs) = x @ sep @ lines_join sep (y # xs)"

definition block :: "nat \<Rightarrow> char \<Rightarrow> char \<Rightarrow> string list \<Rightarrow> string" where
  "block n left right items = (if items = [] then [left, right] else
     [left] @ [char_of (10 :: nat)] @ padding (n + 2) @
     lines_join (CHR '','' # char_of (10 :: nat) # padding (n + 2)) items @
     [char_of (10 :: nat)] @ padding n @ [right])"

fun dumps :: "nat \<Rightarrow> json \<Rightarrow> string" where
  "dumps n (JList xs) = block n CHR ''['' CHR '']'' (map (dumps (n + 2)) xs)"
| "dumps n (JObj kvs) = block n CHR ''{'' CHR ''}''
     (map (\<lambda>(k, text). json_quote k @ '': '' @ text) (sort_key fst (map (\<lambda>(k, v). (k, dumps (n + 2) v)) kvs)))"
| "dumps n v = json_line v"

definition render :: "json \<Rightarrow> string" where
  "render schema = dumps 0 schema @ [char_of (10 :: nat)]"

type_synonym 'a export = "(string option, exc, 'a) prog"

text \<open>The exit code.\<close>

definition export_main :: "bool \<Rightarrow> json \<Rightarrow> int export" where
  "export_main check schema =
     (let current = render schema in
      if check then and_then (gets (\<lambda>target. target)) (\<lambda>target.
        if (case target of None \<Rightarrow> True | Some text \<Rightarrow> text \<noteq> current) then ret 1 else ret 0)
      else and_then (modify (\<lambda>_. Some current)) (\<lambda>_. ret 0))"

text \<open>
  The check passes exactly on what the export writes, and neither fails: a check leaves the file alone,
  and after an export of the same schema it passes.
\<close>

theorem export_passes_its_check:
  "fst (export_main True schema target) = Inr (if target = Some (render schema) then 0 else 1)"
  "snd (export_main True schema target) = target"
  "fst (export_main True schema (snd (export_main False schema target))) = Inr 0"
  by (auto simp: export_main_def Let_def and_then_def split: option.split)

text \<open>
  The order in which the app builds an object does not matter: two schemas whose objects hold the
  same keys with the same values are rendered to the same text, so \<open>--check\<close> reports changes of the
  schema only.
\<close>

fun same_document :: "json \<Rightarrow> json \<Rightarrow> bool" where
  "same_document (JObj kvs) j = (case j of
     JObj kvs' \<Rightarrow> distinct (map fst kvs) \<and> distinct (map fst kvs') \<and> set (map fst kvs) = set (map fst kvs') \<and>
       list_all (\<lambda>(k, v). case map_of kvs' k of Some v' \<Rightarrow> same_document v v' | None \<Rightarrow> False) kvs
   | _ \<Rightarrow> False)"
| "same_document (JList xs) j = (case j of JList ys \<Rightarrow> list_all2 same_document xs ys | _ \<Rightarrow> False)"
| "same_document v j = (v = j)"

lemma sort_key_unique:
  fixes xs :: "(string \<times> 'a) list"
  assumes "distinct (map fst xs)" "distinct (map fst ys)" "set xs = set ys"
  shows "sort_key fst xs = sort_key fst ys"
proof (rule sort_key_inj_key_eq)
  have "distinct xs" "distinct ys"
    using assms(1,2) by (simp_all add: distinct_map)
  then have "mset xs = mset ys" using assms(3) by (simp add: set_eq_iff_mset_eq_distinct)
  then show "mset xs = mset (sort_key fst ys)" by simp
qed (use assms(1) in \<open>simp_all add: distinct_map\<close>)

lemma same_document_entries:
  assumes "distinct (map fst kvs)" "distinct (map fst kvs')" "set (map fst kvs) = set (map fst kvs')"
    and "\<And>k v v'. (k, v) \<in> set kvs \<Longrightarrow> map_of kvs' k = Some v' \<Longrightarrow> f v = f v'"
  shows "set (map (\<lambda>(k, v). (k, f v)) kvs) = set (map (\<lambda>(k, v). (k, f v)) kvs')"
proof -
  have "(k, f v) \<in> (\<lambda>(k, v). (k, f v)) ` set kvs'" if "(k, v) \<in> set kvs" for k v
  proof -
    have "k \<in> fst ` set kvs'" using that assms(3) by force
    then obtain v' where "map_of kvs' k = Some v'"
      by (cases "map_of kvs' k") (auto simp: map_of_eq_None_iff)
    then show ?thesis using assms(4) [OF that] by (force dest: map_of_SomeD)
  qed
  moreover have "(k, f v) \<in> (\<lambda>(k, v). (k, f v)) ` set kvs" if "(k, v) \<in> set kvs'" for k v
  proof -
    have "k \<in> fst ` set kvs" using that assms(3) by force
    then obtain u where "(k, u) \<in> set kvs" by force
    moreover have "map_of kvs' k = Some v" using that assms(2) by simp
    ultimately show ?thesis using assms(4) by force
  qed
  ultimately show ?thesis by auto
qed

lemma same_document_dumps: "same_document j j' \<Longrightarrow> dumps n j = dumps n j'"
proof (induction j arbitrary: j' n)
  case (JList xs)
  then obtain ys where ys: "j' = JList ys" "list_all2 same_document xs ys"
    by (auto split: json.splits)
  have "map (dumps (n + 2)) xs = map (dumps (n + 2)) ys"
    using ys(2) JList.IH by (induction rule: list_all2_induct) auto
  then show ?case by (simp add: ys(1))
next
  case (JObj kvs)
  then obtain kvs' where kvs': "j' = JObj kvs'" "distinct (map fst kvs)" "distinct (map fst kvs')"
      "set (map fst kvs) = set (map fst kvs')"
    and same: "list_all (\<lambda>(k, v). case map_of kvs' k of Some v' \<Rightarrow> same_document v v' | None \<Rightarrow> False) kvs"
    by (auto split: json.splits)
  have "dumps (n + 2) v = dumps (n + 2) v'" if "(k, v) \<in> set kvs" "map_of kvs' k = Some v'" for k v v'
    using JObj.IH [OF that(1), of v v' "n + 2"] same that by (auto simp: list_all_iff)
  then have "set (map (\<lambda>(k, v). (k, dumps (n + 2) v)) kvs) = set (map (\<lambda>(k, v). (k, dumps (n + 2) v)) kvs')"
    by (rule same_document_entries [OF kvs'(2-4)])
  moreover have keys: "map fst (map (\<lambda>(k, v). (k, dumps (n + 2) v)) ps) = map fst ps" for ps
    by (simp add: comp_def case_prod_unfold)
  ultimately have "sort_key fst (map (\<lambda>(k, v). (k, dumps (n + 2) v)) kvs) =
      sort_key fst (map (\<lambda>(k, v). (k, dumps (n + 2) v)) kvs')"
    using kvs'(2,3) by (intro sort_key_unique) (simp_all only: keys)
  then show ?case by (simp add: kvs'(1))
qed (auto split: json.splits)

theorem check_ignores_key_order:
  assumes "same_document schema schema'"
  shows "export_main check schema target = export_main check schema' target"
  using same_document_dumps [OF assms, of 0] by (simp add: export_main_def render_def)

theorem check_ignores_key_order_witness:
  "export_main True (JObj [(''a'', JInt 1), (''b'', JList [])]) None = export_main True (JObj [(''b'', JList []), (''a'', JInt 1)]) None"
  by (rule check_ignores_key_order) (simp add: insert_commute)

end
