(* ===== verification/Spec2Isabelle.thy ===== *)
theory Spec2Isabelle
  imports Sync_Properties Sync_History Entitlement_Properties Cache_Race Quota_Properties
    Webhook_Properties Job_Properties Reconcile_Properties Admin_Properties Billing_Properties
    Operations_Properties Workers Concurrency System_Properties Operator_Scripts Application Delivery
    Migration_Properties Flush_Check Role_Check Reconcile_Convergence Job_Mains Stripe_Sdk Discounts Widths Openapi_Export
begin

text \<open>
  A model of the subscription service (\<open>src/app/\<close>), a FastAPI application that mirrors Stripe
  subscriptions into Postgres, answers what a user may do, and meters what they use; with the
  theorems that make it correct.

  \<^bold>\<open>The program.\<close> Stripe owns the truth about payment. Its webhooks (\<open>routers/webhooks.py\<close>) and the
  customer's own calls (\<open>routers/billing.py\<close>) end in one write path, \<open>sync_subscription_from_stripe\<close>
  (\<open>services/subscriptions.py\<close>): lock the customer's row, ask Stripe, mirror the answer, audit the
  change, mark the user. The caller commits and drops the marked users from the cache
  (\<open>commit_and_invalidate\<close>). The read path (\<open>services/entitlements.py\<close>) resolves a row and the grants
  into entitlements, through a cache in front of the database and a stale copy behind it; quotas
  (\<open>services/quota.py\<close>) count in the same cache. Support acts through \<open>routers/admin.py\<close>. Two nightly
  jobs look after the passage of time (\<open>jobs/expire_grace.py\<close>) and lost webhooks
  (\<open>jobs/reconcile.py\<close>).

  \<^bold>\<open>How it is modelled.\<close> A handler is a \<open>prog\<close>: a function from a state to a result, \<open>Inl\<close> an
  exception or \<open>Inr\<close> a value, and the next state; \<open>and_then\<close>, \<open>try_except\<close>, \<open>for_each\<close> compose them
  as the code does. The state of a request is a \<open>world\<close> (\<open>Session\<close>): the clock, the provider's
  state, the cache, the durable database, the session's view of it, the invalidation marks, and
  \<open>rivals\<close>, the transactions that other workers commit meanwhile. Rows are records with the
  columns of \<open>models.py\<close>, tables are lists, the unique constraints are checked at every flush.
  Datetimes are microseconds since the epoch, aware or naive; strings have the first 256 code
  points; Python's integers are \<open>int\<close>.

  \<^item> \<open>Prelude\<close>: programs, their invariants (\<open>keeps\<close>, \<open>yields\<close>), dictionaries, text of numbers.
  \<^item> \<open>Timeutil\<close>, \<open>Config\<close>, \<open>Plans\<close>, \<open>Errors\<close>, \<open>Json\<close>, \<open>Schemas\<close>, \<open>Models\<close>, \<open>Documents\<close>: \<open>timeutil.py\<close>, \<open>config.py\<close>,
    \<open>plans.py\<close>, \<open>policy.py\<close>, \<open>errors.py\<close>, \<open>models.py\<close>, \<open>schemas.py\<close>, and the handlers of \<open>main.py\<close>.
  \<^item> \<open>Provider\<close>, \<open>Stripe_Client\<close>: the contract of \<open>billing_provider.py\<close> as a record of operations, and
    the adapter \<open>stripe_client.py\<close> over Stripe's SDK, which is a parameter; \<open>Stripe_Sdk\<close>: how it
    configures the SDK and makes documents of its objects.
  \<^item> \<open>Cache\<close>: \<open>cache.py\<close>, both backends; the locales \<open>kv_store\<close> (a store with expiry) and
    \<open>window_counter\<close> (a counter that lives as long as its window), interpreted on the
    in-process backend.
  \<^item> \<open>Session\<close>: SQLAlchemy's session as \<open>db.py\<close> configures it: flush, commit, savepoints, rollback.
  \<^item> \<open>Entitlements\<close>, \<open>Entitlement_Properties\<close>, \<open>Cache_Race\<close>: the read path, its pure specification
    \<open>entitlements_of\<close> and the refinement, outages, time to live, and what a reader can do to an
    invalidation.
  \<^item> \<open>Audit_Trail\<close>, \<open>Subscriptions\<close>, \<open>Checkout\<close>, \<open>Sync_Facts\<close>, \<open>Sync_Properties\<close>, \<open>Sync_History\<close>: the write
    path; \<open>answered_row\<close> says column by column what a row owes to an answer, \<open>mirrored\<close> is what the code
    computes, \<open>row_coherent\<close> the invariant of a row; \<open>sync_runs\<close> is a history of synchronisations.
  \<^item> \<open>Workers\<close>: several workers on one customer as a step relation whose steps run the code's own
    operations (lock, ask, write and commit), shown to be \<open>sync_subscription_from_stripe\<close> cut at its
    two waits. \<open>Concurrency\<close>: an abstract machine over SQLAlchemy's session, for a row that was
    loaded before its lock.
  \<^item> \<open>Quota\<close>, \<open>View\<close>, \<open>Ratelimit\<close>, \<open>Quota_Properties\<close>: \<open>services/quota.py\<close>, \<open>services/view.py\<close>,
    \<open>routers/entitlements.py\<close>, \<open>routers/chat_demo.py\<close>, \<open>ratelimit.py\<close>.
  \<^item> \<open>Webhooks\<close>, \<open>Webhook_Properties\<close>: \<open>routers/webhooks.py\<close>.
  \<^item> \<open>Expire_Grace\<close>, \<open>Job_Properties\<close>, \<open>Reconcile\<close>, \<open>Reconcile_Properties\<close>, \<open>Reconcile_Convergence\<close>,
    \<open>Job_Mains\<close>: the jobs, with \<open>notify.py\<close>; the whole nightly run, and the processes around them.
  \<^item> \<open>Accounts\<close>, \<open>Health\<close>, \<open>Operations_Properties\<close>: \<open>accounts.py\<close> with the database function of
    migration 0006, and the readiness probe \<open>health.py\<close>.
  \<^item> \<open>Auth\<close>, \<open>Flags\<close>, \<open>Admin\<close>, \<open>Admin_Properties\<close>, \<open>Billing\<close>, \<open>Billing_Properties\<close>: \<open>auth.py\<close>, \<open>flags.py\<close>,
    \<open>routers/admin.py\<close>, \<open>routers/billing.py\<close>. \<open>watched\<close> is any provider with a log of the checkout
    sessions it was asked for.
  \<^item> \<open>World_Law\<close>, \<open>Serve\<close>, \<open>Table_Law\<close>, \<open>System_Properties\<close>: the whole service as one machine. \<open>serve\<close>
    runs any request or job; \<open>system_step\<close> interleaves them with other workers' commits and with
    free changes of the clock, the provider, the cache and the database's availability. The
    locale \<open>world_law\<close> is what a predicate has to survive to be an invariant of it, \<open>table_law\<close>
    gives that from a predicate on the tables; they are interpreted for coherent rows, unique
    rows, the origin of paid tiers, the append-only history, the types of stored discounts, the
    widths of mirrored columns and the counts of metrics.
  \<^item> \<open>Discounts\<close>, \<open>Widths\<close>: a discount from Stripe's document through the row to the page that shows it;
    the values of rows against the columns' types and widths.
  \<^item> \<open>Openapi_Export\<close>: the script that writes and checks the file the web app's types come from.
  \<^item> \<open>Application\<close>: what else \<open>main.py\<close> answers, start-up and shutdown, request ids, and the log lines
    of \<open>observability.py\<close>; \<open>Logging\<close>: where they are written; \<open>Metrics\<close>: its registry; \<open>Delivery\<close>: the mail session of \<open>notify.py\<close> and the
    engine's arguments of \<open>db.py\<close>.
  \<^item> \<open>Postgres\<close>, \<open>Migrations\<close>, \<open>Migration_Facts\<close>, \<open>Declared\<close>, \<open>Head_Facts\<close>, \<open>Downgrade\<close>,
    \<open>Migration_Properties\<close>: the revisions of \<open>alembic/versions\<close> and \<open>alembic/env.py\<close>. A catalog of roles,
    schemas, tables and functions is the state; the SQL the revisions send is given the meaning
    of PostgreSQL's manual. \<open>at_head\<close> is the catalog the whole upgrade leaves, in closed form; the
    tables are compared with the declarations of \<open>models.py\<close>.
  \<^item> \<open>Flush_Check\<close>: the unique constraints \<open>Session.flush\<close> checks are the ones of the migrated database.
  \<^item> \<open>Seed\<close>, \<open>Operator_Scripts\<close>, \<open>Role_Check\<close>: the operators' tools of \<open>scripts/\<close>; the last asks the
    questions of \<open>check_db_role.py\<close> of the migrated catalog.
  \<^item> \<open>Frames\<close>, \<open>Examples\<close>: what reads leave alone; the small deployment the witnesses run.

  \<^bold>\<open>What is shown.\<close> A paid tier only ever comes from an answer of the provider about a subscription
  that grants access, in every reachable state of the service, and every such state is well
  formed. Synchronising writes exactly the mirror, is idempotent, depends on the last answer
  only, undoes itself on failure, ignores other applications' customers and survives a create
  race; workers that lock a row before they load it never go back behind an answer. Webhooks are
  handled once, durably, and undone when they fail. Checkout asks for at most one session, for a
  configured price on sale, and grants nothing. Reads refine the specification, answer through outages, and cached
  answers end in time. Caps hold. The reconciliation walk ends, repairs drift, contains
  failures, and where the provider is steady leaves nothing for the next night. Grants, revocations and extensions do exactly what they say. The prices the seed script
  prints are the ones checkout sells, at the plan's amounts, where Stripe keeps the contract
  \<open>stripe_contract\<close>, and pruning deletes the old sandbox's rows only and nothing under a live key. The
  migrations make the schema the models declare, lock the public API's roles out, give the
  service's role its six tables and no more, can be undone (but for the role itself) and redone, and leave a role the
  operators' check passes. What is mirrored fits its columns, and a stored discount can always be
  shown. Some theorems record
  limits of the code instead: a row loaded before its lock (\<open>Concurrency\<close>), a reader that stores
  after an invalidation (\<open>Cache_Race\<close>), a cached grant that outlives its expiry
  (\<open>Entitlement_Properties\<close>), a cap whose counter ends early (\<open>Quota_Properties\<close>), drift that is
  reported every night (\<open>Reconcile_Properties\<close>), an extended window that closes unreported
  (\<open>Admin_Properties\<close>), a downgrade that
  reopens nothing (\<open>Migration_Properties\<close>), a check that one denied table stops (\<open>Role_Check\<close>), an actor's name longer than
  its column (\<open>Widths\<close>), a pricing page that needs its cache (\<open>Billing_Properties\<close>).

  \<^bold>\<open>Fuel.\<close> The paging loops of the reconciliation and of the Stripe adapter take fuel, one unit per
  page; \<open>reconcile_walk_ends\<close> shows that more than the number of pages is enough.
  \<open>Accounts.remove_all\<close> takes the length of its text, of which each step drops a character.

  \<^bold>\<open>Parameters.\<close> Stripe's SDK, Redis, the JWT library, GrowthBook's client, SHA-256, SMTP, the text of
  a traceback, and Supabase's table of users, pydantic's reading of a JSON value at a type, and the schema FastAPI
  generates are arguments of the definitions that use them.
  \<open>Concurrency\<close> has two parameters for SQLAlchemy: whether a worker may load a row before locking
  it, and whether a locking read refreshes an object that is already loaded.

  \<^bold>\<open>Not modelled.\<close> Latencies, histograms' observations and the text form of metrics; the HTTP server and its routing; connection pooling;
  migrations printed instead of run; the tests against a live Stripe account; pydantic's check of
  request bodies but for the lead form. A flush checks the unique constraints, not the
  widths of columns (\<open>Widths\<close> is about those). smtplib's \<open>send_message\<close> returns normally, with a
  dictionary of refusals the code ignores, where only some of the recipients are refused;
  \<open>Delivery\<close> has one outcome for the whole message, accepted or raised. A handler runs without the clock advancing, and a
  process that dies in the middle of a request is not a step of the machine.
\<close>

end
